(* ===== verification/Prelude.thy ===== *)
theory Prelude
  imports Main "HOL-Library.Word" "HOL-Library.Char_ord"
begin

text \<open>
  The shared vocabulary of the development: Go error values and results, the collections
  of rules the component theories extend, and the generic lemmas on results, options,
  lists and maps that several components need.

  A Go function with results \<open>(T, error)\<close> becomes a function into \<open>T result\<close>, that is
  \<open>go_error + T\<close>: \<open>Inl e\<close> is the return with a non-nil error, \<open>Inr x\<close> the return with
  \<open>nil\<close>. The package-level error variables are constructors of their own because the
  code compares them by identity; every other error is its text.
\<close>

section \<open>Rule collections\<close>

named_theorems result_simps \<open>inversion of results: when is a composed result Inr\<close>
named_theorems text_simps \<open>facts on strings, printing and parsing\<close>
named_theorems store_simps \<open>facts on tables and their contents\<close>

section \<open>Errors and results\<close>

datatype go_error =
    ErrRecordNotFound
  | ErrDB string
  | ErrGatewayNodeNotFound
  | ErrGatewayNodePublicIPPortNotFound
  | ErrGatewayNodeAlreadyExists
  | ErrFailedToParseIP
  | ErrNoAvailableDockerSubnets
  | ErrNoAvailableWGPrivateIPs
  | ErrServiceNotFound
  | ErrInvalidPadding
  | ErrInvalidPaddingSize
  | ErrCiphertextTooShort
  | ErrInvalidBlockSize
  | ErrText string
  | NilDereference
  | IndexOutOfRange
  | ProcessExit string

text \<open>
  \<open>NilDereference\<close> and \<open>IndexOutOfRange\<close> are the run-time panics of a nil pointer and of an
  index into an empty slice, and \<open>ProcessExit\<close> the end of the
  process by \<open>log.Fatal\<close> with its message. They are not error values the code can test:
  where a definition can reach one, the whole operation ends with it.
\<close>

type_synonym 'a result = "go_error + 'a"

definition rbind :: "'a result \<Rightarrow> ('a \<Rightarrow> 'b result) \<Rightarrow> 'b result" where
  "rbind r f = (case r of Inl e \<Rightarrow> Inl e | Inr x \<Rightarrow> f x)"

lemma rbind_simps [simp]:
  "rbind (Inl e) f = Inl e"
  "rbind (Inr x) f = f x"
  by (simp_all add: rbind_def)

lemma rbind_Inr_iff [result_simps]:
  "rbind r f = Inr y \<longleftrightarrow> (\<exists>x. r = Inr x \<and> f x = Inr y)"
  by (cases r) simp_all

lemma rbind_Inl_iff [result_simps]:
  "rbind r f = Inl e \<longleftrightarrow> r = Inl e \<or> (\<exists>x. r = Inr x \<and> f x = Inl e)"
  by (cases r) simp_all

lemma rbind_cong [fundef_cong]:
  "r = r' \<Longrightarrow> (\<And>x. r' = Inr x \<Longrightarrow> f x = f' x) \<Longrightarrow> rbind r f = rbind r' f'"
  by (cases r') simp_all

definition guard_err :: "bool \<Rightarrow> go_error \<Rightarrow> unit result" where
  "guard_err b e = (if b then Inl e else Inr ())"

lemma guard_err_simps [simp]:
  "guard_err True e = Inl e"
  "guard_err False e = Inr ()"
  by (simp_all add: guard_err_def)

lemma guard_err_Inr_iff [result_simps]: "guard_err b e = Inr u \<longleftrightarrow> \<not> b"
  by (simp add: guard_err_def)

lemma guard_err_Inl_iff [result_simps]: "guard_err b e = Inl e' \<longleftrightarrow> b \<and> e' = e"
  by (auto simp: guard_err_def)

definition is_ok :: "'a result \<Rightarrow> bool" where
  "is_ok r = (case r of Inl _ \<Rightarrow> False | Inr _ \<Rightarrow> True)"

lemma is_ok_simps [simp]: "is_ok (Inl e) = False" "is_ok (Inr x) = True"
  by (simp_all add: is_ok_def)

lemma is_ok_iff [result_simps]: "is_ok r \<longleftrightarrow> (\<exists>x. r = Inr x)"
  by (cases r) simp_all

text \<open>The text of an error (\<open>err.Error()\<close>), with the texts of the error variables.\<close>

fun err_text :: "go_error \<Rightarrow> string" where
  "err_text ErrRecordNotFound = ''record not found''"
| "err_text (ErrDB t) = t"
| "err_text ErrGatewayNodeNotFound = ''gateway node not found''"
| "err_text ErrGatewayNodePublicIPPortNotFound = ''gateway node public ip or port not found''"
| "err_text ErrGatewayNodeAlreadyExists = ''gateway node already exists''"
| "err_text ErrFailedToParseIP = ''failed to parse ip''"
| "err_text ErrNoAvailableDockerSubnets =
     ''no available docker subnets found in 172.16.0.0/12 range''"
| "err_text ErrNoAvailableWGPrivateIPs =
     ''no available wg public ips found in 10.0.0.0/24 range''"
| "err_text ErrServiceNotFound = ''public service not found''"
| "err_text ErrInvalidPadding = ''invalid padding''"
| "err_text ErrInvalidPaddingSize = ''invalid padding size''"
| "err_text ErrCiphertextTooShort = ''ciphertext too short''"
| "err_text ErrInvalidBlockSize = ''ciphertext is not a multiple of block size''"
| "err_text (ErrText t) = t"
| "err_text NilDereference = ''runtime error: invalid memory address or nil pointer dereference''"
| "err_text IndexOutOfRange = ''runtime error: index out of range [0] with length 0''"
| "err_text (ProcessExit t) = t"

text \<open>A Go loop that applies a fallible step to every element and stops at the first error.\<close>

fun rmap :: "('a \<Rightarrow> 'b result) \<Rightarrow> 'a list \<Rightarrow> 'b list result" where
  "rmap f [] = Inr []"
| "rmap f (x # xs) = rbind (f x) (\<lambda>y. rbind (rmap f xs) (\<lambda>ys. Inr (y # ys)))"

lemma rmap_Inr_iff [result_simps]: "rmap f xs = Inr ys \<longleftrightarrow> list_all2 (\<lambda>x y. f x = Inr y) xs ys"
  by (induction xs arbitrary: ys) (auto simp: result_simps list_all2_Cons1)

lemma rmap_ok: "(\<And>x. x \<in> set xs \<Longrightarrow> f x = Inr (g x)) \<Longrightarrow> rmap f xs = Inr (map g xs)"
  by (induction xs) simp_all

section \<open>Operations on a state that can fail\<close>

text \<open>
  An operation of a repository takes the state of its table and returns the state after
  it, with an error or a result: an error of a later step does not undo an earlier one.
\<close>

type_synonym ('s, 'a) op = "'s \<Rightarrow> 's \<times> 'a result"

definition s_bind :: "('s, 'a) op \<Rightarrow> ('a \<Rightarrow> ('s, 'b) op) \<Rightarrow> ('s, 'b) op" where
  "s_bind m f s = (case m s of (s', Inl e) \<Rightarrow> (s', Inl e) | (s', Inr x) \<Rightarrow> f x s')"

definition s_read :: "('s \<Rightarrow> 'a result) \<Rightarrow> ('s, 'a) op" where
  "s_read f s = (s, f s)"

definition s_write :: "('s \<Rightarrow> ('s \<times> 'a) result) \<Rightarrow> ('s, 'a) op" where
  "s_write f s = (case f s of Inl e \<Rightarrow> (s, Inl e) | Inr (s', x) \<Rightarrow> (s', Inr x))"

lemma s_bind_eq:
  "s_bind m f s = (case snd (m s) of Inl e \<Rightarrow> (fst (m s), Inl e) | Inr x \<Rightarrow> f x (fst (m s)))"
  by (simp add: s_bind_def split: prod.split sum.split)

lemma s_read_eq [simp]: "fst (s_read f s) = s" "snd (s_read f s) = f s"
  by (simp_all add: s_read_def)

lemma s_write_Inl [simp]: "f s = Inl e \<Longrightarrow> s_write f s = (s, Inl e)"
  by (simp add: s_write_def)

lemma s_write_Inr [simp]: "f s = Inr (s', x) \<Longrightarrow> s_write f s = (s', Inr x)"
  by (simp add: s_write_def)

lemma s_write_cases:
  obtains e where "f s = Inl e" and "s_write f s = (s, Inl e)"
  | s' x where "f s = Inr (s', x)" and "s_write f s = (s', Inr x)"
  by (cases "f s") (auto simp: s_write_def)

lemma s_write_fst:
  assumes "Q s" and "\<And>s' x. f s = Inr (s', x) \<Longrightarrow> Q s'"
  shows "Q (fst (s_write f s))"
  using assms by (cases "f s") (auto simp: s_write_def)

lemma s_bind_cases:
  obtains e where "snd (m s) = Inl e" and "s_bind m f s = (fst (m s), Inl e)"
  | x where "snd (m s) = Inr x" and "s_bind m f s = f x (fst (m s))"
  by (cases "snd (m s)") (simp_all add: s_bind_eq)

section \<open>Lists\<close>

lemma find_eq_None_iff: "List.find P xs = None \<longleftrightarrow> (\<forall>x \<in> set xs. \<not> P x)"
  by (auto simp: find_None_iff)

lemma find_SomeD:
  assumes "List.find P xs = Some x"
  shows "x \<in> set xs" and "P x"
  using assms by (induction xs) (auto split: if_splits)

lemma find_SomeI: "x \<in> set xs \<Longrightarrow> P x \<Longrightarrow> \<exists>y. List.find P xs = Some y"
  by (induction xs) auto

lemma find_upt_Some_least:
  assumes "List.find P [a..<b] = Some n"
  shows "a \<le> n \<and> n < b \<and> P n \<and> (\<forall>m. a \<le> m \<and> m < n \<longrightarrow> \<not> P m)"
  using assms
proof (induction "b - a" arbitrary: a)
  case 0
  then show ?case by simp
next
  case (Suc d)
  from Suc.hyps(2) have ab: "a < b" by arith
  then have upt: "[a..<b] = a # [Suc a..<b]" by (simp add: upt_conv_Cons)
  show ?case
  proof (cases "P a")
    case True
    with Suc.prems ab upt show ?thesis by auto
  next
    case False
    with Suc.prems upt have *: "List.find P [Suc a..<b] = Some n" by simp
    have "d = b - Suc a" using Suc.hyps(2) by arith
    from Suc.hyps(1) [OF this *] False show ?thesis
      by (metis Suc_leD Suc_leI le_neq_implies_less)
  qed
qed

lemma distinct_append_new: "distinct xs \<Longrightarrow> x \<notin> set xs \<Longrightarrow> distinct (xs @ [x])"
  by simp

lemma card_set_filter_distinct:
  "distinct xs \<Longrightarrow> card {x \<in> set xs. P x} = length (filter P xs)"
  by (metis distinct_card distinct_filter set_filter)

end
