(* ===== verification/GoText.thy ===== *)
theory GoText
  imports Prelude
begin

text \<open>
  The part of Go's \<open>strings\<close>, \<open>strconv\<close> and \<open>fmt\<close> that the program calls. A Go string
  is its bytes, a \<open>char list\<close> here (\<open>char\<close> is one byte), so text outside ASCII is its
  UTF-8 encoding and \<open>length\<close> is Go's \<open>len\<close>.
\<close>

section \<open>Decimal numbers\<close>

definition digit_char :: "nat \<Rightarrow> char" where
  "digit_char d = char_of (48 + d)"

definition is_digit :: "char \<Rightarrow> bool" where
  "is_digit c \<longleftrightarrow> 48 \<le> (of_char c :: nat) \<and> (of_char c :: nat) \<le> 57"

definition digit_val :: "char \<Rightarrow> nat" where
  "digit_val c = of_char c - 48"

text \<open>\<open>%d\<close> and \<open>strconv.Itoa\<close> on a non-negative number.\<close>

fun itoa :: "nat \<Rightarrow> string" where
  "itoa n = (if n < 10 then [digit_char n] else itoa (n div 10) @ [digit_char (n mod 10)])"

declare itoa.simps [simp del]

definition itoa_int :: "int \<Rightarrow> string" where
  "itoa_int i = (if i < 0 then CHR ''-'' # itoa (nat (- i)) else itoa (nat i))"

text \<open>The digits of a number, read from the left into an accumulator.\<close>

fun digits_val :: "nat \<Rightarrow> string \<Rightarrow> nat option" where
  "digits_val acc [] = Some acc"
| "digits_val acc (c # cs) =
     (if is_digit c then digits_val (10 * acc + digit_val c) cs else None)"

text \<open>\<open>strconv.Atoi\<close>: an optional sign, at least one digit, the range of a 64-bit \<open>int\<close>.\<close>

definition atoi :: "string \<Rightarrow> int option" where
  "atoi s =
     (let signed = (s \<noteq> [] \<and> (hd s = CHR ''-'' \<or> hd s = CHR ''+''));
          body = (if signed then tl s else s)
      in if body = [] then None
         else (case digits_val 0 body of
                 None \<Rightarrow> None
               | Some n \<Rightarrow>
                   (let v = (if signed \<and> hd s = CHR ''-'' then - int n else int n)
                    in if - (2 ^ 63) \<le> v \<and> v < 2 ^ 63 then Some v else None)))"

lemma digit_char_simps [text_simps]:
  assumes "d < 10"
  shows "is_digit (digit_char d)" and "digit_val (digit_char d) = d"
  using assms by (simp_all add: is_digit_def digit_val_def digit_char_def)

lemma itoa_digits: "c \<in> set (itoa n) \<Longrightarrow> is_digit c"
proof (induction n rule: itoa.induct)
  case (1 n)
  show ?case
  proof (cases "n < 10")
    case True
    with "1.prems" show ?thesis by (subst (asm) itoa.simps) (simp add: digit_char_simps)
  next
    case False
    with 1 show ?thesis by (subst (asm) (2) itoa.simps) (auto simp: digit_char_simps)
  qed
qed

lemma itoa_not_Nil [simp]: "itoa n \<noteq> []"
  by (subst itoa.simps) simp

lemma not_digit_notin_itoa: "\<not> is_digit c \<Longrightarrow> c \<notin> set (itoa n)"
  using itoa_digits by blast

lemma digits_val_append [text_simps]:
  "digits_val acc (xs @ ys) =
     (case digits_val acc xs of None \<Rightarrow> None | Some a \<Rightarrow> digits_val a ys)"
  by (induction xs arbitrary: acc) auto

lemma digits_val_shift:
  "digits_val 0 xs = Some n \<Longrightarrow> digits_val acc xs = Some (acc * 10 ^ length xs + n)"
proof (induction xs arbitrary: acc n rule: rev_induct)
  case Nil
  then show ?case by simp
next
  case (snoc c cs)
  then obtain m where m: "digits_val 0 cs = Some m" and c: "is_digit c"
    and n: "n = 10 * m + digit_val c"
    by (auto simp: digits_val_append split: option.splits if_splits)
  from snoc.IH [OF m, of acc] c n show ?case
    by (simp add: digits_val_append algebra_simps)
qed

lemma digits_val_itoa [text_simps]: "digits_val 0 (itoa n) = Some n"
proof (induction n rule: itoa.induct)
  case (1 n)
  show ?case
  proof (cases "n < 10")
    case True
    then show ?thesis by (subst itoa.simps) (simp add: digit_char_simps)
  next
    case False
    with 1 show ?thesis
      by (subst itoa.simps) (simp add: digits_val_append digit_char_simps)
  qed
qed

lemma itoa_inject [simp]: "itoa m = itoa n \<longleftrightarrow> m = n"
  by (metis digits_val_itoa option.inject)

lemma sign_not_digit [simp]: "\<not> is_digit (CHR ''-'')" "\<not> is_digit (CHR ''+'')"
  by (simp_all add: is_digit_def)

lemma hd_itoa_digit: "is_digit (hd (itoa n))"
  by (rule itoa_digits) (rule hd_in_set, simp)

lemma atoi_itoa [text_simps]: "n < 2 ^ 63 \<Longrightarrow> atoi (itoa n) = Some (int n)"
proof -
  assume n: "n < 2 ^ 63"
  have "hd (itoa n) \<noteq> CHR ''-''" "hd (itoa n) \<noteq> CHR ''+''"
    using hd_itoa_digit [of n] sign_not_digit by metis+
  moreover have "int n < 2 ^ 63" using n by (metis of_nat_less_iff of_nat_numeral of_nat_power)
  ultimately show ?thesis by (simp add: atoi_def digits_val_itoa)
qed

section \<open>Splitting, joining, trimming\<close>

text \<open>\<open>strings.Split(s, c)\<close> for a separator of one byte: never an empty list.\<close>

fun split_char :: "char \<Rightarrow> string \<Rightarrow> string list" where
  "split_char c [] = [[]]"
| "split_char c (x # xs) =
     (if x = c then [] # split_char c xs
      else (case split_char c xs of [] \<Rightarrow> [[x]] | p # ps \<Rightarrow> (x # p) # ps))"

text \<open>\<open>strings.Join(xs, sep)\<close>.\<close>

fun join_str :: "string \<Rightarrow> string list \<Rightarrow> string" where
  "join_str sep [] = []"
| "join_str sep [x] = x"
| "join_str sep (x # y # ys) = x @ sep @ join_str sep (y # ys)"

text \<open>\<open>strings.Contains\<close> and \<open>strings.HasPrefix\<close>.\<close>

definition has_prefix :: "string \<Rightarrow> string \<Rightarrow> bool" where
  "has_prefix s p \<longleftrightarrow> take (length p) s = p"

fun contains_str :: "string \<Rightarrow> string \<Rightarrow> bool" where
  "contains_str [] sub \<longleftrightarrow> sub = []"
| "contains_str (c # cs) sub \<longleftrightarrow> has_prefix (c # cs) sub \<or> contains_str cs sub"

text \<open>
  \<open>strings.TrimSpace\<close> cuts the Unicode white space characters: six ASCII ones and the
  UTF-8 encodings of U+0085, U+00A0, U+1680, U+2000--U+200A, U+2028, U+2029, U+202F,
  U+205F and U+3000. \<open>space_len\<close> is the length of the white space character a byte
  sequence starts with, 0 when it starts with none.
\<close>

definition ascii_space :: "nat \<Rightarrow> bool" where
  "ascii_space b \<longleftrightarrow> b \<in> {9, 10, 11, 12, 13, 32}"

definition space2 :: "nat \<Rightarrow> nat \<Rightarrow> bool" where
  "space2 a b \<longleftrightarrow> a = 0xC2 \<and> b \<in> {0x85, 0xA0}"

definition space3 :: "nat \<Rightarrow> nat \<Rightarrow> nat \<Rightarrow> bool" where
  "space3 a b c \<longleftrightarrow>
     (a = 0xE1 \<and> b = 0x9A \<and> c = 0x80)
   \<or> (a = 0xE2 \<and> b = 0x80 \<and> (0x80 \<le> c \<and> c \<le> 0x8A \<or> c \<in> {0xA8, 0xA9, 0xAF}))
   \<or> (a = 0xE2 \<and> b = 0x81 \<and> c = 0x9F)
   \<or> (a = 0xE3 \<and> b = 0x80 \<and> c = 0x80)"

fun trim_left :: "string \<Rightarrow> string" where
  "trim_left (a # b # c # s) =
     (if ascii_space (of_char a) then trim_left (b # c # s)
      else if space2 (of_char a) (of_char b) then trim_left (c # s)
      else if space3 (of_char a) (of_char b) (of_char c) then trim_left s
      else a # b # c # s)"
| "trim_left [a, b] =
     (if ascii_space (of_char a) then trim_left [b]
      else if space2 (of_char a) (of_char b) then [] else [a, b])"
| "trim_left [a] = (if ascii_space (of_char a) then [] else [a])"
| "trim_left [] = []"

text \<open>The same from the right, on the reversed bytes.\<close>

fun trim_right_rev :: "string \<Rightarrow> string" where
  "trim_right_rev (a # b # c # s) =
     (if ascii_space (of_char a) then trim_right_rev (b # c # s)
      else if space2 (of_char b) (of_char a) then trim_right_rev (c # s)
      else if space3 (of_char c) (of_char b) (of_char a) then trim_right_rev s
      else a # b # c # s)"
| "trim_right_rev [a, b] =
     (if ascii_space (of_char a) then trim_right_rev [b]
      else if space2 (of_char b) (of_char a) then [] else [a, b])"
| "trim_right_rev [a] = (if ascii_space (of_char a) then [] else [a])"
| "trim_right_rev [] = []"

definition trim_space :: "string \<Rightarrow> string" where
  "trim_space s = rev (trim_right_rev (rev (trim_left s)))"

text \<open>\<open>strings.TrimRight(s, cutset)\<close> for a cutset of ASCII characters.\<close>

definition trim_right_set :: "char set \<Rightarrow> string \<Rightarrow> string" where
  "trim_right_set cs s = rev (dropWhile (\<lambda>c. c \<in> cs) (rev s))"

text \<open>\<open>strings.Repeat\<close> of one space.\<close>

definition spaces :: "nat \<Rightarrow> string" where
  "spaces n = replicate n (CHR '' '')"

text \<open>A line feed, which string literals cannot hold.\<close>

abbreviation NL :: string where "NL \<equiv> [CHR 0x0A]"
abbreviation TAB :: string where "TAB \<equiv> [CHR 0x09]"

lemma split_char_not_Nil [simp]: "split_char c s \<noteq> []"
  by (induction s) (auto split: list.splits)

lemma split_char_no_sep [text_simps]: "c \<notin> set xs \<Longrightarrow> split_char c xs = [xs]"
  by (induction xs) auto

lemma split_char_append [text_simps]:
  "c \<notin> set xs \<Longrightarrow> split_char c (xs @ c # ys) = xs # split_char c ys"
  by (induction xs) auto

lemma join_split_char: "join_str [c] (split_char c s) = s"
proof (induction s)
  case Nil
  then show ?case by simp
next
  case (Cons x xs)
  obtain p ps where p: "split_char c xs = p # ps"
    by (cases "split_char c xs") auto
  with Cons.IH show ?case by (cases ps) auto
qed

lemma join_str_Cons: "xs \<noteq> [] \<Longrightarrow> join_str sep (x # xs) = x @ sep @ join_str sep xs"
  by (cases xs) simp_all

text \<open>Text that starts and ends with bytes in \<open>33..127\<close> is left as it is by trimming.\<close>

definition solid :: "char \<Rightarrow> bool" where
  "solid c \<longleftrightarrow> 32 < (of_char c :: nat) \<and> (of_char c :: nat) < 128"

lemma solid_not_space:
  assumes "solid c"
  shows "\<not> ascii_space (of_char c)"
    and "\<not> space2 (of_char c) b" and "\<not> space2 b (of_char c)"
    and "\<not> space3 (of_char c) a b" and "\<not> space3 a b (of_char c)"
  using assms by (auto simp: solid_def ascii_space_def space2_def space3_def)

lemma trim_left_solid [text_simps]: "solid c \<Longrightarrow> trim_left (c # s) = c # s"
  by (cases s rule: trim_left.cases; cases s; cases "tl s") (auto simp: solid_not_space)

lemma trim_right_rev_solid [text_simps]: "solid c \<Longrightarrow> trim_right_rev (c # s) = c # s"
  by (cases s; cases "tl s") (auto simp: solid_not_space)

lemma trim_space_solid [text_simps]:
  assumes "s \<noteq> []" and "solid (hd s)" and "solid (last s)"
  shows "trim_space s = s"
proof -
  from assms obtain c t where s: "s = c # t" and c: "solid c" by (cases s) auto
  then have l: "trim_left s = s" by (simp add: trim_left_solid)
  obtain d u where r: "rev s = d # u" using assms(1) by (cases "rev s") auto
  then have "last s = d" using assms(1) by (metis hd_rev list.sel(1))
  with assms(3) have "solid d" by simp
  then have "trim_right_rev (rev s) = rev s" by (simp add: r trim_right_rev_solid)
  with l show ?thesis by (simp add: trim_space_def)
qed

lemma digit_solid: "is_digit c \<Longrightarrow> solid c"
  by (auto simp: is_digit_def solid_def)

lemma solid_itoa: "solid (hd (itoa n))" "solid (last (itoa n))"
  by (auto intro!: digit_solid itoa_digits [of _ n])

end
