(* ===== verification/NetAddr.thy ===== *)
theory NetAddr
  imports GoText
begin

unbundle bit_operations_syntax

text \<open>
  Addresses: the part of Go's \<open>net\<close> package the program uses (\<open>net.IP\<close>, \<open>net.ParseIP\<close>,
  \<open>net.CIDRMask\<close>, \<open>net.IPNet.String\<close>) and the program's own wrappers of
  \<open>internal/nodes/types\<close>: \<open>ParseIPNetMarshable\<close>, the two list conversions,
  \<open>IPToString\<close> and \<open>UDPAddrMarshable.String\<close>.

  A \<open>net.IP\<close> is its byte slice: \<open>[]\<close> is the nil address, 4 bytes or 16 bytes are
  addresses. \<open>net.ParseIP\<close> always answers with 16 bytes, an IPv4 address in its
  IPv4-mapped form.
\<close>

section \<open>net.IP\<close>

type_synonym ip = "8 word list"

definition v4mapped :: "8 word \<Rightarrow> 8 word \<Rightarrow> 8 word \<Rightarrow> 8 word \<Rightarrow> ip" where
  "v4mapped a b c d = [0, 0, 0, 0, 0, 0, 0, 0, 0, 0, 255, 255, a, b, c, d]"

definition To4 :: "ip \<Rightarrow> ip" where
  "To4 i = (if length i = 4 then i
            else if length i = 16 \<and> take 10 i = replicate 10 0 \<and> i ! 10 = 255 \<and> i ! 11 = 255
            then drop 12 i else [])"

definition dotted :: "8 word \<Rightarrow> 8 word \<Rightarrow> 8 word \<Rightarrow> 8 word \<Rightarrow> string" where
  "dotted a b c d =
     itoa (unat a) @ ''.'' @ itoa (unat b) @ ''.'' @ itoa (unat c) @ ''.'' @ itoa (unat d)"

subsection \<open>Parsing\<close>

text \<open>One decimal field of an IPv4 address: digits, no leading zero, at most 255.\<close>

definition parse_octet :: "string \<Rightarrow> 8 word option" where
  "parse_octet s =
     (if s = [] \<or> (1 < length s \<and> hd s = CHR ''0'') then None
      else (case digits_val 0 s of
              None \<Rightarrow> None
            | Some n \<Rightarrow> if n \<le> 255 then Some (of_nat n) else None))"

definition parse_ipv4 :: "string \<Rightarrow> ip option" where
  "parse_ipv4 s =
     (case map parse_octet (split_char (CHR ''.'') s) of
        [Some a, Some b, Some c, Some d] \<Rightarrow> Some [a, b, c, d]
      | _ \<Rightarrow> None)"

definition hex_val :: "char \<Rightarrow> nat option" where
  "hex_val c =
     (let n = (of_char c :: nat)
      in if 48 \<le> n \<and> n \<le> 57 then Some (n - 48)
         else if 97 \<le> n \<and> n \<le> 102 then Some (n - 87)
         else if 65 \<le> n \<and> n \<le> 70 then Some (n - 55) else None)"

text \<open>The leading hexadecimal digits of a string: how many, their value, the rest.\<close>

fun hex_run :: "nat \<Rightarrow> nat \<Rightarrow> string \<Rightarrow> nat \<times> nat \<times> string" where
  "hex_run k acc [] = (k, acc, [])"
| "hex_run k acc (c # cs) =
     (case hex_val c of
        None \<Rightarrow> (k, acc, c # cs)
      | Some h \<Rightarrow> hex_run (Suc k) (16 * acc + h) cs)"

lemma hex_run_length: "hex_run k acc s = (k', v, r) \<Longrightarrow> length r + k' = length s + k"
  by (induction k acc s rule: hex_run.induct) (auto split: option.splits)

text \<open>
  The loop of \<open>netip.parseIPv6\<close>: \<open>bs\<close> are the bytes read so far (Go's \<open>ip[:i]\<close>),
  \<open>ell\<close> the position of the \<open>::\<close>. The result is the bytes, the position of the \<open>::\<close>
  and nothing left over.
\<close>

function ipv6_loop :: "ip \<Rightarrow> nat option \<Rightarrow> string \<Rightarrow> (ip \<times> nat option) option" where
  "ipv6_loop bs ell s =
     (if 16 \<le> length bs then (if s = [] then Some (bs, ell) else None)
      else (case hex_run 0 0 s of (k, v, r) \<Rightarrow>
        if k = 0 \<or> 4 < k then None
        else if r \<noteq> [] \<and> hd r = CHR ''.'' then
          (if ell = None \<and> length bs \<noteq> 12 \<or> 12 < length bs then None
           else map_option (\<lambda>q. (bs @ q, ell)) (parse_ipv4 s))
        else
          (let bs' = bs @ [of_nat (v div 256), of_nat (v mod 256)]
           in if r = [] then Some (bs', ell)
              else if hd r \<noteq> CHR '':'' \<or> length r = 1 then None
              else (let r' = tl r
                    in if hd r' = CHR '':''
                       then (if ell \<noteq> None then None
                             else if tl r' = [] then Some (bs', Some (length bs'))
                             else ipv6_loop bs' (Some (length bs')) (tl r'))
                       else ipv6_loop bs' ell r'))))"
  by pat_completeness auto
termination
  by (relation "measure (\<lambda>(bs, ell, s). length s)") (auto dest!: hex_run_length [OF sym])

declare ipv6_loop.simps [simp del]

definition parse_ipv6 :: "string \<Rightarrow> ip option" where
  "parse_ipv6 s =
     (if CHR ''%'' \<in> set s then None
      else
        (let lead = (take 2 s = ''::''); body = (if lead then drop 2 s else s)
         in if lead \<and> body = [] then Some (replicate 16 0)
            else (case ipv6_loop [] (if lead then Some 0 else None) body of
                    None \<Rightarrow> None
                  | Some (bs, ell) \<Rightarrow>
                      (case ell of
                         None \<Rightarrow> if length bs < 16 then None else Some bs
                       | Some e \<Rightarrow>
                           if length bs < 16
                           then Some (take e bs @ replicate (16 - length bs) 0 @ drop e bs)
                           else None))))"

text \<open>\<open>net.ParseIP\<close>: the first of \<open>.\<close>, \<open>:\<close>, \<open>%\<close> decides; \<open>[]\<close> is the nil answer.\<close>

definition ParseIP :: "string \<Rightarrow> ip" where
  "ParseIP s =
     (case List.find (\<lambda>c. c = CHR ''.'' \<or> c = CHR '':'' \<or> c = CHR ''%'') s of
        None \<Rightarrow> []
      | Some c \<Rightarrow>
          if c = CHR ''.'' then
            (case parse_ipv4 s of Some [a, b, c, d] \<Rightarrow> v4mapped a b c d | _ \<Rightarrow> [])
          else if c = CHR '':'' then (case parse_ipv6 s of Some i \<Rightarrow> i | None \<Rightarrow> [])
          else [])"

subsection \<open>Printing\<close>

definition hex_digit :: "nat \<Rightarrow> char" where
  "hex_digit d = (if d < 10 then char_of (48 + d) else char_of (87 + d))"

fun hex_str :: "nat \<Rightarrow> string" where
  "hex_str n = (if n < 16 then [hex_digit n] else hex_str (n div 16) @ [hex_digit (n mod 16)])"

declare hex_str.simps [simp del]

fun pairs16 :: "ip \<Rightarrow> nat list" where
  "pairs16 (a # b # r) = (256 * unat a + unat b) # pairs16 r"
| "pairs16 _ = []"

definition zero_run :: "nat list \<Rightarrow> nat \<Rightarrow> nat" where
  "zero_run gs i = length (takeWhile (\<lambda>g. g = 0) (drop i gs))"

text \<open>The first longest run of at least two zero groups, as (start, end).\<close>

definition best_run :: "nat list \<Rightarrow> (nat \<times> nat) option" where
  "best_run gs =
     foldl (\<lambda>best i. let l = zero_run gs i
              in if 2 \<le> l \<and> (case best of None \<Rightarrow> True | Some (a, b) \<Rightarrow> b - a < l)
                 then Some (i, i + l) else best)
       None [0..<8]"

definition ipv6_string :: "ip \<Rightarrow> string" where
  "ipv6_string i =
     (let gs = pairs16 i
      in (case best_run gs of
            None \<Rightarrow> join_str '':'' (map hex_str gs)
          | Some (a, b) \<Rightarrow>
              join_str '':'' (map hex_str (take a gs)) @ ''::''
              @ join_str '':'' (map hex_str (drop b gs))))"

fun ip_to_dotted :: "ip \<Rightarrow> string" where
  "ip_to_dotted [a, b, c, d] = dotted a b c d"
| "ip_to_dotted _ = []"

definition IP_String :: "ip \<Rightarrow> string" where
  "IP_String i =
     (if i = [] then ''<nil>''
      else if length i \<noteq> 4 \<and> length i \<noteq> 16
      then ''?'' @ concat (map (\<lambda>b. [hex_digit (unat b div 16), hex_digit (unat b mod 16)]) i)
      else if length (To4 i) = 4 then ip_to_dotted (To4 i) else ipv6_string i)"

section \<open>Masks and networks\<close>

fun mask_bytes :: "nat \<Rightarrow> nat \<Rightarrow> 8 word list" where
  "mask_bytes 0 n = []"
| "mask_bytes (Suc l) n =
     (if 8 \<le> n then 255 # mask_bytes l (n - 8)
      else NOT (drop_bit n 255) # mask_bytes l 0)"

definition CIDRMask :: "nat \<Rightarrow> nat \<Rightarrow> 8 word list" where
  "CIDRMask ones bits =
     (if (bits \<noteq> 32 \<and> bits \<noteq> 128) \<or> bits < ones then [] else mask_bytes (bits div 8) ones)"

text \<open>\<open>simpleMaskLength\<close>: the leading ones, \<open>None\<close> (Go's -1) when a one follows a zero.\<close>

fun lead_ones :: "nat \<Rightarrow> 8 word \<Rightarrow> nat \<times> 8 word" where
  "lead_ones 0 v = (0, v)"
| "lead_ones (Suc k) v =
     (if bit v 7 then (case lead_ones k (push_bit 1 v) of (n, w) \<Rightarrow> (Suc n, w)) else (0, v))"

fun simple_mask_length :: "8 word list \<Rightarrow> nat option" where
  "simple_mask_length [] = Some 0"
| "simple_mask_length (v # vs) =
     (if v = 255 then map_option (\<lambda>n. 8 + n) (simple_mask_length vs)
      else (case lead_ones 8 v of (n, w) \<Rightarrow>
              if w \<noteq> 0 \<or> (\<exists>x \<in> set vs. x \<noteq> 0) then None else Some n))"

record ipnet =
  net_ip :: ip
  net_mask :: "8 word list"

definition mask_hex :: "8 word list \<Rightarrow> string" where
  "mask_hex m = (if m = [] then ''<nil>''
     else concat (map (\<lambda>b. [hex_digit (unat b div 16), hex_digit (unat b mod 16)]) m))"

text \<open>\<open>net.networkNumberAndMask\<close>; \<open>None\<close> is its nil answer.\<close>

definition network_and_mask :: "ipnet \<Rightarrow> (ip \<times> 8 word list) option" where
  "network_and_mask n =
     (let i4 = To4 (net_ip n); i = (if i4 = [] then net_ip n else i4); m = net_mask n
      in if i4 = [] \<and> length i \<noteq> 16 then None
         else if length m = 4 then (if length i = 4 then Some (i, m) else None)
         else if length m = 16 then Some (i, if length i = 4 then drop 12 m else m)
         else None)"

definition IPNet_String :: "ipnet \<Rightarrow> string" where
  "IPNet_String n =
     (case network_and_mask n of
        None \<Rightarrow> ''<nil>''
      | Some (i, m) \<Rightarrow>
          (case simple_mask_length m of
             None \<Rightarrow> IP_String i @ ''/'' @ mask_hex m
           | Some l \<Rightarrow> IP_String i @ ''/'' @ itoa l))"

end
