(* ===== verification/AddrTypes.thy ===== *)
theory AddrTypes
  imports NetAddr
begin

text \<open>
  The program's address types, \<open>internal/nodes/types/ipnetmarshable.go\<close> and
  \<open>udpaddrmashable.go\<close>: a network is parsed from \<open>IP/CIDR\<close> text and printed back; the
  configuration generators convert lists of networks to lists of strings and back. The
  round trip of printing and parsing is what makes the comparison of printed subnets in
  the node repository a comparison of subnets.
\<close>

section \<open>The operations\<close>

definition IPToString :: "ip \<Rightarrow> string" where
  "IPToString i =
     (if length i < 16 then [] else dotted (i ! 12) (i ! 13) (i ! 14) (i ! 15))"

record udpaddr =
  udp_ip :: ip
  udp_port :: int

definition UDPAddrMarshable_String :: "udpaddr \<Rightarrow> string" where
  "UDPAddrMarshable_String u =
     (if udp_ip u = [] then []
      else if udp_port u = 0 then IPToString (udp_ip u)
      else IPToString (udp_ip u) @ '':'' @ itoa_int (udp_port u))"

definition ParseIPNetMarshable :: "string \<Rightarrow> bool \<Rightarrow> ipnet result" where
  "ParseIPNetMarshable s maskMustBeSpecified =
     (if s = [] then Inl (ErrText (''invalid IP network format, expected ''
                                  @ [CHR 0x27] @ ''IP/CIDR'' @ [CHR 0x27]))
      else
        (let parts = split_char (CHR ''/'') s; i = ParseIP (parts ! 0)
         in if i = [] then Inl (ErrText ''invalid IP address'')
            else if length parts = 1 then
              (if maskMustBeSpecified then Inl (ErrText ''network mask must be specified'')
               else Inr \<lparr>net_ip = i, net_mask = CIDRMask 32 32\<rparr>)
            else (case atoi (parts ! 1) of
                    None \<Rightarrow> Inl (ErrText ''invalid CIDR value for network mask'')
                  | Some ones \<Rightarrow>
                      if ones < 0 \<or> 32 < ones
                      then Inl (ErrText ''CIDR value for network mask must be between 0 and 32'')
                      else Inr \<lparr>net_ip = i, net_mask = CIDRMask (nat ones) 32\<rparr>)))"

definition MapIPNetMarshablesToStrings :: "ipnet list \<Rightarrow> bool \<Rightarrow> string list" where
  "MapIPNetMarshablesToStrings ns includeMask =
     map (\<lambda>n. if includeMask then IPNet_String n else IPToString (net_ip n)) ns"

fun MapStringsToIPNetMarshables :: "string list \<Rightarrow> ipnet list" where
  "MapStringsToIPNetMarshables [] = []"
| "MapStringsToIPNetMarshables (s # ss) =
     (let t = trim_space s
      in if t = [] then MapStringsToIPNetMarshables ss
         else (case ParseIPNetMarshable t False of
                 Inl e \<Rightarrow> MapStringsToIPNetMarshables ss
               | Inr n \<Rightarrow> n # MapStringsToIPNetMarshables ss))"

section \<open>Printing and parsing IPv4 addresses\<close>

lemma dot_not_digit [simp]: "\<not> is_digit (CHR ''.'')" "\<not> is_digit (CHR ''/'')"
    "\<not> is_digit (CHR '':'')" "\<not> is_digit (CHR ''%'')"
  by (simp_all add: is_digit_def)

lemma hd_itoa_zero: "1 < length (itoa n) \<Longrightarrow> hd (itoa n) \<noteq> CHR ''0''"
proof (induction n rule: itoa.induct)
  case (1 n)
  show ?case
  proof (cases "n < 10")
    case True
    with "1.prems" show ?thesis by (subst (asm) itoa.simps) simp
  next
    case False
    then have e: "itoa n = itoa (n div 10) @ [digit_char (n mod 10)]"
      by (subst itoa.simps) simp
    show ?thesis
    proof (cases "n div 10 < 10")
      case True
      with False have "0 < n div 10" by simp
      moreover have "itoa (n div 10) = [digit_char (n div 10)]"
        using True by (subst itoa.simps) simp
      moreover have "digit_char d \<noteq> CHR ''0''" if "0 < d" "d < 10" for d
        using that digit_char_simps(2) [of d] by (auto simp: digit_val_def)
      ultimately show ?thesis using e True by simp
    next
      case big: False
      then have "itoa (n div 10) = itoa (n div 10 div 10) @ [digit_char (n div 10 mod 10)]"
        by (subst itoa.simps) simp
      then have "1 < length (itoa (n div 10))" by (simp add: Suc_lessI)
      with "1.IH" False have "hd (itoa (n div 10)) \<noteq> CHR ''0''" by simp
      with e show ?thesis by simp
    qed
  qed
qed

lemma parse_octet_itoa [text_simps]: "parse_octet (itoa (unat (b :: 8 word))) = Some b"
proof -
  have "unat b < 2 ^ LENGTH(8)" by (rule unsigned_less)
  then have "unat b \<le> 255" by simp
  then show ?thesis
    by (auto simp: parse_octet_def digits_val_itoa hd_itoa_zero)
qed

lemma parse_ipv4_dotted [text_simps]: "parse_ipv4 (dotted a b c d) = Some [a, b, c, d]"
  by (simp add: parse_ipv4_def dotted_def split_char_append split_char_no_sep
      not_digit_notin_itoa parse_octet_itoa)

lemma find_append_first:
  "\<forall>x \<in> set xs. \<not> P x \<Longrightarrow> List.find P (xs @ ys) = List.find P ys"
  by (induction xs) auto

lemma ParseIP_dotted [text_simps]: "ParseIP (dotted a b c d) = v4mapped a b c d"
proof -
  have "List.find (\<lambda>c. c = CHR ''.'' \<or> c = CHR '':'' \<or> c = CHR ''%'') (dotted a b c d)
      = Some (CHR ''.'')"
    unfolding dotted_def
    by (subst find_append_first) (auto dest: itoa_digits)
  then show ?thesis by (simp add: ParseIP_def parse_ipv4_dotted)
qed

lemma IPToString_v4mapped [simp]: "IPToString (v4mapped a b c d) = dotted a b c d"
  by (simp add: IPToString_def v4mapped_def)

lemma To4_v4mapped [simp]: "To4 (v4mapped a b c d) = [a, b, c, d]"
  by (simp add: To4_def v4mapped_def numeral_eq_Suc)

lemma v4mapped_not_Nil [simp]: "v4mapped a b c d \<noteq> []"
  by (simp add: v4mapped_def)

lemma v4mapped_inject [simp]:
  "v4mapped a b c d = v4mapped a' b' c' d' \<longleftrightarrow> a = a' \<and> b = b' \<and> c = c' \<and> d = d'"
  by (simp add: v4mapped_def)

lemma IP_String_v4mapped [simp]: "IP_String (v4mapped a b c d) = dotted a b c d"
  by (simp add: IP_String_def) (simp add: v4mapped_def)

lemma IP_String_4 [simp]: "IP_String [a, b, c, d] = dotted a b c d"
  by (simp add: IP_String_def To4_def)

lemma dotted_inject [simp]:
  "dotted a b c d = dotted a' b' c' d' \<longleftrightarrow> a = a' \<and> b = b' \<and> c = c' \<and> d = d'"
  by (metis ParseIP_dotted v4mapped_inject)

lemma dotted_not_Nil [simp]: "dotted a b c d \<noteq> []"
  by (simp add: dotted_def)

lemma slash_notin_dotted: "CHR ''/'' \<notin> set (dotted a b c d)"
  by (simp add: dotted_def not_digit_notin_itoa)

lemma solid_dotted: "solid (hd (dotted a b c d))" "solid (last (dotted a b c d))"
  using solid_itoa by (auto simp: dotted_def)

section \<open>The shape of a parsed address\<close>

lemma parse_ipv4_length: "parse_ipv4 s = Some i \<Longrightarrow> length i = 4"
  by (auto simp: parse_ipv4_def split: list.splits option.splits)

definition ell_le :: "nat option \<Rightarrow> nat \<Rightarrow> bool" where
  "ell_le ell n \<longleftrightarrow> (\<forall>e. ell = Some e \<longrightarrow> e \<le> n)"

lemma ell_le_simps [simp]: "ell_le None n" "ell_le (Some e) n \<longleftrightarrow> e \<le> n"
  by (simp_all add: ell_le_def)

lemma ell_le_mono: "ell_le ell n \<Longrightarrow> n \<le> m \<Longrightarrow> ell_le ell m"
  by (auto simp: ell_le_def)

lemma ipv6_loop_length:
  "ipv6_loop bs ell s = Some (bs', ell') \<Longrightarrow> even (length bs) \<Longrightarrow> length bs \<le> 16 \<Longrightarrow>
   ell_le ell (length bs) \<Longrightarrow> length bs' \<le> 16 \<and> ell_le ell' (length bs')"
proof (induction bs ell s rule: ipv6_loop.induct)
  case (1 bs ell s)
  show ?case
  proof (cases "16 \<le> length bs")
    case True
    with "1.prems" show ?thesis by (subst (asm) ipv6_loop.simps) (simp split: if_split_asm)
  next
    case False
    with \<open>even (length bs)\<close> have le: "length bs \<le> 14" by presburger
    obtain k v r where h: "hex_run 0 0 s = (k, v, r)" by (cases "hex_run 0 0 s") auto
    define bs2 :: ip where "bs2 = bs @ [of_nat (v div 256), of_nat (v mod 256)]"
    have bs2: "even (length bs2)" "length bs2 \<le> 16" "ell_le ell (length bs2)"
      using le "1.prems"(2,4) by (simp_all add: bs2_def ell_le_mono)
    show ?thesis
    proof (cases "k = 0 \<or> 4 < k \<or> r \<noteq> [] \<and> hd r = CHR ''.''")
      case True
      with "1.prems" False h le show ?thesis
        by (subst (asm) ipv6_loop.simps)
          (auto simp: ell_le_mono dest!: parse_ipv4_length split: if_split_asm)
    next
      case k: False
      then have "ipv6_loop bs ell s =
          (if r = [] then Some (bs2, ell)
           else if hd r \<noteq> CHR '':'' \<or> length r = 1 then None
           else if hd (tl r) = CHR '':''
                then (if ell \<noteq> None then None
                      else if tl (tl r) = [] then Some (bs2, Some (length bs2))
                      else ipv6_loop bs2 (Some (length bs2)) (tl (tl r)))
                else ipv6_loop bs2 ell (tl r))"
        using False h by (subst ipv6_loop.simps) (auto simp: Let_def bs2_def)
      with "1.prems"(1) have eq:
        "(if r = [] then Some (bs2, ell)
          else if hd r \<noteq> CHR '':'' \<or> length r = 1 then None
          else if hd (tl r) = CHR '':''
               then (if ell \<noteq> None then None
                     else if tl (tl r) = [] then Some (bs2, Some (length bs2))
                     else ipv6_loop bs2 (Some (length bs2)) (tl (tl r)))
               else ipv6_loop bs2 ell (tl r)) = Some (bs', ell')" by simp
      from k have k1: "\<not> (k = 0 \<or> 4 < k)" "\<not> (r \<noteq> [] \<and> hd r = CHR ''.'')" by simp_all
      note IH1 = "1.IH"(1) [OF False h [symmetric] refl k1 bs2_def, OF _ _ refl]
      note IH2 = "1.IH"(2) [OF False h [symmetric] refl k1 bs2_def, OF _ _ refl]
      show ?thesis
      proof (cases "r = [] \<or> hd r \<noteq> CHR '':'' \<or> length r = 1")
        case True
        with eq bs2 show ?thesis by (auto split: if_split_asm)
      next
        case r: False
        show ?thesis
        proof (cases "hd (tl r) = CHR '':''")
          case True
          show ?thesis
          proof (cases "tl (tl r) = []")
            case True
            with eq bs2 r \<open>hd (tl r) = CHR '':''\<close> show ?thesis by (auto split: if_split_asm)
          next
            case t: False
            with eq r True have "ell = None"
              and "ipv6_loop bs2 (Some (length bs2)) (tl (tl r)) = Some (bs', ell')"
              by (auto split: if_split_asm)
            with IH1 r True t bs2 show ?thesis by simp
          qed
        next
          case c: False
          with eq r have "ipv6_loop bs2 ell (tl r) = Some (bs', ell')" by simp
          with IH2 r c bs2 show ?thesis by simp
        qed
      qed
    qed
  qed
qed

lemma parse_ipv6_length: "parse_ipv6 s = Some i \<Longrightarrow> length i = 16"
  by (auto simp: parse_ipv6_def Let_def split: if_split_asm option.split_asm
      dest!: ipv6_loop_length)

lemma ParseIP_length: "ParseIP s \<noteq> [] \<Longrightarrow> length (ParseIP s) = 16"
  by (auto simp: ParseIP_def v4mapped_def split: option.splits if_splits list.splits
      dest: parse_ipv6_length)

lemma length16_cases:
  assumes "length i = 16" and "To4 i \<noteq> []"
  obtains a b c d where "i = v4mapped a b c d"
proof -
  from assms have z: "take 10 i = replicate 10 0" and "i ! 10 = 255" and "i ! 11 = 255"
    by (auto simp: To4_def split: if_splits)
  have "i = take 10 i @ [i ! 10, i ! 11] @ drop 12 i"
    using assms(1) by (simp add: numeral_eq_Suc Cons_nth_drop_Suc append_take_drop_id [symmetric])
  moreover obtain a b c d where "drop 12 i = [a, b, c, d]"
  proof -
    have "length (drop 12 i) = Suc (Suc (Suc (Suc 0)))" using assms(1) by simp
    then show ?thesis by (auto simp only: length_Suc_conv length_0_conv intro: that)
  qed
  ultimately have "i = v4mapped a b c d"
    using z \<open>i ! 10 = 255\<close> \<open>i ! 11 = 255\<close> by (simp add: v4mapped_def numeral_eq_Suc)
  then show thesis by (rule that)
qed

section \<open>Masks\<close>

lemma mask_length_CIDRMask:
  assumes "n \<le> 32"
  shows "simple_mask_length (CIDRMask n 32) = Some n" and "length (CIDRMask n 32) = 4"
proof -
  have "\<forall>n \<in> set [0..<33]. simple_mask_length (CIDRMask n 32) = Some n
      \<and> length (CIDRMask n 32) = 4"
    by code_simp
  moreover have "n \<in> set [0..<33]" using assms by simp
  ultimately show "simple_mask_length (CIDRMask n 32) = Some n"
    and "length (CIDRMask n 32) = 4" by blast+
qed

lemma IPNet_String_v4 [text_simps]:
  assumes "n \<le> 32"
  shows "IPNet_String \<lparr>net_ip = v4mapped a b c d, net_mask = CIDRMask n 32\<rparr>
       = dotted a b c d @ ''/'' @ itoa n"
  by (simp add: IPNet_String_def network_and_mask_def Let_def mask_length_CIDRMask [OF assms])

section \<open>Parsing networks\<close>

text \<open>What a parsed network looks like, whatever the text was.\<close>

lemma ParseIPNetMarshable_shape:
  assumes "ParseIPNetMarshable s m = Inr n"
  obtains k where "k \<le> 32" and "length (net_ip n) = 16" and "net_mask n = CIDRMask k 32"
proof -
  from assms have "net_ip n = ParseIP (split_char (CHR ''/'') s ! 0)" and "net_ip n \<noteq> []"
    and "net_mask n = CIDRMask 32 32
       \<or> (\<exists>x. atoi (split_char (CHR ''/'') s ! 1) = Some x \<and> \<not> x < 0 \<and> \<not> 32 < x
              \<and> net_mask n = CIDRMask (nat x) 32)"
    by (auto simp: ParseIPNetMarshable_def Let_def split: if_splits option.splits)
  moreover from this have "length (net_ip n) = 16" by (metis ParseIP_length)
  ultimately consider "net_mask n = CIDRMask 32 32"
    | x where "\<not> 32 < x" "net_mask n = CIDRMask (nat x) 32" by blast
  then show thesis
  proof cases
    case 1
    with \<open>length (net_ip n) = 16\<close> show thesis using that [of 32] by simp
  next
    case 2
    with \<open>length (net_ip n) = 16\<close> show thesis using that [of "nat x"] by simp
  qed
qed

lemma ParseIPNetMarshable_dotted [text_simps]:
  assumes "k \<le> 32"
  shows "ParseIPNetMarshable (dotted a b c d @ ''/'' @ itoa k) m
       = Inr \<lparr>net_ip = v4mapped a b c d, net_mask = CIDRMask k 32\<rparr>"
proof -
  have "(k :: nat) < 2 ^ 63" using assms by (rule order_le_less_trans) simp
  with assms show ?thesis
    by (simp add: ParseIPNetMarshable_def split_char_append split_char_no_sep
        slash_notin_dotted not_digit_notin_itoa ParseIP_dotted atoi_itoa)
qed

lemma ParseIPNetMarshable_bare [text_simps]:
  "ParseIPNetMarshable (dotted a b c d) False
     = Inr \<lparr>net_ip = v4mapped a b c d, net_mask = CIDRMask 32 32\<rparr>"
  by (simp add: ParseIPNetMarshable_def split_char_no_sep slash_notin_dotted ParseIP_dotted)

lemma MapStrings_net:
  assumes "k \<le> 32"
  shows "MapStringsToIPNetMarshables ((dotted a b c d @ ''/'' @ itoa k) # ss)
       = \<lparr>net_ip = v4mapped a b c d, net_mask = CIDRMask k 32\<rparr> # MapStringsToIPNetMarshables ss"
proof -
  have "trim_space (dotted a b c d @ ''/'' @ itoa k) = dotted a b c d @ ''/'' @ itoa k"
    by (rule trim_space_solid) (simp_all add: solid_dotted solid_itoa)
  moreover have "dotted a b c d @ ''/'' @ itoa k \<noteq> []" by simp
  ultimately show ?thesis
    by (simp only: MapStringsToIPNetMarshables.simps Let_def if_False
        ParseIPNetMarshable_dotted [OF assms] sum.case)
qed

lemma MapStrings_bare:
  "MapStringsToIPNetMarshables (dotted a b c d # ss)
     = \<lparr>net_ip = v4mapped a b c d, net_mask = CIDRMask 32 32\<rparr> # MapStringsToIPNetMarshables ss"
  by (simp add: trim_space_solid solid_dotted ParseIPNetMarshable_bare)

text \<open>
  Printing a parsed IPv4 network and parsing the print gives the same network back,
  whatever text it was first read from (signs in the prefix length, extra components after
  a second slash): the printed form is a canonical name of the network.
\<close>

theorem subnet_print_parse:
  assumes "ParseIPNetMarshable s m = Inr n" and "To4 (net_ip n) \<noteq> []"
  shows "ParseIPNetMarshable (IPNet_String n) True = Inr n"
proof -
  obtain k where k: "k \<le> 32" and l: "length (net_ip n) = 16"
    and m: "net_mask n = CIDRMask k 32"
    using assms(1) by (rule ParseIPNetMarshable_shape)
  obtain a b c d where "net_ip n = v4mapped a b c d"
    using l assms(2) by (rule length16_cases)
  with m have n: "n = \<lparr>net_ip = v4mapped a b c d, net_mask = CIDRMask k 32\<rparr>"
    by (cases n) simp
  show ?thesis
    by (simp only: n IPNet_String_v4 [OF k] ParseIPNetMarshable_dotted [OF k])
qed

theorem subnet_print_parse_witness:
  "ParseIPNetMarshable
     (IPNet_String \<lparr>net_ip = v4mapped 172 20 5 0, net_mask = CIDRMask 16 32\<rparr>) True
   = Inr \<lparr>net_ip = v4mapped 172 20 5 0, net_mask = CIDRMask 16 32\<rparr>"
proof -
  have p: "ParseIPNetMarshable ''172.20.5.0/+16/x'' False
      = Inr \<lparr>net_ip = v4mapped 172 20 5 0, net_mask = CIDRMask 16 32\<rparr>"
    by code_simp
  show ?thesis by (rule subnet_print_parse [OF p]) simp
qed

end
