(* ===== verification/Certs.thy ===== *)
theory Certs
  imports AddrTypes
begin

text \<open>
  The certificate bundles of \<open>internal/encryption/mtls/service.go\<close>. The gateway keeps a
  root CA, its server certificate and one certificate per client name; a client gets the
  CA certificate and its own certificate and key.

  The primitives of \<open>crypto/ecdsa\<close>, \<open>crypto/x509\<close> and \<open>encoding/pem\<close> are the fields of
  the record \<open>crypto\<close>, an argument of the operations; \<open>rnd\<close> is what the random source
  yields to one operation. What is modelled is what the program does with them: which
  template each certificate is made from, who signs it, and what the bundles keep.
  Times are seconds.
\<close>

section \<open>Data\<close>

record options =
  CommonName :: string
  Expiry :: int
  DNSNames :: "string list"
  IPAddresses :: "string list"

record pem_bundle =
  CertPEM :: string
  KeyPEM :: string

record gateway_bundle =
  gb_RootCA :: pem_bundle
  gb_Server :: pem_bundle
  gb_Clients :: "string \<rightharpoonup> pem_bundle"
  gb_Generated :: int

record client_bundle =
  cb_RootCA :: pem_bundle
  cb_Client :: pem_bundle
  cb_Generated :: int

datatype ext_usage = ExtKeyUsageClientAuth | ExtKeyUsageServerAuth
datatype usage = KeyUsageDigitalSignature | KeyUsageCertSign

record cert_template =
  SerialNumber :: int
  Subject :: string
  NotBefore :: int
  NotAfter :: int
  IsCA :: bool
  ExtKeyUsage :: "ext_usage list"
  KeyUsage :: "usage list"
  BasicConstraintsValid :: bool
  SanDNS :: "string list"
  SanIPs :: "ip list"

text \<open>\<open>'c\<close> is a parsed certificate, \<open>'k\<close> a key pair.\<close>

record ('c, 'k) crypto =
  generate_key :: "nat \<Rightarrow> 'k result"
  create_certificate :: "nat \<Rightarrow> cert_template \<Rightarrow> 'c \<Rightarrow> 'k \<Rightarrow> 'k \<Rightarrow> string result"
  template_cert :: "cert_template \<Rightarrow> 'c"
  parse_certificate :: "string \<Rightarrow> 'c result"
  parse_ec_key :: "string \<Rightarrow> 'k result"
  marshal_ec_key :: "'k \<Rightarrow> string result"
  pem_encode :: "string \<Rightarrow> string \<Rightarrow> string"
  pem_decode :: "string \<Rightarrow> string option"
  x509_key_pair :: "string \<Rightarrow> string \<Rightarrow> unit result"

section \<open>Issuing certificates\<close>

text \<open>The template of a leaf certificate: server names go into server certificates only.\<close>

definition leaf_template :: "int \<Rightarrow> options \<Rightarrow> bool \<Rightarrow> cert_template" where
  "leaf_template now opt isServer =
     \<lparr>SerialNumber = now, Subject = CommonName opt,
      NotBefore = now, NotAfter = now + Expiry opt, IsCA = False,
      ExtKeyUsage = (if isServer then [ExtKeyUsageServerAuth] else [ExtKeyUsageClientAuth]),
      KeyUsage = [KeyUsageDigitalSignature], BasicConstraintsValid = False,
      SanDNS = (if isServer then DNSNames opt else []),
      SanIPs = (if isServer then filter (\<lambda>i. i \<noteq> []) (map ParseIP (IPAddresses opt)) else [])\<rparr>"

definition createSignedCert ::
  "('c, 'k) crypto \<Rightarrow> nat \<Rightarrow> int \<Rightarrow> options \<Rightarrow> 'c \<Rightarrow> 'k \<Rightarrow> bool \<Rightarrow> pem_bundle result" where
  "createSignedCert C rnd now opt caCert caKey isServer =
     rbind (generate_key C rnd) (\<lambda>key.
     rbind (create_certificate C rnd (leaf_template now opt isServer) caCert key caKey) (\<lambda>cert.
     rbind (marshal_ec_key C key) (\<lambda>keyBytes.
     Inr \<lparr>CertPEM = pem_encode C ''CERTIFICATE'' cert,
          KeyPEM = pem_encode C ''EC PRIVATE KEY'' keyBytes\<rparr>)))"

definition root_template :: "int \<Rightarrow> int \<Rightarrow> cert_template" where
  "root_template now rootExpiry =
     \<lparr>SerialNumber = 1, Subject = ''wireport gateway Root CA'',
      NotBefore = now, NotAfter = now + rootExpiry, IsCA = True,
      ExtKeyUsage = [ExtKeyUsageClientAuth, ExtKeyUsageServerAuth],
      KeyUsage = [KeyUsageDigitalSignature, KeyUsageCertSign],
      BasicConstraintsValid = True, SanDNS = [], SanIPs = []\<rparr>"

text \<open>\<open>Generate\<close>: a self-signed root, then a server certificate signed by it.\<close>

definition GenerateBundle ::
  "('c, 'k) crypto \<Rightarrow> nat \<Rightarrow> int \<Rightarrow> options \<Rightarrow> int \<Rightarrow> gateway_bundle result" where
  "GenerateBundle C rnd now serverOpt rootExpiry =
     rbind (generate_key C rnd) (\<lambda>rootKey.
     (let rootTpl = root_template now rootExpiry in
     rbind (create_certificate C rnd rootTpl (template_cert C rootTpl) rootKey rootKey)
       (\<lambda>rootCert.
     rbind (parse_certificate C rootCert) (\<lambda>rootCertParsed.
     rbind (marshal_ec_key C rootKey) (\<lambda>rootKeyBytes.
     rbind (createSignedCert C (Suc rnd) now serverOpt rootCertParsed rootKey True) (\<lambda>server.
     Inr \<lparr>gb_RootCA = \<lparr>CertPEM = pem_encode C ''CERTIFICATE'' rootCert,
                       KeyPEM = pem_encode C ''EC PRIVATE KEY'' rootKeyBytes\<rparr>,
          gb_Server = server, gb_Clients = Map.empty, gb_Generated = now\<rparr>))))))"

section \<open>Clients of a bundle\<close>

text \<open>A PEM block that does not decode is dereferenced as a nil pointer.\<close>

definition AddClient ::
  "('c, 'k) crypto \<Rightarrow> nat \<Rightarrow> int \<Rightarrow> options \<Rightarrow> gateway_bundle \<Rightarrow> gateway_bundle result" where
  "AddClient C rnd now opt b =
     (case pem_decode C (CertPEM (gb_RootCA b)) of None \<Rightarrow> Inl NilDereference | Some certDER \<Rightarrow>
     rbind (parse_certificate C certDER) (\<lambda>caCert.
     (case pem_decode C (KeyPEM (gb_RootCA b)) of None \<Rightarrow> Inl NilDereference | Some keyDER \<Rightarrow>
     rbind (parse_ec_key C keyDER) (\<lambda>caKey.
     rbind (createSignedCert C rnd now opt caCert caKey False) (\<lambda>client.
     Inr (b\<lparr>gb_Clients := (gb_Clients b)(CommonName opt \<mapsto> client)\<rparr>))))))"

definition RemoveClient :: "string \<Rightarrow> gateway_bundle \<Rightarrow> gateway_bundle" where
  "RemoveClient clientName b = b\<lparr>gb_Clients := (gb_Clients b)(clientName := None)\<rparr>"

definition PublicOnly :: "gateway_bundle \<Rightarrow> gateway_bundle" where
  "PublicOnly b =
     \<lparr>gb_RootCA = \<lparr>CertPEM = CertPEM (gb_RootCA b), KeyPEM = []\<rparr>,
      gb_Server = \<lparr>CertPEM = CertPEM (gb_Server b), KeyPEM = []\<rparr>,
      gb_Clients = (\<lambda>k. map_option (\<lambda>v. \<lparr>CertPEM = CertPEM v, KeyPEM = []\<rparr>) (gb_Clients b k)),
      gb_Generated = gb_Generated b\<rparr>"

definition GetClientBundlePublic :: "string \<Rightarrow> gateway_bundle \<Rightarrow> client_bundle result" where
  "GetClientBundlePublic clientName b =
     (case gb_Clients b clientName of
        None \<Rightarrow> Inl (ErrText ''client not found'')
      | Some clientData \<Rightarrow>
          Inr \<lparr>cb_RootCA = \<lparr>CertPEM = CertPEM (gb_RootCA b), KeyPEM = []\<rparr>,
               cb_Client = clientData, cb_Generated = gb_Generated b\<rparr>)"

section \<open>TLS configurations\<close>

text \<open>
  \<open>tls.Config\<close>: the certificate presented, the CA the peer is verified against, and
  whether the server demands a client certificate.
\<close>

record tls_config =
  tls_Cert :: pem_bundle
  tls_PeerCA :: string
  tls_RequireClientCert :: bool

definition GetServerTLSConfig :: "('c, 'k) crypto \<Rightarrow> gateway_bundle \<Rightarrow> tls_config result" where
  "GetServerTLSConfig C b =
     (if KeyPEM (gb_Server b) = [] \<or> CertPEM (gb_Server b) = [] \<or> CertPEM (gb_RootCA b) = []
      then Inl (ErrText ''server key, cert or root CA cert is empty'')
      else rbind (x509_key_pair C (CertPEM (gb_Server b)) (KeyPEM (gb_Server b))) (\<lambda>_.
        Inr \<lparr>tls_Cert = gb_Server b, tls_PeerCA = CertPEM (gb_RootCA b),
             tls_RequireClientCert = True\<rparr>))"

definition GetClientTLSConfig :: "('c, 'k) crypto \<Rightarrow> client_bundle \<Rightarrow> tls_config result" where
  "GetClientTLSConfig C b =
     (if KeyPEM (cb_Client b) = [] \<or> CertPEM (cb_Client b) = [] \<or> CertPEM (cb_RootCA b) = []
      then Inl (ErrText ''client key, cert or root CA cert is empty'')
      else rbind (x509_key_pair C (CertPEM (cb_Client b)) (KeyPEM (cb_Client b))) (\<lambda>_.
        Inr \<lparr>tls_Cert = cb_Client b, tls_PeerCA = CertPEM (cb_RootCA b),
             tls_RequireClientCert = False\<rparr>))"

definition TLSConfigs ::
  "('c, 'k) crypto \<Rightarrow> string \<Rightarrow> gateway_bundle \<Rightarrow> (tls_config \<times> tls_config) result" where
  "TLSConfigs C clientName b =
     (if KeyPEM (gb_Server b) = [] \<or> CertPEM (gb_Server b) = [] \<or> CertPEM (gb_RootCA b) = []
      then Inl (ErrText ''server key, cert or root CA cert is empty'')
      else rbind (x509_key_pair C (CertPEM (gb_Server b)) (KeyPEM (gb_Server b))) (\<lambda>_.
        (case gb_Clients b clientName of
           None \<Rightarrow> Inl (ErrText ''client not found'')
         | Some clientData \<Rightarrow>
             rbind (x509_key_pair C (CertPEM clientData) (KeyPEM clientData)) (\<lambda>_.
             Inr (\<lparr>tls_Cert = gb_Server b, tls_PeerCA = CertPEM (gb_RootCA b),
                   tls_RequireClientCert = True\<rparr>,
                  \<lparr>tls_Cert = clientData, tls_PeerCA = CertPEM (gb_RootCA b),
                   tls_RequireClientCert = False\<rparr>)))))"

section \<open>Facts on bundles\<close>

lemma AddClient_Inr:
  assumes "AddClient C rnd now opt b = Inr b'"
  obtains p where "b' = b\<lparr>gb_Clients := (gb_Clients b)(CommonName opt \<mapsto> p)\<rparr>"
  using assms by (auto simp: AddClient_def result_simps split: option.splits)

lemma AddClient_frame:
  assumes "AddClient C rnd now opt b = Inr b'"
  shows "gb_RootCA b' = gb_RootCA b" and "gb_Server b' = gb_Server b"
    and "gb_Generated b' = gb_Generated b"
    and "gb_Clients b' (CommonName opt) \<noteq> None"
    and "n \<noteq> CommonName opt \<Longrightarrow> gb_Clients b' n = gb_Clients b n"
  using assms by (auto elim!: AddClient_Inr)

lemma GetClientBundlePublic_after_AddClient:
  assumes "AddClient C rnd now opt b = Inr b'"
  shows "\<exists>c. GetClientBundlePublic (CommonName opt) b' = Inr c"
  using AddClient_frame(4) [OF assms] by (auto simp: GetClientBundlePublic_def)

lemma GetClientBundlePublic_no_ca_key:
  "GetClientBundlePublic n b = Inr c \<Longrightarrow> KeyPEM (cb_RootCA c) = []"
  by (auto simp: GetClientBundlePublic_def split: option.splits)

lemma RemoveClient_frame [simp]:
  "gb_RootCA (RemoveClient n b) = gb_RootCA b"
  "gb_Server (RemoveClient n b) = gb_Server b"
  "gb_Clients (RemoveClient n b) = (gb_Clients b)(n := None)"
  by (simp_all add: RemoveClient_def)

end
