(* ===== verification/NodeTypes.thy ===== *)
theory NodeTypes
  imports Certs
begin

text \<open>
  The node record of \<open>internal/nodes/types\<close> (\<open>node.go\<close>, \<open>wgconfig.go\<close>,
  \<open>wgconfiginterface.go\<close>, \<open>wgconfigpeer.go\<close>) and the WireGuard configuration text made
  from it. A role is a string, as in the code (\<open>type NodeRole string\<close>); a pointer field is
  an option. The time stamps \<open>CreatedAt\<close> and \<open>UpdatedAt\<close> of a node, which nothing reads,
  are left out.
\<close>

section \<open>Data\<close>

type_synonym node_role = string

abbreviation NodeRoleGateway :: node_role where "NodeRoleGateway \<equiv> ''gateway''"
abbreviation NodeRoleClient :: node_role where "NodeRoleClient \<equiv> ''client''"
abbreviation NodeRoleServer :: node_role where "NodeRoleServer \<equiv> ''server''"
abbreviation NodeRoleEmpty :: node_role where "NodeRoleEmpty \<equiv> ''empty''"

record wg_interface =
  if_Address :: ipnet
  if_ListenPort :: "16 word option"
  if_PrivateKey :: string
  if_DNS :: "ipnet list"
  if_PostUp :: string
  if_PostDown :: string

record wg_peer =
  peer_PublicKey :: string
  peer_Endpoint :: "udpaddr option"
  peer_AllowedIPs :: "ipnet list"
  peer_PersistentKeepalive :: "int option"

record wg_config =
  wg_Interface :: wg_interface
  wg_Peers :: "wg_peer list"

record node =
  node_ID :: string
  node_Role :: node_role
  node_IsCurrentNode :: bool
  node_WGPrivateKey :: string
  node_WGPublicKey :: string
  node_WGConfig :: wg_config
  node_WGPublicIP :: "string option"
  node_WGPublicPort :: "16 word option"
  node_ConnectionEncryptionKey :: "string option"
  node_GatewayPublicIP :: string
  node_GatewayPublicPort :: "16 word"
  node_GatewayCertBundle :: "gateway_bundle option"
  node_ClientCertBundle :: "client_bundle option"
  node_DockerSubnet :: "ipnet option"
  node_Labels :: "string list"

text \<open>Go's zero values, which a failed query leaves in the destination variable.\<close>

definition zero_wg_config :: wg_config where
  "zero_wg_config =
     \<lparr>wg_Interface = \<lparr>if_Address = \<lparr>net_ip = [], net_mask = []\<rparr>, if_ListenPort = None,
        if_PrivateKey = [], if_DNS = [], if_PostUp = [], if_PostDown = []\<rparr>,
      wg_Peers = []\<rparr>"

definition zero_node :: node where
  "zero_node =
     \<lparr>node_ID = [], node_Role = [], node_IsCurrentNode = False, node_WGPrivateKey = [],
      node_WGPublicKey = [], node_WGConfig = zero_wg_config, node_WGPublicIP = None,
      node_WGPublicPort = None, node_ConnectionEncryptionKey = None,
      node_GatewayPublicIP = [], node_GatewayPublicPort = 0, node_GatewayCertBundle = None,
      node_ClientCertBundle = None, node_DockerSubnet = None, node_Labels = []\<rparr>"

text \<open>The hook gorm runs on a row before inserting it.\<close>

definition BeforeCreate :: "node \<Rightarrow> node" where
  "BeforeCreate n = n\<lparr>node_Labels := []\<rparr>"

text \<open>The interface address of a node as the code prints it to compare addresses.\<close>

definition node_addr :: "node \<Rightarrow> string" where
  "node_addr n = IPToString (net_ip (if_Address (wg_Interface (node_WGConfig n))))"

definition set_peers :: "wg_peer list \<Rightarrow> node \<Rightarrow> node" where
  "set_peers ps n = n\<lparr>node_WGConfig := (node_WGConfig n)\<lparr>wg_Peers := ps\<rparr>\<rparr>"

definition set_dns :: "ipnet list \<Rightarrow> node \<Rightarrow> node" where
  "set_dns ds n = n\<lparr>node_WGConfig := (node_WGConfig n)
     \<lparr>wg_Interface := (wg_Interface (node_WGConfig n))\<lparr>if_DNS := ds\<rparr>\<rparr>\<rparr>"

section \<open>The WireGuard configuration text\<close>

definition line :: "string \<Rightarrow> string" where
  "line s = s @ NL"

definition ini_interface :: "wg_interface \<Rightarrow> string" where
  "ini_interface i =
     line ''[Interface]''
     @ line (''Address = '' @ IPNet_String (if_Address i))
     @ (case if_ListenPort i of None \<Rightarrow> [] | Some p \<Rightarrow> line (''ListenPort = '' @ itoa (unat p)))
     @ line (''PrivateKey = '' @ if_PrivateKey i)
     @ (if if_DNS i \<noteq> []
        then line (''DNS = '' @ join_str '', '' (MapIPNetMarshablesToStrings (if_DNS i) False))
        else [])
     @ (if if_PostUp i \<noteq> [] then line (''PostUp = '' @ if_PostUp i) else [])
     @ (if if_PostDown i \<noteq> [] then line (''PostDown = '' @ if_PostDown i) else [])"

definition ini_peer :: "wg_peer \<Rightarrow> string" where
  "ini_peer p =
     NL @ line ''[Peer]''
     @ line (''PublicKey = '' @ peer_PublicKey p)
     @ (case peer_Endpoint p of
          None \<Rightarrow> []
        | Some u \<Rightarrow> if UDPAddrMarshable_String u \<noteq> []
                    then line (''Endpoint = '' @ UDPAddrMarshable_String u) else [])
     @ (if peer_AllowedIPs p \<noteq> []
        then line (''AllowedIPs = ''
               @ join_str '', '' (MapIPNetMarshablesToStrings (peer_AllowedIPs p) True))
        else [])
     @ (case peer_PersistentKeepalive p of
          None \<Rightarrow> [] | Some k \<Rightarrow> line (''PersistentKeepalive = '' @ itoa_int k))"

definition ToINI :: "wg_config \<Rightarrow> string" where
  "ToINI c =
     line ''# # # # # # # # # # # # # # # # # # # # # # #''
     @ line ''#       wireport config for WireGuard       #''
     @ line ''# # # # # # # # # # # # # # # # # # # # # # #''
     @ NL
     @ ini_interface (wg_Interface c)
     @ concat (map ini_peer (wg_Peers c))"

definition GetFormattedWireguardConfig :: "node \<Rightarrow> string result" where
  "GetFormattedWireguardConfig n = Inr (ToINI (node_WGConfig n))"

section \<open>Frame facts\<close>

lemma BeforeCreate_sel [simp]:
  "node_ID (BeforeCreate n) = node_ID n"
  "node_Role (BeforeCreate n) = node_Role n"
  "node_WGConfig (BeforeCreate n) = node_WGConfig n"
  "node_DockerSubnet (BeforeCreate n) = node_DockerSubnet n"
  "node_addr (BeforeCreate n) = node_addr n"
  "node_Labels (BeforeCreate n) = []"
  "node_WGPublicKey (BeforeCreate n) = node_WGPublicKey n"
  "node_IsCurrentNode (BeforeCreate n) = node_IsCurrentNode n"
  "node_WGPublicIP (BeforeCreate n) = node_WGPublicIP n"
  "node_WGPublicPort (BeforeCreate n) = node_WGPublicPort n"
  "node_ClientCertBundle (BeforeCreate n) = node_ClientCertBundle n"
  "node_GatewayCertBundle (BeforeCreate n) = node_GatewayCertBundle n"
  by (simp_all add: BeforeCreate_def node_addr_def)

lemma set_peers_sel [simp]:
  "node_ID (set_peers ps n) = node_ID n"
  "node_Role (set_peers ps n) = node_Role n"
  "node_addr (set_peers ps n) = node_addr n"
  "node_DockerSubnet (set_peers ps n) = node_DockerSubnet n"
  "node_Labels (set_peers ps n) = node_Labels n"
  "node_WGPublicKey (set_peers ps n) = node_WGPublicKey n"
  "node_WGPublicIP (set_peers ps n) = node_WGPublicIP n"
  "node_WGPublicPort (set_peers ps n) = node_WGPublicPort n"
  "node_GatewayCertBundle (set_peers ps n) = node_GatewayCertBundle n"
  "node_ClientCertBundle (set_peers ps n) = node_ClientCertBundle n"
  "node_IsCurrentNode (set_peers ps n) = node_IsCurrentNode n"
  "wg_Peers (node_WGConfig (set_peers ps n)) = ps"
  "if_Address (wg_Interface (node_WGConfig (set_peers ps n)))
     = if_Address (wg_Interface (node_WGConfig n))"
  "if_DNS (wg_Interface (node_WGConfig (set_peers ps n)))
     = if_DNS (wg_Interface (node_WGConfig n))"
  by (simp_all add: set_peers_def node_addr_def)

lemma set_dns_sel [simp]:
  "node_ID (set_dns ds n) = node_ID n"
  "node_Role (set_dns ds n) = node_Role n"
  "node_addr (set_dns ds n) = node_addr n"
  "node_DockerSubnet (set_dns ds n) = node_DockerSubnet n"
  "node_Labels (set_dns ds n) = node_Labels n"
  "node_WGPublicKey (set_dns ds n) = node_WGPublicKey n"
  "node_WGPublicIP (set_dns ds n) = node_WGPublicIP n"
  "node_WGPublicPort (set_dns ds n) = node_WGPublicPort n"
  "node_GatewayCertBundle (set_dns ds n) = node_GatewayCertBundle n"
  "node_ClientCertBundle (set_dns ds n) = node_ClientCertBundle n"
  "node_IsCurrentNode (set_dns ds n) = node_IsCurrentNode n"
  "wg_Peers (node_WGConfig (set_dns ds n)) = wg_Peers (node_WGConfig n)"
  "if_Address (wg_Interface (node_WGConfig (set_dns ds n)))
     = if_Address (wg_Interface (node_WGConfig n))"
  "if_DNS (wg_Interface (node_WGConfig (set_dns ds n))) = ds"
  by (simp_all add: set_dns_def node_addr_def)

end
