(* ===== verification/Store.thy ===== *)
theory Store
  imports Prelude
begin

text \<open>
  The interface to the database. The repositories reach it through gorm
  (\<open>gorm.io/gorm\<close> over SQLite), which is not part of the source tree: its calls are the
  fields of a record the repositories take as an argument, and what the repositories rely
  on is the locale \<open>gorm_table\<close>, which states the documented behaviour of the calls in
  terms of the contents of a table as a map from primary keys to rows. Nothing is assumed
  of a call that fails, except that a failing statement leaves the table as it was: only
  a successful call returns a new state.

  The locale \<open>reliable_table\<close> adds when the calls succeed (no fault of the database), for
  the theorems that say an operation does return a result. \<open>mem_api\<close> is a reference table,
  a list of rows in insertion order; \<open>mem_reliable\<close> shows that it meets both contracts.
\<close>

section \<open>The calls\<close>

record ('s, 'r) table_api =
  db_find :: "'s \<Rightarrow> ('r \<Rightarrow> bool) \<Rightarrow> 'r list result"
  db_first :: "'s \<Rightarrow> ('r \<Rightarrow> bool) \<Rightarrow> 'r result"
  db_count :: "'s \<Rightarrow> ('r \<Rightarrow> bool) \<Rightarrow> nat result"
  db_create :: "'s \<Rightarrow> 'r \<Rightarrow> 's result"
  db_save :: "'s \<Rightarrow> 'r \<Rightarrow> 's result"
  db_delete :: "'s \<Rightarrow> ('r \<Rightarrow> bool) \<Rightarrow> ('s \<times> nat) result"
  db_update :: "'s \<Rightarrow> ('r \<Rightarrow> bool) \<Rightarrow> ('r \<Rightarrow> 'r) \<Rightarrow> ('s \<times> nat) result"
  db_begin :: "'s \<Rightarrow> 's result"
  db_commit :: "'s \<Rightarrow> 's result"

text \<open>
  \<open>db.Transaction(f)\<close>: \<open>f\<close> runs on the transaction's view; its error rolls the
  transaction back, so the caller keeps the state it had.
\<close>

definition db_transaction ::
  "('s, 'r, 'z) table_api_scheme \<Rightarrow> 's \<Rightarrow> ('s \<Rightarrow> ('s \<times> 'a) result) \<Rightarrow> ('s \<times> 'a) result" where
  "db_transaction T s f =
     rbind (db_begin T s) (\<lambda>t.
     rbind (f t) (\<lambda>(t', x).
     rbind (db_commit T t') (\<lambda>s'. Inr (s', x))))"

lemma db_transaction_cong [fundef_cong]:
  "T = T' \<Longrightarrow> s = s' \<Longrightarrow> (\<And>t. db_begin T' s' = Inr t \<Longrightarrow> f t = f' t) \<Longrightarrow>
   db_transaction T s f = db_transaction T' s' f'"
  unfolding db_transaction_def by (auto intro: rbind_cong)

text \<open>Rows that satisfy a condition, removed from a table's contents.\<close>

definition map_delete :: "('r \<Rightarrow> bool) \<Rightarrow> ('k \<rightharpoonup> 'r) \<Rightarrow> ('k \<rightharpoonup> 'r)" where
  "map_delete P m k = (case m k of None \<Rightarrow> None | Some r \<Rightarrow> if P r then None else Some r)"

definition map_change :: "('r \<Rightarrow> bool) \<Rightarrow> ('r \<Rightarrow> 'r) \<Rightarrow> ('k \<rightharpoonup> 'r) \<Rightarrow> ('k \<rightharpoonup> 'r)" where
  "map_change P f m k = (case m k of None \<Rightarrow> None | Some r \<Rightarrow> Some (if P r then f r else r))"

section \<open>What the repositories rely on\<close>

locale gorm_table =
  fixes T :: "('s, 'r) table_api"
    and tbl :: "'s \<Rightarrow> 'k \<rightharpoonup> 'r"
    and pk :: "'r \<Rightarrow> 'k"
    and hook :: "'r \<Rightarrow> 'r"
  assumes tbl_pk: "tbl s k = Some r \<Longrightarrow> pk r = k"
    and tbl_finite: "finite (dom (tbl s))"
    and hook_pk: "pk (hook r) = pk r"
    and find_rows: "db_find T s P = Inr rs \<Longrightarrow>
          distinct rs \<and> set rs = {r. tbl s (pk r) = Some r \<and> P r}"
    and first_row: "db_first T s P = Inr r \<Longrightarrow> tbl s (pk r) = Some r \<and> P r"
    and first_none: "db_first T s P = Inl ErrRecordNotFound \<Longrightarrow>
          tbl s k = Some r \<Longrightarrow> \<not> P r"
    and count_rows: "db_count T s P = Inr n \<Longrightarrow>
          n = card {r. tbl s (pk r) = Some r \<and> P r}"
    and create_row: "db_create T s r = Inr s' \<Longrightarrow>
          tbl s (pk r) = None \<and> tbl s' = (tbl s)(pk r \<mapsto> hook r)"
    and save_row: "db_save T s r = Inr s' \<Longrightarrow> tbl s' = (tbl s)(pk r \<mapsto> r)"
    and delete_rows: "db_delete T s P = Inr (s', n) \<Longrightarrow>
          tbl s' = map_delete P (tbl s) \<and> n = card {r. tbl s (pk r) = Some r \<and> P r}"
    and update_rows: "db_update T s P f = Inr (s', n) \<Longrightarrow> (\<And>r. pk (f r) = pk r) \<Longrightarrow>
          tbl s' = map_change P f (tbl s) \<and> n = card {r. tbl s (pk r) = Some r \<and> P r}"
    and begin_view: "db_begin T s = Inr t \<Longrightarrow> tbl t = tbl s"
    and commit_view: "db_commit T t = Inr s' \<Longrightarrow> tbl s' = tbl t"
begin

lemma find_setD:
  assumes "db_find T s P = Inr rs"
  shows "r \<in> set rs \<longleftrightarrow> tbl s (pk r) = Some r \<and> P r"
  using find_rows [OF assms] by auto

lemma rows_finite: "finite {r. tbl s (pk r) = Some r \<and> P r}"
proof -
  have "{r. tbl s (pk r) = Some r \<and> P r} \<subseteq> the ` tbl s ` dom (tbl s)"
    by (auto simp: image_iff) force
  then show ?thesis by (rule finite_subset) (simp add: tbl_finite)
qed

lemma rows_ran: "{r. tbl s (pk r) = Some r \<and> P r} = {r \<in> ran (tbl s). P r}"
proof (intro set_eqI iffI)
  fix r assume "r \<in> {r. tbl s (pk r) = Some r \<and> P r}"
  then show "r \<in> {r \<in> ran (tbl s). P r}" by (auto intro: ranI)
next
  fix r assume "r \<in> {r \<in> ran (tbl s). P r}"
  then obtain k where "tbl s k = Some r" "P r" by (auto simp: ran_def)
  with tbl_pk [of s k r] show "r \<in> {r. tbl s (pk r) = Some r \<and> P r}" by simp
qed

lemma find_length:
  assumes "db_find T s P = Inr rs"
  shows "length rs = card {r. tbl s (pk r) = Some r \<and> P r}"
  using find_rows [OF assms] by (metis distinct_card)

lemma delete_count_zero:
  assumes "db_delete T s P = Inr (s', n)"
  shows "n = 0 \<longleftrightarrow> (\<forall>k r. tbl s k = Some r \<longrightarrow> \<not> P r)"
proof -
  from delete_rows [OF assms] have n: "n = card {r. tbl s (pk r) = Some r \<and> P r}" by simp
  have "n = 0 \<longleftrightarrow> {r. tbl s (pk r) = Some r \<and> P r} = {}"
    unfolding n using rows_finite by (simp only: card_0_eq)
  then show ?thesis using tbl_pk by fastforce
qed

lemma transaction_Inr:
  assumes "db_transaction T s f = Inr (s', x)"
  obtains t t' where "tbl t = tbl s" and "f t = Inr (t', x)" and "tbl s' = tbl t'"
proof -
  from assms obtain t t' where "db_begin T s = Inr t" and "f t = Inr (t', x)"
    and "db_commit T t' = Inr s'"
    by (auto simp: db_transaction_def result_simps)
  then show thesis using that begin_view commit_view by metis
qed

end

locale reliable_table = gorm_table T tbl pk hook
  for T :: "('s, 'r) table_api" and tbl :: "'s \<Rightarrow> 'k \<rightharpoonup> 'r"
    and pk :: "'r \<Rightarrow> 'k" and hook :: "'r \<Rightarrow> 'r" +
  fixes uq :: "'r \<Rightarrow> 'u"
  assumes find_ok: "\<exists>rs. db_find T s P = Inr rs"
    and first_ok: "tbl s k = Some r \<Longrightarrow> P r \<Longrightarrow> \<exists>r'. db_first T s P = Inr r'"
    and first_err: "db_first T s P = Inl e \<Longrightarrow> e = ErrRecordNotFound"
    and count_ok: "\<exists>n. db_count T s P = Inr n"
    and create_ok: "tbl s (pk r) = None \<Longrightarrow>
          (\<And>k r'. tbl s k = Some r' \<Longrightarrow> uq r' \<noteq> uq (hook r)) \<Longrightarrow>
          \<exists>s'. db_create T s r = Inr s'"
    and save_ok: "(\<And>k r'. tbl s k = Some r' \<Longrightarrow> k \<noteq> pk r \<Longrightarrow> uq r' \<noteq> uq r) \<Longrightarrow>
          \<exists>s'. db_save T s r = Inr s'"
    and delete_ok: "\<exists>s' n. db_delete T s P = Inr (s', n)"
    and update_ok: "\<exists>s' n. db_update T s P f = Inr (s', n)"
    and begin_ok: "\<exists>t. db_begin T s = Inr t"
    and commit_ok: "\<exists>s'. db_commit T t = Inr s'"
begin

lemma first_total:
  "(\<exists>r. db_first T s P = Inr r) \<longleftrightarrow> (\<exists>k r. tbl s k = Some r \<and> P r)"
  using first_row first_ok by meson

lemma transaction_ok:
  assumes "\<And>t. tbl t = tbl s \<Longrightarrow> \<exists>t' x. f t = Inr (t', x)"
  shows "\<exists>s' x. db_transaction T s f = Inr (s', x)"
proof -
  obtain t where t: "db_begin T s = Inr t" using begin_ok by blast
  obtain t' x where f: "f t = Inr (t', x)" using assms begin_view [OF t] by blast
  obtain s' where "db_commit T t' = Inr s'" using commit_ok by blast
  with t f show ?thesis by (simp add: db_transaction_def)
qed

end

section \<open>A reference table\<close>

text \<open>
  Rows in insertion order. The first row with a key is the one that counts, so the laws
  hold for every list of rows; the operations never build a list with two rows of one key.
  A second row with the unique-index value of another is refused.
\<close>

definition mem_tbl :: "('r \<Rightarrow> 'k) \<Rightarrow> 'r list \<Rightarrow> 'k \<rightharpoonup> 'r" where
  "mem_tbl pk rows k = List.find (\<lambda>r. pk r = k) rows"

fun visible :: "('r \<Rightarrow> 'k) \<Rightarrow> 'r list \<Rightarrow> 'r list" where
  "visible pk [] = []"
| "visible pk (r # rs) = r # filter (\<lambda>x. pk x \<noteq> pk r) (visible pk rs)"

definition mem_create ::
  "('r \<Rightarrow> 'k) \<Rightarrow> ('r \<Rightarrow> 'u) \<Rightarrow> ('r \<Rightarrow> 'r) \<Rightarrow> 'r list \<Rightarrow> 'r \<Rightarrow> 'r list result" where
  "mem_create pk uq hook rows r =
     (if \<exists>x \<in> set (visible pk rows). pk x = pk r \<or> uq x = uq (hook r)
      then Inl (ErrDB ''UNIQUE constraint failed'') else Inr (rows @ [hook r]))"

definition mem_save :: "('r \<Rightarrow> 'k) \<Rightarrow> ('r \<Rightarrow> 'u) \<Rightarrow> 'r list \<Rightarrow> 'r \<Rightarrow> 'r list result" where
  "mem_save pk uq rows r =
     (if \<exists>x \<in> set (visible pk rows). pk x \<noteq> pk r \<and> uq x = uq r
      then Inl (ErrDB ''UNIQUE constraint failed'')
      else if \<exists>x \<in> set rows. pk x = pk r
      then Inr (map (\<lambda>x. if pk x = pk r then r else x) rows) else Inr (rows @ [r]))"

definition mem_api ::
  "('r \<Rightarrow> 'k) \<Rightarrow> ('r \<Rightarrow> 'u) \<Rightarrow> ('r \<Rightarrow> 'r) \<Rightarrow> ('r list, 'r) table_api" where
  "mem_api pk uq hook =
     \<lparr>db_find = (\<lambda>rows P. Inr (filter P (visible pk rows))),
      db_first = (\<lambda>rows P. case List.find P (visible pk rows) of
                             None \<Rightarrow> Inl ErrRecordNotFound | Some r \<Rightarrow> Inr r),
      db_count = (\<lambda>rows P. Inr (length (filter P (visible pk rows)))),
      db_create = mem_create pk uq hook,
      db_save = mem_save pk uq,
      db_delete = (\<lambda>rows P. Inr (filter (\<lambda>r. \<not> P r) (visible pk rows),
                                 length (filter P (visible pk rows)))),
      db_update = (\<lambda>rows P f. Inr (map (\<lambda>r. if P r then f r else r) (visible pk rows),
                                   length (filter P (visible pk rows)))),
      db_begin = (\<lambda>rows. Inr rows),
      db_commit = (\<lambda>rows. Inr rows)\<rparr>"

lemma visible_pk_distinct: "distinct (map pk (visible pk rows))"
  by (induction rows) (auto simp: distinct_map inj_on_def)

lemma visible_distinct [simp]: "distinct (visible pk rows)"
  using visible_pk_distinct distinct_map by blast

lemma visible_find:
  "List.find (\<lambda>r. pk r = k) (visible pk rows) = List.find (\<lambda>r. pk r = k) rows"
proof (induction rows)
  case Nil
  then show ?case by simp
next
  case (Cons r rs)
  have "List.find (\<lambda>x. pk x = k) (filter (\<lambda>x. pk x \<noteq> pk r) xs)
      = List.find (\<lambda>x. pk x = k) xs" if "pk r \<noteq> k" for xs
    using that by (induction xs) auto
  with Cons show ?case by simp
qed

lemma visible_set: "set (visible pk rows) = {r. mem_tbl pk rows (pk r) = Some r}"
proof -
  have "r \<in> set vs \<longleftrightarrow> List.find (\<lambda>x. pk x = pk r) vs = Some r"
    if "distinct (map pk vs)" for r and vs :: "'a list"
    using that by (induction vs) (auto simp: find_Some_iff image_iff)
  from this [OF visible_pk_distinct] show ?thesis
    by (auto simp: mem_tbl_def visible_find)
qed

lemma mem_tbl_pk: "mem_tbl pk rows k = Some r \<Longrightarrow> pk r = k"
  by (auto simp: mem_tbl_def dest: find_SomeD)

lemma mem_rows: "ran (mem_tbl pk rows) = set (visible pk rows)"
proof (intro set_eqI iffI)
  fix r assume "r \<in> ran (mem_tbl pk rows)"
  then obtain k where k: "mem_tbl pk rows k = Some r" by (auto simp: ran_def)
  with mem_tbl_pk [OF k] show "r \<in> set (visible pk rows)" by (simp add: visible_set)
next
  fix r assume "r \<in> set (visible pk rows)"
  then show "r \<in> ran (mem_tbl pk rows)" by (auto simp: visible_set intro: ranI)
qed

lemma mem_tbl_finite: "finite (dom (mem_tbl pk rows))"
proof -
  have "dom (mem_tbl pk rows) \<subseteq> pk ` set rows"
  proof
    fix k assume "k \<in> dom (mem_tbl pk rows)"
    then obtain r where "List.find (\<lambda>r. pk r = k) rows = Some r" by (auto simp: mem_tbl_def)
    from find_SomeD [OF this] show "k \<in> pk ` set rows" by blast
  qed
  then show ?thesis by (rule finite_subset) simp
qed

lemma mem_tbl_append:
  "mem_tbl pk (rows @ [r]) = (\<lambda>k. case mem_tbl pk rows k of
      Some x \<Rightarrow> Some x | None \<Rightarrow> if pk r = k then Some r else None)"
  by (rule ext, induction rows) (auto simp: mem_tbl_def)

lemma mem_tbl_replace:
  assumes "\<exists>x \<in> set rows. pk x = pk r"
  shows "mem_tbl pk (map (\<lambda>x. if pk x = pk r then r else x) rows)
       = (mem_tbl pk rows)(pk r \<mapsto> r)"
proof (rule ext)
  fix k
  show "mem_tbl pk (map (\<lambda>x. if pk x = pk r then r else x) rows) k
      = ((mem_tbl pk rows)(pk r \<mapsto> r)) k"
    using assms
  proof (induction rows)
    case Nil
    then show ?case by simp
  next
    case (Cons x xs)
    show ?case
    proof (cases "\<exists>y \<in> set xs. pk y = pk r")
      case True
      with Cons.IH show ?thesis by (auto simp: mem_tbl_def)
    next
      case False
      then have "map (\<lambda>x. if pk x = pk r then r else x) xs = xs"
        by (induction xs) auto
      with Cons.prems False show ?thesis by (auto simp: mem_tbl_def)
    qed
  qed
qed

lemma mem_tbl_visible: "mem_tbl pk (visible pk rows) = mem_tbl pk rows"
  by (rule ext) (simp add: mem_tbl_def visible_find)

lemma mem_tbl_filter:
  "mem_tbl pk (filter (\<lambda>r. \<not> P r) (visible pk rows)) = map_delete P (mem_tbl pk rows)"
proof -
  have "List.find (\<lambda>x. pk x = k) (filter (\<lambda>r. \<not> P r) vs)
      = map_delete P (\<lambda>k. List.find (\<lambda>x. pk x = k) vs) k"
    if "distinct (map pk vs)" for k vs
    using that
  proof (induction vs)
    case Nil
    then show ?case by (simp add: map_delete_def)
  next
    case (Cons v vs)
    have "List.find (\<lambda>x. pk x = pk v) vs = None"
      using Cons.prems by (auto simp: find_None_iff) (metis image_eqI)
    with Cons show ?case by (auto simp: map_delete_def)
  qed
  from this [OF visible_pk_distinct] show ?thesis
    by (intro ext) (simp add: mem_tbl_def visible_find [abs_def] visible_find map_delete_def)
qed

lemma mem_tbl_map:
  assumes "\<And>r. pk (f r) = pk r"
  shows "mem_tbl pk (map (\<lambda>r. if P r then f r else r) (visible pk rows))
       = map_change P f (mem_tbl pk rows)"
proof -
  have "List.find (\<lambda>x. pk x = k) (map (\<lambda>r. if P r then f r else r) vs)
      = map_change P f (\<lambda>k. List.find (\<lambda>x. pk x = k) vs) k" for k vs
    by (induction vs) (auto simp: map_change_def assms)
  then show ?thesis
    by (intro ext) (simp add: mem_tbl_def visible_find map_change_def)
qed

lemma mem_count: "length (filter P (visible pk rows))
    = card {r. mem_tbl pk rows (pk r) = Some r \<and> P r}"
proof -
  have "{r. mem_tbl pk rows (pk r) = Some r \<and> P r} = set (filter P (visible pk rows))"
    by (auto simp: visible_set)
  then show ?thesis by (simp add: card_set_filter_distinct)
qed

lemma mem_create_ok:
  assumes "mem_create pk uq hook rows r = Inr rows'" and "pk (hook r) = pk r"
  shows "mem_tbl pk rows (pk r) = None"
    and "mem_tbl pk rows' = (mem_tbl pk rows)(pk r \<mapsto> hook r)"
proof -
  from assms(1) have r': "rows' = rows @ [hook r]"
    and "\<forall>x \<in> set (visible pk rows). pk x \<noteq> pk r"
    by (auto simp: mem_create_def split: if_splits)
  then have "List.find (\<lambda>x. pk x = pk r) (visible pk rows) = None"
    by (simp add: find_None_iff)
  then show n: "mem_tbl pk rows (pk r) = None"
    by (simp add: mem_tbl_def visible_find)
  show "mem_tbl pk rows' = (mem_tbl pk rows)(pk r \<mapsto> hook r)"
  proof (rule ext)
    fix k
    show "mem_tbl pk rows' k = ((mem_tbl pk rows)(pk r \<mapsto> hook r)) k"
      using n assms(2) by (cases "mem_tbl pk rows k") (auto simp: r' mem_tbl_append)
  qed
qed

lemma mem_save_ok:
  assumes "mem_save pk uq rows r = Inr rows'"
  shows "mem_tbl pk rows' = (mem_tbl pk rows)(pk r \<mapsto> r)"
proof (cases "\<exists>x \<in> set rows. pk x = pk r")
  case True
  with assms have "rows' = map (\<lambda>x. if pk x = pk r then r else x) rows"
    by (auto simp: mem_save_def split: if_splits)
  with True show ?thesis by (simp add: mem_tbl_replace)
next
  case False
  with assms have "rows' = rows @ [r]" by (auto simp: mem_save_def split: if_splits)
  moreover have "mem_tbl pk rows (pk r) = None"
    using False by (auto simp: mem_tbl_def find_None_iff)
  ultimately show ?thesis
    by (intro ext) (auto simp: mem_tbl_append split: option.split)
qed

lemma mem_api_simps [simp]:
  "db_find (mem_api pk uq hook) rows P = Inr (filter P (visible pk rows))"
  "db_first (mem_api pk uq hook) rows P
     = (case List.find P (visible pk rows) of None \<Rightarrow> Inl ErrRecordNotFound | Some r \<Rightarrow> Inr r)"
  "db_count (mem_api pk uq hook) rows P = Inr (length (filter P (visible pk rows)))"
  "db_create (mem_api pk uq hook) = mem_create pk uq hook"
  "db_save (mem_api pk uq hook) = mem_save pk uq"
  "db_delete (mem_api pk uq hook) rows P
     = Inr (filter (\<lambda>r. \<not> P r) (visible pk rows), length (filter P (visible pk rows)))"
  "db_update (mem_api pk uq hook) rows P f
     = Inr (map (\<lambda>r. if P r then f r else r) (visible pk rows),
            length (filter P (visible pk rows)))"
  "db_begin (mem_api pk uq hook) rows = Inr rows"
  "db_commit (mem_api pk uq hook) rows = Inr rows"
  by (simp_all add: mem_api_def)

lemma mem_gorm_table:
  assumes "\<And>r. pk (hook r) = pk r"
  shows "gorm_table (mem_api pk uq hook) (mem_tbl pk) pk hook"
proof (rule gorm_table.intro)
  fix rows k r
  show "mem_tbl pk rows k = Some r \<Longrightarrow> pk r = k" by (rule mem_tbl_pk)
next
  fix rows
  show "finite (dom (mem_tbl pk rows))" by (rule mem_tbl_finite)
next
  fix r show "pk (hook r) = pk r" by (rule assms)
next
  fix rows rs and P :: "'a \<Rightarrow> bool"
  assume "db_find (mem_api pk uq hook) rows P = Inr rs"
  then show "distinct rs \<and> set rs = {r. mem_tbl pk rows (pk r) = Some r \<and> P r}"
    by (auto simp: visible_set)
next
  fix rows r and P :: "'a \<Rightarrow> bool"
  assume "db_first (mem_api pk uq hook) rows P = Inr r"
  then have "r \<in> set (visible pk rows)" and "P r"
    by (auto split: option.splits dest: find_SomeD)
  then show "mem_tbl pk rows (pk r) = Some r \<and> P r" by (simp add: visible_set)
next
  fix rows k r and P :: "'a \<Rightarrow> bool"
  assume "db_first (mem_api pk uq hook) rows P = Inl ErrRecordNotFound"
    and "mem_tbl pk rows k = Some r"
  moreover from this(2) have "r \<in> set (visible pk rows)"
    by (auto simp: visible_set dest: mem_tbl_pk)
  ultimately show "\<not> P r" by (auto simp: find_None_iff split: option.splits)
next
  fix rows n and P :: "'a \<Rightarrow> bool"
  assume "db_count (mem_api pk uq hook) rows P = Inr n"
  then show "n = card {r. mem_tbl pk rows (pk r) = Some r \<and> P r}" by (simp add: mem_count)
next
  fix rows r rows'
  assume "db_create (mem_api pk uq hook) rows r = Inr rows'"
  then show "mem_tbl pk rows (pk r) = None
      \<and> mem_tbl pk rows' = (mem_tbl pk rows)(pk r \<mapsto> hook r)"
    using mem_create_ok [where pk = pk and hook = hook] assms by auto
next
  fix rows r rows'
  assume "db_save (mem_api pk uq hook) rows r = Inr rows'"
  then show "mem_tbl pk rows' = (mem_tbl pk rows)(pk r \<mapsto> r)" by (simp add: mem_save_ok)
next
  fix rows rows' n and P :: "'a \<Rightarrow> bool"
  assume "db_delete (mem_api pk uq hook) rows P = Inr (rows', n)"
  then show "mem_tbl pk rows' = map_delete P (mem_tbl pk rows)
      \<and> n = card {r. mem_tbl pk rows (pk r) = Some r \<and> P r}"
    by (auto simp: mem_tbl_filter mem_count)
next
  fix rows rows' n and P :: "'a \<Rightarrow> bool" and f :: "'a \<Rightarrow> 'a"
  assume "db_update (mem_api pk uq hook) rows P f = Inr (rows', n)"
    and "\<And>r. pk (f r) = pk r"
  then show "mem_tbl pk rows' = map_change P f (mem_tbl pk rows)
      \<and> n = card {r. mem_tbl pk rows (pk r) = Some r \<and> P r}"
    by (auto simp: mem_tbl_map mem_count)
qed simp_all

lemma mem_reliable:
  assumes "\<And>r. pk (hook r) = pk r"
  shows "reliable_table (mem_api pk uq hook) (mem_tbl pk) pk hook uq"
proof (intro reliable_table.intro mem_gorm_table reliable_table_axioms.intro assms)
  fix s k r and P :: "'a \<Rightarrow> bool"
  assume "mem_tbl pk s k = Some r" and "P r"
  then have "r \<in> set (visible pk s)" by (auto simp: visible_set dest: mem_tbl_pk)
  with \<open>P r\<close> obtain x where "List.find P (visible pk s) = Some x" by (metis find_SomeI)
  then show "\<exists>r'. db_first (mem_api pk uq hook) s P = Inr r'" by simp
next
  fix s r
  assume "mem_tbl pk s (pk r) = None"
    and "\<And>k r'. mem_tbl pk s k = Some r' \<Longrightarrow> uq r' \<noteq> uq (hook r)"
  then show "\<exists>s'. db_create (mem_api pk uq hook) s r = Inr s'"
    by (auto simp: mem_create_def visible_set)
next
  fix s r
  assume "\<And>k r'. mem_tbl pk s k = Some r' \<Longrightarrow> k \<noteq> pk r \<Longrightarrow> uq r' \<noteq> uq r"
  then show "\<exists>s'. db_save (mem_api pk uq hook) s r = Inr s'"
    by (auto simp: mem_save_def visible_set)
qed (auto split: option.splits)

end
