(* ===== verification/NodesRepo.thy ===== *)
theory NodesRepo
  imports NodeTypes Store
begin

text \<open>
  The node repository, \<open>internal/nodes/repository.go\<close>, and \<open>internal/wg/service.go\<close>. The
  table of nodes is reached through the interface of \<open>Store\<close>; \<open>'s\<close> is the state of that
  table. \<open>env\<close> holds what one operation takes from outside: command execution, a fresh
  UUID, the clock, randomness and the certificate primitives.
\<close>

section \<open>Environment and constants\<close>

record ('c, 'k) env =
  env_exec :: "string \<Rightarrow> string list \<Rightarrow> string result"
  env_uuid :: string
  env_now :: int
  env_rnd :: nat
  env_crypto :: "('c, 'k) crypto"

definition GenerateKeyPair :: "(string \<Rightarrow> string list \<Rightarrow> string result) \<Rightarrow> (string \<times> string) result"
  where
  "GenerateKeyPair exec =
     rbind (exec ''wg'' [''genkey'']) (\<lambda>privateKey.
     rbind (exec ''sh'' [''-c'', ''echo '' @ privateKey @ '' | wg pubkey'']) (\<lambda>publicKey.
     Inr (privateKey, publicKey)))"

text \<open>\<open>config.CertExpiry\<close>: five years, in seconds.\<close>

definition CertExpiry :: int where
  "CertExpiry = 60 * 60 * 24 * 365 * 5"

definition dockerSubnetStart :: nat where "dockerSubnetStart = 20"
definition dockerSubnetEnd :: nat where "dockerSubnetEnd = 31"
definition wgPrivateIPStart :: nat where "wgPrivateIPStart = 1"
definition wgPrivateIPEnd :: nat where "wgPrivateIPEnd = 254"

section \<open>Scanning a range for a free value\<close>

text \<open>
  The loop shared by the two allocators: the values are tried in order, a value already
  in use is skipped, the first free one is the answer.
\<close>

fun scan :: "(nat \<Rightarrow> 'a result) \<Rightarrow> ('a \<Rightarrow> bool) \<Rightarrow> go_error \<Rightarrow> nat list \<Rightarrow> 'a result" where
  "scan mk taken full [] = Inl full"
| "scan mk taken full (k # ks) =
     rbind (mk k) (\<lambda>x. if taken x then scan mk taken full ks else Inr x)"

definition mk_docker_subnet :: "nat \<Rightarrow> ipnet result" where
  "mk_docker_subnet networkNum =
     (let i = ParseIP (''172.'' @ itoa networkNum @ ''.0.0'')
      in if i = [] then Inl ErrFailedToParseIP
         else Inr \<lparr>net_ip = i, net_mask = CIDRMask 16 32\<rparr>)"

definition mk_wg_ip :: "nat \<Rightarrow> ip result" where
  "mk_wg_ip networkNum =
     (let i = ParseIP (''10.0.0.'' @ itoa networkNum)
      in if i = [] then Inl ErrFailedToParseIP else Inr i)"

definition uses_subnet :: "node \<Rightarrow> string \<Rightarrow> bool" where
  "uses_subnet n d = (case node_DockerSubnet n of None \<Rightarrow> False | Some x \<Rightarrow> IPNet_String x = d)"

abbreviation docker_roles :: "node \<Rightarrow> bool" where
  "docker_roles \<equiv> \<lambda>n. node_Role n = NodeRoleServer \<or> node_Role n = NodeRoleGateway"

definition GetNextAssignableDockerSubnet :: "('s, node) table_api \<Rightarrow> 's \<Rightarrow> ipnet result" where
  "GetNextAssignableDockerSubnet T s =
     rbind (db_find T s docker_roles) (\<lambda>nodes.
       scan mk_docker_subnet (\<lambda>p. \<exists>n \<in> set nodes. uses_subnet n (IPNet_String p))
         ErrNoAvailableDockerSubnets [dockerSubnetStart ..< Suc dockerSubnetEnd])"

definition GetNextAssignableWGPrivateIP :: "('s, node) table_api \<Rightarrow> 's \<Rightarrow> ip result" where
  "GetNextAssignableWGPrivateIP T s =
     rbind (db_find T s (\<lambda>_. True)) (\<lambda>nodes.
       scan mk_wg_ip (\<lambda>i. \<exists>n \<in> set nodes. node_addr n = IPToString i)
         ErrNoAvailableWGPrivateIPs [wgPrivateIPStart ..< Suc wgPrivateIPEnd])"

section \<open>Queries\<close>

definition GetByID :: "('s, node) table_api \<Rightarrow> string \<Rightarrow> 's \<Rightarrow> node result" where
  "GetByID T i s = db_first T s (\<lambda>n. node_ID n = i)"

definition GetNodesByRole :: "('s, node) table_api \<Rightarrow> node_role \<Rightarrow> 's \<Rightarrow> node list result" where
  "GetNodesByRole T role s = db_find T s (\<lambda>n. node_Role n = role)"

definition GetServerByWGPrivateIP :: "('s, node) table_api \<Rightarrow> string \<Rightarrow> 's \<Rightarrow> node result" where
  "GetServerByWGPrivateIP T i s =
     (case ParseIPNetMarshable (trim_space i) False of
        Inl e \<Rightarrow> Inl (ErrText (''invalid IP address: '' @ err_text e))
      | Inr ipnet \<Rightarrow>
          rbind (GetNodesByRole T NodeRoleServer s) (\<lambda>nodes.
            (case List.find (\<lambda>n. node_addr n = IPToString (net_ip ipnet)) nodes of
               None \<Rightarrow> Inl ErrRecordNotFound
             | Some n \<Rightarrow> Inr n)))"

definition GetCurrentNode :: "('s, node) table_api \<Rightarrow> 's \<Rightarrow> node result" where
  "GetCurrentNode T s = db_first T s node_IsCurrentNode"

text \<open>\<open>GetGatewayNode\<close>: no gateway is \<open>nil\<close> without an error.\<close>

definition GetGatewayNode :: "('s, node) table_api \<Rightarrow> 's \<Rightarrow> node option result" where
  "GetGatewayNode T s =
     (case db_first T s (\<lambda>n. node_Role n = NodeRoleGateway) of
        Inl e \<Rightarrow> if err_text e = ''record not found'' then Inr None else Inl e
      | Inr g \<Rightarrow> Inr (Some g))"

definition IsDockerSubnetAvailable :: "('s, node) table_api \<Rightarrow> ipnet \<Rightarrow> 's \<Rightarrow> bool" where
  "IsDockerSubnetAvailable T dockerSubnet s =
     (case db_find T s docker_roles of
        Inl e \<Rightarrow> False
      | Inr nodes \<Rightarrow> \<not> (\<exists>n \<in> set nodes. uses_subnet n (IPNet_String dockerSubnet)))"

definition IsWGPrivateIPAvailable :: "('s, node) table_api \<Rightarrow> ip \<Rightarrow> 's \<Rightarrow> bool" where
  "IsWGPrivateIPAvailable T i s =
     (case db_find T s (\<lambda>_. True) of
        Inl e \<Rightarrow> False
      | Inr nodes \<Rightarrow> \<not> (\<exists>n \<in> set nodes. node_addr n = IP_String i))"

definition TotalAndAvailableDockerSubnets ::
  "('s, node) table_api \<Rightarrow> 's \<Rightarrow> (int \<times> int) result" where
  "TotalAndAvailableDockerSubnets T s =
     rbind (db_find T s docker_roles) (\<lambda>nodes.
       Inr (int (length nodes),
            int dockerSubnetEnd - int dockerSubnetStart + 1 - int (length nodes)))"

definition TotalAvailableWireguardClients ::
  "('s, node) table_api \<Rightarrow> 's \<Rightarrow> (int \<times> int) result" where
  "TotalAvailableWireguardClients T s =
     rbind (db_count T s (\<lambda>_. True)) (\<lambda>c.
       Inr (int c, int wgPrivateIPEnd - int wgPrivateIPStart + 1 - int c))"

definition IsCurrentNodeGateway :: "('s, node) table_api \<Rightarrow> 's \<Rightarrow> bool" where
  "IsCurrentNodeGateway T s =
     (case db_first T s node_IsCurrentNode of
        Inl e \<Rightarrow> False | Inr n \<Rightarrow> node_Role n = NodeRoleGateway)"

definition CountNodesByRole :: "('s, node) table_api \<Rightarrow> node_role \<Rightarrow> 's \<Rightarrow> int result" where
  "CountNodesByRole T role s =
     rbind (db_count T s (\<lambda>n. node_Role n = role)) (\<lambda>c. Inr (int c))"


section \<open>Allocators\<close>

lemma scan_Inr:
  assumes "scan mk taken full [a..<b] = Inr x"
  obtains k where "a \<le> k" and "k < b" and "mk k = Inr x" and "\<not> taken x"
    and "\<And>j. a \<le> j \<Longrightarrow> j < k \<Longrightarrow> \<exists>y. mk j = Inr y \<and> taken y"
proof -
  have "\<exists>k. a \<le> k \<and> k < b \<and> mk k = Inr x \<and> \<not> taken x
      \<and> (\<forall>j. a \<le> j \<and> j < k \<longrightarrow> (\<exists>y. mk j = Inr y \<and> taken y))"
    using assms
  proof (induction "b - a" arbitrary: a)
    case 0
    then show ?case by simp
  next
    case (Suc d)
    from Suc.hyps(2) have "a < b" by arith
    then have upt: "[a..<b] = a # [Suc a..<b]" by (simp add: upt_conv_Cons)
    with Suc.prems obtain y where y: "mk a = Inr y"
      and s: "(if taken y then scan mk taken full [Suc a..<b] else Inr y) = Inr x"
      by (auto simp: result_simps)
    show ?case
    proof (cases "taken y")
      case False
      with s y \<open>a < b\<close> show ?thesis by auto
    next
      case True
      with s have "scan mk taken full [Suc a..<b] = Inr x" by simp
      from Suc.hyps(1) [OF _ this] Suc.hyps(2) obtain k
        where k: "Suc a \<le> k" "k < b" "mk k = Inr x" "\<not> taken x"
          and *: "\<forall>j. Suc a \<le> j \<and> j < k \<longrightarrow> (\<exists>y. mk j = Inr y \<and> taken y)" by fastforce
      have "\<forall>j. a \<le> j \<and> j < k \<longrightarrow> (\<exists>y. mk j = Inr y \<and> taken y)"
        using * True y by (metis Suc_leI le_neq_implies_less)
      with k show ?thesis by (auto intro: Suc_leD)
    qed
  qed
  then show thesis using that by blast
qed

lemma scan_Inl:
  assumes "scan mk taken full ks = Inl e" and "\<And>k. k \<in> set ks \<Longrightarrow> \<exists>x. mk k = Inr x"
  shows "e = full" and "k \<in> set ks \<Longrightarrow> mk k = Inr x \<Longrightarrow> taken x"
proof -
  have "e = full \<and> (\<forall>k \<in> set ks. \<forall>x. mk k = Inr x \<longrightarrow> taken x)"
    using assms
  proof (induction ks)
    case Nil
    then show ?case by simp
  next
    case (Cons k ks)
    from Cons.prems(2) [of k] obtain y where y: "mk k = Inr y" by auto
    with Cons.prems(1) have t: "taken y" and s: "scan mk taken full ks = Inl e"
      by (auto split: if_splits)
    have "e = full \<and> (\<forall>k \<in> set ks. \<forall>x. mk k = Inr x \<longrightarrow> taken x)"
      by (rule Cons.IH [OF s]) (use Cons.prems(2) in auto)
    with t y show ?case by auto
  qed
  then show "e = full" and "k \<in> set ks \<Longrightarrow> mk k = Inr x \<Longrightarrow> taken x" by blast+
qed

text \<open>
  What both allocators promise, from a numbering of the candidates whose printed forms
  differ: a fresh candidate, the least one, and an answer as long as fewer values are in
  use than there are candidates.
\<close>

locale allocator =
  fixes mk :: "nat \<Rightarrow> 'a result" and key :: "'a \<Rightarrow> string" and lo hi :: nat
    and full :: go_error
  assumes mk_ok: "lo \<le> k \<Longrightarrow> k < hi \<Longrightarrow> \<exists>x. mk k = Inr x"
    and key_inj: "lo \<le> k \<Longrightarrow> k < hi \<Longrightarrow> lo \<le> j \<Longrightarrow> j < hi \<Longrightarrow>
          mk k = Inr x \<Longrightarrow> mk j = Inr y \<Longrightarrow> key x = key y \<Longrightarrow> k = j"
begin

lemma fresh: "scan mk (\<lambda>x. key x \<in> used) full [lo..<hi] = Inr x \<Longrightarrow> key x \<notin> used"
  by (erule scan_Inr) simp

lemma least:
  assumes "scan mk (\<lambda>x. key x \<in> used) full [lo..<hi] = Inr x"
  obtains k where "lo \<le> k" and "k < hi" and "mk k = Inr x"
    and "\<And>j y. lo \<le> j \<Longrightarrow> j < k \<Longrightarrow> mk j = Inr y \<Longrightarrow> key y \<in> used"
  using assms by (rule scan_Inr) fastforce

lemma exhausted:
  "scan mk (\<lambda>x. key x \<in> used) full [lo..<hi] = Inl e \<longleftrightarrow>
     e = full \<and> (\<forall>k x. lo \<le> k \<and> k < hi \<and> mk k = Inr x \<longrightarrow> key x \<in> used)"
  (is "?l \<longleftrightarrow> ?r")
proof
  assume ?l
  from scan_Inl [OF this] mk_ok show ?r by auto
next
  assume r: ?r
  show ?l
  proof (cases "scan mk (\<lambda>x. key x \<in> used) full [lo..<hi]")
    case (Inl e')
    from scan_Inl(1) [OF this] mk_ok r have "e' = e" by auto
    with Inl show ?thesis by simp
  next
    case (Inr x)
    from fresh [OF Inr] r show ?thesis using Inr by (auto elim: scan_Inr)
  qed
qed

lemma room:
  assumes "finite used" and "card used < hi - lo"
  shows "\<exists>x. scan mk (\<lambda>x. key x \<in> used) full [lo..<hi] = Inr x"
proof (rule ccontr)
  assume "\<not> ?thesis"
  then obtain e where "scan mk (\<lambda>x. key x \<in> used) full [lo..<hi] = Inl e"
    by (cases "scan mk (\<lambda>x. key x \<in> used) full [lo..<hi]") auto
  then have all: "\<And>k x. lo \<le> k \<Longrightarrow> k < hi \<Longrightarrow> mk k = Inr x \<Longrightarrow> key x \<in> used"
    by (simp add: exhausted)
  define f where "f k = key (projr (mk k))" for k
  have "inj_on f {lo..<hi}"
  proof (rule inj_onI)
    fix k j assume kj: "k \<in> {lo..<hi}" "j \<in> {lo..<hi}" and f: "f k = f j"
    from kj mk_ok obtain x y where "mk k = Inr x" and "mk j = Inr y"
      by (metis atLeastLessThan_iff)
    with kj f show "k = j" using key_inj [of k j x y] by (simp add: f_def)
  qed
  moreover have "f ` {lo..<hi} \<subseteq> used"
  proof (rule image_subsetI)
    fix k assume k: "k \<in> {lo..<hi}"
    with mk_ok obtain x where "mk k = Inr x" by (metis atLeastLessThan_iff)
    with k show "f k \<in> used" using all [of k x] by (simp add: f_def)
  qed
  ultimately have "card {lo..<hi} \<le> card used" using assms(1) by (metis card_inj_on_le)
  with assms(2) show False by simp
qed

end

lemma of_nat_byte_eq: "k < 256 \<Longrightarrow> unat (of_nat k :: 8 word) = k"
  by (simp add: unat_of_nat)

lemma of_nat_byte_inj: "k < 256 \<Longrightarrow> j < 256 \<Longrightarrow> (of_nat k :: 8 word) = of_nat j \<Longrightarrow> k = j"
  by (metis of_nat_byte_eq)

lemma itoa_range_octets:
  "itoa 0 = ''0''" "itoa 10 = ''10''" "itoa 172 = ''172''"
  by code_simp+

lemma mk_wg_ip_eq:
  assumes "k < 256"
  shows "mk_wg_ip k = Inr (v4mapped 10 0 0 (of_nat k))"
proof -
  have "''10.0.0.'' @ itoa k = dotted 10 0 0 (of_nat k)"
    using of_nat_byte_eq [OF assms] by (simp add: dotted_def itoa_range_octets)
  then show ?thesis by (simp add: mk_wg_ip_def ParseIP_dotted)
qed

lemma mk_docker_subnet_eq:
  assumes "k < 256"
  shows "mk_docker_subnet k
       = Inr \<lparr>net_ip = v4mapped 172 (of_nat k) 0 0, net_mask = CIDRMask 16 32\<rparr>"
proof -
  have "''172.'' @ itoa k @ ''.0.0'' = dotted 172 (of_nat k) 0 0"
    using of_nat_byte_eq [OF assms] by (simp add: dotted_def itoa_range_octets)
  then show ?thesis by (simp add: mk_docker_subnet_def ParseIP_dotted)
qed

interpretation wg_alloc: allocator mk_wg_ip IPToString wgPrivateIPStart "Suc wgPrivateIPEnd"
  ErrNoAvailableWGPrivateIPs
proof (unfold_locales, goal_cases)
  case (1 k)
  then show ?case by (auto simp: mk_wg_ip_eq wgPrivateIPEnd_def)
next
  case (2 k j x y)
  then have "k < 256" and "j < 256" by (simp_all add: wgPrivateIPEnd_def)
  with 2 show ?case by (auto simp: mk_wg_ip_eq intro: of_nat_byte_inj)
qed

interpretation docker_alloc: allocator mk_docker_subnet IPNet_String dockerSubnetStart
  "Suc dockerSubnetEnd" ErrNoAvailableDockerSubnets
proof (unfold_locales, goal_cases)
  case (1 k)
  then show ?case by (auto simp: mk_docker_subnet_eq dockerSubnetEnd_def)
next
  case (2 k j x y)
  then have "k < 256" and "j < 256" by (simp_all add: dockerSubnetEnd_def)
  with 2 show ?case by (auto simp: mk_docker_subnet_eq IPNet_String_v4 intro: of_nat_byte_inj)
qed

end
