(* ===== verification/NodesWrite.thy ===== *)
theory NodesWrite
  imports NodesRepo
begin

text \<open>
  The operations of \<open>internal/nodes/repository.go\<close> that change the table of nodes:
  refreshing the WireGuard configuration of every node, creating a gateway, a server or a
  client, saving and deleting nodes, and the labels of a node. An operation of the outer
  API has type \<open>('s, 'a) op\<close>: the state it returns is the one the database is left in,
  also when a later step fails.
\<close>

section \<open>Refreshing the configurations\<close>

definition filterNodes :: "node list \<Rightarrow> node_role list \<Rightarrow> node list" where
  "filterNodes allNodes roles = filter (\<lambda>n. node_Role n \<in> set roles) allNodes"

text \<open>What the code reads with an ignored error: the zero value of the destination.\<close>

definition first_or_zero :: "('s, node) table_api \<Rightarrow> 's \<Rightarrow> (node \<Rightarrow> bool) \<Rightarrow> node" where
  "first_or_zero T t P = (case db_first T t P of Inl e \<Rightarrow> zero_node | Inr n \<Rightarrow> n)"

definition find_or_nil :: "('s, node) table_api \<Rightarrow> 's \<Rightarrow> (node \<Rightarrow> bool) \<Rightarrow> node list" where
  "find_or_nil T t P = (case db_find T t P of Inl e \<Rightarrow> [] | Inr ns \<Rightarrow> ns)"

definition save_or_keep :: "('s, node) table_api \<Rightarrow> 's \<Rightarrow> node \<Rightarrow> 's" where
  "save_or_keep T t n = (case db_save T t n of Inl e \<Rightarrow> t | Inr t' \<Rightarrow> t')"

text \<open>
  The peer of the gateway for a client or server: its address, and for a server its docker
  subnet, whose nil pointer would be dereferenced.
\<close>

definition gateway_peer :: "node \<Rightarrow> wg_peer result" where
  "gateway_peer n =
     rbind (if node_Role n = NodeRoleServer
            then (case node_DockerSubnet n of
                    None \<Rightarrow> Inl NilDereference
                  | Some d \<Rightarrow> Inr [node_addr n @ ''/32'', IPNet_String d])
            else if node_Role n = NodeRoleClient then Inr [node_addr n @ ''/32'']
            else Inr []) (\<lambda>allowedIPs.
     Inr \<lparr>peer_PublicKey = node_WGPublicKey n, peer_Endpoint = None,
          peer_AllowedIPs = MapStringsToIPNetMarshables allowedIPs,
          peer_PersistentKeepalive = None\<rparr>)"

definition refresh_gateway :: "node list \<Rightarrow> node \<Rightarrow> node result" where
  "refresh_gateway oldNodes n =
     (let dns = ''127.0.0.11'' # map node_addr (filterNodes oldNodes [NodeRoleServer]);
          n' = set_dns (MapStringsToIPNetMarshables dns) n
      in rbind (rmap gateway_peer (filterNodes oldNodes [NodeRoleClient, NodeRoleServer]))
           (\<lambda>ps. Inr (set_peers ps n')))"

definition gateway_endpoint :: "string \<Rightarrow> 16 word \<Rightarrow> udpaddr" where
  "gateway_endpoint publicIP port = \<lparr>udp_ip = ParseIP publicIP, udp_port = int (unat port)\<rparr>"

definition refresh_member :: "node \<Rightarrow> udpaddr \<Rightarrow> node \<Rightarrow> node" where
  "refresh_member gw endpoint n =
     (let dns = node_addr gw # (if node_Role n = NodeRoleServer then [''127.0.0.11''] else []);
          allowedIPs = (if node_Role n = NodeRoleServer then [''10.0.0.0/24'']
                        else [''172.16.0.0/12'', node_addr gw @ ''/24''])
      in set_peers
           [\<lparr>peer_PublicKey = node_WGPublicKey gw, peer_Endpoint = Some endpoint,
             peer_AllowedIPs = MapStringsToIPNetMarshables allowedIPs,
             peer_PersistentKeepalive = Some 15\<rparr>]
           (set_dns (MapStringsToIPNetMarshables dns) n))"

definition refresh_node :: "node \<Rightarrow> udpaddr \<Rightarrow> node list \<Rightarrow> node \<Rightarrow> node result" where
  "refresh_node gw endpoint oldNodes n =
     (if node_Role n = NodeRoleGateway then refresh_gateway oldNodes n
      else if node_Role n = NodeRoleServer \<or> node_Role n = NodeRoleClient
      then Inr (refresh_member gw endpoint n) else Inr n)"

fun update_loop ::
  "('s, node) table_api \<Rightarrow> (node \<Rightarrow> node result) \<Rightarrow> node list \<Rightarrow> 's \<Rightarrow> 's result" where
  "update_loop T f [] t = Inr t"
| "update_loop T f (n # ns) t =
     rbind (f n) (\<lambda>n'. update_loop T f ns (save_or_keep T t n'))"

definition update_nodes_tx :: "('s, node) table_api \<Rightarrow> 's \<Rightarrow> ('s \<times> unit) result" where
  "update_nodes_tx T t =
     (let gw = first_or_zero T t (\<lambda>n. node_Role n = NodeRoleGateway)
      in if node_ID gw = [] then Inl ErrGatewayNodeNotFound
         else case (node_WGPublicIP gw, node_WGPublicPort gw) of
           (Some publicIP, Some port) \<Rightarrow>
             (let oldNodes = find_or_nil T t (\<lambda>_. True)
              in rbind (update_loop T
                   (refresh_node gw (gateway_endpoint publicIP port) oldNodes) oldNodes t)
                   (\<lambda>t'. Inr (t', ())))
         | _ \<Rightarrow> Inl ErrGatewayNodePublicIPPortNotFound)"

definition updateNodes :: "('s, node) table_api \<Rightarrow> ('s, unit) op" where
  "updateNodes T = s_write (\<lambda>s. db_transaction T s (update_nodes_tx T))"

section \<open>Creating nodes\<close>

definition wg_address :: "ip \<Rightarrow> ipnet" where
  "wg_address i = \<lparr>net_ip = i, net_mask = CIDRMask 24 32\<rparr>"

definition new_gateway ::
  "string \<Rightarrow> string \<times> string \<Rightarrow> ip \<Rightarrow> gateway_bundle \<Rightarrow> ip \<Rightarrow> 16 word \<Rightarrow> string \<Rightarrow> 16 word \<Rightarrow> node"
  where
  "new_gateway nodeID keys wgPrivateIP bundle WGPublicIP WGPublicPort gatewayPublicIP gatewayPublicPort =
     zero_node
       \<lparr>node_ID := nodeID, node_Role := NodeRoleGateway,
        node_WGPrivateKey := fst keys, node_WGPublicKey := snd keys,
        node_WGConfig :=
          \<lparr>wg_Interface = \<lparr>if_Address = wg_address wgPrivateIP,
             if_ListenPort = Some WGPublicPort, if_PrivateKey = fst keys, if_DNS = [],
             if_PostUp = ''iptables -A FORWARD -i wg0 -j ACCEPT; iptables -t nat -A POSTROUTING -o eth1 -j MASQUERADE'',
             if_PostDown = ''iptables -D FORWARD -i wg0 -j ACCEPT; iptables -t nat -D POSTROUTING -o eth1 -j MASQUERADE''\<rparr>,
           wg_Peers = []\<rparr>,
        node_WGPublicIP := Some (IP_String WGPublicIP), node_WGPublicPort := Some WGPublicPort,
        node_GatewayPublicIP := gatewayPublicIP, node_GatewayPublicPort := gatewayPublicPort,
        node_GatewayCertBundle := Some bundle, node_IsCurrentNode := True\<rparr>"

definition new_member ::
  "node_role \<Rightarrow> string \<Rightarrow> string \<times> string \<Rightarrow> ip \<Rightarrow> client_bundle \<Rightarrow> ipnet option \<Rightarrow> node \<Rightarrow> node" where
  "new_member role nodeID keys wgPrivateIP clientBundle dockerSubnet gw =
     zero_node
       \<lparr>node_ID := nodeID, node_Role := role,
        node_WGPrivateKey := fst keys, node_WGPublicKey := snd keys,
        node_WGConfig :=
          \<lparr>wg_Interface = \<lparr>if_Address = wg_address wgPrivateIP,
             if_ListenPort = None, if_PrivateKey = fst keys, if_DNS = [],
             if_PostUp = [], if_PostDown = []\<rparr>,
           wg_Peers = [\<lparr>peer_PublicKey = node_WGPublicKey gw, peer_Endpoint = None,
                        peer_AllowedIPs = [], peer_PersistentKeepalive = None\<rparr>]\<rparr>,
        node_GatewayPublicIP := node_GatewayPublicIP gw,
        node_GatewayPublicPort := node_GatewayPublicPort gw,
        node_ClientCertBundle := Some clientBundle, node_DockerSubnet := dockerSubnet\<rparr>"

text \<open>The end of every creation: refresh all configurations, then read the new node back.\<close>

definition refreshed :: "('s, node) table_api \<Rightarrow> string \<Rightarrow> ('s, node) op" where
  "refreshed T nodeID = s_bind (updateNodes T) (\<lambda>_. s_read (GetByID T nodeID))"

definition CreateGateway ::
  "('c, 'k) env \<Rightarrow> ('s, node) table_api \<Rightarrow> ip \<Rightarrow> 16 word \<Rightarrow> string \<Rightarrow> 16 word \<Rightarrow> ('s, node) op" where
  "CreateGateway E T WGPublicIP WGPublicPort gatewayPublicIP gatewayPublicPort =
     s_bind (s_write (\<lambda>s.
       if is_ok (db_first T s (\<lambda>n. node_Role n = NodeRoleGateway))
       then Inl ErrGatewayNodeAlreadyExists
       else rbind (GetNextAssignableWGPrivateIP T s) (\<lambda>wgPrivateIP.
         rbind (GenerateKeyPair (env_exec E)) (\<lambda>keys.
         rbind (GenerateBundle (env_crypto E) (env_rnd E) (env_now E)
                  \<lparr>CommonName = env_uuid E, Expiry = CertExpiry, DNSNames = [],
                   IPAddresses = [gatewayPublicIP]\<rparr> CertExpiry) (\<lambda>bundle.
         db_transaction T s (\<lambda>t.
           rbind (db_create T t (new_gateway (env_uuid E) keys wgPrivateIP bundle
                    WGPublicIP WGPublicPort gatewayPublicIP gatewayPublicPort))
             (\<lambda>t'. Inr (t', ()))))))))
       (\<lambda>_. refreshed T (env_uuid E))"

text \<open>
  The step \<open>CreateServer\<close> and \<open>CreateClient\<close> share: a certificate for the new name in the
  gateway's bundle (a nil pointer where the gateway has none), the gateway row saved with
  the error of the call ignored, and the bundle handed to the new node.
\<close>

definition issue_client ::
  "('c, 'k) env \<Rightarrow> ('s, node) table_api \<Rightarrow> node \<Rightarrow> 's \<Rightarrow> ('s \<times> client_bundle) result" where
  "issue_client E T gw t =
     (case node_GatewayCertBundle gw of None \<Rightarrow> Inl NilDereference | Some b \<Rightarrow>
      rbind (AddClient (env_crypto E) (env_rnd E) (env_now E)
               \<lparr>CommonName = env_uuid E, Expiry = CertExpiry, DNSNames = [], IPAddresses = []\<rparr> b)
        (\<lambda>b'. rbind (GetClientBundlePublic (env_uuid E) b') (\<lambda>clientCertBundle.
           Inr (save_or_keep T t (gw\<lparr>node_GatewayCertBundle := Some b'\<rparr>), clientCertBundle))))"

definition choose_docker_subnet ::
  "('s, node) table_api \<Rightarrow> string option \<Rightarrow> 's \<Rightarrow> ipnet result" where
  "choose_docker_subnet T forceDockerSubnetStr s =
     (case forceDockerSubnetStr of
        Some str \<Rightarrow>
          rbind (ParseIPNetMarshable str True) (\<lambda>d.
            if IsDockerSubnetAvailable T d s then Inr d
            else Inl (ErrText ''docker subnet already in use''))
      | None \<Rightarrow> GetNextAssignableDockerSubnet T s)"

definition CreateServer ::
  "('c, 'k) env \<Rightarrow> ('s, node) table_api \<Rightarrow> string option \<Rightarrow> ('s, node) op" where
  "CreateServer E T forceDockerSubnetStr =
     s_bind (s_write (\<lambda>s.
       rbind (GenerateKeyPair (env_exec E)) (\<lambda>keys.
       db_transaction T s (\<lambda>t.
         (let gw = first_or_zero T t (\<lambda>n. node_Role n = NodeRoleGateway)
          in if node_ID gw = [] then Inl (ErrText ''gateway node not found'')
             else rbind (issue_client E T gw t) (\<lambda>(t', clientCertBundle).
               if node_WGPublicIP gw = None \<or> node_WGPublicPort gw = None
               then Inl (ErrText ''gateway node public ip or port not found'')
               else rbind (GetNextAssignableWGPrivateIP T s) (\<lambda>wgPrivateIP.
                 rbind (choose_docker_subnet T forceDockerSubnetStr s) (\<lambda>dockerSubnet.
                 rbind (db_create T t' (new_member NodeRoleServer (env_uuid E) keys wgPrivateIP
                          clientCertBundle (Some dockerSubnet) gw)) (\<lambda>t''.
                 Inr (t'', ()))))))))))
       (\<lambda>_. refreshed T (env_uuid E))"

text \<open>\<open>CreateClient\<close> reads the gateway with \<open>Find\<close>, whose first row fills the variable.\<close>

definition CreateClient :: "('c, 'k) env \<Rightarrow> ('s, node) table_api \<Rightarrow> ('s, node) op" where
  "CreateClient E T =
     s_bind (s_write (\<lambda>s.
       rbind (GenerateKeyPair (env_exec E)) (\<lambda>keys.
       db_transaction T s (\<lambda>t.
         rbind (GetNextAssignableWGPrivateIP T s) (\<lambda>wgPrivateIP.
         (let gw = (case find_or_nil T t (\<lambda>n. node_Role n = NodeRoleGateway) of
                      [] \<Rightarrow> zero_node | g # _ \<Rightarrow> g)
          in if node_ID gw = [] then Inl (ErrText ''gateway node not found'')
             else rbind (issue_client E T gw t) (\<lambda>(t', clientCertBundle).
               rbind (db_create T t' (new_member NodeRoleClient (env_uuid E) keys wgPrivateIP
                        clientCertBundle None gw)) (\<lambda>t''.
               Inr (t'', ())))))))))
       (\<lambda>_. refreshed T (env_uuid E))"

definition EnsureGatewayNode ::
  "('c, 'k) env \<Rightarrow> ('s, node) table_api \<Rightarrow> ip \<Rightarrow> 16 word \<Rightarrow> string \<Rightarrow> 16 word \<Rightarrow> ('s, node) op" where
  "EnsureGatewayNode E T WGPublicIP WGPublicPort gatewayPublicIP gatewayPublicPort =
     s_bind (s_read (GetGatewayNode T)) (\<lambda>g.
       case g of
         Some gw \<Rightarrow> s_read (\<lambda>_. Inr gw)
       | None \<Rightarrow> CreateGateway E T WGPublicIP WGPublicPort gatewayPublicIP gatewayPublicPort)"

section \<open>Saving and deleting\<close>

definition SaveNode :: "('s, node) table_api \<Rightarrow> node \<Rightarrow> ('s, unit) op" where
  "SaveNode T n = s_write (\<lambda>s. rbind (db_save T s n) (\<lambda>s'. Inr (s', ())))"

definition DeleteServer :: "('s, node) table_api \<Rightarrow> string \<Rightarrow> ('s, unit) op" where
  "DeleteServer T nodeID = s_write (\<lambda>s.
     rbind (db_delete T s (\<lambda>n. node_ID n = nodeID \<and> node_Role n = NodeRoleServer))
       (\<lambda>(s', _). Inr (s', ())))"

definition DeleteAll :: "('s, node) table_api \<Rightarrow> ('s, unit) op" where
  "DeleteAll T = s_write (\<lambda>s. rbind (db_delete T s (\<lambda>_. True)) (\<lambda>(s', _). Inr (s', ())))"

section \<open>Labels\<close>

definition set_labels :: "string list \<Rightarrow> node \<Rightarrow> node" where
  "set_labels ls n = n\<lparr>node_Labels := ls\<rparr>"

definition updateNodeLabels ::
  "('s, node) table_api \<Rightarrow> 's \<Rightarrow> string \<Rightarrow> string list \<Rightarrow> ('s \<times> unit) result" where
  "updateNodeLabels T t nodeID labels =
     rbind (db_update T t (\<lambda>n. node_ID n = nodeID) (set_labels labels)) (\<lambda>(t', rowsAffected).
       if rowsAffected = 0 then Inl ErrRecordNotFound else Inr (t', ()))"

definition assignLabelToNode ::
  "('s, node) table_api \<Rightarrow> string \<Rightarrow> string \<Rightarrow> ('s, unit) op" where
  "assignLabelToNode T nodeID label = s_write (\<lambda>s. db_transaction T s (\<lambda>t.
     rbind (db_first T t (\<lambda>n. node_ID n = nodeID)) (\<lambda>n.
       if label \<in> set (node_Labels n) then Inr (t, ())
       else updateNodeLabels T t nodeID (node_Labels n @ [label]))))"

definition removeLabelFromNode ::
  "('s, node) table_api \<Rightarrow> string \<Rightarrow> string \<Rightarrow> ('s, unit) op" where
  "removeLabelFromNode T nodeID label = s_write (\<lambda>s. db_transaction T s (\<lambda>t.
     rbind (db_first T t (\<lambda>n. node_ID n = nodeID)) (\<lambda>n.
       if label \<notin> set (node_Labels n) then Inr (t, ())
       else updateNodeLabels T t nodeID (filter (\<lambda>l. l \<noteq> label) (node_Labels n)))))"

definition AddLabelToNode :: "('s, node) table_api \<Rightarrow> string \<Rightarrow> string \<Rightarrow> ('s, unit) op" where
  "AddLabelToNode = assignLabelToNode"

definition RemoveLabelFromNode :: "('s, node) table_api \<Rightarrow> string \<Rightarrow> string \<Rightarrow> ('s, unit) op" where
  "RemoveLabelFromNode = removeLabelFromNode"

definition DockerSocketPublishedLabel :: string where
  "DockerSocketPublishedLabel = ''docker-socket-published''"

definition PublishDockerSocket :: "('s, node) table_api \<Rightarrow> string \<Rightarrow> ('s, unit) op" where
  "PublishDockerSocket T nodeID = assignLabelToNode T nodeID DockerSocketPublishedLabel"

definition UnpublishDockerSocket :: "('s, node) table_api \<Rightarrow> string \<Rightarrow> ('s, unit) op" where
  "UnpublishDockerSocket T nodeID = removeLabelFromNode T nodeID DockerSocketPublishedLabel"

definition UpdateLabels :: "('s, node) table_api \<Rightarrow> string \<Rightarrow> string list \<Rightarrow> ('s, unit) op" where
  "UpdateLabels T nodeID labels =
     s_write (\<lambda>s. db_transaction T s (\<lambda>t. updateNodeLabels T t nodeID labels))"

end
