(* ===== verification/Services.thy ===== *)
theory Services
  imports AddrTypes Store
begin

text \<open>
  Published services, \<open>internal/publicservices\<close>: the record, its entry in the Caddy
  configuration (\<open>types.go\<close>) and the repository (\<open>repository.go\<close>) over the table interface
  of \<open>Store\<close>. The time stamp \<open>UpdatedAt\<close>, which nothing reads, is left out; \<open>CreatedAt\<close> is
  kept because \<open>Save\<close> preserves it (gorm fills it on insert when it is zero).
\<close>

section \<open>Data\<close>

record service_param =
  ParamType :: string
  ParamValue :: string

definition PublicServiceParamTypeCaddyFreeText :: string where
  "PublicServiceParamTypeCaddyFreeText = ''caddyFreeTextParam''"

record service =
  PublishedByNodeID :: "string option"
  LocalProtocol :: string
  LocalHost :: string
  LocalPort :: "16 word"
  PublicProtocol :: string
  PublicHost :: string
  PublicPort :: "16 word"
  Params :: "service_param list"
  CreatedAt :: int

type_synonym service_key = "string \<times> string \<times> 16 word"

definition svc_key :: "service \<Rightarrow> service_key" where
  "svc_key v = (PublicProtocol v, PublicHost v, PublicPort v)"

definition stamp :: "int \<Rightarrow> service \<Rightarrow> service" where
  "stamp now v = (if CreatedAt v = 0 then v\<lparr>CreatedAt := now\<rparr> else v)"

section \<open>The Caddy entry\<close>

definition formatBlockParams :: "service_param list \<Rightarrow> nat \<Rightarrow> nat \<Rightarrow> string" where
  "formatBlockParams blockParams levelSpacesMain levelSpacesClosing =
     (if blockParams = [] then []
      else ''{'' @ NL
         @ join_str NL (map (\<lambda>p. spaces levelSpacesMain @ ParamValue p) blockParams)
         @ NL @ spaces levelSpacesClosing @ ''}'')"

text \<open>The address Caddy sees: its own public address is not an interface of the container.\<close>

definition caddy_host :: "string \<Rightarrow> string \<Rightarrow> string" where
  "caddy_host gatewayPublicIP h = (if h = gatewayPublicIP then ''0.0.0.0'' else h)"

definition port_str :: "16 word \<Rightarrow> string" where
  "port_str p = itoa (unat p)"

definition publicHostname :: "service \<Rightarrow> string \<Rightarrow> string result" where
  "publicHostname s publicHost =
     (let bare = PublicProtocol s @ ''://'' @ publicHost;
          full = bare @ '':'' @ port_str (PublicPort s);
          isIP = ParseIP publicHost \<noteq> []
      in if PublicProtocol s = ''https'' then
           (if isIP then Inl (ErrText ''https on ip address is not supported'')
            else if PublicPort s \<noteq> 443 then Inr full else Inr bare)
         else if PublicProtocol s = ''http'' \<and> PublicPort s \<noteq> 80 then
           (if isIP then Inr ('':'' @ port_str (PublicPort s)) else Inr full)
         else Inr bare)"

definition AsCaddyConfigEntry :: "service \<Rightarrow> string \<Rightarrow> string result" where
  "AsCaddyConfigEntry s gatewayPublicIP =
     (if (LocalProtocol s = ''udp'' \<and> PublicProtocol s = ''tcp'')
         \<or> (LocalProtocol s = ''tcp'' \<and> PublicProtocol s = ''udp'')
      then Inl (ErrText ''for layer 4, local protocol and public protocol must be the same (udp -> udp or tcp -> tcp)'')
      else if LocalHost s = [] then Inl (ErrText ''local host cannot be empty'')
      else if PublicHost s = [] then Inl (ErrText ''public host cannot be empty'')
      else
        (let publicHost = caddy_host gatewayPublicIP (PublicHost s);
             localHost = caddy_host gatewayPublicIP (LocalHost s);
             fallback = ''# service publication: '' @ PublicProtocol s @ ''://'' @ publicHost
               @ '':'' @ port_str (PublicPort s) @ '' (public) -> '' @ LocalProtocol s @ ''://''
               @ localHost @ '':'' @ port_str (LocalPort s) @ '' (local)''
         in rbind
              (if PublicProtocol s = ''https'' \<or> PublicProtocol s = ''http'' then
                 rbind (publicHostname s publicHost) (\<lambda>hostname.
                   (let reverseProxy = trim_space (''reverse_proxy '' @ LocalProtocol s @ ''://''
                          @ localHost @ '':'' @ port_str (LocalPort s) @ '' ''
                          @ formatBlockParams (Params s) 8 4)
                    in Inr (NL @ hostname @ '' {'' @ NL @ spaces 4 @ reverseProxy @ NL @ ''}'' @ NL)))
               else if PublicProtocol s = ''udp'' \<or> PublicProtocol s = ''tcp'' then
                 (let upstream = trim_space (''upstream '' @ LocalProtocol s @ ''/'' @ localHost
                        @ '':'' @ port_str (LocalPort s) @ '' ''
                        @ formatBlockParams (Params s) 16 12)
                  in Inr (NL @ spaces 8 @ PublicProtocol s @ ''/0.0.0.0:'' @ port_str (PublicPort s)
                       @ '' {'' @ NL
                       @ spaces 12 @ ''route {'' @ NL
                       @ spaces 16 @ ''proxy {'' @ NL
                       @ spaces 20 @ upstream @ NL
                       @ spaces 16 @ ''}'' @ NL
                       @ spaces 12 @ ''}'' @ NL
                       @ spaces 8 @ ''}'' @ NL))
               else Inr fallback)
            (\<lambda>entry. Inr (trim_right_set {CHR 0x09, CHR '' ''} entry))))"

section \<open>The repository\<close>

abbreviation has_key :: "service_key \<Rightarrow> service \<Rightarrow> bool" where
  "has_key k \<equiv> \<lambda>v. svc_key v = k"

definition ServiceSave :: "('s, service) table_api \<Rightarrow> service \<Rightarrow> ('s, unit) op" where
  "ServiceSave T v = s_write (\<lambda>s.
     (case db_first T s (has_key (svc_key v)) of
        Inl e \<Rightarrow>
          if e = ErrRecordNotFound then rbind (db_create T s v) (\<lambda>s'. Inr (s', ()))
          else Inl e
      | Inr existingService \<Rightarrow>
          rbind (db_save T s (v\<lparr>CreatedAt := CreatedAt existingService\<rparr>)) (\<lambda>s'. Inr (s', ()))))"

definition ServiceGetAll :: "('s, service) table_api \<Rightarrow> 's \<Rightarrow> service list result" where
  "ServiceGetAll T s =
     (case db_find T s (\<lambda>_. True) of
        Inl e \<Rightarrow> if e = ErrRecordNotFound then Inr [] else Inl e
      | Inr services \<Rightarrow> Inr services)"

definition ServiceDelete :: "('s, service) table_api \<Rightarrow> service_key \<Rightarrow> 's \<Rightarrow> 's \<times> bool" where
  "ServiceDelete T k s =
     (case db_delete T s (has_key k) of
        Inl e \<Rightarrow> (s, False) | Inr (s', rowsAffected) \<Rightarrow> (s', 0 < rowsAffected))"

definition ServiceGet :: "('s, service) table_api \<Rightarrow> service_key \<Rightarrow> 's \<Rightarrow> service result" where
  "ServiceGet T k s =
     (case db_first T s (has_key k) of
        Inl e \<Rightarrow> if e = ErrRecordNotFound then Inl ErrServiceNotFound else Inl e
      | Inr v \<Rightarrow> Inr v)"

text \<open>A successful \<open>Save\<close> of an existing row affects one row.\<close>

definition save_params :: "('s, service) table_api \<Rightarrow> 's \<Rightarrow> service \<Rightarrow> 's \<times> bool" where
  "save_params T s v = (case db_save T s v of Inl e \<Rightarrow> (s, False) | Inr s' \<Rightarrow> (s', True))"

definition AddParam ::
  "('s, service) table_api \<Rightarrow> service_key \<Rightarrow> string \<Rightarrow> string \<Rightarrow> 's \<Rightarrow> 's \<times> bool" where
  "AddParam T k paramType paramValue s =
     (case db_first T s (has_key k) of
        Inl e \<Rightarrow> (s, False)
      | Inr v \<Rightarrow>
          if \<exists>p \<in> set (Params v). ParamType p = paramType \<and> ParamValue p = paramValue
          then (s, False)
          else save_params T s (v\<lparr>Params := Params v
                 @ [\<lparr>ParamType = paramType, ParamValue = paramValue\<rparr>]\<rparr>))"

definition RemoveParam ::
  "('s, service) table_api \<Rightarrow> service_key \<Rightarrow> string \<Rightarrow> string \<Rightarrow> 's \<Rightarrow> 's \<times> bool" where
  "RemoveParam T k paramType paramValue s =
     (case db_first T s (has_key k) of
        Inl e \<Rightarrow> (s, False)
      | Inr v \<Rightarrow>
          (let newParams = filter (\<lambda>p. \<not> (ParamType p = paramType \<and> ParamValue p = paramValue)) (Params v);
               paramFound = (\<exists>p \<in> set (Params v). ParamType p = paramType \<and> ParamValue p = paramValue)
           in if \<not> paramFound then (s, False) else save_params T s (v\<lparr>Params := newParams\<rparr>)))"

end
