(* ===== verification/Configs.thy ===== *)
theory Configs
  imports NodeTypes Services
begin

text \<open>
  The configuration files of a node, the second half of \<open>internal/nodes/types/node.go\<close>:
  which node has which file, the entries handed to the Caddy template, and \<open>SaveConfigs\<close>,
  which writes the files. Reading, parsing and executing a template (the embedded files
  and \<open>github.com/aymerick/raymond\<close>) is the parameter \<open>exec_template\<close> of the record
  \<open>config_env\<close>: from the path of the template and its context to the text or an error.
  Writing a file is the parameter \<open>write_file\<close>.
\<close>

section \<open>Parameters\<close>

text \<open>What a template sees: the node, and for Caddy the two lists of entries.\<close>

datatype template_ctx =
    NodeContext node
  | CaddyContext node "string list" "string list"

record 'f config_env =
  exec_template :: "string \<Rightarrow> template_ctx \<Rightarrow> string result"
  write_file :: "'f \<Rightarrow> string \<Rightarrow> string \<Rightarrow> 'f result"
  WireguardConfigPath :: string
  ResolvConfigPath :: string
  CaddyConfigPath :: string
  CoreDNSConfigPath :: string

definition ResolvConfigTemplatePath :: string where
  "ResolvConfigTemplatePath = ''configs/resolv/resolv.hbs''"
definition CaddyConfigTemplatePath :: string where
  "CaddyConfigTemplatePath = ''configs/caddy/caddyfile.hbs''"
definition CoreDNSConfigTemplatePath :: string where
  "CoreDNSConfigTemplatePath = ''configs/coredns/corefile.hbs''"

section \<open>The texts\<close>

definition GetFormattedResolvConfig :: "'f config_env \<Rightarrow> node \<Rightarrow> string result" where
  "GetFormattedResolvConfig K n =
     (if node_Role n \<noteq> NodeRoleGateway \<and> node_Role n \<noteq> NodeRoleServer
      then Inl (ErrText ''only gateway and server nodes can have a resolv config'')
      else exec_template K ResolvConfigTemplatePath (NodeContext n))"

definition is_layer4 :: "service \<Rightarrow> bool" where
  "is_layer4 v \<longleftrightarrow> PublicProtocol v = ''tcp'' \<or> PublicProtocol v = ''udp''"

text \<open>The loop over the services: two lists of entries, the first error ends it.\<close>

fun caddy_entries ::
  "string \<Rightarrow> service list \<Rightarrow> string list \<Rightarrow> string list \<Rightarrow> (string list \<times> string list) result" where
  "caddy_entries g [] l4 l7 = Inr (l4, l7)"
| "caddy_entries g (v # vs) l4 l7 =
     rbind (AsCaddyConfigEntry v g) (\<lambda>entry.
       if is_layer4 v then caddy_entries g vs (l4 @ [entry]) l7
       else caddy_entries g vs l4 (l7 @ [entry]))"

definition GetFormattedCaddyConfig :: "'f config_env \<Rightarrow> node \<Rightarrow> service list \<Rightarrow> string result" where
  "GetFormattedCaddyConfig K n publicServices =
     (if node_Role n \<noteq> NodeRoleGateway
      then Inl (ErrText ''only gateway nodes can have a Caddy config'')
      else rbind (caddy_entries (node_GatewayPublicIP n) publicServices [] []) (\<lambda>(l4, l7).
        exec_template K CaddyConfigTemplatePath (CaddyContext n l4 l7)))"

definition GetFormattedCoreDNSConfig :: "'f config_env \<Rightarrow> node \<Rightarrow> string result" where
  "GetFormattedCoreDNSConfig K n =
     (if node_Role n = NodeRoleClient
      then Inl (ErrText ''client nodes do not need a CoreDNS config'')
      else exec_template K CoreDNSConfigTemplatePath (NodeContext n))"

section \<open>Writing the files\<close>

text \<open>
  One file: without a text it is skipped, or an error if it must exist; a failed write
  ends the process.
\<close>

definition save_config ::
  "'f config_env \<Rightarrow> bool \<Rightarrow> string \<Rightarrow> string \<Rightarrow> string result \<Rightarrow> ('f, unit) op" where
  "save_config K configsMustExist name path config fs =
     (case config of
        Inr text \<Rightarrow>
          (case write_file K fs path text of
             Inr fs' \<Rightarrow> (fs', Inr ())
           | Inl e \<Rightarrow> (fs, Inl (ProcessExit
               (''Failed to get formatted '' @ name @ '' config: '' @ err_text e))))
      | Inl e \<Rightarrow>
          if configsMustExist
          then (fs, Inl (ErrText (name
                  @ '' can'' @ [CHR 0x27] @ ''t be empty'')))
          else (fs, Inr ()))"

definition SaveConfigs ::
  "'f config_env \<Rightarrow> node \<Rightarrow> service list \<Rightarrow> bool \<Rightarrow> ('f, unit) op" where
  "SaveConfigs K n publicServices configsMustExist =
     (if node_Role n \<noteq> NodeRoleGateway \<and> node_Role n \<noteq> NodeRoleServer
      then s_read (\<lambda>_. Inl (ErrText ''config saving is only relevant to gateway and server nodes''))
      else
        s_bind (save_config K configsMustExist ''coreDNS'' (CoreDNSConfigPath K)
                  (GetFormattedCoreDNSConfig K n)) (\<lambda>_.
        s_bind (save_config K configsMustExist ''resolv'' (ResolvConfigPath K)
                  (GetFormattedResolvConfig K n)) (\<lambda>_.
        s_bind (save_config K configsMustExist ''wireguard'' (WireguardConfigPath K)
                  (GetFormattedWireguardConfig n)) (\<lambda>_.
        if node_Role n = NodeRoleGateway
        then save_config K configsMustExist ''caddy'' (CaddyConfigPath K)
               (GetFormattedCaddyConfig K n publicServices)
        else s_read (\<lambda>_. Inr ())))))"

end
