(* ===== verification/Base64.thy ===== *)
theory Base64
  imports Prelude GoText
begin

text \<open>
  \<open>base64.StdEncoding\<close> of Go's standard library on byte lists, as the join requests and the
  encrypted messages use it: encoding with padding; decoding that skips line breaks,
  demands the padding and ignores the unused bits of the last character. The offset in
  the text of a decoding error is left out.
\<close>

type_synonym bytes = "8 word list"

section \<open>The alphabet\<close>

definition b64_char :: "nat \<Rightarrow> char" where
  "b64_char n =
     (if n < 26 then char_of (n + 65) else if n < 52 then char_of (n + 71)
      else if n < 62 then char_of (n - 4) else if n = 62 then CHR ''+'' else CHR ''/'')"

definition b64_val :: "char \<Rightarrow> nat option" where
  "b64_val c =
     (let n = (of_char c :: nat)
      in if 65 \<le> n \<and> n \<le> 90 then Some (n - 65)
         else if 97 \<le> n \<and> n \<le> 122 then Some (n - 71)
         else if 48 \<le> n \<and> n \<le> 57 then Some (n + 4)
         else if n = 43 then Some 62 else if n = 47 then Some 63 else None)"

section \<open>Encoding and decoding\<close>

definition byte_of :: "nat \<Rightarrow> 8 word" where
  "byte_of n = of_nat n"

fun b64_encode :: "bytes \<Rightarrow> string" where
  "b64_encode [] = []"
| "b64_encode [a] =
     [b64_char (unat a div 4), b64_char (unat a mod 4 * 16), CHR ''='', CHR ''='']"
| "b64_encode [a, b] =
     [b64_char (unat a div 4), b64_char (unat a mod 4 * 16 + unat b div 16),
      b64_char (unat b mod 16 * 4), CHR ''='']"
| "b64_encode (a # b # c # r) =
     b64_char (unat a div 4) # b64_char (unat a mod 4 * 16 + unat b div 16)
     # b64_char (unat b mod 16 * 4 + unat c div 64) # b64_char (unat c mod 64)
     # b64_encode r"

definition quad :: "nat \<Rightarrow> nat \<Rightarrow> nat \<Rightarrow> nat \<Rightarrow> bytes" where
  "quad w x y z =
     [byte_of (w * 4 + x div 16), byte_of (x mod 16 * 16 + y div 4), byte_of (y mod 4 * 64 + z)]"

fun b64_decode_quads :: "string \<Rightarrow> bytes option" where
  "b64_decode_quads [] = Some []"
| "b64_decode_quads (w # x # y # z # r) =
     (case (b64_val w, b64_val x) of
        (Some w', Some x') \<Rightarrow>
          if y = CHR ''='' then
            (if z = CHR ''='' \<and> r = [] then Some (take 1 (quad w' x' 0 0)) else None)
          else if z = CHR ''='' then
            (case b64_val y of
               None \<Rightarrow> None
             | Some y' \<Rightarrow> if r = [] then Some (take 2 (quad w' x' y' 0)) else None)
          else
            (case (b64_val y, b64_val z, b64_decode_quads r) of
               (Some y', Some z', Some bs) \<Rightarrow> Some (quad w' x' y' z' @ bs)
             | _ \<Rightarrow> None)
      | _ \<Rightarrow> None)"
| "b64_decode_quads _ = None"

definition b64_decode :: "string \<Rightarrow> bytes result" where
  "b64_decode s =
     (case b64_decode_quads (filter (\<lambda>c. c \<noteq> CHR 0x0A \<and> c \<noteq> CHR 0x0D) s) of
        None \<Rightarrow> Inl (ErrText ''illegal base64 data'')
      | Some bs \<Rightarrow> Inr bs)"

section \<open>The round trip\<close>

lemma b64_val_char: "n < 64 \<Longrightarrow> b64_val (b64_char n) = Some n"
proof -
  assume n: "n < 64"
  consider "n < 26" | "26 \<le> n" "n < 52" | "52 \<le> n" "n < 62" | "n = 62" | "n = 63"
    using n by linarith
  then show ?thesis
    by cases (auto simp: b64_char_def b64_val_def Let_def)
qed

lemma b64_val_None: "b64_val (CHR ''='') = None" "b64_val (CHR 0x0A) = None" "b64_val (CHR 0x0D) = None"
  by (simp_all add: b64_val_def)

lemma b64_char_facts:
  assumes "n < 64"
  shows "b64_val (b64_char n) = Some n" and "b64_char n \<noteq> CHR ''=''"
    and "b64_char n \<noteq> CHR 0x0A" and "b64_char n \<noteq> CHR 0x0D"
  using b64_val_char [OF assms] b64_val_None by (auto dest: sym)

lemma unat_byte: "unat (a :: 8 word) < 256"
  using unsigned_less [of a] by simp

lemma byte_parts:
  "unat (a :: 8 word) div 4 < 64" "unat a mod 4 * 16 < 64" "unat a mod 16 * 4 < 64"
  "unat a mod 64 < 64" "unat a mod 4 * 16 + unat (b :: 8 word) div 16 < 64"
  "unat a mod 16 * 4 + unat b div 64 < 64"
  using unat_byte [of a] unat_byte [of b] by (auto simp: less_mult_imp_div_less)

lemma byte_of_unat [simp]: "byte_of (unat a) = a"
  by (simp add: byte_of_def)

lemma quad_bytes:
  "quad (unat a div 4) (unat a mod 4 * 16 + unat b div 16) (unat b mod 16 * 4 + unat c div 64)
     (unat c mod 64) = [a, b, c]"
  "quad (unat a div 4) (unat a mod 4 * 16) 0 0 = [a, 0, 0]"
  "quad (unat a div 4) (unat a mod 4 * 16 + unat b div 16) (unat b mod 16 * 4) 0 = [a, b, 0]"
proof -
  have b: "unat b div 16 < 16" and c: "unat c div 64 < 4"
    using unat_byte [of b] unat_byte [of c] by auto
  have 1: "unat a div 4 * 4 + (unat a mod 4 * 16 + unat b div 16) div 16 = unat a"
    using b by simp
  have 2: "(unat a mod 4 * 16 + unat b div 16) mod 16 * 16 + (unat b mod 16 * 4 + unat c div 64) div 4
      = unat b" using b c by (simp add: mod_mult_self3 mult.commute)
  have 3: "(unat b mod 16 * 4 + unat c div 64) mod 4 * 64 + unat c mod 64 = unat c"
    using c by (simp add: mult.commute)
  have 4: "unat a div 4 * 4 + (unat a mod 4 * 16) div 16 = unat a" by simp
  have 5: "(unat a mod 4 * 16 + unat b div 16) mod 16 * 16 + (unat b mod 16 * 4) div 4 = unat b"
    using b by (simp add: mult.commute)
  show "quad (unat a div 4) (unat a mod 4 * 16 + unat b div 16) (unat b mod 16 * 4 + unat c div 64)
     (unat c mod 64) = [a, b, c]"
    by (simp only: quad_def 1 2 3 byte_of_unat)
  show "quad (unat a div 4) (unat a mod 4 * 16) 0 0 = [a, 0, 0]"
    by (simp only: quad_def 4 byte_of_unat) (simp add: byte_of_def)
  show "quad (unat a div 4) (unat a mod 4 * 16 + unat b div 16) (unat b mod 16 * 4) 0 = [a, b, 0]"
    by (simp only: quad_def 1 5 byte_of_unat) (simp add: byte_of_def)
qed

lemma b64_quads_encode: "b64_decode_quads (b64_encode bs) = Some bs"
  by (induction bs rule: b64_encode.induct)
    (simp_all add: b64_char_facts byte_parts quad_bytes)

lemma b64_encode_no_breaks:
  "filter (\<lambda>c. c \<noteq> CHR 0x0A \<and> c \<noteq> CHR 0x0D) (b64_encode bs) = b64_encode bs"
  by (induction bs rule: b64_encode.induct) (simp_all add: b64_char_facts byte_parts)

lemma b64_decode_encode [simp]: "b64_decode (b64_encode bs) = Inr bs"
  by (simp add: b64_decode_def b64_encode_no_breaks b64_quads_encode)

lemma b64_encode_inject [simp]: "b64_encode xs = b64_encode ys \<longleftrightarrow> xs = ys"
  by (metis b64_decode_encode sum.inject(2))

end
