(* ===== verification/AesCbc.thy ===== *)
theory AesCbc
  imports Base64
begin

text \<open>
  The message encryption of \<open>internal/encryption/aes/service.go\<close>: padding, AES in CBC mode
  with a random initial vector in front, and the encrypted request and response of the
  control API. The AES block permutation (\<open>crypto/aes\<close>) is a parameter, as are the JSON
  encoding of a payload and the HTTP call; the CBC mode of \<open>crypto/cipher\<close> and the length
  checks are written out.
\<close>

section \<open>Padding\<close>

definition pad :: "bytes \<Rightarrow> nat \<Rightarrow> bytes" where
  "pad data blockSize =
     (let padding = blockSize - length data mod blockSize
      in data @ replicate padding (of_nat padding))"

definition unpad :: "bytes \<Rightarrow> bytes result" where
  "unpad data =
     (if data = [] then Inl ErrInvalidPaddingSize
      else
        (let padding = unat (last data)
         in if length data < padding \<or> padding = 0 then Inl ErrInvalidPadding
            else Inr (take (length data - padding) data)))"

section \<open>CBC\<close>

record cipher =
  aes_enc :: "bytes \<Rightarrow> bytes \<Rightarrow> bytes"
  aes_dec :: "bytes \<Rightarrow> bytes \<Rightarrow> bytes"

abbreviation BlockSize :: nat where "BlockSize \<equiv> 16"

definition xor_bytes :: "bytes \<Rightarrow> bytes \<Rightarrow> bytes" where
  "xor_bytes xs ys = map2 (\<lambda>x y. xor x y) xs ys"

text \<open>\<open>CryptBlocks\<close> of the two modes, on data of a whole number of blocks.\<close>

function cbc_encrypt :: "(bytes \<Rightarrow> bytes) \<Rightarrow> bytes \<Rightarrow> bytes \<Rightarrow> bytes" where
  "cbc_encrypt enc iv data =
     (if length data < BlockSize then []
      else (let b = enc (xor_bytes (take BlockSize data) iv)
            in b @ cbc_encrypt enc b (drop BlockSize data)))"
  by pat_completeness auto
termination by (relation "measure (\<lambda>(enc, iv, data). length data)") auto

function cbc_decrypt :: "(bytes \<Rightarrow> bytes) \<Rightarrow> bytes \<Rightarrow> bytes \<Rightarrow> bytes" where
  "cbc_decrypt dec iv data =
     (if length data < BlockSize then []
      else xor_bytes (dec (take BlockSize data)) iv
             @ cbc_decrypt dec (take BlockSize data) (drop BlockSize data))"
  by pat_completeness auto
termination by (relation "measure (\<lambda>(dec, iv, data). length data)") auto

declare cbc_encrypt.simps [simp del] cbc_decrypt.simps [simp del]

definition NewCipher :: "bytes \<Rightarrow> unit result" where
  "NewCipher key =
     (if length key \<in> {16, 24, 32} then Inr ()
      else Inl (ErrText (''crypto/aes: invalid key size '' @ itoa (length key))))"

definition wrap :: "string \<Rightarrow> 'a result \<Rightarrow> 'a result" where
  "wrap context r = (case r of Inl e \<Rightarrow> Inl (ErrText (context @ '': '' @ err_text e)) | Inr x \<Rightarrow> Inr x)"

text \<open>\<open>iv\<close> is what the random reader yields for the initial vector.\<close>

definition EncryptAES :: "cipher \<Rightarrow> bytes result \<Rightarrow> bytes \<Rightarrow> bytes \<Rightarrow> bytes result" where
  "EncryptAES C iv plainText aesKey =
     rbind (wrap ''create cipher'' (NewCipher aesKey)) (\<lambda>_.
     rbind (wrap ''generate IV'' iv) (\<lambda>iv.
     Inr (iv @ cbc_encrypt (aes_enc C aesKey) iv (pad plainText BlockSize))))"

definition DecryptAES :: "cipher \<Rightarrow> bytes \<Rightarrow> bytes \<Rightarrow> bytes result" where
  "DecryptAES C cipherText aesKey =
     rbind (wrap ''create cipher'' (NewCipher aesKey)) (\<lambda>_.
       if length cipherText < BlockSize then Inl ErrCiphertextTooShort
       else
         (let iv = take BlockSize cipherText; body = drop BlockSize cipherText
          in if length body mod BlockSize \<noteq> 0 then Inl ErrInvalidBlockSize
             else unpad (cbc_decrypt (aes_dec C aesKey) iv body)))"

definition GenerateAESKey :: "bytes result \<Rightarrow> bytes result" where
  "GenerateAESKey random32 = wrap ''generate random aes key'' random32"

section \<open>Encrypted messages\<close>

record encrypted_dto =
  SyncID :: string
  Payload :: string

text \<open>
  JSON of a payload type, and of the two message structures. A decoder sees the bytes of
  one message.
\<close>

record 'p json =
  marshal :: "'p \<Rightarrow> bytes result"
  unmarshal :: "bytes \<Rightarrow> 'p result"

definition EncryptedAPIRequest ::
  "cipher \<Rightarrow> bytes result \<Rightarrow> 'q json \<Rightarrow> 'r json \<Rightarrow> encrypted_dto json \<Rightarrow>
   (bytes \<Rightarrow> bytes result result) \<Rightarrow> 'q \<Rightarrow> string \<Rightarrow> string \<Rightarrow> 'r result" where
  "EncryptedAPIRequest C iv JQ JR JM post payload syncID encryptionKeyBase64 =
     rbind (wrap ''failed to decode encryption key'' (b64_decode encryptionKeyBase64)) (\<lambda>key.
     rbind (wrap ''failed to marshal payload'' (marshal JQ payload)) (\<lambda>json.
     rbind (wrap ''failed to encrypt payload'' (EncryptAES C iv json key)) (\<lambda>encrypted.
     rbind (wrap ''failed to marshal request body''
              (marshal JM \<lparr>SyncID = syncID, Payload = b64_encode encrypted\<rparr>)) (\<lambda>body.
     rbind (wrap ''failed to send request'' (post body)) (\<lambda>resp.
     rbind (wrap ''failed to read response body'' resp) (\<lambda>responseBody.
     rbind (wrap ''failed to unmarshal response body'' (unmarshal JM responseBody)) (\<lambda>response.
     rbind (wrap ''failed to decode decrypted response payload''
              (b64_decode (Payload response))) (\<lambda>encryptedResponse.
     rbind (wrap ''failed to decrypt response'' (DecryptAES C encryptedResponse key)) (\<lambda>decrypted.
     wrap ''failed to unmarshal decrypted response'' (unmarshal JR decrypted))))))))))"

definition DecryptRequest ::
  "cipher \<Rightarrow> 'q json \<Rightarrow> encrypted_dto \<Rightarrow> string \<Rightarrow> 'q result" where
  "DecryptRequest C JQ encryptedRequest encryptionKeyBase64 =
     rbind (wrap ''failed to decode decrypted response payload''
              (b64_decode (Payload encryptedRequest))) (\<lambda>payload.
     rbind (wrap ''failed to decode encryption key'' (b64_decode encryptionKeyBase64)) (\<lambda>key.
     rbind (wrap ''failed to decrypt response'' (DecryptAES C payload key)) (\<lambda>json.
     wrap ''failed to unmarshal decrypted response'' (unmarshal JQ json))))"

definition EncryptResponse ::
  "cipher \<Rightarrow> bytes result \<Rightarrow> 'r json \<Rightarrow> 'r \<Rightarrow> string \<Rightarrow> string \<Rightarrow> encrypted_dto result" where
  "EncryptResponse C iv JR response syncID encryptionKeyBase64 =
     rbind (wrap ''failed to decode encryption key'' (b64_decode encryptionKeyBase64)) (\<lambda>key.
     rbind (wrap ''failed to marshal payload'' (marshal JR response)) (\<lambda>json.
     rbind (wrap ''failed to encrypt payload'' (EncryptAES C iv json key)) (\<lambda>encrypted.
     Inr \<lparr>SyncID = syncID, Payload = b64_encode encrypted\<rparr>)))"

section \<open>Facts on padding\<close>

lemma wrap_Inr [simp]: "wrap c (Inr x) = Inr x"
  by (simp add: wrap_def)

lemma wrap_Inr_iff [result_simps]: "wrap c r = Inr x \<longleftrightarrow> r = Inr x"
  by (cases r) (simp_all add: wrap_def)

lemma pad_length:
  assumes "0 < bs"
  shows "length (pad data bs) mod bs = 0" and "length data < length (pad data bs)"
    and "length (pad data bs) \<le> length data + bs"
proof -
  have m: "length data mod bs < bs" using assms by simp
  have l: "length (pad data bs) = length data + (bs - length data mod bs)"
    by (simp add: pad_def Let_def)
  have "length data + (bs - length data mod bs) = bs + (length data - length data mod bs)"
    using m mod_less_eq_dividend [of "length data" bs] by linarith
  also have "\<dots> = bs + bs * (length data div bs)" by (simp only: minus_mod_eq_mult_div)
  finally have "length data + (bs - length data mod bs) = bs + bs * (length data div bs)" .
  then show "length (pad data bs) mod bs = 0" unfolding l by simp
  show "length data < length (pad data bs)" and "length (pad data bs) \<le> length data + bs"
    using m by (simp_all add: l)
qed

lemma unpad_tail:
  assumes "0 < n" and "n < 256" and "length ys = n - 1"
  shows "unpad (xs @ ys @ [of_nat n]) = Inr xs"
proof -
  have "unat (of_nat n :: 8 word) = n" using assms(2) by (simp add: unat_of_nat)
  with assms show ?thesis by (simp add: unpad_def Let_def)
qed

lemma unpad_pad:
  assumes "0 < bs" and "bs < 256"
  shows "unpad (pad data bs) = Inr data"
proof -
  define p where "p = bs - length data mod bs"
  have p: "0 < p" "p < 256" using assms by (auto simp: p_def)
  then have "replicate p (of_nat p :: 8 word) = replicate (p - 1) (of_nat p) @ [of_nat p]"
    by (metis Suc_diff_1 replicate_Suc replicate_append_same)
  then have "pad data bs = data @ replicate (p - 1) (of_nat p) @ [of_nat p]"
    by (simp add: pad_def Let_def p_def [symmetric])
  with unpad_tail [OF p, of "replicate (p - 1) (of_nat p)" data] show ?thesis by simp
qed

section \<open>Facts on CBC\<close>

lemma xor_bytes_length [simp]: "length (xor_bytes xs ys) = min (length xs) (length ys)"
  by (simp add: xor_bytes_def)

lemma xor_bytes_twice:
  "length xs = length ys \<Longrightarrow> xor_bytes (xor_bytes xs ys) ys = xs"
proof (induction xs ys rule: list_induct2)
  case (Cons x xs y ys)
  have "xor (xor x y) y = x" by (simp add: xor.assoc)
  with Cons show ?case by (simp add: xor_bytes_def)
qed (simp add: xor_bytes_def)

text \<open>What is used of the block permutation under one key.\<close>

definition block_pair :: "(bytes \<Rightarrow> bytes) \<Rightarrow> (bytes \<Rightarrow> bytes) \<Rightarrow> bool" where
  "block_pair enc dec \<longleftrightarrow>
     (\<forall>b. length b = BlockSize \<longrightarrow> length (enc b) = BlockSize \<and> dec (enc b) = b)"

lemma cbc_encrypt_length:
  assumes "block_pair enc dec" and "length iv = BlockSize" and "length data mod BlockSize = 0"
  shows "length (cbc_encrypt enc iv data) = length data"
  using assms
proof (induction enc iv data rule: cbc_encrypt.induct)
  case (1 enc iv data)
  show ?case
  proof (cases "length data < BlockSize")
    case True
    with 1(4) show ?thesis by (simp add: cbc_encrypt.simps)
  next
    case False
    define b where "b = enc (xor_bytes (take BlockSize data) iv)"
    have b: "length b = BlockSize" using 1(2,3) False by (simp add: b_def block_pair_def)
    have "length (drop BlockSize data) mod BlockSize = 0"
      using 1(4) False by (simp add: le_mod_geq)
    from 1(1) [OF False refl 1(2), folded b_def, OF b this] False b
    show ?thesis by (simp add: cbc_encrypt.simps [of enc iv data] Let_def b_def [symmetric])
  qed
qed

lemma cbc_decrypt_encrypt:
  assumes "block_pair enc dec" and "length iv = BlockSize" and "length data mod BlockSize = 0"
  shows "cbc_decrypt dec iv (cbc_encrypt enc iv data) = data"
  using assms
proof (induction enc iv data rule: cbc_encrypt.induct)
  case (1 enc iv data)
  show ?case
  proof (cases "length data < BlockSize")
    case True
    with 1(4) have "data = []" by simp
    then show ?thesis by (simp add: cbc_encrypt.simps cbc_decrypt.simps)
  next
    case False
    define b where "b = enc (xor_bytes (take BlockSize data) iv)"
    have b: "length b = BlockSize" and d: "dec b = xor_bytes (take BlockSize data) iv"
      using 1(2,3) False by (simp_all add: b_def block_pair_def)
    have "length (drop BlockSize data) mod BlockSize = 0"
      using 1(4) False by (simp add: le_mod_geq)
    from 1(1) [OF False refl 1(2), folded b_def, OF b this]
    have ih: "cbc_decrypt dec b (cbc_encrypt enc b (drop BlockSize data)) = drop BlockSize data" .
    have e: "cbc_encrypt enc iv data = b @ cbc_encrypt enc b (drop BlockSize data)"
      using False by (simp add: cbc_encrypt.simps [of enc iv data] Let_def b_def)
    have "cbc_decrypt dec iv (b @ cbc_encrypt enc b (drop BlockSize data))
        = xor_bytes (dec b) iv @ cbc_decrypt dec b (cbc_encrypt enc b (drop BlockSize data))"
      using b by (subst cbc_decrypt.simps) simp
    also have "\<dots> = take BlockSize data @ drop BlockSize data"
      using 1(3) False by (simp add: d ih xor_bytes_twice)
    finally show ?thesis by (simp add: e)
  qed
qed

end
