(* ===== verification/JoinRequests.thy ===== *)
theory JoinRequests
  imports AesCbc NodeTypes Store
begin

text \<open>
  Join requests and join tokens: \<open>internal/joinrequests/types/joinrequest.go\<close>,
  \<open>internal/joinrequests/repository.go\<close> and \<open>internal/jointokens\<close>. A join request is kept in a
  table and handed to the new machine as a base64 text; the JSON encoding of the record is
  a parameter. \<open>CreatedAt\<close> of a request, which is not part of what is compared or read, is
  kept as in the code.
\<close>

section \<open>Join requests\<close>

record join_request =
  jr_ID :: string
  jr_EncryptionKeyBase64 :: string
  jr_ClientCertBundle :: client_bundle
  jr_DockerSubnet :: "string option"
  jr_GatewayHost :: string
  jr_GatewayPort :: "16 word"
  jr_Role :: node_role
  jr_CreatedAt :: int

definition ToBase64 :: "join_request json \<Rightarrow> join_request \<Rightarrow> string result" where
  "ToBase64 J c = rbind (marshal J c) (\<lambda>val. Inr (b64_encode val))"

definition FromBase64 :: "join_request json \<Rightarrow> string \<Rightarrow> join_request result" where
  "FromBase64 J base64String = rbind (b64_decode base64String) (\<lambda>decoded. unmarshal J decoded)"

text \<open>\<open>random32\<close> is what the random source yields for the key, \<open>now\<close> the clock.\<close>

definition JoinRequestCreate ::
  "('s, join_request) table_api \<Rightarrow> bytes result \<Rightarrow> int \<Rightarrow> string \<Rightarrow> string \<Rightarrow> 16 word \<Rightarrow>
   string option \<Rightarrow> node_role \<Rightarrow> client_bundle \<Rightarrow> ('s, join_request) op" where
  "JoinRequestCreate T random32 now i gatewayHost gatewayPort dockerSubnet role clientCertBundle =
     s_write (\<lambda>s. rbind (GenerateAESKey random32) (\<lambda>encryptionKey.
       (let request = \<lparr>jr_ID = i, jr_EncryptionKeyBase64 = b64_encode encryptionKey,
              jr_ClientCertBundle = clientCertBundle, jr_DockerSubnet = dockerSubnet,
              jr_GatewayHost = gatewayHost, jr_GatewayPort = gatewayPort, jr_Role = role,
              jr_CreatedAt = now\<rparr>
        in rbind (db_create T s request) (\<lambda>s'. Inr (s', request)))))"

definition JoinRequestGet ::
  "('s, join_request) table_api \<Rightarrow> string \<Rightarrow> 's \<Rightarrow> join_request result" where
  "JoinRequestGet T i s = db_first T s (\<lambda>r. jr_ID r = i)"

definition JoinRequestDelete :: "('s, join_request) table_api \<Rightarrow> string \<Rightarrow> ('s, unit) op" where
  "JoinRequestDelete T i =
     s_write (\<lambda>s. rbind (db_delete T s (\<lambda>r. jr_ID r = i)) (\<lambda>(s', _). Inr (s', ())))"

definition CountAll :: "('s, join_request) table_api \<Rightarrow> 's \<Rightarrow> int" where
  "CountAll T s = (case db_count T s (\<lambda>_. True) of Inl e \<Rightarrow> 0 | Inr n \<Rightarrow> int n)"

definition CountServerJoinRequests :: "('s, join_request) table_api \<Rightarrow> 's \<Rightarrow> int" where
  "CountServerJoinRequests T s =
     (case db_count T s (\<lambda>r. jr_Role r = NodeRoleServer) of Inl e \<Rightarrow> 0 | Inr n \<Rightarrow> int n)"

section \<open>Join tokens\<close>

record join_token =
  tok_Token :: string
  tok_CreatedAt :: int

definition JoinTokenCreate ::
  "('s, join_token) table_api \<Rightarrow> int \<Rightarrow> string \<Rightarrow> ('s, join_token) op" where
  "JoinTokenCreate T now token = s_write (\<lambda>s.
     (let joinToken = \<lparr>tok_Token = token, tok_CreatedAt = now\<rparr>
      in rbind (db_create T s joinToken) (\<lambda>s'. Inr (s', joinToken))))"

text \<open>
  \<open>Order("created_at DESC").First\<close>: the row with the latest time and, as \<open>First\<close> adds the
  order by primary key, the least token (bytewise) among rows with that time.
\<close>

fun str_less :: "string \<Rightarrow> string \<Rightarrow> bool" where
  "str_less xs [] = False"
| "str_less [] (y # ys) = True"
| "str_less (x # xs) (y # ys) =
     ((of_char x :: nat) < of_char y \<or> (x = y \<and> str_less xs ys))"

definition later :: "join_token \<Rightarrow> join_token \<Rightarrow> bool" where
  "later u t \<longleftrightarrow> tok_CreatedAt t < tok_CreatedAt u
     \<or> (tok_CreatedAt t = tok_CreatedAt u \<and> str_less (tok_Token u) (tok_Token t))"

fun latest :: "join_token list \<Rightarrow> join_token option" where
  "latest [] = None"
| "latest (t # ts) =
     (case latest ts of
        None \<Rightarrow> Some t
      | Some u \<Rightarrow> if later u t then Some u else Some t)"

definition JoinTokenGetLast :: "('s, join_token) table_api \<Rightarrow> 's \<Rightarrow> join_token result" where
  "JoinTokenGetLast T s =
     rbind (db_find T s (\<lambda>_. True)) (\<lambda>ts.
       case latest ts of None \<Rightarrow> Inl ErrRecordNotFound | Some t \<Rightarrow> Inr t)"

definition JoinTokenDeleteAll :: "('s, join_token) table_api \<Rightarrow> ('s, unit) op" where
  "JoinTokenDeleteAll T =
     s_write (\<lambda>s. rbind (db_delete T s (\<lambda>_. True)) (\<lambda>(s', _). Inr (s', ())))"

section \<open>Facts\<close>

lemma FromBase64_ToBase64:
  assumes "marshal J c = Inr b" and "unmarshal J b = Inr c"
  shows "\<exists>t. ToBase64 J c = Inr t \<and> FromBase64 J t = Inr c"
  using assms by (simp add: ToBase64_def FromBase64_def)

lemma latest_None: "latest ts = None \<longleftrightarrow> ts = []"
  by (cases ts) (auto split: option.split)

lemma latest_max:
  "latest ts = Some t \<Longrightarrow> t \<in> set ts \<and> (\<forall>u \<in> set ts. tok_CreatedAt u \<le> tok_CreatedAt t)"
proof (induction ts arbitrary: t)
  case Nil
  then show ?case by simp
next
  case (Cons a ts)
  show ?case
  proof (cases "latest ts")
    case None
    then have "ts = []" by (simp add: latest_None)
    with Cons.prems show ?thesis by simp
  next
    case (Some u)
    from Cons.IH [OF Some] Cons.prems Some show ?thesis
      by (fastforce simp: later_def split: if_splits)
  qed
qed

end
