(* ===== verification/JoinApi.thy ===== *)
theory JoinApi
  imports JoinRequests
begin

text \<open>
  The client side of joining, \<open>internal/joinrequests/api.go\<close> and \<open>join_error.go\<close>: the retry
  loop with its back-off, which errors are worth a retry, and the text that explains a
  failure. The network is a parameter: one POST on the state \<open>'w\<close> of the outside world
  returns the new state and what came back. A Go error is its text and the chain of
  errors \<open>errors.As\<close> walks.
\<close>

section \<open>Errors of the network\<close>

datatype errno = ECONNREFUSED | ENETUNREACH | EHOSTUNREACH | ETIMEDOUT | OtherErrno nat

text \<open>
  One error of a chain, outermost first: whether it is a \<open>syscall.Errno\<close>, what its method
  \<open>Timeout\<close> returns if it has one, whether it is a \<open>net.DNSError\<close> or a \<open>net.OpError\<close>.
\<close>

record err_link =
  link_errno :: "errno option"
  link_timeout :: "bool option"
  link_dns :: bool
  link_op :: bool

record net_error =
  ne_text :: string
  ne_chain :: "err_link list"

fun first_errno :: "err_link list \<Rightarrow> errno option" where
  "first_errno [] = None"
| "first_errno (l # ls) = (case link_errno l of Some e \<Rightarrow> Some e | None \<Rightarrow> first_errno ls)"

fun first_timeout :: "err_link list \<Rightarrow> bool option" where
  "first_timeout [] = None"
| "first_timeout (l # ls) = (case link_timeout l of Some b \<Rightarrow> Some b | None \<Rightarrow> first_timeout ls)"

definition isRetryableError :: "net_error \<Rightarrow> bool" where
  "isRetryableError err \<longleftrightarrow>
     first_errno (ne_chain err) \<in> Some ` {ECONNREFUSED, ENETUNREACH, EHOSTUNREACH, ETIMEDOUT}
     \<or> first_timeout (ne_chain err) = Some True
     \<or> (\<exists>l \<in> set (ne_chain err). link_dns l)"

section \<open>The retry loop\<close>

text \<open>\<open>time.Duration\<close> is a signed 64 bit number of nanoseconds.\<close>

type_synonym duration = "64 word"

definition calculateBackoffDelay :: "nat \<Rightarrow> duration \<Rightarrow> duration \<Rightarrow> duration" where
  "calculateBackoffDelay attempt baseDelay maxDelay =
     (let delay = baseDelay * push_bit (attempt - 1) 1
      in if sint maxDelay < sint delay then maxDelay else delay)"

definition maxRetries :: nat where "maxRetries = 5"
definition baseDelay :: duration where "baseDelay = 1000000000"
definition maxDelay :: duration where "maxDelay = 10000000000"

text \<open>What one POST yields: no response, a response whose body fails, or status and body.\<close>

datatype outcome =
    SendFailed net_error
  | ReadFailed net_error
  | Answer int string

datatype 'r verdict = Done 'r | Retry net_error | GiveUp net_error

text \<open>
  \<open>fmt.Errorf\<close> adds a link that is none of the error types looked for; with \<open>%w\<close> the wrapped
  error follows it in the chain.
\<close>

definition plain_link :: err_link where
  "plain_link = \<lparr>link_errno = None, link_timeout = None, link_dns = False, link_op = False\<rparr>"

definition wrap_error :: "string \<Rightarrow> net_error \<Rightarrow> net_error" where
  "wrap_error message err =
     \<lparr>ne_text = message @ '': '' @ ne_text err, ne_chain = plain_link # ne_chain err\<rparr>"

definition plain_error :: "string \<Rightarrow> net_error" where
  "plain_error t = \<lparr>ne_text = t, ne_chain = [plain_link]\<rparr>"

definition judge :: "(string \<Rightarrow> 'r result) \<Rightarrow> outcome \<Rightarrow> 'r verdict" where
  "judge unmarshal_response out =
     (case out of
        SendFailed err \<Rightarrow>
          (if isRetryableError err then Retry else GiveUp) (wrap_error ''failed to send request'' err)
      | ReadFailed err \<Rightarrow>
          (if isRetryableError err then Retry else GiveUp) (wrap_error ''failed to read response body'' err)
      | Answer status body \<Rightarrow>
          if status \<noteq> 200
          then Retry (plain_error (''request failed with status '' @ itoa_int status @ '': '' @ body))
          else (case unmarshal_response body of
                  Inl e \<Rightarrow> Retry (wrap_error ''failed to unmarshal response'' (plain_error (err_text e)))
                | Inr r \<Rightarrow> Done r))"

text \<open>
  The loop from one attempt on: the state of the world, the delays slept, and the response
  or the last error.
\<close>

function join_loop ::
  "('w \<Rightarrow> 'w \<times> outcome) \<Rightarrow> (string \<Rightarrow> 'r result) \<Rightarrow> nat \<Rightarrow> net_error \<Rightarrow> 'w
     \<Rightarrow> 'w \<times> duration list \<times> (net_error + 'r)" where
  "join_loop post unm attempt lastErr w =
     (if maxRetries < attempt then (w, [], Inl lastErr)
      else
        (case post w of (w', out) \<Rightarrow>
          (case judge unm out of
             Done r \<Rightarrow> (w', [], Inr r)
           | GiveUp e \<Rightarrow> (w', [], Inl e)
           | Retry e \<Rightarrow>
               if attempt = maxRetries then (w', [], Inl e)
               else (case join_loop post unm (Suc attempt) e w' of
                       (w'', ds, r) \<Rightarrow>
                         (w'', calculateBackoffDelay attempt baseDelay maxDelay # ds, r)))))"
  by pat_completeness auto
termination
  by (relation "measure (\<lambda>(post, unm, attempt, lastErr, w). Suc maxRetries - attempt)") auto

declare join_loop.simps [simp del]

text \<open>\<open>t0\<close> and \<open>t1\<close> are the printed times of the first attempt and of the failure.\<close>

definition Join ::
  "('w \<Rightarrow> 'w \<times> outcome) \<Rightarrow> (string \<Rightarrow> 'r result) \<Rightarrow> string \<Rightarrow> string \<Rightarrow> 'w \<Rightarrow>
   'w \<times> (net_error + 'r)" where
  "Join post unm t0 t1 w =
     (case join_loop post unm 1 (plain_error []) w of
        (w', ds, Inr r) \<Rightarrow> (w', Inr r)
      | (w', ds, Inl lastErr) \<Rightarrow>
          (w', Inl (wrap_error (''failed to join after '' @ itoa maxRetries
             @ '' attempts, first attempt at '' @ t0 @ '', now '' @ t1
             @ '', last error'') lastErr)))"

section \<open>Explaining a failure\<close>

text \<open>Lower case, of ASCII letters.\<close>

definition to_lower :: "string \<Rightarrow> string" where
  "to_lower s = map (\<lambda>c. let n = (of_char c :: nat)
     in if 65 \<le> n \<and> n \<le> 90 then char_of (n + 32) else c) s"

definition containsAny :: "string \<Rightarrow> string list \<Rightarrow> bool" where
  "containsAny s subs = (\<exists>sub \<in> set subs. contains_str s sub)"

text \<open>
  \<open>isSyscallErr\<close>: the first errno of the chain; if there is none, the search starts again
  below the first \<open>net.OpError\<close>.
\<close>

function isSyscallErr :: "err_link list \<Rightarrow> errno list \<Rightarrow> bool" where
  "isSyscallErr chain codes =
     (case first_errno chain of
        Some e \<Rightarrow> e \<in> set codes
      | None \<Rightarrow>
          (case dropWhile (\<lambda>l. \<not> link_op l) chain of
             [] \<Rightarrow> False | l # below \<Rightarrow> isSyscallErr below codes))"
  by pat_completeness auto
termination
proof (relation "measure (\<lambda>(chain, codes). length chain)", simp)
  fix chain :: "err_link list" and codes :: "errno list" and l below
  assume "dropWhile (\<lambda>l. \<not> link_op l) chain = l # below"
  then have "Suc (length below) = length (dropWhile (\<lambda>l. \<not> link_op l) chain)" by simp
  also have "\<dots> \<le> length chain" by (rule length_dropWhile_le)
  finally show "((below, codes), chain, codes) \<in> measure (\<lambda>(chain, codes). length chain)" by simp
qed

declare isSyscallErr.simps [simp del]

definition ControlServerPort :: "16 word" where "ControlServerPort = 4060"
definition WGPublicPort :: "16 word" where "WGPublicPort = 51820"

definition portStr :: "16 word \<Rightarrow> string" where
  "portStr port = itoa (unat port)"

datatype diagnosis =
    NothingAccepting | TimedOut | RouteUnreachable | NotResolved | TLSFailed | OtherFailure

definition diagnosis_of :: "net_error \<Rightarrow> diagnosis" where
  "diagnosis_of err =
     (let lower = to_lower (ne_text err)
      in if containsAny lower [''connection refused'', ''connect: connection refused''] then NothingAccepting
         else if containsAny lower [''i/o timeout'', ''context deadline exceeded'',
                   ''connection timed out'', ''timeout''] then TimedOut
         else if isSyscallErr (ne_chain err) [ENETUNREACH, EHOSTUNREACH] then RouteUnreachable
         else if containsAny lower [''no such host'', ''name or service not known''] then NotResolved
         else if containsAny lower [''tls:'', ''x509:'', ''certificate''] then TLSFailed
         else OtherFailure)"

definition diagnosis_text :: "diagnosis \<Rightarrow> string" where
  "diagnosis_text d = ''Diagnosis: '' @
     (case d of
        NothingAccepting \<Rightarrow>
          ''nothing is accepting connections on the gateway control port. ''
          @ ''Ensure the gateway container is running, then check firewalls on both hosts: ''
          @ ''outbound TCP '' @ portStr ControlServerPort @ '' from the server and ''
          @ ''inbound TCP '' @ portStr ControlServerPort @ '' on the gateway.''
      | TimedOut \<Rightarrow>
          ''the connection to the gateway timed out. This usually means a firewall (on the server host, gateway host, or a cloud security group) is dropping traffic. ''
          @ ''Verify outbound rules on this server and inbound rules on the gateway for the ports listed below.''
      | RouteUnreachable \<Rightarrow>
          ''the network route to the gateway is unreachable. Check routing, security groups, and host firewalls on both sides.''
      | NotResolved \<Rightarrow>
          ''the gateway hostname could not be resolved. Verify DNS and that the gateway public IP/hostname in the join token is correct.''
      | TLSFailed \<Rightarrow>
          ''TLS handshake with the gateway failed. If you recently reinstalled the gateway, generate a new join token and bootstrap the server again.''
      | OtherFailure \<Rightarrow>
          ''could not complete the join handshake with the gateway. Check gateway availability and firewall rules on both the server and gateway hosts.'')
     @ NL @ NL"

definition diagnoseJoinError :: "net_error \<Rightarrow> string" where
  "diagnoseJoinError err = diagnosis_text (diagnosis_of err)"

text \<open>The UTF-8 bytes of an arrow and of a dash.\<close>

definition arrow :: string where "arrow = [CHR 0xE2, CHR 0x86, CHR 0x92]"
definition dash :: string where "dash = [CHR 0xE2, CHR 0x80, CHR 0x94]"

definition ConnectivityRequirementsText :: string where
  "ConnectivityRequirementsText =
     ''Check firewall rules on BOTH the server and gateway hosts (and any cloud security groups):'' @ NL @ NL
     @ ''Server host:'' @ NL
     @ ''  - Outbound TCP '' @ portStr ControlServerPort @ '' '' @ arrow @ '' gateway (join / control API)'' @ NL
     @ ''  - Outbound UDP '' @ portStr WGPublicPort @ '' '' @ arrow @ '' gateway (WireGuard tunnel)'' @ NL @ NL
     @ ''Gateway host:'' @ NL
     @ ''  - Inbound TCP '' @ portStr ControlServerPort @ '' from the server (join / control API)'' @ NL
     @ ''  - Inbound UDP '' @ portStr WGPublicPort
     @ '' (WireGuard; also 80/tcp and 443/tcp for published services)'' @ NL @ NL
     @ ''If the gateway and server run on the same machine, both sets of rules apply on that host.'' @ NL @ NL"

definition FormatJoinError :: "string \<Rightarrow> net_error option \<Rightarrow> string \<Rightarrow> string" where
  "FormatJoinError documentationURL error gatewayAddress =
     (case error of None \<Rightarrow> []
      | Some err \<Rightarrow>
          ''Failed to reach the wireport gateway at '' @ gatewayAddress @ ''.'' @ NL
          @ ''Underlying error: '' @ ne_text err @ NL @ NL
          @ diagnoseJoinError err
          @ ConnectivityRequirementsText
          @ ''Full port and firewall requirements: '' @ documentationURL @ NL @ NL
          @ ''After fixing firewall rules, the server container will retry joining automatically ''
          @ dash @ '' a container restart is not required.'' @ NL)"

section \<open>The client\<close>

text \<open>
  \<open>NewAPIService\<close>: the HTTP client of a join, known by its TLS configuration. Without one it
  panics.
\<close>

definition NewAPIService :: "('c, 'k) crypto \<Rightarrow> client_bundle \<Rightarrow> tls_config result" where
  "NewAPIService K clientCertBundle =
     (case GetClientTLSConfig K clientCertBundle of
        Inl e \<Rightarrow> Inl (ProcessExit (err_text e))
      | Inr tlsConfig \<Rightarrow> Inr tlsConfig)"

text \<open>
  The dial function of its resolver: the first of three name servers that can be dialled over
  UDP, else the server and network asked for. \<open>dial\<close> is \<open>net.Dialer.DialContext\<close>.
\<close>

definition dnsServers :: "string list" where
  "dnsServers = [''8.8.8.8:53'', ''1.1.1.1:53'', ''208.67.222.222:53'']"

fun dial_first :: "(string \<Rightarrow> string \<Rightarrow> ('f, 'a) op) \<Rightarrow> string list \<Rightarrow> ('f, 'a) op \<Rightarrow> ('f, 'a) op" where
  "dial_first dial [] fallback = fallback"
| "dial_first dial (dnsServer # servers) fallback = (\<lambda>f.
     case dial ''udp'' dnsServer f of
       (f', Inr conn) \<Rightarrow> (f', Inr conn)
     | (f', Inl e) \<Rightarrow> dial_first dial servers fallback f')"

definition resolver_dial ::
  "(string \<Rightarrow> string \<Rightarrow> ('f, 'a) op) \<Rightarrow> string \<Rightarrow> string \<Rightarrow> ('f, 'a) op" where
  "resolver_dial dial network address = dial_first dial dnsServers (dial network address)"

end
