(* ===== verification/Api.thy ===== *)
theory Api
  imports NodeTypes Services AesCbc
begin

text \<open>
  The messages between the machines: the request and response structures of
  \<open>internal/commands/types/api-dto.go\<close> and the address of each request
  (\<open>internal/commands/api_commands_service.go\<close>).
\<close>

section \<open>Requests\<close>

datatype request =
    ServerNewRequest bool bool string
  | ServerRemoveRequest string
  | ServerListRequest
  | NodeLabelAddRequest string string
  | NodeLabelRemoveRequest string string
  | ClientNewRequest bool bool bool
  | ClientListRequest
  | ServicePublishRequest string string "16 word" string string "16 word"
  | ServiceUnpublishRequest string string "16 word"
  | ServiceListRequest
  | ServiceParamNewRequest string string "16 word" string string
  | ServiceParamRemoveRequest string string "16 word" string string
  | ServiceParamListRequest string string "16 word"
  | NodeConfigRequest

fun endpoint :: "request \<Rightarrow> string" where
  "endpoint (ServerNewRequest _ _ _) = ''/commands/server/new''"
| "endpoint (ServerRemoveRequest _) = ''/commands/server/remove''"
| "endpoint ServerListRequest = ''/commands/server/list''"
| "endpoint (NodeLabelAddRequest _ _) = ''/commands/node/label/add''"
| "endpoint (NodeLabelRemoveRequest _ _) = ''/commands/node/label/remove''"
| "endpoint (ClientNewRequest _ _ _) = ''/commands/client/new''"
| "endpoint ClientListRequest = ''/commands/client/list''"
| "endpoint (ServicePublishRequest _ _ _ _ _ _) = ''/commands/service/publish''"
| "endpoint (ServiceUnpublishRequest _ _ _) = ''/commands/service/unpublish''"
| "endpoint ServiceListRequest = ''/commands/service/list''"
| "endpoint (ServiceParamNewRequest _ _ _ _ _) = ''/commands/service/params/new''"
| "endpoint (ServiceParamRemoveRequest _ _ _ _ _) = ''/commands/service/params/remove''"
| "endpoint (ServiceParamListRequest _ _ _) = ''/commands/service/params/list''"
| "endpoint NodeConfigRequest = ''/commands/node/config''"

section \<open>Responses\<close>

record exec_response =
  Stdout :: string
  Stderr :: string

text \<open>Every response carries the two texts; three kinds carry more.\<close>

datatype payload =
    NoPayload
  | ServerNodesCount int
  | ServiceRows "service list"
  | NodeConfig "node option"

record response = exec_response +
  resp_payload :: payload

definition exec_part :: "response \<Rightarrow> exec_response" where
  "exec_part r = \<lparr>Stdout = Stdout r, Stderr = Stderr r\<rparr>"

text \<open>
  \<open>encoding/json\<close> on these structures: a decoder is chosen by the address of the request.
\<close>

record codec =
  put_request :: "request \<Rightarrow> bytes result"
  get_request :: "string \<Rightarrow> bytes \<Rightarrow> request result"
  put_response :: "response \<Rightarrow> bytes result"
  get_response :: "string \<Rightarrow> bytes \<Rightarrow> response result"

section \<open>HTTP\<close>

text \<open>
  A request as the handler sees it: \<open>hr_peers\<close> are the common names of the client's
  certificates, if the connection is over TLS.
\<close>

record http_request =
  hr_method :: string
  hr_path :: string
  hr_content_type :: string
  hr_peers :: "string list option"
  hr_body :: bytes

record http_response =
  hs_status :: nat
  hs_body :: bytes

lemma endpoint_not_empty [simp]: "endpoint r \<noteq> []"
  by (cases r) simp_all

end
