(* ===== verification/DockerUtils.thy ===== *)
theory DockerUtils
  imports AddrTypes GoText
begin

text \<open>
  The docker network of a node, \<open>internal/dockerutils/service.go\<close>. The Docker client
  (\<open>github.com/moby/moby/client\<close>) is the record \<open>docker\<close> of its calls on the state \<open>'f\<close> of the
  machine, with the classification of its errors (\<open>containerd/errdefs\<close>); log messages are
  left out.
\<close>

section \<open>The client\<close>

text \<open>A listed container; \<open>ct_Networks\<close> is \<open>None\<close> where the settings are a nil pointer.\<close>

record container =
  ct_ID :: string
  ct_Names :: "string list"
  ct_Networks :: "string list option"

text \<open>An inspected container; a nil \<open>Config\<close> or \<open>NetworkSettings\<close> is \<open>None\<close>.\<close>

record inspection =
  in_Name :: string
  in_Labels :: "(string \<rightharpoonup> string) option"
  in_Networks :: "string list option"

record 'f docker =
  dk_new :: "'f \<Rightarrow> unit result"
  dk_hostname :: "'f \<Rightarrow> string result"
  dk_list :: "'f \<Rightarrow> container list result"
  dk_inspect :: "string \<Rightarrow> 'f \<Rightarrow> inspection result"
  dk_network_inspect :: "string \<Rightarrow> 'f \<Rightarrow> unit result"
  dk_network_create :: "string \<Rightarrow> string \<Rightarrow> string \<Rightarrow> ('f, unit) op"
  dk_network_remove :: "string \<Rightarrow> ('f, unit) op"
  dk_network_connect :: "string \<Rightarrow> string \<Rightarrow> ('f, unit) op"
  dk_network_disconnect :: "string \<Rightarrow> string \<Rightarrow> ('f, unit) op"
  dk_parse_prefix :: "string \<Rightarrow> string result"
  dk_is_conflict :: "go_error \<Rightarrow> bool"
  dk_is_denied :: "go_error \<Rightarrow> bool"
  dk_is_not_found :: "go_error \<Rightarrow> bool"

definition DockerNetworkName :: string where "DockerNetworkName = ''wireport-net''"
definition DockerNetworkDriver :: string where "DockerNetworkDriver = ''bridge''"
definition WireportGatewayContainerName :: string where
  "WireportGatewayContainerName = ''wireport-gateway''"

text \<open>\<open>strings.TrimPrefix(name, "/")\<close>.\<close>

definition trim_slash :: "string \<Rightarrow> string" where
  "trim_slash s = (case s of [] \<Rightarrow> [] | c # cs \<Rightarrow> if c = CHR ''/'' then cs else s)"

text \<open>\<open>names[0]\<close>, a panic on an empty slice.\<close>

definition first_name :: "container \<Rightarrow> string result" where
  "first_name ctr = (case ct_Names ctr of [] \<Rightarrow> Inl IndexOutOfRange | n # _ \<Rightarrow> Inr n)"

section \<open>The network of this node\<close>

definition getContainerName :: "'f docker \<Rightarrow> string \<Rightarrow> 'f \<Rightarrow> string result" where
  "getContainerName D containerID f =
     rbind (dk_new D f) (\<lambda>_. rbind (dk_inspect D containerID f) (\<lambda>i. Inr (trim_slash (in_Name i))))"

definition getRunningContainerName :: "'f docker \<Rightarrow> 'f \<Rightarrow> string result" where
  "getRunningContainerName D f =
     rbind (dk_hostname D f) (\<lambda>containerID. getContainerName D containerID f)"

text \<open>The network exists afterwards, unless Docker reports an error.\<close>

definition ensure_network :: "'f docker \<Rightarrow> string \<Rightarrow> ('f, unit) op" where
  "ensure_network D subnetPrefix f =
     (case dk_network_inspect D DockerNetworkName f of
        Inr u \<Rightarrow> (f, Inr ())
      | Inl e \<Rightarrow>
          if contains_str (err_text e) ''not found''
          then dk_network_create D DockerNetworkName DockerNetworkDriver subnetPrefix f
          else (f, Inl e))"

definition EnsureDockerNetworkExistsAndAttached :: "'f docker \<Rightarrow> ipnet \<Rightarrow> ('f, unit) op" where
  "EnsureDockerNetworkExistsAndAttached D dockerSubnet =
     s_bind (s_read (dk_new D)) (\<lambda>_.
     s_bind (s_read (\<lambda>_. dk_parse_prefix D (IPNet_String dockerSubnet))) (\<lambda>subnetPrefix.
     s_bind (ensure_network D subnetPrefix) (\<lambda>_.
     s_bind (s_read (getRunningContainerName D)) (\<lambda>containerName.
     s_bind (s_read (dk_inspect D containerName)) (\<lambda>inspect.
     let networks = (case in_Networks inspect of None \<Rightarrow> [] | Some ns \<Rightarrow> ns) in
     if DockerNetworkName \<in> set networks then s_read (\<lambda>_. Inr ())
     else dk_network_connect D DockerNetworkName containerName)))))"

section \<open>All containers\<close>

text \<open>Errors of a connection that only mean that this container is left alone.\<close>

definition skip_connect_error :: "'f docker \<Rightarrow> go_error \<Rightarrow> bool" where
  "skip_connect_error D e \<longleftrightarrow>
     contains_str (err_text e) ''conflicts with existing route''
     \<or> contains_str (err_text e) ''cannot program address''
     \<or> dk_is_conflict D e \<or> dk_is_denied D e"

definition needs_network :: "container \<Rightarrow> bool" where
  "needs_network ctr \<longleftrightarrow>
     ''/'' @ WireportGatewayContainerName \<notin> set (ct_Names ctr)
     \<and> \<not> (\<exists>ns. ct_Networks ctr = Some ns \<and> DockerNetworkName \<in> set ns)"

fun attach_all :: "'f docker \<Rightarrow> container list \<Rightarrow> ('f, unit) op" where
  "attach_all D [] f = (f, Inr ())"
| "attach_all D (ctr # ctrs) f =
     (if \<not> needs_network ctr then attach_all D ctrs f
      else (case dk_network_connect D DockerNetworkName (ct_ID ctr) f of
          (f', Inl e) \<Rightarrow> if skip_connect_error D e then attach_all D ctrs f' else (f', Inl e)
        | (f', Inr u) \<Rightarrow> (case first_name ctr of
              Inl e \<Rightarrow> (f', Inl e) | Inr n \<Rightarrow> attach_all D ctrs f')))"

definition EnsureDockerNetworkIsAttachedToAllContainers :: "'f docker \<Rightarrow> ('f, unit) op" where
  "EnsureDockerNetworkIsAttachedToAllContainers D =
     s_bind (s_read (dk_new D)) (\<lambda>_. s_bind (s_read (dk_list D)) (attach_all D))"

text \<open>A container without settings is not skipped: the code asks Docker to disconnect it.\<close>

definition may_have_network :: "container \<Rightarrow> bool" where
  "may_have_network ctr \<longleftrightarrow>
     (case ct_Networks ctr of None \<Rightarrow> True | Some ns \<Rightarrow> DockerNetworkName \<in> set ns)"

fun detach_all :: "'f docker \<Rightarrow> container list \<Rightarrow> ('f, unit) op" where
  "detach_all D [] f = (f, Inr ())"
| "detach_all D (ctr # ctrs) f =
     (if \<not> may_have_network ctr then detach_all D ctrs f
      else (case dk_network_disconnect D DockerNetworkName (ct_ID ctr) f of
          (f', Inl e) \<Rightarrow>
            if dk_is_not_found D e \<or> dk_is_denied D e \<or> dk_is_conflict D e
            then detach_all D ctrs f' else (f', Inl e)
        | (f', Inr u) \<Rightarrow> (case first_name ctr of
              Inl e \<Rightarrow> (f', Inl e) | Inr n \<Rightarrow> detach_all D ctrs f')))"

definition DetachDockerNetworkFromAllContainers :: "'f docker \<Rightarrow> ('f, unit) op" where
  "DetachDockerNetworkFromAllContainers D =
     s_bind (s_read (dk_new D)) (\<lambda>_. s_bind (s_read (dk_list D)) (detach_all D))"

definition RemoveDockerNetwork :: "'f docker \<Rightarrow> ('f, unit) op" where
  "RemoveDockerNetwork D =
     s_bind (s_read (dk_new D)) (\<lambda>_ f.
       case dk_network_inspect D DockerNetworkName f of
         Inl e \<Rightarrow> if contains_str (err_text e) ''not found'' then (f, Inr ()) else (f, Inl e)
       | Inr u \<Rightarrow> dk_network_remove D DockerNetworkName f)"

section \<open>Labels\<close>

text \<open>
  The labels by container name, as a list with one entry per name: a later container with
  the same name replaces the entry. Nil labels read as no labels.
\<close>

definition put_labels ::
  "string \<Rightarrow> (string \<rightharpoonup> string) \<Rightarrow> (string \<times> (string \<rightharpoonup> string)) list \<Rightarrow>
   (string \<times> (string \<rightharpoonup> string)) list" where
  "put_labels n ls m = filter (\<lambda>(k, _). k \<noteq> n) m @ [(n, ls)]"

fun collect_labels ::
  "'f docker \<Rightarrow> 'f \<Rightarrow> container list \<Rightarrow> (string \<times> (string \<rightharpoonup> string)) list \<Rightarrow>
   (string \<times> (string \<rightharpoonup> string)) list result" where
  "collect_labels D f [] m = Inr m"
| "collect_labels D f (ctr # ctrs) m =
     rbind (first_name ctr) (\<lambda>n.
       case dk_inspect D (ct_ID ctr) f of
         Inl e \<Rightarrow> collect_labels D f ctrs m
       | Inr i \<Rightarrow> collect_labels D f ctrs (put_labels (trim_slash n)
            (case in_Labels i of None \<Rightarrow> Map.empty | Some ls \<Rightarrow> ls) m))"

definition ListAllContainerLabels ::
  "'f docker \<Rightarrow> 'f \<Rightarrow> (string \<times> (string \<rightharpoonup> string)) list result" where
  "ListAllContainerLabels D f =
     rbind (dk_new D f) (\<lambda>_. rbind (dk_list D f) (\<lambda>items. collect_labels D f items []))"

section \<open>Facts\<close>

lemma put_labels_distinct: "distinct (map fst m) \<Longrightarrow> distinct (map fst (put_labels n ls m))"
  by (induction m) (auto simp: put_labels_def)

lemma collect_labels_distinct:
  "collect_labels D f ctrs m = Inr m' \<Longrightarrow> distinct (map fst m) \<Longrightarrow> distinct (map fst m')"
proof (induction ctrs arbitrary: m)
  case (Cons ctr ctrs)
  then obtain n where "first_name ctr = Inr n" by (auto simp: result_simps)
  with Cons show ?case
    by (cases "dk_inspect D (ct_ID ctr) f") (simp_all add: put_labels_distinct)
qed simp

lemma labels_distinct:
  "ListAllContainerLabels D f = Inr m \<Longrightarrow> distinct (map fst m)"
  using collect_labels_distinct [of D f _ "[]" m]
  by (auto simp: ListAllContainerLabels_def result_simps)

end
