(* ===== verification/World.thy ===== *)
theory World
  imports NodesWrite Configs JoinApi Api DockerUtils
begin

text \<open>
  What the command layer (\<open>internal/commands\<close>, \<open>internal/networkapps\<close>) works on: the tables
  of one machine, the machine itself (its files and the commands run on it), the text
  written to the two output writers, and whether a delayed restart is pending. A handler
  has no result in the code; here it is an operation on the world whose error is a panic
  or the end of the process. An ordinary early return is a success that has printed its
  message.
\<close>

section \<open>The world\<close>

record ('n, 'v, 'j, 't, 'f) world =
  w_nodes :: 'n
  w_services :: 'v
  w_requests :: 'j
  w_tokens :: 't
  w_machine :: 'f
  w_out :: string
  w_err :: string
  w_restart_pending :: bool

type_synonym ('n, 'v, 'j, 't, 'f, 'a) cmd = "(('n, 'v, 'j, 't, 'f) world, 'a) op"

text \<open>
  The parameters: the four tables; what a node operation takes from outside; the
  configuration files; the random key and the JSON encoding of a join request; whether
  \<open>os.Stat\<close> on a file gives something else than "does not exist", whether it gives no error,
  whether a process runs (\<open>pgrep -x\<close>), a shell command (\<open>/bin/sh -c\<close>)
  with its effect on the machine, the same with the output of the command, and the
  rendering of a script template with its variables; Docker; what
  other processes do to the node table during a second of waiting; the encoding of the API
  messages, \<open>http.NewRequest\<close> on an address, and a POST over mutual TLS, with the status
  and the body or the error of reading it; the POST of a join request, the decoding of its
  answer and the two times its errors mention; \<open>net/url.Parse\<close> as scheme, host name and
  port; \<open>strconv.Quote\<close>, which depends on the Unicode tables; and the address of the
  documentation.
\<close>

record ('n, 'v, 'j, 't, 'f, 'c, 'k) deps =
  c_nodes :: "('n, node) table_api"
  c_services :: "('v, service) table_api"
  c_requests :: "('j, join_request) table_api"
  c_tokens :: "('t, join_token) table_api"
  c_env :: "('c, 'k) env"
  c_config :: "'f config_env"
  c_random32 :: "bytes result"
  c_json :: "join_request json"
  c_file_exists :: "'f \<Rightarrow> string \<Rightarrow> bool"
  c_stat_ok :: "'f \<Rightarrow> string \<Rightarrow> bool"
  c_process_running :: "string \<Rightarrow> 'f \<Rightarrow> bool"
  c_shell :: "string \<Rightarrow> ('f, unit) op"
  c_script :: "string \<Rightarrow> 'f \<Rightarrow> 'f \<times> string \<times> unit result"
  c_render :: "string \<Rightarrow> (string \<times> string) list \<Rightarrow> string result"
  c_docker :: "'f docker"
  c_tick :: "'n \<Rightarrow> 'n"
  c_codec :: codec
  c_new_request :: "string \<Rightarrow> unit result"
  c_post :: "tls_config \<Rightarrow> string \<Rightarrow> bytes \<Rightarrow> ('f, nat \<times> bytes result) op"
  c_join_post :: "tls_config \<Rightarrow> string \<Rightarrow> string \<Rightarrow> 'f \<Rightarrow> 'f \<times> outcome"
  c_join_answer :: "string \<Rightarrow> node option result"
  c_join_times :: "string \<times> string"
  c_parse_url :: "string \<Rightarrow> (string \<times> string \<times> string) result"
  c_quote :: "string \<Rightarrow> string"
  c_doc_url :: string

section \<open>Operations of the parts, and control flow\<close>

definition on_nodes :: "('n, 'a) op \<Rightarrow> ('n, 'v, 'j, 't, 'f, 'a) cmd" where
  "on_nodes m w = (case m (w_nodes w) of (s, r) \<Rightarrow> (w\<lparr>w_nodes := s\<rparr>, r))"

definition on_services :: "('v, 'a) op \<Rightarrow> ('n, 'v, 'j, 't, 'f, 'a) cmd" where
  "on_services m w = (case m (w_services w) of (s, r) \<Rightarrow> (w\<lparr>w_services := s\<rparr>, r))"

definition on_requests :: "('j, 'a) op \<Rightarrow> ('n, 'v, 'j, 't, 'f, 'a) cmd" where
  "on_requests m w = (case m (w_requests w) of (s, r) \<Rightarrow> (w\<lparr>w_requests := s\<rparr>, r))"

definition on_tokens :: "('t, 'a) op \<Rightarrow> ('n, 'v, 'j, 't, 'f, 'a) cmd" where
  "on_tokens m w = (case m (w_tokens w) of (s, r) \<Rightarrow> (w\<lparr>w_tokens := s\<rparr>, r))"

definition on_machine :: "('f, 'a) op \<Rightarrow> ('n, 'v, 'j, 't, 'f, 'a) cmd" where
  "on_machine m w = (case m (w_machine w) of (s, r) \<Rightarrow> (w\<lparr>w_machine := s\<rparr>, r))"

text \<open>A repository call whose only result is a truth value never fails.\<close>

definition op_bool :: "('s \<Rightarrow> 's \<times> bool) \<Rightarrow> ('s, bool) op" where
  "op_bool m s = (case m s of (s', b) \<Rightarrow> (s', Inr b))"

definition finish :: "'s \<Rightarrow> 's \<times> unit result" where
  "finish s = (s, Inr ())"

definition print :: "string \<Rightarrow> ('n, 'v, 'j, 't, 'f, unit) cmd" where
  "print t w = (w\<lparr>w_out := w_out w @ t\<rparr>, Inr ())"

definition eprint :: "string \<Rightarrow> ('n, 'v, 'j, 't, 'f, unit) cmd" where
  "eprint t w = (w\<lparr>w_err := w_err w @ t\<rparr>, Inr ())"

definition is_panic :: "go_error \<Rightarrow> bool" where
  "is_panic e =
     (case e of NilDereference \<Rightarrow> True | IndexOutOfRange \<Rightarrow> True | ProcessExit t \<Rightarrow> True | _ \<Rightarrow> False)"

text \<open>
  \<open>x, err := m; if err != nil { h }; k\<close>, where \<open>h\<close> ends with a return. A panic is no error
  value: it ends the handler.
\<close>

definition attempt ::
  "('s, 'a) op \<Rightarrow> (go_error \<Rightarrow> ('s, 'b) op) \<Rightarrow> ('a \<Rightarrow> ('s, 'b) op) \<Rightarrow> ('s, 'b) op" where
  "attempt m h k s = (case m s of
     (s', Inr x) \<Rightarrow> k x s'
   | (s', Inl e) \<Rightarrow> if is_panic e then (s', Inl e) else h e s')"

text \<open>A pointer that is used without a nil check.\<close>

definition deref :: "'a option \<Rightarrow> ('a \<Rightarrow> ('s, 'b) op) \<Rightarrow> ('s, 'b) op" where
  "deref p k s = (case p of None \<Rightarrow> (s, Inl NilDereference) | Some x \<Rightarrow> k x s)"

lemma deref_Some [simp]: "deref (Some x) k = k x"
  by (rule ext) (simp add: deref_def)

text \<open>The command writes to two fresh buffers; the writers of the process are untouched.\<close>

definition buffered ::
  "('n, 'v, 'j, 't, 'f, 'a) cmd \<Rightarrow> ('n, 'v, 'j, 't, 'f, 'a \<times> string \<times> string) cmd" where
  "buffered m w =
     (case m (w\<lparr>w_out := [], w_err := []\<rparr>) of
        (w', Inl e) \<Rightarrow> (w'\<lparr>w_out := w_out w, w_err := w_err w\<rparr>, Inl e)
      | (w', Inr x) \<Rightarrow> (w'\<lparr>w_out := w_out w, w_err := w_err w\<rparr>, Inr (x, w_out w', w_err w')))"

section \<open>Restarting the network applications\<close>

definition WireguardRestartCommand :: string where
  "WireguardRestartCommand =
     ''(/usr/bin/wg-quick down wg0 2>/dev/null || true) && /usr/bin/wg-quick up wg0''"
definition CaddyRestartCommand :: "string \<Rightarrow> string" where
  "CaddyRestartCommand path = ''/usr/bin/caddy reload --config '' @ path @ '' --adapter caddyfile''"
definition CoreDNSRestartCommand :: string where
  "CoreDNSRestartCommand = ''/usr/bin/pkill -TERM coredns 2>/dev/null || true''"

text \<open>One application: nothing without its configuration file.\<close>

definition restart_app ::
  "('n, 'v, 'j, 't, 'f, 'c, 'k) deps \<Rightarrow> bool \<Rightarrow> string \<Rightarrow> string \<Rightarrow> string \<Rightarrow> ('f, unit) op"
  where
  "restart_app C restart path command name f =
     (if restart \<and> c_file_exists C f path then
        (case c_shell C command f of
           (f', Inr u) \<Rightarrow> (f', Inr ())
         | (f', Inl e) \<Rightarrow> (f', Inl (ErrText (''failed to restart '' @ name @ '': '' @ err_text e))))
      else (f, Inr ()))"

definition RestartNetworkApps ::
  "('n, 'v, 'j, 't, 'f, 'c, 'k) deps \<Rightarrow> bool \<Rightarrow> bool \<Rightarrow> bool \<Rightarrow> ('f, unit) op" where
  "RestartNetworkApps C restartWireguard restartCoreDNS restartCaddy =
     (let K = c_config C in
      s_bind (restart_app C restartWireguard (WireguardConfigPath K) WireguardRestartCommand ''wireguard'')
        (\<lambda>_. s_bind (restart_app C restartCoreDNS (CoreDNSConfigPath K) CoreDNSRestartCommand ''coredns'')
        (\<lambda>_. restart_app C restartCaddy (CaddyConfigPath K) (CaddyRestartCommand (CaddyConfigPath K)) ''caddy'')))"

text \<open>
  \<open>ScheduleNetworkAppsRestart\<close>, seen by its caller: the send to the channel of one place
  that wakes the restarting goroutine; with a restart already pending nothing happens.
\<close>

definition ScheduleNetworkAppsRestart :: "('n, 'v, 'j, 't, 'f, unit) cmd" where
  "ScheduleNetworkAppsRestart w = (w\<lparr>w_restart_pending := True\<rparr>, Inr ())"

section \<open>Texts\<close>

text \<open>The symbols of the messages, in UTF-8.\<close>

definition check_mark :: string where "check_mark = [CHR 0xE2, CHR 0x9C, CHR 0x85]"
definition cross_mark :: string where "cross_mark = [CHR 0xE2, CHR 0x9D, CHR 0x8C]"

definition service_url :: "string \<Rightarrow> string \<Rightarrow> 16 word \<Rightarrow> string" where
  "service_url protocol host port = protocol @ ''://'' @ host @ '':'' @ port_str port"

definition rule80 :: string where "rule80 = replicate 80 (CHR ''='') @ NL"

text \<open>A message with the text of an error at its end.\<close>

definition fail_with :: "string \<Rightarrow> go_error \<Rightarrow> ('n, 'v, 'j, 't, 'f, unit) cmd" where
  "fail_with message e = eprint (message @ '': '' @ err_text e @ NL)"

section \<open>Laws of the operations\<close>

named_theorems world_simps \<open>unfolding of the operations on the world\<close>

lemmas [world_simps] =
  on_nodes_def on_services_def on_requests_def on_tokens_def on_machine_def op_bool_def
  finish_def print_def eprint_def attempt_def deref_def fail_with_def s_read_def

end
