(* ===== verification/LocalService.thy ===== *)
theory LocalService
  imports World
begin

text \<open>
  The service commands as they run on the gateway, \<open>internal/commands/local_service.go\<close>.
\<close>

section \<open>Bringing a change into effect\<close>

text \<open>
  The end of the four commands that change services: the gateway's files are written again
  from all services and Caddy is reloaded. \<open>gatewayNode\<close> is a nil pointer when there is no
  gateway, and \<open>SaveConfigs\<close> reads its role.
\<close>

definition apply_services ::
  "('n, 'v, 'j, 't, 'f, 'c, 'k) deps \<Rightarrow> string \<Rightarrow> ('n, 'v, 'j, 't, 'f, unit) cmd" where
  "apply_services C success =
     attempt (on_nodes (s_read (GetGatewayNode (c_nodes C))))
       (fail_with ''Error getting gateway node'') (\<lambda>gatewayNode.
     attempt (on_services (s_read (ServiceGetAll (c_services C))))
       (fail_with ''Failed to list services'') (\<lambda>publicServices.
     deref gatewayNode (\<lambda>gw.
     attempt (on_machine (SaveConfigs (c_config C) gw publicServices False))
       (fail_with ''Error saving gateway node configs'') (\<lambda>_.
     attempt (on_machine (RestartNetworkApps C False False True))
       (fail_with ''Error restarting services'') (\<lambda>_.
     print success)))))"

section \<open>Publishing\<close>

definition published_service ::
  "string option \<Rightarrow> string \<Rightarrow> string \<Rightarrow> 16 word \<Rightarrow> string \<Rightarrow> string \<Rightarrow> 16 word \<Rightarrow> service" where
  "published_service requestFromNodeID localProtocol localHost localPort
     publicProtocol publicHost publicPort =
     \<lparr>PublishedByNodeID = requestFromNodeID, LocalProtocol = localProtocol, LocalHost = localHost,
      LocalPort = localPort, PublicProtocol = publicProtocol, PublicHost = publicHost,
      PublicPort = publicPort, Params = [], CreatedAt = 0\<rparr>"

definition LocalServicePublish ::
  "('n, 'v, 'j, 't, 'f, 'c, 'k) deps \<Rightarrow> string option \<Rightarrow> string \<Rightarrow> string \<Rightarrow> 16 word \<Rightarrow>
   string \<Rightarrow> string \<Rightarrow> 16 word \<Rightarrow> ('n, 'v, 'j, 't, 'f, unit) cmd" where
  "LocalServicePublish C requestFromNodeID localProtocol localHost localPort
     publicProtocol publicHost publicPort =
     attempt (on_services (ServiceSave (c_services C)
               (published_service requestFromNodeID localProtocol localHost localPort
                  publicProtocol publicHost publicPort)))
       (fail_with ''Error creating public service'') (\<lambda>_.
     apply_services C
       (check_mark @ '' Service '' @ service_url localProtocol localHost localPort
        @ '' is now published on'' @ NL @ NL @ TAB @ TAB
        @ service_url publicProtocol publicHost publicPort @ NL @ NL @ NL))"

definition LocalServiceUnpublish ::
  "('n, 'v, 'j, 't, 'f, 'c, 'k) deps \<Rightarrow> string \<Rightarrow> string \<Rightarrow> 16 word \<Rightarrow> ('n, 'v, 'j, 't, 'f, unit) cmd"
  where
  "LocalServiceUnpublish C publicProtocol publicHost publicPort =
     s_bind (on_services (op_bool (ServiceDelete (c_services C)
               (publicProtocol, publicHost, publicPort)))) (\<lambda>serviceDeleted.
     if serviceDeleted then
       apply_services C
         (check_mark @ '' Service '' @ service_url publicProtocol publicHost publicPort
          @ '' is now unpublished'' @ NL)
     else print (cross_mark @ '' Service '' @ service_url publicProtocol publicHost publicPort
          @ '' was not found or was already unpublished earliner'' @ NL))"

section \<open>Listing\<close>

definition service_line :: "service \<Rightarrow> string" where
  "service_line v =
     service_url (PublicProtocol v) (PublicHost v) (PublicPort v) @ TAB @ ''->'' @ TAB
     @ service_url (LocalProtocol v) (LocalHost v) (LocalPort v) @ NL"

definition LocalServiceList ::
  "('n, 'v, 'j, 't, 'f, 'c, 'k) deps \<Rightarrow> ('n, 'v, 'j, 't, 'f, unit) cmd" where
  "LocalServiceList C =
     attempt (on_services (s_read (ServiceGetAll (c_services C))))
       (fail_with ''Failed to list services'') (\<lambda>services.
     s_bind (print (''PUBLIC'' @ TAB @ ''->'' @ TAB @ ''LOCAL'' @ NL)) (\<lambda>_.
     s_bind (print rule80) (\<lambda>_.
     if services \<noteq> [] then print (concat (map service_line services))
     else print (''No services are published on the gateway.'' @ NL
            @ ''Use '' @ [CHR 0x27] @ ''wireport service publish'' @ [CHR 0x27]
            @ '' to publish a new service.'' @ NL))))"

section \<open>Parameters\<close>

definition param_message ::
  "string \<Rightarrow> string \<Rightarrow> string \<Rightarrow> string \<Rightarrow> string \<Rightarrow> 16 word \<Rightarrow> string \<Rightarrow> string" where
  "param_message sign paramValue what protocol host port reason =
     sign @ '' Parameter '' @ [CHR 0x27] @ paramValue @ [CHR 0x27] @ '' '' @ what @ '' service ''
     @ service_url protocol host port @ reason @ NL"

definition LocalServiceParamNew ::
  "('n, 'v, 'j, 't, 'f, 'c, 'k) deps \<Rightarrow> string \<Rightarrow> string \<Rightarrow> 16 word \<Rightarrow> string \<Rightarrow> string \<Rightarrow>
   ('n, 'v, 'j, 't, 'f, unit) cmd" where
  "LocalServiceParamNew C publicProtocol publicHost publicPort paramType paramValue =
     s_bind (on_services (op_bool (AddParam (c_services C)
               (publicProtocol, publicHost, publicPort) paramType paramValue))) (\<lambda>added.
     if added then
       apply_services C (param_message check_mark paramValue ''successfully added to''
         publicProtocol publicHost publicPort [])
     else print (param_message cross_mark paramValue ''was not added to''
         publicProtocol publicHost publicPort '' (probably already exists)''))"

definition LocalServiceParamRemove ::
  "('n, 'v, 'j, 't, 'f, 'c, 'k) deps \<Rightarrow> string \<Rightarrow> string \<Rightarrow> 16 word \<Rightarrow> string \<Rightarrow> string \<Rightarrow>
   ('n, 'v, 'j, 't, 'f, unit) cmd" where
  "LocalServiceParamRemove C publicProtocol publicHost publicPort paramType paramValue =
     s_bind (on_services (op_bool (RemoveParam (c_services C)
               (publicProtocol, publicHost, publicPort) paramType paramValue))) (\<lambda>removed.
     if removed then
       apply_services C (param_message check_mark paramValue ''successfully removed from''
         publicProtocol publicHost publicPort [])
     else print (param_message cross_mark paramValue ''was not removed from''
         publicProtocol publicHost publicPort '' (probably not found)''))"

definition LocalServiceParamList ::
  "('n, 'v, 'j, 't, 'f, 'c, 'k) deps \<Rightarrow> string \<Rightarrow> string \<Rightarrow> 16 word \<Rightarrow> ('n, 'v, 'j, 't, 'f, unit) cmd"
  where
  "LocalServiceParamList C publicProtocol publicHost publicPort =
     attempt (on_services (s_read (ServiceGet (c_services C) (publicProtocol, publicHost, publicPort))))
       (fail_with ''Error getting service'') (\<lambda>service.
     s_bind (print (''SERVICE PARAMS: ''
        @ service_url (PublicProtocol service) (PublicHost service) (PublicPort service) @ NL)) (\<lambda>_.
     s_bind (print rule80) (\<lambda>_.
     s_bind (if Params service \<noteq> [] then print (concat (map (\<lambda>p. ParamValue p @ NL) (Params service)))
        else print (''No params are set for this service'' @ NL
               @ ''Use '' @ [CHR 0x27] @ ''wireport service param new'' @ [CHR 0x27]
               @ '' to add a new param.'' @ NL)) (\<lambda>_.
     print NL))))"

end
