(* ===== verification/LocalNodes.thy ===== *)
theory LocalNodes
  imports World
begin

text \<open>
  The server, client and label commands as they run on the gateway:
  \<open>internal/commands/local_server.go\<close>, \<open>local_client.go\<close> and the start of the gateway in
  \<open>local_gateway.go\<close>.
\<close>

section \<open>A join request\<close>

text \<open>
  The steps \<open>ServerNew\<close> and \<open>ClientNew\<close> share: a client certificate named after the request
  is added to the bundle of the gateway node in memory, the row is saved, the request is
  stored with the public part of the bundle, and the token is printed.
\<close>

definition new_join_request ::
  "('n, 'v, 'j, 't, 'f, 'c, 'k) deps \<Rightarrow> node \<Rightarrow> string option \<Rightarrow> node_role \<Rightarrow> (string \<Rightarrow> string) \<Rightarrow>
   ('n, 'v, 'j, 't, 'f, unit) cmd" where
  "new_join_request C gatewayNode dockerSubnet role message =
     (let E = c_env C; joinRequestID = env_uuid E in
     deref (node_GatewayCertBundle gatewayNode) (\<lambda>certBundle.
     attempt (s_read (\<lambda>_. AddClient (env_crypto E) (env_rnd E) (env_now E)
                \<lparr>CommonName = joinRequestID, Expiry = CertExpiry, DNSNames = [], IPAddresses = []\<rparr>
                certBundle))
       (fail_with ''Failed to add client to gateway cert bundle'') (\<lambda>certBundle'.
     attempt (on_nodes (SaveNode (c_nodes C)
                (gatewayNode\<lparr>node_GatewayCertBundle := Some certBundle'\<rparr>)))
       (fail_with ''Failed to save gateway node'') (\<lambda>_.
     attempt (s_read (\<lambda>_. GetClientBundlePublic joinRequestID certBundle'))
       (fail_with ''Failed to get client cert bundle'') (\<lambda>clientCertBundle.
     deref (node_WGPublicIP gatewayNode) (\<lambda>publicIP.
     attempt (on_requests (JoinRequestCreate (c_requests C) (c_random32 C) (env_now E)
                joinRequestID publicIP ControlServerPort dockerSubnet role clientCertBundle))
       (fail_with ''Failed to create join request'') (\<lambda>joinRequest.
     attempt (s_read (\<lambda>_. ToBase64 (c_json C) joinRequest))
       (fail_with ''Failed to encode join request'') (\<lambda>joinRequestBase64.
     print (message joinRequestBase64)))))))))"

section \<open>Servers\<close>

definition parse_forced_subnet :: "string \<Rightarrow> ipnet option result" where
  "parse_forced_subnet dockerSubnet =
     (if dockerSubnet = [] then Inr None
      else rbind (ParseIPNetMarshable dockerSubnet True) (\<lambda>d. Inr (Some d)))"

definition create_or_request ::
  "('n, 'v, 'j, 't, 'f, 'c, 'k) deps \<Rightarrow> bool \<Rightarrow> bool \<Rightarrow> string option \<Rightarrow>
   ('n, 'v, 'j, 't, 'f, unit) cmd" where
  "create_or_request C forceServerCreation quietServerCreation dockerSubnetPtr =
     (if forceServerCreation then
        attempt (on_nodes (CreateServer (c_env C) (c_nodes C) dockerSubnetPtr))
          (fail_with ''Failed to create server node'') (\<lambda>_.
        if quietServerCreation then finish else print (''Server node created'' @ NL))
      else
        attempt (on_nodes (s_read (GetGatewayNode (c_nodes C))))
          (fail_with ''Failed to get gateway node'') (\<lambda>gatewayNode.
        deref gatewayNode (\<lambda>gw.
        new_join_request C gw dockerSubnetPtr NodeRoleServer (\<lambda>token.
          if quietServerCreation then token @ NL
          else check_mark @ '' Server created, execute the command below on the server to join the network:''
            @ NL @ NL @ ''wireport join '' @ token @ NL))))"

definition LocalServerNew ::
  "('n, 'v, 'j, 't, 'f, 'c, 'k) deps \<Rightarrow> bool \<Rightarrow> bool \<Rightarrow> string \<Rightarrow> ('n, 'v, 'j, 't, 'f, unit) cmd"
  where
  "LocalServerNew C forceServerCreation quietServerCreation dockerSubnet =
     attempt (on_nodes (s_read (TotalAndAvailableDockerSubnets (c_nodes C))))
       (fail_with ''Failed to count available Docker subnets'') (\<lambda>(totalSubnets, availableSubnets).
     s_bind (on_requests (s_read (\<lambda>s. Inr (CountServerJoinRequests (c_requests C) s)))) (\<lambda>serverRequests.
     if availableSubnets \<le> 0 \<or> availableSubnets \<le> serverRequests then
       eprint (''No Docker subnets available. Please delete some server nodes (total used: ''
         @ itoa_int totalSubnets @ '') or server join-requests (total used: ''
         @ itoa_int serverRequests @ '') to free up some subnets.'' @ NL)
     else
     attempt (on_nodes (s_read (TotalAvailableWireguardClients (c_nodes C))))
       (fail_with ''Failed to count available WireGuard clients'') (\<lambda>(totalClients, availableClients).
     s_bind (on_requests (s_read (\<lambda>s. Inr (CountAll (c_requests C) s)))) (\<lambda>requests.
     if availableClients \<le> 0 \<or> availableClients \<le> requests then
       eprint (''No WireGuard clients available. Please delete some client/server nodes (total used: ''
         @ itoa_int totalClients @ '') or client/server join-requests (total used: ''
         @ itoa_int requests @ '') to free up some clients.'' @ NL)
     else
     attempt (s_read (\<lambda>_. parse_forced_subnet dockerSubnet))
       (fail_with ''Failed to parse Docker subnet'') (\<lambda>parsed.
     case parsed of
       None \<Rightarrow> create_or_request C forceServerCreation quietServerCreation None
     | Some subnet \<Rightarrow>
         s_bind (on_nodes (s_read (\<lambda>s. Inr (IsDockerSubnetAvailable (c_nodes C) subnet s)))) (\<lambda>free.
         if \<not> free then eprint (''Docker subnet '' @ dockerSubnet @ '' is already in use'' @ NL)
         else
           s_bind (if quietServerCreation then finish
                   else print (''Using custom Docker subnet: '' @ dockerSubnet @ NL)) (\<lambda>_.
           create_or_request C forceServerCreation quietServerCreation (Some dockerSubnet))))))))"

definition LocalServerRemove ::
  "('n, 'v, 'j, 't, 'f, 'c, 'k) deps \<Rightarrow> string \<Rightarrow> ('n, 'v, 'j, 't, 'f, unit) cmd" where
  "LocalServerRemove C serverNodeID =
     (let q = [CHR 0x27] @ serverNodeID @ [CHR 0x27] in
     attempt (on_nodes (DeleteServer (c_nodes C) serverNodeID))
       (fail_with (''Failed to remove server node '' @ q)) (\<lambda>_.
     print (''Server node '' @ q @ '' removed successfully'' @ NL)))"

text \<open>\<open>%-24s\<close>: padded to 24 characters.\<close>

definition server_line :: "string option \<Rightarrow> node \<Rightarrow> string" where
  "server_line requestFromNodeID n =
     (let addr = IPNet_String (if_Address (wg_Interface (node_WGConfig n)))
            @ (if requestFromNodeID = Some (node_ID n) then ''*'' else []);
          labels = join_str '', '' (node_Labels n)
      in addr @ spaces (24 - length addr) @ '' '' @ (if labels = [] then ''-'' else labels) @ NL)"

definition LocalServerList ::
  "('n, 'v, 'j, 't, 'f, 'c, 'k) deps \<Rightarrow> string option \<Rightarrow> ('n, 'v, 'j, 't, 'f, unit) cmd" where
  "LocalServerList C requestFromNodeID =
     attempt (on_nodes (s_read (GetNodesByRole (c_nodes C) NodeRoleServer)))
       (fail_with ''Error getting nodes'') (\<lambda>serverNodes.
     s_bind (print (''SERVER PRIVATE IP       LABELS'' @ NL)) (\<lambda>_.
     s_bind (print rule80) (\<lambda>_.
     if serverNodes \<noteq> [] then print (concat (map (server_line requestFromNodeID) serverNodes))
     else print (''No servers are registered on this gateway.'' @ NL
            @ ''Use '' @ [CHR 0x27] @ ''wireport server new'' @ [CHR 0x27]
            @ '' command to create a new server node join request.'' @ NL))))"

section \<open>Labels\<close>

text \<open>Both label commands: the server with the given tunnel address, then its labels.\<close>

definition node_label ::
  "('n, 'v, 'j, 't, 'f, 'c, 'k) deps \<Rightarrow> (string \<Rightarrow> string \<Rightarrow> ('n, unit) op) \<Rightarrow> string \<Rightarrow>
   (node \<Rightarrow> string) \<Rightarrow> string \<Rightarrow> string \<Rightarrow> ('n, 'v, 'j, 't, 'f, unit) cmd" where
  "node_label C change failure success nodeIP label =
     attempt (on_nodes (s_read (GetServerByWGPrivateIP (c_nodes C) nodeIP)))
       (\<lambda>e. if e = ErrRecordNotFound
            then eprint (''No server node found with IP '' @ c_quote C nodeIP @ NL)
            else fail_with ''failed to resolve server node'' e) (\<lambda>n.
     attempt (on_nodes (change (node_ID n) label)) (fail_with failure) (\<lambda>_.
     print (success n)))"

definition LocalNodeLabelAdd ::
  "('n, 'v, 'j, 't, 'f, 'c, 'k) deps \<Rightarrow> string \<Rightarrow> string \<Rightarrow> ('n, 'v, 'j, 't, 'f, unit) cmd" where
  "LocalNodeLabelAdd C nodeIP label =
     node_label C (AddLabelToNode (c_nodes C)) ''failed to add label'' (\<lambda>n.
       ''Added label '' @ c_quote C label @ '' to server node '' @ c_quote C (node_addr n) @ NL)
       nodeIP label"

definition LocalNodeLabelRemove ::
  "('n, 'v, 'j, 't, 'f, 'c, 'k) deps \<Rightarrow> string \<Rightarrow> string \<Rightarrow> ('n, 'v, 'j, 't, 'f, unit) cmd" where
  "LocalNodeLabelRemove C nodeIP label =
     node_label C (RemoveLabelFromNode (c_nodes C)) ''failed to remove label'' (\<lambda>n.
       ''Removed label '' @ c_quote C label @ '' from server node '' @ c_quote C (node_addr n) @ NL)
       nodeIP label"

section \<open>Clients\<close>

text \<open>
  The wait for the current node: up to ten further looks, a second apart. What another
  process does to the table between two looks is the parameter \<open>c_tick\<close>. The result is the
  last answer.
\<close>

fun wait_current ::
  "('n, 'v, 'j, 't, 'f, 'c, 'k) deps \<Rightarrow> bool \<Rightarrow> nat \<Rightarrow> go_error \<Rightarrow>
   ('n, 'v, 'j, 't, 'f, node) cmd" where
  "wait_current C quiet 0 e w = (w, Inl e)"
| "wait_current C quiet (Suc n) e w =
     (let w' = w\<lparr>w_nodes := c_tick C (w_nodes w)\<rparr> in
      case GetCurrentNode (c_nodes C) (w_nodes w') of
        Inl e' \<Rightarrow> wait_current C quiet n e' w'
      | Inr cur \<Rightarrow> s_bind (if quiet then finish
                          else print (''Current node found, creating client'' @ NL))
                   (\<lambda>_. s_read (\<lambda>_. Inr cur)) w')"

definition client_slots ::
  "('n, 'v, 'j, 't, 'f, 'c, 'k) deps \<Rightarrow> ('n, 'v, 'j, 't, 'f, unit) cmd \<Rightarrow>
   ('n, 'v, 'j, 't, 'f, unit) cmd" where
  "client_slots C k =
     attempt (on_nodes (s_read (TotalAvailableWireguardClients (c_nodes C))))
       (fail_with ''Failed to count available wireguard clients'') (\<lambda>(totalClients, availableClients).
     s_bind (on_requests (s_read (\<lambda>s. Inr (CountAll (c_requests C) s)))) (\<lambda>requests.
     if availableClients \<le> 0 \<or> availableClients \<le> requests then
       eprint (''No available wireguard client slots. Please delete some client/server nodes (total used: ''
         @ itoa_int totalClients @ '') or client/server join-requests (total used: ''
         @ itoa_int requests @ '') to free up some wireguard client slots.'' @ NL)
     else k))"

definition create_client ::
  "('n, 'v, 'j, 't, 'f, 'c, 'k) deps \<Rightarrow> bool \<Rightarrow> ('n, 'v, 'j, 't, 'f, unit) cmd" where
  "create_client C quietClientCreation =
     attempt (on_nodes (CreateClient (c_env C) (c_nodes C)))
       (fail_with ''Failed to create client'') (\<lambda>clientNode.
     attempt (on_services (s_read (ServiceGetAll (c_services C))))
       (fail_with ''Failed to list services'') (\<lambda>publicServices.
     attempt (on_nodes (s_read (GetCurrentNode (c_nodes C))))
       (fail_with ''Failed to get a fresh current node instance after creating client'') (\<lambda>currentNode.
     attempt (on_machine (SaveConfigs (c_config C) currentNode publicServices False))
       (fail_with ''Failed to save gateway configs'') (\<lambda>_.
     s_bind (attempt (on_machine (RestartNetworkApps C True False False))
               (fail_with ''Failed to restart services'') (\<lambda>_. finish)) (\<lambda>_.
     deref (case GetFormattedWireguardConfig clientNode of Inl e \<Rightarrow> None | Inr t \<Rightarrow> Some t) (\<lambda>wireguardConfig.
     if quietClientCreation then print (wireguardConfig @ NL)
     else print (''# New wireport client has been successfully created!'' @ NL
            @ ''# Use the WireGuard config below on your client device to connect to the wireport network:''
            @ NL @ NL @ wireguardConfig @ NL)))))))"

definition LocalClientNew ::
  "('n, 'v, 'j, 't, 'f, 'c, 'k) deps \<Rightarrow> bool \<Rightarrow> bool \<Rightarrow> bool \<Rightarrow>
   ('n, 'v, 'j, 't, 'f, unit) cmd" where
  "LocalClientNew C joinRequestClientCreation quietClientCreation waitClientCreation =
     attempt
       (attempt (on_nodes (s_read (GetCurrentNode (c_nodes C))))
          (\<lambda>e. if waitClientCreation then wait_current C quietClientCreation 10 e
               else s_read (\<lambda>_. Inl e))
          (\<lambda>cur. s_read (\<lambda>_. Inr cur)))
       (\<lambda>e. if waitClientCreation
            then fail_with ''Failed to get current node after waiting and multiple retries'' e
            else eprint (''Current node not found, skipping client creation'' @ NL)) (\<lambda>currentNode.
     if node_Role currentNode \<noteq> NodeRoleGateway then finish
     else client_slots C
       (if joinRequestClientCreation then
          new_join_request C currentNode None NodeRoleClient (\<lambda>token.
            if quietClientCreation then token @ NL
            else ''New client created, use the following command to connect to the network:''
              @ NL @ NL @ ''wireport join '' @ token @ NL)
        else create_client C quietClientCreation))"

definition client_line :: "string option \<Rightarrow> node \<Rightarrow> string" where
  "client_line requestFromNodeID n =
     IPNet_String (if_Address (wg_Interface (node_WGConfig n)))
     @ (if requestFromNodeID = Some (node_ID n) then ''*'' else []) @ NL"

definition LocalClientList ::
  "('n, 'v, 'j, 't, 'f, 'c, 'k) deps \<Rightarrow> string option \<Rightarrow> ('n, 'v, 'j, 't, 'f, unit) cmd" where
  "LocalClientList C requestFromNodeID =
     attempt (on_nodes (s_read (GetNodesByRole (c_nodes C) NodeRoleClient)))
       (fail_with ''Error getting nodes'') (\<lambda>clientNodes.
     s_bind (print (''CLIENT PRIVATE IP'' @ NL)) (\<lambda>_.
     s_bind (print rule80) (\<lambda>_.
     if clientNodes \<noteq> [] then print (concat (map (client_line requestFromNodeID) clientNodes))
     else print (''No clients are registered on this gateway'' @ NL))))"

end
