(* ===== verification/Ssh.thy ===== *)
theory Ssh
  imports World
begin

text \<open>
  Commands on another machine over SSH, \<open>internal/ssh/service.go\<close>. The record \<open>ssh_env\<close> holds
  what the code calls: reading a file, parsing a private key (\<open>golang.org/x/crypto/ssh\<close>),
  dialling, the handshake, opening a session, running a command, closing; the embedded
  script templates and their rendering (\<open>raymond\<close>); and the clock. They act on the state \<open>'f\<close>
  of the machine, which for this part includes what can be reached from it.
\<close>

section \<open>Credentials, connections and results\<close>

record credentials =
  cr_Host :: string
  cr_Port :: "64 word"
  cr_Username :: string
  cr_Password :: string
  cr_PrivateKeyPath :: string
  cr_PrivateKeyData :: bytes
  cr_Passphrase :: string

text \<open>A signer is known by the key and the passphrase it is parsed from.\<close>

datatype auth_method = PublicKeys bytes "string option" | PasswordAuth string

record ssh_client =
  cl_Address :: string
  cl_User :: string
  cl_Auth :: "auth_method list"

text \<open>How a command ends: with no error, with an exit status, or without one.\<close>

datatype run_end = RunOk | RunExit int go_error | RunBroken go_error

record 'f ssh_env =
  sh_read_file :: "string \<Rightarrow> 'f \<Rightarrow> bytes result"
  sh_parse_key :: "bytes \<Rightarrow> string option \<Rightarrow> unit result"
  sh_dial :: "string \<Rightarrow> ('f, unit) op"
  sh_handshake :: "ssh_client \<Rightarrow> ('f, unit) op"
  sh_session :: "ssh_client \<Rightarrow> ('f, unit) op"
  sh_run :: "ssh_client \<Rightarrow> string \<Rightarrow> ('f, string \<times> string \<times> run_end) op"
  sh_close :: "ssh_client \<Rightarrow> 'f \<Rightarrow> 'f"
  sh_read_template :: "string \<Rightarrow> string result"
  sh_render :: "string \<Rightarrow> (string \<times> string) list \<Rightarrow> string result"
  sh_now :: "'f \<Rightarrow> int"
  sh_sleep :: "int \<Rightarrow> 'f \<Rightarrow> 'f"

record command_result =
  res_Stdout :: string
  res_Stderr :: string
  res_ExitCode :: int
  res_Error :: "go_error option"

text \<open>\<open>Service\<close>: without a client until \<open>Connect\<close> succeeds.\<close>

record ssh_service =
  svc_client :: "ssh_client option"
  svc_creds :: "credentials option"

definition NewService :: ssh_service where
  "NewService = \<lparr>svc_client = None, svc_creds = None\<rparr>"

definition ErrNoAuthMethodProvided :: go_error where
  "ErrNoAuthMethodProvided = ErrText ''no valid authentication method provided''"
definition ErrSSHConnectionNotEstablished :: go_error where
  "ErrSSHConnectionNotEstablished = ErrText ''SSH connection not established''"
definition ErrFailedToCreateAuth :: string where
  "ErrFailedToCreateAuth = ''failed to create auth''"
definition ErrFailedToCreateSSHClient :: string where
  "ErrFailedToCreateSSHClient = ''failed to create SSH client''"
definition ErrFailedToTestSSHConnection :: string where
  "ErrFailedToTestSSHConnection = ''failed to test SSH connection''"
definition ErrFailedToGetDockerVersion :: go_error where
  "ErrFailedToGetDockerVersion = ErrText ''failed to get Docker version''"
definition ErrFailedToGetContainerStatus :: go_error where
  "ErrFailedToGetContainerStatus = ErrText ''failed to get container status''"
definition ErrFailedToGetNetworkStatus :: go_error where
  "ErrFailedToGetNetworkStatus = ErrText ''failed to get network status''"

section \<open>Connecting\<close>

text \<open>\<open>x, err := m; if err != nil { return fmt.Errorf("%w: %v", message, err) }\<close>.\<close>

definition or_fail :: "string \<Rightarrow> ('s, 'a) op \<Rightarrow> ('s, 'a) op" where
  "or_fail message m s =
     (case m s of
        (s', Inl e) \<Rightarrow> (s', Inl (if is_panic e then e else ErrText (message @ '': '' @ err_text e)))
      | (s', Inr x) \<Rightarrow> (s', Inr x))"

definition passphrase_of :: "credentials \<Rightarrow> string option" where
  "passphrase_of creds = (if cr_Passphrase creds \<noteq> [] then Some (cr_Passphrase creds) else None)"

definition signer :: "'f ssh_env \<Rightarrow> credentials \<Rightarrow> bytes \<Rightarrow> ('f, auth_method list) op" where
  "signer S creds keyBytes =
     or_fail ErrFailedToCreateAuth (s_read (\<lambda>_.
       rbind (sh_parse_key S keyBytes (passphrase_of creds))
         (\<lambda>_. Inr [PublicKeys keyBytes (passphrase_of creds)])))"

text \<open>A key file comes before key data, and both before a password.\<close>

definition auth_methods :: "'f ssh_env \<Rightarrow> credentials \<Rightarrow> ('f, auth_method list) op" where
  "auth_methods S creds =
     (if cr_PrivateKeyPath creds \<noteq> [] then
        s_bind (or_fail ErrFailedToCreateAuth (s_read (sh_read_file S (cr_PrivateKeyPath creds))))
          (signer S creds)
      else if cr_PrivateKeyData creds \<noteq> [] then signer S creds (cr_PrivateKeyData creds)
      else if cr_Password creds \<noteq> [] then s_read (\<lambda>_. Inr [PasswordAuth (cr_Password creds)])
      else s_read (\<lambda>_. Inl ErrNoAuthMethodProvided))"

text \<open>\<open>net.JoinHostPort\<close>: a host with a colon goes into brackets.\<close>

definition JoinHostPort :: "string \<Rightarrow> string \<Rightarrow> string" where
  "JoinHostPort host port =
     (if CHR '':'' \<in> set host then ''['' @ host @ '']:'' @ port else host @ '':'' @ port)"

text \<open>A step on an open connection that is closed when the step fails.\<close>

definition closing_on_error :: "'f ssh_env \<Rightarrow> ssh_client \<Rightarrow> ('f, 'a) op \<Rightarrow> ('f, 'a) op" where
  "closing_on_error S c m f =
     (case m f of (f', Inl e) \<Rightarrow> (sh_close S c f', Inl e) | (f', Inr x) \<Rightarrow> (f', Inr x))"

definition run_failure :: "run_end \<Rightarrow> unit result" where
  "run_failure r = (case r of RunOk \<Rightarrow> Inr () | RunExit _ e \<Rightarrow> Inl e | RunBroken e \<Rightarrow> Inl e)"

definition connection_test :: "'f ssh_env \<Rightarrow> ssh_client \<Rightarrow> ('f, unit) op" where
  "connection_test S c =
     s_bind (sh_session S c) (\<lambda>_.
     s_bind (sh_run S c (''echo '' @ [CHR 0x27] @ ''connection test'' @ [CHR 0x27]))
       (\<lambda>(_, _, r). s_read (\<lambda>_. run_failure r)))"

definition Connect :: "'f ssh_env \<Rightarrow> credentials \<Rightarrow> ssh_service \<Rightarrow> ('f, ssh_service) op" where
  "Connect S creds s =
     s_bind (auth_methods S creds) (\<lambda>authMethods.
     let hostPort = JoinHostPort (cr_Host creds) (itoa (unat (cr_Port creds)));
         client = \<lparr>cl_Address = hostPort, cl_User = cr_Username creds, cl_Auth = authMethods\<rparr> in
     s_bind (or_fail ErrFailedToCreateSSHClient (sh_dial S hostPort)) (\<lambda>_.
     s_bind (or_fail ErrFailedToCreateSSHClient (closing_on_error S client (sh_handshake S client))) (\<lambda>_.
     s_bind (or_fail ErrFailedToTestSSHConnection
               (closing_on_error S client (connection_test S client))) (\<lambda>_.
     s_read (\<lambda>_. Inr (s\<lparr>svc_client := Some client, svc_creds := Some creds\<rparr>))))))"

definition Close :: "'f ssh_env \<Rightarrow> ssh_service \<Rightarrow> 'f \<Rightarrow> 'f" where
  "Close S s f = (case svc_client s of None \<Rightarrow> f | Some c \<Rightarrow> sh_close S c f)"

section \<open>Running a command\<close>

text \<open>Only a command that cannot be started is an error; every other end is a result.\<close>

definition run_command :: "'f ssh_env \<Rightarrow> ssh_service \<Rightarrow> string \<Rightarrow> ('f, command_result) op" where
  "run_command S s command =
     (case svc_client s of
        None \<Rightarrow> s_read (\<lambda>_. Inl ErrSSHConnectionNotEstablished)
      | Some c \<Rightarrow>
          s_bind (or_fail ''failed to create command'' (sh_run S c command)) (\<lambda>(out, err, r).
          s_read (\<lambda>_. Inr
            \<lparr>res_Stdout = trim_space out, res_Stderr = trim_space err,
             res_ExitCode = (case r of RunOk \<Rightarrow> 0 | RunExit n _ \<Rightarrow> n | RunBroken _ \<Rightarrow> -1),
             res_Error = (case r of RunOk \<Rightarrow> None | RunExit _ e \<Rightarrow> Some e | RunBroken e \<Rightarrow> Some e)\<rparr>)))"

text \<open>The output of a command that exits with 0, else the error given.\<close>

definition run_or :: "'f ssh_env \<Rightarrow> ssh_service \<Rightarrow> string \<Rightarrow> go_error \<Rightarrow> ('f, string) op" where
  "run_or S s command failed =
     s_bind (run_command S s command) (\<lambda>r.
     s_read (\<lambda>_. if res_ExitCode r \<noteq> 0 then Inl failed else Inr (res_Stdout r)))"

definition exits_ok :: "'f ssh_env \<Rightarrow> ssh_service \<Rightarrow> string \<Rightarrow> ('f, bool) op" where
  "exits_ok S s command =
     s_bind (run_command S s command) (\<lambda>r. s_read (\<lambda>_. Inr (res_ExitCode r = 0)))"

section \<open>Looking at the remote machine\<close>

definition WireportServerContainerName :: string where
  "WireportServerContainerName = ''wireport-server''"

definition apostrophe :: string where "apostrophe = [CHR 0x27]"

definition IsDockerInstalled :: "'f ssh_env \<Rightarrow> ssh_service \<Rightarrow> ('f, bool) op" where
  "IsDockerInstalled S s = exits_ok S s ''which docker''"

definition IsDockerAccessible :: "'f ssh_env \<Rightarrow> ssh_service \<Rightarrow> ('f, bool) op" where
  "IsDockerAccessible S s = exits_ok S s ''docker ps''"

definition GetDockerVersion :: "'f ssh_env \<Rightarrow> ssh_service \<Rightarrow> ('f, string) op" where
  "GetDockerVersion S s = run_or S s ''docker --version'' ErrFailedToGetDockerVersion"

definition container_status_command :: "string \<Rightarrow> string" where
  "container_status_command name =
     ''docker ps -a --filter name=^/'' @ name @ ''$ --format '' @ apostrophe @ ''{{.Status}}'' @ apostrophe"

definition GetWireportContainerStatus :: "'f ssh_env \<Rightarrow> ssh_service \<Rightarrow> ('f, string) op" where
  "GetWireportContainerStatus S s =
     run_or S s (container_status_command WireportGatewayContainerName) ErrFailedToGetContainerStatus"

definition GetWireportServerContainerStatus :: "'f ssh_env \<Rightarrow> ssh_service \<Rightarrow> ('f, string) op" where
  "GetWireportServerContainerStatus S s =
     run_or S s (container_status_command WireportServerContainerName) ErrFailedToGetContainerStatus"

definition network_status_command :: string where
  "network_status_command =
     ''docker network ls --filter name=^'' @ DockerNetworkName @ ''$ --format ''
     @ apostrophe @ ''{{.Name}}'' @ apostrophe"

definition GetWireportNetworkStatus :: "'f ssh_env \<Rightarrow> ssh_service \<Rightarrow> ('f, string) op" where
  "GetWireportNetworkStatus S s = run_or S s network_status_command ErrFailedToGetNetworkStatus"

definition container_running_command :: "string \<Rightarrow> string" where
  "container_running_command name =
     ''docker ps --filter name=^/'' @ name @ ''$ --format '' @ apostrophe @ ''{{.Names}}'' @ apostrophe"

text \<open>Docker is installed, may be used, and lists a running container of the name.\<close>

definition container_running :: "'f ssh_env \<Rightarrow> ssh_service \<Rightarrow> string \<Rightarrow> ('f, bool) op" where
  "container_running S s name =
     s_bind (IsDockerInstalled S s) (\<lambda>dockerInstalled.
     if \<not> dockerInstalled then s_read (\<lambda>_. Inr False)
     else s_bind (IsDockerAccessible S s) (\<lambda>dockerAccessible.
       if \<not> dockerAccessible then s_read (\<lambda>_. Inr False)
       else s_bind (run_command S s (container_running_command name)) (\<lambda>r.
         s_read (\<lambda>_. Inr (\<not> (res_ExitCode r \<noteq> 0 \<or> trim_space (res_Stdout r) = []))))))"

definition IsWireportGatewayContainerRunning :: "'f ssh_env \<Rightarrow> ssh_service \<Rightarrow> ('f, bool) op" where
  "IsWireportGatewayContainerRunning S s = container_running S s WireportGatewayContainerName"

definition IsWireportServerContainerRunning :: "'f ssh_env \<Rightarrow> ssh_service \<Rightarrow> ('f, bool) op" where
  "IsWireportServerContainerRunning S s = container_running S s WireportServerContainerName"

section \<open>Waiting for a server\<close>

definition join_check_command :: "'f config_env \<Rightarrow> string" where
  "join_check_command K =
     ''docker exec '' @ WireportServerContainerName @ '' sh -c '' @ apostrophe
     @ ''test -f '' @ WireguardConfigPath K @ '' && test -f '' @ CoreDNSConfigPath K @ apostrophe"

definition pollInterval :: int where "pollInterval = 5 * 1000000000"

text \<open>
  The loop up to the deadline; \<open>polls\<close> bounds the rounds observed, and \<open>None\<close> is the answer
  of a loop that has not been left by then.
\<close>

fun poll_joined ::
  "'f ssh_env \<Rightarrow> ssh_service \<Rightarrow> string \<Rightarrow> int \<Rightarrow> nat \<Rightarrow> ('f, bool option) op" where
  "poll_joined S s command deadline 0 = s_read (\<lambda>_. Inr None)"
| "poll_joined S s command deadline (Suc polls) = (\<lambda>f.
     if sh_now S f < deadline then
       s_bind (exits_ok S s command) (\<lambda>joined.
       if joined then s_read (\<lambda>_. Inr (Some True))
       else (\<lambda>f'. poll_joined S s command deadline polls (sh_sleep S pollInterval f'))) f
     else (f, Inr (Some False)))"

definition WaitForWireportServerJoined ::
  "'f ssh_env \<Rightarrow> 'f config_env \<Rightarrow> ssh_service \<Rightarrow> int \<Rightarrow> nat \<Rightarrow> ('f, bool option) op" where
  "WaitForWireportServerJoined S K s timeout polls f =
     poll_joined S s (join_check_command K) (sh_now S f + timeout) polls f"

section \<open>Scripts\<close>

text \<open>A template is read and rendered, the script run, and its exit status checked.\<close>

definition run_script ::
  "'f ssh_env \<Rightarrow> ssh_service \<Rightarrow> string \<Rightarrow> (string \<times> string) list \<Rightarrow> string \<Rightarrow> ('f, string) op" where
  "run_script S s path args failed =
     s_bind (s_read (\<lambda>_. sh_read_template S path)) (\<lambda>tpl.
     s_bind (s_read (\<lambda>_. sh_render S tpl args)) (\<lambda>command.
     s_bind (run_command S s command) (\<lambda>r.
     s_read (\<lambda>_. if res_ExitCode r \<noteq> 0 then Inl (ErrText (failed @ '': '' @ res_Stderr r))
                 else Inr (res_Stdout r)))))"

definition WireportGatewayContainerImage :: string where
  "WireportGatewayContainerImage = ''ghcr.io/multionlabs/wireport''"
definition WireportServerContainerImage :: string where
  "WireportServerContainerImage = ''ghcr.io/multionlabs/wireport''"

definition gateway_args :: "string \<Rightarrow> (string \<times> string) list" where
  "gateway_args img =
     [(''wireportGatewayContainerName'', WireportGatewayContainerName),
      (''wireportGatewayContainerImage'', img)]"

definition server_args :: "string \<Rightarrow> (string \<times> string) list" where
  "server_args img =
     [(''wireportServerContainerName'', WireportServerContainerName),
      (''wireportServerContainerImage'', img)]"

definition createClientJoinToken :: "'f ssh_env \<Rightarrow> ssh_service \<Rightarrow> ('f, string) op" where
  "createClientJoinToken S s =
     s_bind (run_script S s ''scripts/new/client.hbs''
       [(''wireportGatewayContainerName'', WireportGatewayContainerName)]
       ''failed to create client on the gateway'') (\<lambda>out. s_read (\<lambda>_. Inr (trim_space out)))"

text \<open>
  The two installations print to the standard output of the process when there is nothing
  to do; that is where the commands on a machine write.
\<close>

definition InstallWireportGateway ::
  "'f ssh_env \<Rightarrow> ssh_service \<Rightarrow> string \<Rightarrow> string \<Rightarrow> ('n, 'v, 'j, 't, 'f, bool \<times> string option) cmd" where
  "InstallWireportGateway S s img imageTag =
     s_bind (on_machine (IsWireportGatewayContainerRunning S s)) (\<lambda>isRunning.
     if isRunning then
       s_bind (print (''wireport gateway container is already running, skipping installation'' @ NL))
         (\<lambda>_. s_read (\<lambda>_. Inr (True, None)))
     else
       s_bind (on_machine (run_script S s ''scripts/up/gateway.hbs''
           (gateway_args (img @ '':'' @ imageTag)) ''failed to install wireport'')) (\<lambda>_.
       s_bind (on_machine (createClientJoinToken S s)) (\<lambda>clientJoinToken.
       s_read (\<lambda>_. Inr (True, Some clientJoinToken)))))"

definition InstallWireportServer ::
  "'f ssh_env \<Rightarrow> ssh_service \<Rightarrow> string \<Rightarrow> string \<Rightarrow> string \<Rightarrow> ('n, 'v, 'j, 't, 'f, bool) cmd" where
  "InstallWireportServer S s serverJoinToken img imageTag =
     s_bind (on_machine (IsWireportServerContainerRunning S s)) (\<lambda>isRunning.
     if isRunning then
       s_bind (print (''wireport server container is already running, skipping installation'' @ NL))
         (\<lambda>_. s_read (\<lambda>_. Inr True))
     else
       s_bind (on_machine (run_script S s ''scripts/up/server.hbs''
           (server_args (img @ '':'' @ imageTag) @ [(''serverJoinToken'', serverJoinToken)])
           ''failed to install wireport server'')) (\<lambda>_. s_read (\<lambda>_. Inr True)))"

definition TeardownWireportServer :: "'f ssh_env \<Rightarrow> ssh_service \<Rightarrow> ('f, bool) op" where
  "TeardownWireportServer S s =
     s_bind (run_script S s ''scripts/down/server.hbs'' (server_args WireportServerContainerImage)
       ''failed to stop wireport server'') (\<lambda>_. s_read (\<lambda>_. Inr True))"

definition UpgradeWireportGateway ::
  "'f ssh_env \<Rightarrow> ssh_service \<Rightarrow> string \<Rightarrow> string \<Rightarrow> ('f, bool) op" where
  "UpgradeWireportGateway S s img imageTag =
     s_bind (run_script S s ''scripts/upgrade/gateway.hbs'' (gateway_args (img @ '':'' @ imageTag))
       ''failed to upgrade wireport gateway'') (\<lambda>_. s_read (\<lambda>_. Inr True))"

definition UpgradeWireportServer ::
  "'f ssh_env \<Rightarrow> ssh_service \<Rightarrow> string \<Rightarrow> string \<Rightarrow> ('f, bool) op" where
  "UpgradeWireportServer S s img imageTag =
     s_bind (run_script S s ''scripts/upgrade/server.hbs'' (server_args (img @ '':'' @ imageTag))
       ''failed to upgrade wireport server'') (\<lambda>_. s_read (\<lambda>_. Inr True))"

definition TeardownWireportGateway :: "'f ssh_env \<Rightarrow> ssh_service \<Rightarrow> ('f, bool) op" where
  "TeardownWireportGateway S s =
     s_bind (run_script S s ''scripts/down/gateway.hbs'' (gateway_args WireportGatewayContainerImage)
       ''failed to teardown wireport gateway'') (\<lambda>_. s_read (\<lambda>_. Inr True))"

end
