(* ===== verification/LocalJoin.thy ===== *)
theory LocalJoin
  imports World
begin

text \<open>
  Joining as the new machine does it (\<open>internal/commands/local_join.go\<close>) and the start of the
  gateway (\<open>internal/commands/local_gateway.go\<close>).
\<close>

section \<open>Joining\<close>

definition join_arrow :: string where "join_arrow = [CHR 0xE2, CHR 0xA4, CHR 0xB5]"

text \<open>A failure: its message, and \<open>false\<close>.\<close>

definition join_fails :: "string \<Rightarrow> ('n, 'v, 'j, 't, 'f, bool) cmd" where
  "join_fails message = s_bind (eprint message) (\<lambda>_. s_read (\<lambda>_. Inr False))"

definition join_fails_with :: "string \<Rightarrow> go_error \<Rightarrow> ('n, 'v, 'j, 't, 'f, bool) cmd" where
  "join_fails_with message e = join_fails (message @ '': '' @ err_text e @ NL)"

text \<open>
  The server branch. \<open>RestartNetworkApps\<close> may fail: the join has succeeded all the same.
\<close>

definition setup_server ::
  "('n, 'v, 'j, 't, 'f, 'c, 'k) deps \<Rightarrow> node \<Rightarrow> ('n, 'v, 'j, 't, 'f, bool) cmd" where
  "setup_server C currentNode =
     s_bind (print (''Setting up server node (configs and network)'' @ NL)) (\<lambda>_.
     case node_DockerSubnet currentNode of
       None \<Rightarrow> join_fails (''Failed to get docker subnet from node config'' @ NL)
     | Some subnet \<Rightarrow>
         attempt (s_read (\<lambda>_. ParseIPNetMarshable (IPNet_String subnet) True))
           (join_fails_with ''Failed to parse docker subnet'') (\<lambda>dockerSubnet.
         attempt (on_machine (EnsureDockerNetworkExistsAndAttached (c_docker C) dockerSubnet))
           (join_fails_with (''Failed to ensure docker network '' @ DockerNetworkName
              @ '' with subnet '' @ IPNet_String dockerSubnet @ '' exists and is attached'')) (\<lambda>_.
         attempt (on_machine (SaveConfigs (c_config C) currentNode [] True))
           (join_fails_with ''Failed to save node configs'') (\<lambda>_.
         s_bind (print (''Successfully saved node config to the database'' @ NL)) (\<lambda>_.
         s_bind (attempt (on_machine (RestartNetworkApps C True True False))
             (\<lambda>e. s_bind (fail_with ''Joined successfully but failed to signal network service restart'' e)
               (\<lambda>_. eprint (''Runit will still start WireGuard and CoreDNS once configs are in place'' @ NL)))
             (\<lambda>_. print (''Signaled WireGuard and CoreDNS restart'' @ NL))) (\<lambda>_.
         s_read (\<lambda>_. Inr True)))))))"

definition setup_client ::
  "node \<Rightarrow> ('n, 'v, 'j, 't, 'f, bool) cmd" where
  "setup_client currentNode =
     attempt (s_read (\<lambda>_. GetFormattedWireguardConfig currentNode))
       (join_fails_with ''Failed to get wireguard config'') (\<lambda>wireguardConfig.
     s_bind (print (NL @ wireguardConfig @ NL)) (\<lambda>_.
     s_bind (eprint (NL @ join_arrow @ '' wireport WireGuard config has been dumped'' @ NL @ NL)) (\<lambda>_.
     s_read (\<lambda>_. Inr True))))"

text \<open>The request goes out under the TLS configuration made from the bundle of the token.\<close>

definition join_request_out ::
  "('n, 'v, 'j, 't, 'f, 'c, 'k) deps \<Rightarrow> tls_config \<Rightarrow> string \<Rightarrow> string \<Rightarrow>
   ('n, 'v, 'j, 't, 'f, net_error + node option) cmd" where
  "join_request_out C tlsConfig gatewayAddress joinToken w =
     (case Join (c_join_post C tlsConfig gatewayAddress joinToken)
             (c_join_answer C) (fst (c_join_times C)) (snd (c_join_times C)) (w_machine w) of
        (f, response) \<Rightarrow> (w\<lparr>w_machine := f\<rparr>, Inr response))"

definition LocalJoin ::
  "('n, 'v, 'j, 't, 'f, 'c, 'k) deps \<Rightarrow> string \<Rightarrow> ('n, 'v, 'j, 't, 'f, bool) cmd" where
  "LocalJoin C joinToken =
     attempt (s_read (\<lambda>_. FromBase64 (c_json C) joinToken))
       (join_fails_with ''Failed to parse join request'') (\<lambda>joinRequest.
     let gatewayAddress = jr_GatewayHost joinRequest @ '':'' @ port_str (jr_GatewayPort joinRequest) in
     s_bind (s_read (\<lambda>_. NewAPIService (env_crypto (c_env C)) (jr_ClientCertBundle joinRequest))) (\<lambda>tlsConfig.
     s_bind (join_request_out C tlsConfig gatewayAddress joinToken) (\<lambda>response.
     case response of
       Inl e \<Rightarrow> join_fails (FormatJoinError (c_doc_url C) (Some e) gatewayAddress)
     | Inr None \<Rightarrow> join_fails (''Failed to get node config from join response'' @ NL)
     | Inr (Some n) \<Rightarrow>
         let currentNode = n\<lparr>node_IsCurrentNode := True\<rparr> in
         attempt (on_nodes (SaveNode (c_nodes C) currentNode))
           (join_fails_with ''Failed to save node config'') (\<lambda>_.
         if node_Role currentNode = NodeRoleServer then setup_server C currentNode
         else if node_Role currentNode = NodeRoleClient then setup_client currentNode
         else join_fails (''Invalid node role: '' @ node_Role currentNode @ NL)))))"

section \<open>Starting the gateway\<close>

text \<open>
  \<open>serve\<close> is the control server: it listens under the given TLS configuration and returns
  the error that ends it. The goroutine that runs it prints nothing, so it is placed where
  its error is waited for.
\<close>

definition LocalGatewayStart ::
  "('n, 'v, 'j, 't, 'f, 'c, 'k) deps \<Rightarrow> (tls_config \<Rightarrow> ('n, 'v, 'j, 't, 'f, go_error) cmd) \<Rightarrow>
   string \<Rightarrow> bool \<Rightarrow> ('n, 'v, 'j, 't, 'f, unit) cmd" where
  "LocalGatewayStart C serve gatewayPublicIP configureOnly =
     attempt (on_nodes (EnsureGatewayNode (c_env C) (c_nodes C) (ParseIP gatewayPublicIP)
                WGPublicPort gatewayPublicIP ControlServerPort))
       (fail_with ''wireport gateway node start failed'') (\<lambda>gatewayNode.
     case node_GatewayCertBundle gatewayNode of
       None \<Rightarrow> eprint (''wireport gateway node start failed: no gateway cert bundle found'' @ NL)
     | Some certBundle \<Rightarrow>
         attempt (on_services (s_read (ServiceGetAll (c_services C))))
           (fail_with ''Failed to list services'') (\<lambda>publicServices.
         attempt (on_machine (SaveConfigs (c_config C) gatewayNode publicServices True))
           (fail_with ''Failed to save configs'') (\<lambda>_.
         if configureOnly
         then print (''wireport has been configured on the gateway: '' @ gatewayPublicIP @ NL)
         else
           s_bind (print (''wireport server has started with mTLS on gateway: '' @ gatewayPublicIP @ NL)) (\<lambda>_.
           case GetServerTLSConfig (env_crypto (c_env C)) certBundle of
             Inl e \<Rightarrow> eprint (''Server error: Failed to get TLS config for the gateway control server: ''
                        @ err_text e @ NL)
           | Inr tlsConfig \<Rightarrow>
               s_bind (serve tlsConfig) (\<lambda>e. eprint (''Server error: '' @ err_text e @ NL))))))"

end
