(* ===== verification/RemoteGateway.thy ===== *)
theory RemoteGateway
  imports Ssh LocalJoin
begin

text \<open>
  The gateway commands that work on another machine over SSH: \<open>GatewayStatus\<close>, \<open>GatewayUp\<close>,
  \<open>GatewayDown\<close> and \<open>GatewayUpgrade\<close> of \<open>internal/commands/local_gateway.go\<close>, with the
  report they share with the server commands.
\<close>

section \<open>The report\<close>

text \<open>The symbols of the messages, in UTF-8.\<close>

definition lens :: string where "lens = [CHR 0xF0, CHR 0x9F, CHR 0x94, CHR 0x8D]"
definition dish :: string where "dish = [CHR 0xF0, CHR 0x9F, CHR 0x93, CHR 0xA1]"
definition whale :: string where "whale = [CHR 0xF0, CHR 0x9F, CHR 0x90, CHR 0xB3]"
definition bulb :: string where "bulb = [CHR 0xF0, CHR 0x9F, CHR 0x92, CHR 0xA1]"
definition rocket :: string where "rocket = [CHR 0xF0, CHR 0x9F, CHR 0x9A, CHR 0x80]"
definition sparkles :: string where "sparkles = [CHR 0xE2, CHR 0x9C, CHR 0xA8]"
definition parcel :: string where "parcel = [CHR 0xF0, CHR 0x9F, CHR 0x93, CHR 0xA6]"
definition party :: string where "party = [CHR 0xF0, CHR 0x9F, CHR 0x8E, CHR 0x89]"
definition key_mark :: string where "key_mark = [CHR 0xF0, CHR 0x9F, CHR 0x94, CHR 0x91]"
definition stop_mark :: string where "stop_mark = [CHR 0xF0, CHR 0x9F, CHR 0x9B, CHR 0x91]"
definition cycle_mark :: string where "cycle_mark = [CHR 0xF0, CHR 0x9F, CHR 0x94, CHR 0x84]"
definition globe :: string where "globe = [CHR 0xF0, CHR 0x9F, CHR 0x8C, CHR 0x90]"

type_synonym ('n, 'v, 'j, 't, 'f) writer = "string \<Rightarrow> ('n, 'v, 'j, 't, 'f, unit) cmd"

definition heading :: "('n, 'v, 'j, 't, 'f) writer \<Rightarrow> string \<Rightarrow> nat \<Rightarrow> ('n, 'v, 'j, 't, 'f, unit) cmd"
  where
  "heading out title n = out (title @ NL @ replicate n (CHR ''='') @ NL @ NL)"

definition status_ok :: "('n, 'v, 'j, 't, 'f) writer \<Rightarrow> string \<Rightarrow> ('n, 'v, 'j, 't, 'f, unit) cmd" where
  "status_ok out t = out (''   Status: '' @ check_mark @ '' '' @ t @ NL)"

definition status_bad :: "('n, 'v, 'j, 't, 'f) writer \<Rightarrow> string \<Rightarrow> ('n, 'v, 'j, 't, 'f, unit) cmd" where
  "status_bad out t = out (''   Status: '' @ cross_mark @ '' '' @ t @ NL)"

definition status_error ::
  "('n, 'v, 'j, 't, 'f) writer \<Rightarrow> string \<Rightarrow> go_error \<Rightarrow> ('n, 'v, 'j, 't, 'f, unit) cmd" where
  "status_error out t e =
     s_bind (status_bad out t) (\<lambda>_. out (''   Error:  '' @ err_text e @ NL @ NL))"

definition target :: "credentials \<Rightarrow> string" where
  "target creds = cr_Username creds @ ''@'' @ cr_Host creds @ '':'' @ itoa (unat (cr_Port creds))"

definition target_line :: "string \<Rightarrow> credentials \<Rightarrow> string" where
  "target_line what creds = ''   '' @ what @ '': '' @ target creds @ NL"

text \<open>
  The connection is tried, its outcome reported, and a deferred close ends the command
  however it ends.
\<close>

definition deferring_close ::
  "'f ssh_env \<Rightarrow> ssh_service \<Rightarrow> ('n, 'v, 'j, 't, 'f, 'a) cmd \<Rightarrow> ('n, 'v, 'j, 't, 'f, 'a) cmd" where
  "deferring_close S s m w =
     (case m w of (w', r) \<Rightarrow> (w'\<lparr>w_machine := Close S s (w_machine w')\<rparr>, r))"

definition connected ::
  "'f ssh_env \<Rightarrow> credentials \<Rightarrow> ('n, 'v, 'j, 't, 'f) writer \<Rightarrow>
   (ssh_service \<Rightarrow> ('n, 'v, 'j, 't, 'f, unit) cmd) \<Rightarrow> ('n, 'v, 'j, 't, 'f, unit) cmd" where
  "connected S creds out m =
     attempt (on_machine (Connect S creds NewService)) (status_error out ''Failed'') (\<lambda>s.
     deferring_close S s
       (s_bind (out (''   Status: '' @ check_mark @ '' Connected'' @ NL @ NL)) (\<lambda>_. m s)))"

section \<open>Status\<close>

text \<open>Whether Docker is installed and may be used; \<open>k\<close> is what follows when it may.\<close>

definition docker_report ::
  "'f ssh_env \<Rightarrow> ssh_service \<Rightarrow> ('n, 'v, 'j, 't, 'f, unit) cmd \<Rightarrow> ('n, 'v, 'j, 't, 'f, unit) cmd" where
  "docker_report S s k =
     s_bind (print (whale @ '' Docker Installation'' @ NL)) (\<lambda>_.
     attempt (on_machine (IsDockerInstalled S s)) (status_error print ''Check Failed'') (\<lambda>dockerInstalled.
     if \<not> dockerInstalled then
       print (''   Status: '' @ cross_mark @ '' Not Installed'' @ NL @ NL
              @ bulb @ '' Install Docker to continue with wireport setup.'' @ NL @ NL)
     else
       s_bind (status_ok print ''Installed'') (\<lambda>_.
       s_bind (attempt (on_machine (GetDockerVersion S s)) (\<lambda>_. finish)
                 (\<lambda>dockerVersion. print (''   Version: '' @ dockerVersion @ NL))) (\<lambda>_.
       s_bind (print ''   Permissions: '') (\<lambda>_.
       attempt (on_machine (IsDockerAccessible S s))
         (\<lambda>e. print (cross_mark @ '' Check Failed'' @ NL @ ''   Error:  '' @ err_text e @ NL @ NL))
         (\<lambda>dockerAccessible.
       if dockerAccessible then s_bind (print (check_mark @ '' User has access'' @ NL @ NL)) (\<lambda>_. k)
       else print (cross_mark @ '' User lacks permissions'' @ NL
                   @ bulb @ '' Add user to docker group.'' @ NL @ NL)))))))"

text \<open>Whether the container runs, its status if there is one, and \<open>hint\<close> when it does not.\<close>

definition container_report ::
  "('f, bool) op \<Rightarrow> ('f, string) op \<Rightarrow> string \<Rightarrow> ('n, 'v, 'j, 't, 'f, unit) cmd \<Rightarrow>
   ('n, 'v, 'j, 't, 'f, unit) cmd" where
  "container_report running container_status hint k =
     attempt (on_machine running) (status_error print ''Check Failed'') (\<lambda>isRunning.
     s_bind (if isRunning then status_ok print ''Running'' else status_bad print ''Not Running'') (\<lambda>_.
     s_bind (attempt (on_machine container_status) (\<lambda>_. finish) (\<lambda>containerStatus.
               if containerStatus \<noteq> [] then print (''   Details: '' @ containerStatus @ NL) else finish)) (\<lambda>_.
     s_bind (if isRunning then finish else print hint) (\<lambda>_.
     s_bind (print NL) (\<lambda>_. k)))))"

definition up_hint :: "string \<Rightarrow> credentials \<Rightarrow> string" where
  "up_hint what creds =
     ''   '' @ bulb @ '' Run '' @ apostrophe @ ''wireport '' @ what @ '' up '' @ target creds @ apostrophe
     @ '' to bootstrap wireport '' @ what @ '' and start it.'' @ NL"

definition LocalGatewayStatus ::
  "'f ssh_env \<Rightarrow> credentials \<Rightarrow> ('n, 'v, 'j, 't, 'f, unit) cmd" where
  "LocalGatewayStatus S creds =
     s_bind (heading print (lens @ '' Checking wireport Gateway Status'') 32) (\<lambda>_.
     s_bind (print (dish @ '' SSH Connection'' @ NL @ target_line ''Gateway'' creds)) (\<lambda>_.
     connected S creds print (\<lambda>s.
       docker_report S s
         (s_bind (print (rocket @ '' wireport Gateway Status'' @ NL)) (\<lambda>_.
          container_report (IsWireportGatewayContainerRunning S s) (GetWireportContainerStatus S s)
            (up_hint ''gateway'' creds)
            (print (sparkles @ '' Gateway Status check completed successfully!'' @ NL)))))))"

section \<open>Bootstrapping\<close>

text \<open>
  A new client of the gateway joins from this machine. \<open>token[:20]\<close> is a panic on a shorter
  text, and the result of joining is not looked at.
\<close>

definition apply_client_token ::
  "('n, 'v, 'j, 't, 'f, 'c, 'k) deps \<Rightarrow> string option \<Rightarrow> ('n, 'v, 'j, 't, 'f, unit) cmd" where
  "apply_client_token C clientJoinToken =
     (case clientJoinToken of
        None \<Rightarrow> finish
      | Some token \<Rightarrow>
          if length token < 20 then s_read (\<lambda>_. Inl IndexOutOfRange)
          else
            s_bind (eprint (''   '' @ key_mark @ '' Applying Client Join Token: '' @ take 20 token @ ''...'' @ NL)) (\<lambda>_.
            s_bind (LocalJoin C token) (\<lambda>_.
            eprint (''   '' @ check_mark @ '' Client Join Token Applied'' @ NL @ NL))))"

definition verified_report :: "bool \<Rightarrow> ('n, 'v, 'j, 't, 'f, unit) cmd" where
  "verified_report installationConfirmed =
     (if installationConfirmed then
        s_bind (status_ok eprint ''Verified Successfully, Running'') (\<lambda>_.
        eprint (''   '' @ party @ '' wireport has been successfully installed and started on the gateway!'' @ NL @ NL))
      else
        s_bind (status_bad eprint ''Verified Failed'') (\<lambda>_.
        eprint (''   '' @ bulb @ '' wireport container was not found running after installation.'' @ NL @ NL)))"

definition LocalGatewayUp ::
  "('n, 'v, 'j, 't, 'f, 'c, 'k) deps \<Rightarrow> 'f ssh_env \<Rightarrow> credentials \<Rightarrow> string \<Rightarrow> string \<Rightarrow>
   ('n, 'v, 'j, 't, 'f, unit) cmd" where
  "LocalGatewayUp C S creds img imageTag =
     s_bind (heading eprint (rocket @ '' wireport Gateway Bootstrapping'') 33) (\<lambda>_.
     s_bind (eprint (dish @ '' Connecting to gateway...'' @ NL @ target_line ''Gateway'' creds)) (\<lambda>_.
     connected S creds eprint (\<lambda>s.
       s_bind (eprint (lens @ '' Checking current status...'' @ NL)) (\<lambda>_.
       attempt (on_machine (IsWireportGatewayContainerRunning S s))
         (status_error eprint ''Check Failed'') (\<lambda>isRunning.
       if isRunning then
         s_bind (status_ok eprint ''Already Running'') (\<lambda>_.
         eprint (''   '' @ bulb @ '' wireport gateway container is already running on this gateway and bootstrapping is not required.'' @ NL @ NL))
       else
         s_bind (status_bad eprint ''Not Running'') (\<lambda>_.
         s_bind (eprint (''   '' @ bulb @ '' Proceeding with installation...'' @ NL @ NL
                   @ parcel @ '' Installing wireport gateway...'' @ NL @ target_line ''Gateway'' creds)) (\<lambda>_.
         attempt (InstallWireportGateway S s img imageTag)
           (status_error eprint ''Installation Failed'') (\<lambda>(_, clientJoinToken).
         s_bind (eprint (''   Status: '' @ check_mark @ '' Installation Completed'' @ NL @ NL
                   @ check_mark @ '' Verifying installation...'' @ NL)) (\<lambda>_.
         attempt (on_machine (IsWireportGatewayContainerRunning S s))
           (status_error eprint ''Verification Failed'') (\<lambda>installationConfirmed.
         s_bind (verified_report installationConfirmed) (\<lambda>_.
         s_bind (apply_client_token C clientJoinToken) (\<lambda>_.
         eprint (sparkles @ '' Gateway Bootstrapping completed successfully!'' @ NL)))))))))))))"

section \<open>Teardown and upgrade\<close>

text \<open>On a gateway nothing is done; elsewhere the remote gateway is removed, then all local rows.\<close>

definition LocalGatewayDown ::
  "('n, 'v, 'j, 't, 'f, 'c, 'k) deps \<Rightarrow> 'f ssh_env \<Rightarrow> credentials option \<Rightarrow>
   ('n, 'v, 'j, 't, 'f, unit) cmd" where
  "LocalGatewayDown C S creds =
     s_bind (attempt (on_nodes (s_read (GetCurrentNode (c_nodes C)))) (\<lambda>_. s_read (\<lambda>_. Inr False))
               (\<lambda>currentNode. s_read (\<lambda>_. Inr (node_Role currentNode = NodeRoleGateway)))) (\<lambda>onGateway.
     if onGateway then finish
     else
       (case creds of
          None \<Rightarrow> eprint (''Error: SSH credentials are required'' @ NL)
        | Some cr \<Rightarrow>
          s_bind (heading print (rocket @ '' wireport Gateway Teardown'') 28) (\<lambda>_.
           s_bind (print (dish @ '' Connecting to gateway...'' @ NL @ target_line ''Gateway'' cr)) (\<lambda>_.
           connected S cr print (\<lambda>s.
             attempt (on_machine (IsWireportGatewayContainerRunning S s))
               (status_error print ''Check Failed'') (\<lambda>isRunning.
             if \<not> isRunning then
               s_bind (status_bad print ''Not Running'') (\<lambda>_.
               print (''   '' @ bulb @ '' wireport gateway is not running, teardown is not required'' @ NL @ NL))
             else
               s_bind (print (stop_mark @ '' Gateway node Teardown'' @ NL @ target_line ''Gateway'' cr)) (\<lambda>_.
               attempt (on_machine (TeardownWireportGateway S s))
                 (status_error print ''Teardown Failed'') (\<lambda>success.
               if \<not> success then status_error print ''Teardown Failed'' (ErrText ''<nil>'')
               else
                 s_bind (print (''   Status: '' @ check_mark @ '' Teardown Completed'' @ NL @ NL
                           @ cycle_mark @ '' Resetting local state...'' @ NL)) (\<lambda>_.
                 attempt (on_nodes (DeleteAll (c_nodes C))) (status_error print ''Failed'') (\<lambda>_.
                 print (''   Status: '' @ check_mark @ '' Completed'' @ NL @ NL
                        @ sparkles @ '' Gateway Teardown completed successfully!'' @ NL)))))))))))"

text \<open>The two upgrades differ in the names and in the length of the rule.\<close>

definition upgrade_report ::
  "'f ssh_env \<Rightarrow> credentials \<Rightarrow> string \<Rightarrow> string \<Rightarrow> nat \<Rightarrow> (ssh_service \<Rightarrow> ('f, bool) op) \<Rightarrow>
   ('n, 'v, 'j, 't, 'f, unit) cmd" where
  "upgrade_report S creds What what n upgrade =
     s_bind (heading print (cycle_mark @ '' wireport '' @ What @ '' Upgrade'') n) (\<lambda>_.
     s_bind (print (dish @ '' Connecting to '' @ what @ ''...'' @ NL @ target_line What creds)) (\<lambda>_.
     connected S creds print (\<lambda>s.
       s_bind (print (cycle_mark @ '' Upgrading wireport '' @ what @ ''...'' @ NL @ target_line What creds)) (\<lambda>_.
       attempt (on_machine (upgrade s)) (status_error print ''Failed'') (\<lambda>success.
       s_bind (if success then
                 s_bind (status_ok print ''Upgraded Successfully'') (\<lambda>_.
                 print (''   '' @ party @ '' wireport '' @ what @ '' node has been successfully upgraded!'' @ NL @ NL))
               else
                 s_bind (status_bad print ''Failed'') (\<lambda>_.
                 print (''   '' @ bulb @ '' Upgrade process completed but may not have been successful.'' @ NL @ NL))) (\<lambda>_.
       print (sparkles @ '' '' @ What @ '' Upgrade completed!'' @ NL)))))))"

definition LocalGatewayUpgrade ::
  "'f ssh_env \<Rightarrow> credentials \<Rightarrow> string \<Rightarrow> string \<Rightarrow> ('n, 'v, 'j, 't, 'f, unit) cmd" where
  "LocalGatewayUpgrade S creds img imageTag =
     upgrade_report S creds ''Gateway'' ''gateway'' 27 (\<lambda>s. UpgradeWireportGateway S s img imageTag)"

end
