(* ===== verification/RemoteServer.thy ===== *)
theory RemoteServer
  imports RemoteGateway
begin

text \<open>
  The server commands that work on another machine over SSH: \<open>ServerStatus\<close>, \<open>ServerUp\<close>,
  \<open>ServerDown\<close> and \<open>ServerUpgrade\<close> of \<open>internal/commands/local_server.go\<close>.
\<close>

section \<open>Status\<close>

definition network_report ::
  "'f ssh_env \<Rightarrow> ssh_service \<Rightarrow> ('n, 'v, 'j, 't, 'f, unit) cmd \<Rightarrow> ('n, 'v, 'j, 't, 'f, unit) cmd" where
  "network_report S s k =
     s_bind (print (globe @ '' wireport Docker Network'' @ NL)) (\<lambda>_.
     attempt (on_machine (GetWireportNetworkStatus S s)) (status_error print ''Check Failed'') (\<lambda>networkStatus.
     s_bind (print (if networkStatus \<noteq> []
               then ''   Network: '' @ check_mark @ '' '' @ apostrophe @ trim_space networkStatus @ apostrophe
                    @ '' exists'' @ NL
               else ''   Network: '' @ cross_mark @ '' '' @ DockerNetworkName @ '' not found'' @ NL
                    @ bulb @ '' Network will be created when wireport server starts.'' @ NL)) (\<lambda>_.
     s_bind (print NL) (\<lambda>_. k))))"

definition LocalServerStatus ::
  "'f ssh_env \<Rightarrow> credentials \<Rightarrow> ('n, 'v, 'j, 't, 'f, unit) cmd" where
  "LocalServerStatus S creds =
     s_bind (heading print (lens @ '' Checking wireport Server Status'') 34) (\<lambda>_.
     s_bind (print (dish @ '' SSH Connection'' @ NL @ target_line ''Server'' creds)) (\<lambda>_.
     connected S creds print (\<lambda>s.
       docker_report S s
         (s_bind (print (rocket @ '' wireport Server Status'' @ NL)) (\<lambda>_.
          container_report (IsWireportServerContainerRunning S s) (GetWireportServerContainerStatus S s)
            (up_hint ''server'' creds)
            (network_report S s
              (print (sparkles @ '' Server Status check completed successfully!'' @ NL))))))))"

section \<open>Bootstrapping\<close>

text \<open>\<open>3 * time.Minute\<close>.\<close>

definition joinTimeout :: int where "joinTimeout = 3 * 60 * 1000000000"

definition joined_text :: string where
  "joined_text = ''   Network: '' @ check_mark @ '' Joined successfully'' @ NL
     @ ''   '' @ party @ '' Server has been successfully installed and connected to the wireport network!'' @ NL @ NL
     @ sparkles @ '' Server Bootstrapping completed successfully!'' @ NL"

definition not_joined_text :: "string \<Rightarrow> string" where
  "not_joined_text documentationURL =
     ''   Network: '' @ cross_mark @ '' Not joined yet'' @ NL @ NL
     @ ''   The server container is running but could not reach the gateway to complete setup.'' @ NL
     @ ''   Common causes: gateway not reachable, or firewall rules on the server (outbound) or gateway (inbound).'' @ NL @ NL
     @ ConnectivityRequirementsText
     @ ''   More detail: '' @ documentationURL @ NL @ NL
     @ ''   After opening ports, the server will retry joining automatically '' @ dash
       @ '' no container restart needed.'' @ NL
     @ ''   Monitor progress: docker logs -f '' @ WireportServerContainerName @ NL @ NL"

definition waiting_text :: "string \<Rightarrow> string" where
  "waiting_text documentationURL =
     ''   Container: '' @ check_mark @ '' Running'' @ NL
     @ ''   Waiting for server to join the wireport network (up to 3 minutes)...'' @ NL
     @ ''   '' @ bulb @ '' If this takes too long:'' @ NL
     @ ''      - Check firewalls on the server host (outbound) AND the gateway host (inbound)'' @ NL
     @ ''      - Firewall setup details: '' @ documentationURL @ NL
     @ ''      - If firewalls look correct, inspect server container logs: docker logs -f ''
       @ WireportServerContainerName @ NL @ NL"

text \<open>The verification: the container runs, and its files of a joined server appear in time.\<close>

definition verify_server ::
  "('n, 'v, 'j, 't, 'f, 'c, 'k) deps \<Rightarrow> 'f ssh_env \<Rightarrow> ssh_service \<Rightarrow> nat \<Rightarrow> ('n, 'v, 'j, 't, 'f, unit) cmd"
  where
  "verify_server C S s polls =
     s_bind (print (check_mark @ '' Verifying installation...'' @ NL)) (\<lambda>_.
     attempt (on_machine (IsWireportServerContainerRunning S s))
       (status_error print ''Verification Failed'') (\<lambda>installationConfirmed.
     if \<not> installationConfirmed then
       s_bind (status_bad print ''Verification Failed'') (\<lambda>_.
       print (''   '' @ bulb @ '' Server node container was not found running after installation. Check logs on the server: docker logs ''
              @ WireportServerContainerName @ NL @ NL))
     else
       s_bind (print (waiting_text (c_doc_url C))) (\<lambda>_.
       attempt (on_machine (WaitForWireportServerJoined S (c_config C) s joinTimeout polls))
         (status_error print ''Verification Failed'') (\<lambda>joined.
       case joined of
         None \<Rightarrow> finish
       | Some True \<Rightarrow> print joined_text
       | Some False \<Rightarrow>
           s_bind (print (not_joined_text (c_doc_url C))) (\<lambda>_.
           eprint (''Server bootstrap incomplete: container is running but the server has not joined the wireport network yet'' @ NL))))))"

text \<open>
  The token is what \<open>ServerNew\<close>, run with \<open>quiet\<close> on its own two buffers, writes; it is put
  into the script as it is, with its line end.
\<close>

definition LocalServerUp ::
  "('n, 'v, 'j, 't, 'f, 'c, 'k) deps \<Rightarrow> 'f ssh_env \<Rightarrow> nat \<Rightarrow> credentials \<Rightarrow> string \<Rightarrow> string \<Rightarrow>
   ('n, 'v, 'j, 't, 'f, unit) cmd \<Rightarrow> ('n, 'v, 'j, 't, 'f, unit) cmd" where
  "LocalServerUp C S polls creds img imageTag serverNew =
     s_bind (heading print (rocket @ '' wireport Server Bootstrapping'') 32) (\<lambda>_.
     s_bind (print (dish @ '' Connecting to server...'' @ NL @ target_line ''Server'' creds)) (\<lambda>_.
     connected S creds print (\<lambda>s.
       s_bind (buffered serverNew) (\<lambda>(_, out, err).
       if err \<noteq> [] \<or> out = [] then
         s_bind (eprint (err @ NL)) (\<lambda>_.
         print (out @ NL @ cross_mark @ '' Failed to connect server node to the wireport network'' @ NL))
       else
         s_bind (print (parcel @ '' Installing wireport server...'' @ NL @ target_line ''Server'' creds)) (\<lambda>_.
         attempt (InstallWireportServer S s out img imageTag)
           (status_error print ''Connection Failed'') (\<lambda>_.
         s_bind (print (''   Status: '' @ check_mark @ '' Connection Completed'' @ NL @ NL)) (\<lambda>_.
         verify_server C S s polls)))))))"

section \<open>Teardown and upgrade\<close>

text \<open>On a server its docker network is taken away; elsewhere the remote server is removed.\<close>

definition teardown_here ::
  "('n, 'v, 'j, 't, 'f, 'c, 'k) deps \<Rightarrow> ('n, 'v, 'j, 't, 'f, unit) cmd" where
  "teardown_here C =
     attempt (on_machine (DetachDockerNetworkFromAllContainers (c_docker C)))
       (fail_with ''Error detaching docker network'') (\<lambda>_.
     attempt (on_machine (RemoveDockerNetwork (c_docker C)))
       (fail_with ''Error removing docker network'') (\<lambda>_. finish))"

definition teardown_there ::
  "'f ssh_env \<Rightarrow> credentials \<Rightarrow> ('n, 'v, 'j, 't, 'f, unit) cmd" where
  "teardown_there S creds =
     s_bind (heading print (rocket @ '' wireport Server Teardown'') 27) (\<lambda>_.
     s_bind (print (dish @ '' Connecting to server...'' @ NL @ target_line ''Server'' creds)) (\<lambda>_.
     connected S creds print (\<lambda>s.
       attempt (on_machine (IsWireportServerContainerRunning S s))
         (status_error print ''Check Failed'') (\<lambda>isRunning.
       if \<not> isRunning then
         s_bind (status_bad print ''Not Running'') (\<lambda>_.
         print (''   '' @ bulb @ '' wireport server is not running'' @ NL @ NL))
       else
         s_bind (print (stop_mark @ '' Server node Teardown'' @ NL @ target_line ''Server'' creds)) (\<lambda>_.
         attempt (on_machine (TeardownWireportServer S s)) (status_error print ''Teardown Failed'') (\<lambda>_.
         print (''   Status: '' @ check_mark @ '' Teardown Completed'' @ NL @ NL
                @ sparkles @ '' Server Teardown completed successfully!'' @ NL)))))))"

definition LocalServerDown ::
  "('n, 'v, 'j, 't, 'f, 'c, 'k) deps \<Rightarrow> 'f ssh_env \<Rightarrow> credentials option \<Rightarrow>
   ('n, 'v, 'j, 't, 'f, unit) cmd" where
  "LocalServerDown C S creds =
     attempt (on_nodes (s_read (GetCurrentNode (c_nodes C))))
       (fail_with ''Error getting current node'') (\<lambda>currentNode.
     if node_Role currentNode = NodeRoleServer then teardown_here C
     else
       (case creds of
          None \<Rightarrow> eprint (''Error: SSH credentials are required'' @ NL)
        | Some cr \<Rightarrow> teardown_there S cr))"

definition LocalServerUpgrade ::
  "'f ssh_env \<Rightarrow> credentials \<Rightarrow> string \<Rightarrow> string \<Rightarrow> ('n, 'v, 'j, 't, 'f, unit) cmd" where
  "LocalServerUpgrade S creds img imageTag =
     upgrade_report S creds ''Server'' ''server'' 26 (\<lambda>s. UpgradeWireportServer S s img imageTag)"

end
