(* ===== verification/ApiClient.thy ===== *)
theory ApiClient
  imports World
begin

text \<open>
  The API of the gateway as another node calls it,
  \<open>internal/commands/api_commands_service.go\<close>: one POST over mutual TLS per method. Log
  messages are left out.
\<close>

record api_service =
  api_Host :: string
  api_Port :: "16 word"
  api_ClientCertBundle :: "client_bundle option"

text \<open>A failing step whose error is returned with a text in front.\<close>

definition wrapping ::
  "string \<Rightarrow> ('s, 'a) op \<Rightarrow> ('a \<Rightarrow> ('s, 'b) op) \<Rightarrow> ('s, 'b) op" where
  "wrapping message m =
     attempt m (\<lambda>e. s_read (\<lambda>_. Inl (ErrText (message @ '': '' @ err_text e))))"

definition bytes_text :: "bytes \<Rightarrow> string" where
  "bytes_text bs = map (\<lambda>b. char_of (unat b)) bs"

definition api_url :: "api_service \<Rightarrow> string \<Rightarrow> string" where
  "api_url api path = ''https://'' @ api_Host api @ '':'' @ port_str (api_Port api) @ path"

text \<open>What is done with the answer: its status, an empty body, its decoding.\<close>

definition read_response ::
  "('n, 'v, 'j, 't, 'f, 'c, 'k) deps \<Rightarrow> string \<Rightarrow> nat \<Rightarrow> bytes \<Rightarrow> response result" where
  "read_response C path status body =
     (if status < 200 \<or> 300 \<le> status
      then Inl (ErrText (''request failed with status '' @ itoa status @ '': '' @ bytes_text body))
      else if body = []
      then Inl (ErrText (''empty response body with status '' @ itoa status))
      else (case get_response (c_codec C) path body of
              Inl e \<Rightarrow> Inl (ErrText (''failed to unmarshal response body (status '' @ itoa status
                  @ '', body='' @ c_quote C (bytes_text body) @ ''): '' @ err_text e))
            | Inr response \<Rightarrow> Inr response))"

definition makeSecureRequestWithResponse ::
  "('n, 'v, 'j, 't, 'f, 'c, 'k) deps \<Rightarrow> api_service \<Rightarrow> request \<Rightarrow>
   ('n, 'v, 'j, 't, 'f, response) cmd" where
  "makeSecureRequestWithResponse C api request =
     (let path = endpoint request in
     wrapping ''failed to marshal request body'' (s_read (\<lambda>_. put_request (c_codec C) request)) (\<lambda>requestBody.
     deref (api_ClientCertBundle api) (\<lambda>clientCertBundle.
     wrapping ''failed to get client TLS config''
       (s_read (\<lambda>_. GetClientTLSConfig (env_crypto (c_env C)) clientCertBundle)) (\<lambda>tlsConfig.
     wrapping ''failed to create request'' (s_read (\<lambda>_. c_new_request C (api_url api path))) (\<lambda>_.
     wrapping ''failed to execute request''
       (on_machine (c_post C tlsConfig (api_url api path) requestBody)) (\<lambda>(status, read).
     wrapping ''failed to read response body'' (s_read (\<lambda>_. read)) (\<lambda>responseBody.
     s_read (\<lambda>_. read_response C path status responseBody)))))))) "

section \<open>The methods\<close>

text \<open>
  All but three return the two texts only; on an error they return it unchanged.
\<close>

definition exec_method ::
  "('n, 'v, 'j, 't, 'f, 'c, 'k) deps \<Rightarrow> api_service \<Rightarrow> request \<Rightarrow>
   ('n, 'v, 'j, 't, 'f, exec_response) cmd" where
  "exec_method C api request =
     s_bind (makeSecureRequestWithResponse C api request) (\<lambda>r. s_read (\<lambda>_. Inr (exec_part r)))"

definition api_ServerNew where
  "api_ServerNew C api force quiet dockerSubnet =
     exec_method C api (ServerNewRequest force quiet dockerSubnet)"

definition api_ServerRemove where
  "api_ServerRemove C api nodeID = exec_method C api (ServerRemoveRequest nodeID)"

definition api_ClientNew where
  "api_ClientNew C api force quiet wait = exec_method C api (ClientNewRequest force quiet wait)"

definition api_ClientList where
  "api_ClientList C api = exec_method C api ClientListRequest"

definition api_NodeLabelAdd where
  "api_NodeLabelAdd C api nodeIP label = exec_method C api (NodeLabelAddRequest nodeIP label)"

definition api_NodeLabelRemove where
  "api_NodeLabelRemove C api nodeIP label = exec_method C api (NodeLabelRemoveRequest nodeIP label)"

definition api_ServicePublish where
  "api_ServicePublish C api localProtocol localHost localPort publicProtocol publicHost publicPort =
     exec_method C api (ServicePublishRequest localProtocol localHost localPort
       publicProtocol publicHost publicPort)"

definition api_ServiceUnpublish where
  "api_ServiceUnpublish C api publicProtocol publicHost publicPort =
     exec_method C api (ServiceUnpublishRequest publicProtocol publicHost publicPort)"

definition api_ServiceParamNew where
  "api_ServiceParamNew C api publicProtocol publicHost publicPort paramType paramValue =
     exec_method C api (ServiceParamNewRequest publicProtocol publicHost publicPort paramType paramValue)"

definition api_ServiceParamRemove where
  "api_ServiceParamRemove C api publicProtocol publicHost publicPort paramType paramValue =
     exec_method C api (ServiceParamRemoveRequest publicProtocol publicHost publicPort paramType paramValue)"

definition api_ServiceParamList where
  "api_ServiceParamList C api publicProtocol publicHost publicPort =
     exec_method C api (ServiceParamListRequest publicProtocol publicHost publicPort)"

text \<open>A field missing in the answer is the zero value.\<close>

definition api_ServerList ::
  "('n, 'v, 'j, 't, 'f, 'c, 'k) deps \<Rightarrow> api_service \<Rightarrow>
   ('n, 'v, 'j, 't, 'f, exec_response \<times> int) cmd" where
  "api_ServerList C api =
     s_bind (makeSecureRequestWithResponse C api ServerListRequest) (\<lambda>r. s_read (\<lambda>_.
       Inr (exec_part r, case resp_payload r of ServerNodesCount n \<Rightarrow> n | _ \<Rightarrow> 0)))"

definition api_ServiceList ::
  "('n, 'v, 'j, 't, 'f, 'c, 'k) deps \<Rightarrow> api_service \<Rightarrow>
   ('n, 'v, 'j, 't, 'f, exec_response \<times> service list) cmd" where
  "api_ServiceList C api =
     s_bind (makeSecureRequestWithResponse C api ServiceListRequest) (\<lambda>r. s_read (\<lambda>_.
       Inr (exec_part r, case resp_payload r of ServiceRows vs \<Rightarrow> vs | _ \<Rightarrow> [])))"

definition api_NodeConfig ::
  "('n, 'v, 'j, 't, 'f, 'c, 'k) deps \<Rightarrow> api_service \<Rightarrow>
   ('n, 'v, 'j, 't, 'f, node option) cmd" where
  "api_NodeConfig C api =
     s_bind (makeSecureRequestWithResponse C api NodeConfigRequest) (\<lambda>r. s_read (\<lambda>_.
       Inr (case resp_payload r of NodeConfig n \<Rightarrow> n | _ \<Rightarrow> None)))"

end
