(* ===== verification/ServerLoop.thy ===== *)
theory ServerLoop
  imports ApiClient
begin

text \<open>
  The running server node: \<open>ServerStart\<close> and what each of its rounds does
  (\<open>internal/commands/local_server.go\<close>), the addresses in container labels
  (\<open>internal/utils/service.go\<close>) and the docker socket (\<open>internal/dockersocket/service.go\<close>).
\<close>

section \<open>Addresses\<close>

text \<open>
  \<open>ParseAddress\<close>, from the three parts \<open>net/url.Parse\<close> finds: scheme, host name and port.
\<close>

definition ParseAddress ::
  "('n, 'v, 'j, 't, 'f, 'c, 'k) deps \<Rightarrow> string \<Rightarrow> (string \<times> string \<times> 16 word) result" where
  "ParseAddress C text =
     (let addr = trim_space text in
      if addr = [] then Inl (ErrText ''valid host value is required'')
      else rbind (c_parse_url C addr) (\<lambda>(scheme, hostname, port).
        let protocol = to_lower scheme in
        if scheme = [] then Inl (ErrText ''protocol is required'')
        else if protocol \<notin> {''tcp'', ''udp'', ''http'', ''https''}
        then Inl (ErrText ''unsupported protocol'')
        else if hostname = [] then Inl (ErrText ''host is required'')
        else if port = [] \<and> protocol \<notin> {''http'', ''https''}
        then Inl (ErrText ''port is required for layer 4 services'')
        else
          (case atoi (if port \<noteq> [] then port else if protocol = ''http'' then ''80'' else ''443'') of
             None \<Rightarrow> Inl (ErrText ''invalid port'')
           | Some n \<Rightarrow> if n < 1 \<or> 65535 < n then Inl (ErrText ''invalid port'')
                       else Inr (protocol, hostname, word_of_int n))))"

section \<open>The docker socket\<close>

definition RunitServiceDir :: string where "RunitServiceDir = ''/etc/service''"
definition RunitServiceDisabledDir :: string where "RunitServiceDisabledDir = ''/etc/service-disabled''"
definition DockerSocketServiceName :: string where "DockerSocketServiceName = ''socat-docker-socket''"
definition DockerSocketTCPPort :: string where "DockerSocketTCPPort = ''2375''"

text \<open>\<open>filepath.Join\<close> of a directory and a name, both clean.\<close>

definition servicePath :: string where
  "servicePath = RunitServiceDir @ ''/'' @ DockerSocketServiceName"
definition disabledPath :: string where
  "disabledPath = RunitServiceDisabledDir @ ''/'' @ DockerSocketServiceName"

definition isServiceEnabled :: "('n, 'v, 'j, 't, 'f, 'c, 'k) deps \<Rightarrow> 'f \<Rightarrow> bool" where
  "isServiceEnabled C f = c_stat_ok C f servicePath"

definition isSocatRunning :: "('n, 'v, 'j, 't, 'f, 'c, 'k) deps \<Rightarrow> 'f \<Rightarrow> bool" where
  "isSocatRunning C f = c_process_running C ''socat'' f"

definition PublishScriptPath :: string where
  "PublishScriptPath = ''scripts/publish/docker-socket.hbs''"
definition UnpublishScriptPath :: string where
  "UnpublishScriptPath = ''scripts/unpublish/docker-socket.hbs''"

definition templateVars :: "(string \<times> string) list" where
  "templateVars =
     [(''dockerSocketServicePath'', servicePath),
      (''dockerSocketDisabledPath'', disabledPath),
      (''dockerSocketServiceName'', DockerSocketServiceName),
      (''dockerSocketTCPPort'', DockerSocketTCPPort),
      (''runitServiceDir'', RunitServiceDir),
      (''runitServiceDisabledDir'', RunitServiceDisabledDir)]"

definition renderScript :: "('n, 'v, 'j, 't, 'f, 'c, 'k) deps \<Rightarrow> string \<Rightarrow> string result" where
  "renderScript C templatePath = c_render C templatePath templateVars"

definition runScript ::
  "('n, 'v, 'j, 't, 'f, 'c, 'k) deps \<Rightarrow> string \<Rightarrow> ('f, string) op" where
  "runScript C script f =
     (case c_script C script f of
        (f', output, Inl e) \<Rightarrow> (f', Inl (ErrText (err_text e @ '': '' @ output)))
      | (f', output, Inr u) \<Rightarrow> (f', Inr output))"

definition run_template ::
  "('n, 'v, 'j, 't, 'f, 'c, 'k) deps \<Rightarrow> string \<Rightarrow> ('f, unit) op" where
  "run_template C path =
     s_bind (s_read (\<lambda>_. renderScript C path)) (\<lambda>script.
     s_bind (runScript C script) (\<lambda>_. s_read (\<lambda>_. Inr ())))"

definition ReconcileWithLabels ::
  "('n, 'v, 'j, 't, 'f, 'c, 'k) deps \<Rightarrow> string list \<Rightarrow> ('n, 'v, 'j, 't, 'f, unit) cmd" where
  "ReconcileWithLabels C labels w =
     (let wantPublished = DockerSocketPublishedLabel \<in> set labels;
          enabled = isServiceEnabled C (w_machine w);
          running = isSocatRunning C (w_machine w);
          q = c_quote C DockerSocketPublishedLabel
      in if wantPublished then
           if enabled \<and> running then finish w
           else s_bind (print (''Enabling docker socket TCP gateway (label '' @ q @ '' present)'' @ NL)) (\<lambda>_.
                attempt (on_machine (run_template C PublishScriptPath))
                  (fail_with ''Failed to enable docker socket TCP gateway'') (\<lambda>_.
                print (''Docker socket TCP gateway enabled'' @ NL))) w
         else if \<not> enabled \<and> \<not> running then finish w
         else s_bind (print (''Disabling docker socket TCP gateway (label '' @ q @ '' absent)'' @ NL)) (\<lambda>_.
              attempt (on_machine (run_template C UnpublishScriptPath))
                (fail_with ''Failed to disable docker socket TCP gateway'') (\<lambda>_.
              print (''Docker socket TCP gateway disabled'' @ NL))) w)"

section \<open>Reconciling publications with container labels\<close>

definition wireportServiceLocalLabel :: string where
  "wireportServiceLocalLabel = ''wireport.service.local''"
definition wireportServicePublicLabel :: string where
  "wireportServicePublicLabel = ''wireport.service.public''"

text \<open>
  The labels by container name. The order in which Go visits the entries of a map is not
  fixed; here it is the order of the list, and what is proved holds for every list.
\<close>

type_synonym label_map = "(string \<times> (string \<rightharpoonup> string)) list"

definition filterServicesPublishedByNode :: "service list \<Rightarrow> string \<Rightarrow> service list" where
  "filterServicesPublishedByNode vs nodeID = filter (\<lambda>v. PublishedByNodeID v = Some nodeID) vs"

text \<open>\<open>labels[key]\<close> of a Go map: the empty text for a missing key.\<close>

definition label_text :: "(string \<rightharpoonup> string) \<Rightarrow> string \<Rightarrow> string" where
  "label_text ls key = (case ls key of None \<Rightarrow> [] | Some t \<Rightarrow> t)"

definition missing_labels :: "label_map \<Rightarrow> service \<Rightarrow> bool" where
  "missing_labels m v =
     (case map_of m (LocalHost v) of
        None \<Rightarrow> True
      | Some ls \<Rightarrow> label_text ls wireportServiceLocalLabel = []
                 \<or> label_text ls wireportServicePublicLabel = [])"

text \<open>A container not yet published: nothing, a message, or a service to publish.\<close>

datatype candidate = NoCandidate | Complain string | Remark string | Candidate service

definition candidate_of ::
  "('n, 'v, 'j, 't, 'f, 'c, 'k) deps \<Rightarrow> string \<Rightarrow> service list \<Rightarrow> string \<times> (string \<rightharpoonup> string) \<Rightarrow> candidate"
  where
  "candidate_of C nodeID publishedHere ctr =
     (let name = fst ctr;
          localAddress = label_text (snd ctr) wireportServiceLocalLabel;
          publicAddress = label_text (snd ctr) wireportServicePublicLabel;
          failure = ''Can not publish service '' @ name @ '': ''
      in if \<exists>v \<in> set publishedHere. LocalHost v = name then NoCandidate
         else if localAddress = [] \<or> publicAddress = [] then NoCandidate
         else
           (case ParseAddress C localAddress of
              Inl e \<Rightarrow> Complain (failure @ ''failed to parse local address: '' @ err_text e @ NL)
            | Inr (localProtocol, localHost, localPort) \<Rightarrow>
                if localHost \<noteq> name
                then Remark (failure @ ''local host '' @ localHost @ '' does not match container name ''
                       @ name @ '' - the service definition is not valid, skipping'' @ NL)
                else
                  (case ParseAddress C publicAddress of
                     Inl e \<Rightarrow> Complain (failure @ ''failed to parse public address: '' @ err_text e @ NL)
                   | Inr (publicProtocol, publicHost, publicPort) \<Rightarrow>
                       Candidate \<lparr>PublishedByNodeID = Some nodeID, LocalProtocol = localProtocol,
                         LocalHost = localHost, LocalPort = localPort, PublicProtocol = publicProtocol,
                         PublicHost = publicHost, PublicPort = publicPort, Params = [],
                         CreatedAt = 0\<rparr>)))"

fun candidate_service :: "candidate \<Rightarrow> service option" where
  "candidate_service (Candidate v) = Some v"
| "candidate_service _ = None"

text \<open>What is to be withdrawn and what is to be published.\<close>

definition services_to_unpublish :: "string \<Rightarrow> label_map \<Rightarrow> service list \<Rightarrow> service list" where
  "services_to_unpublish nodeID m vs =
     filter (missing_labels m) (filterServicesPublishedByNode vs nodeID)"

definition services_to_publish ::
  "('n, 'v, 'j, 't, 'f, 'c, 'k) deps \<Rightarrow> string \<Rightarrow> label_map \<Rightarrow> service list \<Rightarrow> service list" where
  "services_to_publish C nodeID m vs =
     List.map_filter (\<lambda>ctr. candidate_service
       (candidate_of C nodeID (filterServicesPublishedByNode vs nodeID) ctr)) m"

definition to_be_unpublished_line :: "service \<Rightarrow> string" where
  "to_be_unpublished_line v =
     ''Service '' @ service_url (LocalProtocol v) (LocalHost v) (LocalPort v)
     @ '' is published by the node, but labels are not set anymore - to be unpublished'' @ NL"

fun candidate_messages :: "candidate list \<Rightarrow> ('n, 'v, 'j, 't, 'f, unit) cmd" where
  "candidate_messages [] = finish"
| "candidate_messages (c # cs) =
     s_bind (case c of Complain t \<Rightarrow> eprint t | Remark t \<Rightarrow> print t | _ \<Rightarrow> finish)
       (\<lambda>_. candidate_messages cs)"

definition public_url :: "service \<Rightarrow> string" where
  "public_url v = service_url (PublicProtocol v) (PublicHost v) (PublicPort v)"

definition local_url :: "service \<Rightarrow> string" where
  "local_url v = service_url (LocalProtocol v) (LocalHost v) (LocalPort v)"

fun unpublish_all ::
  "('n, 'v, 'j, 't, 'f, 'c, 'k) deps \<Rightarrow> api_service \<Rightarrow> service list \<Rightarrow>
   ('n, 'v, 'j, 't, 'f, unit) cmd" where
  "unpublish_all C api [] = finish"
| "unpublish_all C api (v # vs) =
     s_bind (attempt (api_ServiceUnpublish C api (PublicProtocol v) (PublicHost v) (PublicPort v))
         (fail_with (''Failed to unpublish service '' @ public_url v))
         (\<lambda>_. print (''Unpublished service '' @ public_url v @ NL)))
       (\<lambda>_. unpublish_all C api vs)"

text \<open>An answer with an error text is a failure too, printed as the error \<open><nil>\<close>.\<close>

fun publish_all ::
  "('n, 'v, 'j, 't, 'f, 'c, 'k) deps \<Rightarrow> api_service \<Rightarrow> service list \<Rightarrow>
   ('n, 'v, 'j, 't, 'f, unit) cmd" where
  "publish_all C api [] = finish"
| "publish_all C api (v # vs) =
     (let failed = (\<lambda>t. eprint (''Failed to publish service '' @ local_url v @ '': -> ''
             @ public_url v @ '': '' @ t @ NL))
      in s_bind (attempt (api_ServicePublish C api (LocalProtocol v) (LocalHost v) (LocalPort v)
                   (PublicProtocol v) (PublicHost v) (PublicPort v))
           (\<lambda>e. failed (err_text e))
           (\<lambda>r. if Stderr r \<noteq> [] then failed ''<nil>''
                else print (''Published service '' @ local_url v @ '' -> '' @ public_url v @ NL)))
         (\<lambda>_. publish_all C api vs))"

definition reconcileGatewayServicesWithDockerLabels ::
  "('n, 'v, 'j, 't, 'f, 'c, 'k) deps \<Rightarrow> api_service \<Rightarrow> node \<Rightarrow> ('n, 'v, 'j, 't, 'f, unit) cmd" where
  "reconcileGatewayServicesWithDockerLabels C api currentNode =
     attempt (api_ServiceList C api) (fail_with ''Failed to get services'') (\<lambda>(_, services).
     s_bind (print (''Retrieved '' @ itoa (length services) @ '' services from gateway node'' @ NL)) (\<lambda>_.
     attempt (on_machine (s_read (ListAllContainerLabels (c_docker C))))
       (fail_with ''Failed to list all container labels'') (\<lambda>labels.
     s_bind (print (''Retrieved labels for '' @ itoa (length labels) @ '' containers'' @ NL)) (\<lambda>_.
     let nodeID = node_ID currentNode;
         publishedHere = filterServicesPublishedByNode services nodeID;
         unpub = services_to_unpublish nodeID labels services in
     s_bind (print (''Retrieved '' @ itoa (length publishedHere)
               @ '' services published by current node'' @ NL)) (\<lambda>_.
     s_bind (print (concat (map to_be_unpublished_line unpub))) (\<lambda>_.
     s_bind (candidate_messages (map (candidate_of C nodeID publishedHere) labels)) (\<lambda>_.
     s_bind (unpublish_all C api unpub) (\<lambda>_.
     publish_all C api (services_to_publish C nodeID labels services)))))))))"

section \<open>The rounds of a server\<close>

definition refreshNodeConfig ::
  "('n, 'v, 'j, 't, 'f, 'c, 'k) deps \<Rightarrow> api_service \<Rightarrow> node \<Rightarrow> ('n, 'v, 'j, 't, 'f, unit) cmd" where
  "refreshNodeConfig C api currentNode =
     attempt (api_NodeConfig C api) (fail_with ''Failed to get node config'') (\<lambda>nodeConfig.
     case nodeConfig of
       None \<Rightarrow> eprint (''Failed to get node config: <nil>'' @ NL)
     | Some n \<Rightarrow>
         if node_ID n \<noteq> node_ID currentNode
         then eprint (''Node config mismatch: '' @ node_ID n @ '' != '' @ node_ID currentNode @ NL)
         else
           attempt (on_nodes (UpdateLabels (c_nodes C) (node_ID n) (node_Labels n)))
             (fail_with ''Failed to update node config'') (\<lambda>_.
           s_bind (print (''Node config updated successfully'' @ NL)) (\<lambda>_.
           ReconcileWithLabels C (node_Labels n))))"

definition ensure_attached ::
  "('n, 'v, 'j, 't, 'f, 'c, 'k) deps \<Rightarrow> ('n, 'v, 'j, 't, 'f, unit) cmd" where
  "ensure_attached C =
     s_bind (print (''Ensuring docker network is attached to all containers'' @ NL)) (\<lambda>_.
     attempt (on_machine (EnsureDockerNetworkIsAttachedToAllContainers (c_docker C)))
       (fail_with ''Failed to ensure docker network is attached to all containers'') (\<lambda>_.
     print (''Docker network is attached to all containers'' @ NL)))"

text \<open>One round of the endless loop; the sleep of 30 seconds after it is left out.\<close>

definition server_round ::
  "('n, 'v, 'j, 't, 'f, 'c, 'k) deps \<Rightarrow> api_service \<Rightarrow> ('n, 'v, 'j, 't, 'f, unit) cmd" where
  "server_round C api =
     attempt (on_nodes (s_read (GetCurrentNode (c_nodes C))))
       (fail_with ''Failed to get current node'') (\<lambda>currentNode.
     s_bind (ensure_attached C) (\<lambda>_.
     s_bind (reconcileGatewayServicesWithDockerLabels C api currentNode) (\<lambda>_.
     refreshNodeConfig C api currentNode)))"

fun server_rounds ::
  "('n, 'v, 'j, 't, 'f, 'c, 'k) deps \<Rightarrow> api_service \<Rightarrow> nat \<Rightarrow> ('n, 'v, 'j, 't, 'f, unit) cmd" where
  "server_rounds C api 0 = finish"
| "server_rounds C api (Suc n) = s_bind (server_round C api) (\<lambda>_. server_rounds C api n)"

text \<open>\<open>ServerStart\<close>, observed for a number of rounds.\<close>

definition LocalServerStart ::
  "('n, 'v, 'j, 't, 'f, 'c, 'k) deps \<Rightarrow> api_service \<Rightarrow> nat \<Rightarrow> ('n, 'v, 'j, 't, 'f, unit) cmd" where
  "LocalServerStart C api rounds =
     s_bind (print (''Starting wireport server'' @ NL)) (\<lambda>_.
     attempt (on_nodes (s_read (GetCurrentNode (c_nodes C))))
       (fail_with ''Failed to get current node'') (\<lambda>currentNode.
     attempt (on_machine (SaveConfigs (c_config C) currentNode [] True))
       (fail_with ''Failed to save server node configs'') (\<lambda>_.
     s_bind (print (''Server node configs saved to the disk successfully'' @ NL)) (\<lambda>_.
     server_rounds C api rounds))))"

end
