(* ===== verification/Executor.thy ===== *)
theory Executor
  imports LocalService LocalNodes RemoteServer ServerLoop
begin

text \<open>
  The role based execution of commands, \<open>internal/commands/service.go\<close>: a command is a list
  of groups of roles, each with a handler that runs on the machine itself or asks the gateway.
\<close>

section \<open>Role groups\<close>

text \<open>A handler gets the current node, the API of its gateway, and may answer with two texts.\<close>

type_synonym ('n, 'v, 'j, 't, 'f) role_handler =
  "node option \<Rightarrow> api_service option \<Rightarrow> ('n, 'v, 'j, 't, 'f, exec_response option) cmd"

type_synonym ('n, 'v, 'j, 't, 'f) role_group =
  "node_role list \<times> ('n, 'v, 'j, 't, 'f) role_handler"

text \<open>\<open>local.Command(...); return nil, nil\<close> and \<open>r, err := api.Command(...); return &r, err\<close>.\<close>

definition run_local :: "('n, 'v, 'j, 't, 'f, unit) cmd \<Rightarrow> ('n, 'v, 'j, 't, 'f) role_handler" where
  "run_local m currentNode api = s_bind m (\<lambda>_. s_read (\<lambda>_. Inr None))"

definition run_api ::
  "(api_service \<Rightarrow> ('n, 'v, 'j, 't, 'f, exec_response) cmd) \<Rightarrow> ('n, 'v, 'j, 't, 'f) role_handler"
  where
  "run_api m currentNode api = deref api (\<lambda>a. s_bind (m a) (\<lambda>r. s_read (\<lambda>_. Inr (Some r))))"

definition isRoleAllowed :: "node option \<Rightarrow> node_role list \<Rightarrow> bool" where
  "isRoleAllowed currentNode allowedRoles =
     (case currentNode of
        None \<Rightarrow> NodeRoleEmpty \<in> set allowedRoles
      | Some n \<Rightarrow> node_Role n \<in> set allowedRoles)"

definition person_mark :: string where
  "person_mark = [CHR 0xF0, CHR 0x9F, CHR 0x91, CHR 0xA4]"

definition quoted :: "string \<Rightarrow> string" where
  "quoted t = [CHR 0x27] @ t @ [CHR 0x27]"

definition role_error_text :: "node_role \<Rightarrow> node_role list \<Rightarrow> string" where
  "role_error_text currentNodeRole allowedRoles =
     cross_mark @ ''  Command is only allowed for roles: '' @ join_str '', '' allowedRoles @ NL
     @ person_mark @ '' Current role: '' @ currentNodeRole @ NL @ NL
     @ ''To execute this command on behalf of:'' @ NL
     @ ''- client: '' @ quoted ''wireport gateway up'' @ '' OR ''
       @ quoted ''wireport join <client-join-token>'' @ NL
     @ ''- server: '' @ quoted ''wireport gateway up'' @ '' + '' @ quoted ''wireport server up''
       @ '' + SSH to server container'' @ NL
     @ ''- gateway: '' @ quoted ''wireport gateway up'' @ '' + SSH to gateway container'' @ NL
     @ ''- empty: '' @ quoted ''wireport gateway down'' @ '' (WARNING: destroys all data)'' @ NL"

definition printRoleError :: "node_role \<Rightarrow> node_role list \<Rightarrow> ('n, 'v, 'j, 't, 'f, unit) cmd" where
  "printRoleError currentNodeRole allowedRoles = eprint (role_error_text currentNodeRole allowedRoles)"

section \<open>Execution\<close>

definition show_exec_response :: "exec_response option \<Rightarrow> ('n, 'v, 'j, 't, 'f, unit) cmd" where
  "show_exec_response r =
     (case r of
        None \<Rightarrow> finish
      | Some d \<Rightarrow> s_bind (if Stderr d \<noteq> [] then eprint (Stderr d @ NL) else finish)
                    (\<lambda>_. print (Stdout d @ NL)))"

definition role_to_execute :: "node option \<Rightarrow> node_role" where
  "role_to_execute currentNode = (case currentNode of None \<Rightarrow> NodeRoleEmpty | Some n \<Rightarrow> node_Role n)"

definition api_of :: "node \<Rightarrow> api_service" where
  "api_of n = \<lparr>api_Host = node_GatewayPublicIP n, api_Port = node_GatewayPublicPort n,
     api_ClientCertBundle = node_ClientCertBundle n\<rparr>"

text \<open>The gate and the first group that holds the role.\<close>

definition execute_as ::
  "('n, 'v, 'j, 't, 'f) role_group list \<Rightarrow> node option \<Rightarrow> ('n, 'v, 'j, 't, 'f, unit) cmd" where
  "execute_as roleGroups currentNode =
     (let allowedRoles = concat (map fst roleGroups); role = role_to_execute currentNode in
      if \<not> isRoleAllowed currentNode allowedRoles then printRoleError role allowedRoles
      else
        (case List.find (\<lambda>g. role \<in> set (fst g)) roleGroups of
           None \<Rightarrow> printRoleError role allowedRoles
         | Some g \<Rightarrow> attempt (snd g currentNode (map_option api_of currentNode))
                      (\<lambda>e. eprint (err_text e @ NL)) show_exec_response))"

definition executeCommand ::
  "('n, 'v, 'j, 't, 'f, 'c, 'k) deps \<Rightarrow> ('n, 'v, 'j, 't, 'f) role_group list \<Rightarrow>
   ('n, 'v, 'j, 't, 'f, unit) cmd" where
  "executeCommand C roleGroups =
     attempt (on_nodes (s_read (GetCurrentNode (c_nodes C))))
       (\<lambda>e. if e = ErrRecordNotFound then execute_as roleGroups None
            else eprint (''Error: '' @ err_text e @ NL))
       (\<lambda>currentNode. execute_as roleGroups (Some currentNode))"

section \<open>Gateway commands\<close>

definition GatewayStart where
  "GatewayStart C serve gatewayPublicIP configureOnly =
     executeCommand C [([NodeRoleGateway, NodeRoleEmpty],
       run_local (LocalGatewayStart C serve gatewayPublicIP configureOnly))]"

text \<open>The two status commands run on every machine, with no look at its role.\<close>

definition GatewayStatus where
  "GatewayStatus S creds = LocalGatewayStatus S creds"

definition GatewayUp where
  "GatewayUp C S creds img imageTag =
     executeCommand C [([NodeRoleEmpty], run_local (LocalGatewayUp C S creds img imageTag))]"

text \<open>A client first asks how many servers there are.\<close>

definition gateway_down_handler ::
  "('n, 'v, 'j, 't, 'f, 'c, 'k) deps \<Rightarrow> ('n, 'v, 'j, 't, 'f, unit) cmd \<Rightarrow>
   ('n, 'v, 'j, 't, 'f) role_handler" where
  "gateway_down_handler C localGatewayDown currentNode api =
     (case currentNode of
        None \<Rightarrow> s_read (\<lambda>_. Inl (ErrText ''current node is required to tear down gateway node''))
      | Some n \<Rightarrow>
          s_bind (if node_Role n = NodeRoleClient then
                    deref api (\<lambda>a. s_bind (api_ServerList C a) (\<lambda>(_, count). s_read (\<lambda>_.
                      if 0 < count
                      then Inl (ErrText (cross_mark @ '' Cannot tear down gateway node with active server nodes (''
                             @ itoa_int count @ ''), please tear down all server nodes first''))
                      else Inr ())))
                  else finish)
            (\<lambda>_. run_local localGatewayDown currentNode api))"

definition GatewayDown where
  "GatewayDown C S creds =
     executeCommand C [([NodeRoleGateway, NodeRoleClient],
       gateway_down_handler C (LocalGatewayDown C S creds))]"

definition GatewayUpgrade where
  "GatewayUpgrade C S creds img imageTag =
     executeCommand C [([NodeRoleClient], run_local (LocalGatewayUpgrade S creds img imageTag))]"

section \<open>Commands of the gateway that a client may give\<close>

text \<open>The common shape: the gateway runs the command, a client sends it to the gateway.\<close>

definition gateway_or_client ::
  "('n, 'v, 'j, 't, 'f, unit) cmd \<Rightarrow> (api_service \<Rightarrow> ('n, 'v, 'j, 't, 'f, exec_response) cmd) \<Rightarrow>
   ('n, 'v, 'j, 't, 'f) role_group list" where
  "gateway_or_client here there =
     [([NodeRoleGateway], run_local here), ([NodeRoleClient], run_api there)]"

definition ServerNew where
  "ServerNew C force quiet dockerSubnet =
     executeCommand C (gateway_or_client (LocalServerNew C force quiet dockerSubnet)
       (\<lambda>api. api_ServerNew C api force quiet dockerSubnet))"

definition ServerList where
  "ServerList C requestFromNodeID =
     executeCommand C (gateway_or_client (LocalServerList C requestFromNodeID)
       (\<lambda>api. s_bind (api_ServerList C api) (\<lambda>(r, _). s_read (\<lambda>_. Inr r))))"

definition NodeLabelAdd where
  "NodeLabelAdd C nodeIP label =
     executeCommand C (gateway_or_client (LocalNodeLabelAdd C nodeIP label)
       (\<lambda>api. api_NodeLabelAdd C api nodeIP label))"

definition NodeLabelRemove where
  "NodeLabelRemove C nodeIP label =
     executeCommand C (gateway_or_client (LocalNodeLabelRemove C nodeIP label)
       (\<lambda>api. api_NodeLabelRemove C api nodeIP label))"

definition ClientNew where
  "ClientNew C joinRequest quiet wait =
     executeCommand C
       [([NodeRoleGateway, NodeRoleEmpty], run_local (LocalClientNew C joinRequest quiet wait)),
        ([NodeRoleClient], run_api (\<lambda>api. api_ClientNew C api joinRequest quiet wait))]"

definition ClientList where
  "ClientList C requestFromNodeID =
     executeCommand C (gateway_or_client (LocalClientList C requestFromNodeID) (api_ClientList C))"

definition ServicePublish where
  "ServicePublish C requestFromNodeID localProtocol localHost localPort
     publicProtocol publicHost publicPort =
     executeCommand C (gateway_or_client
       (LocalServicePublish C requestFromNodeID localProtocol localHost localPort
          publicProtocol publicHost publicPort)
       (\<lambda>api. api_ServicePublish C api localProtocol localHost localPort
          publicProtocol publicHost publicPort))"

definition ServiceUnpublish where
  "ServiceUnpublish C publicProtocol publicHost publicPort =
     executeCommand C (gateway_or_client
       (LocalServiceUnpublish C publicProtocol publicHost publicPort)
       (\<lambda>api. api_ServiceUnpublish C api publicProtocol publicHost publicPort))"

definition ServiceList where
  "ServiceList C =
     executeCommand C (gateway_or_client (LocalServiceList C)
       (\<lambda>api. s_bind (api_ServiceList C api) (\<lambda>(r, _). s_read (\<lambda>_. Inr r))))"

definition ServiceParamNew where
  "ServiceParamNew C publicProtocol publicHost publicPort paramType paramValue =
     executeCommand C (gateway_or_client
       (LocalServiceParamNew C publicProtocol publicHost publicPort paramType paramValue)
       (\<lambda>api. api_ServiceParamNew C api publicProtocol publicHost publicPort paramType paramValue))"

definition ServiceParamRemove where
  "ServiceParamRemove C publicProtocol publicHost publicPort paramType paramValue =
     executeCommand C (gateway_or_client
       (LocalServiceParamRemove C publicProtocol publicHost publicPort paramType paramValue)
       (\<lambda>api. api_ServiceParamRemove C api publicProtocol publicHost publicPort paramType paramValue))"

definition ServiceParamList where
  "ServiceParamList C publicProtocol publicHost publicPort =
     executeCommand C (gateway_or_client
       (LocalServiceParamList C publicProtocol publicHost publicPort)
       (\<lambda>api. api_ServiceParamList C api publicProtocol publicHost publicPort))"

section \<open>Server commands\<close>

definition ServerRemove where
  "ServerRemove C serverNodeID =
     executeCommand C
       [([NodeRoleServer], run_api (\<lambda>api. api_ServerRemove C api serverNodeID)),
        ([NodeRoleGateway], run_local (LocalServerRemove C serverNodeID))]"

definition ServerStatus where
  "ServerStatus S creds = LocalServerStatus S creds"

text \<open>The token is made by \<open>ServerNew\<close>, as a command of its own.\<close>

definition ServerUp where
  "ServerUp C S polls creds img imageTag dockerSubnet =
     executeCommand C [([NodeRoleClient], run_local
       (LocalServerUp C S polls creds img imageTag (ServerNew C False True dockerSubnet)))]"

definition ServerDown where
  "ServerDown C S creds =
     executeCommand C
       [([NodeRoleClient], run_local (LocalServerDown C S creds)),
        ([NodeRoleServer], \<lambda>currentNode api.
           (case currentNode of
              None \<Rightarrow> s_read (\<lambda>_. Inl (ErrText ''current node is required to tear down server node''))
            | Some n \<Rightarrow> s_bind (LocalServerDown C S creds) (\<lambda>_.
                run_api (\<lambda>a. api_ServerRemove C a (node_ID n)) currentNode api)))]"

definition ServerUpgrade where
  "ServerUpgrade C S creds img imageTag =
     executeCommand C [([NodeRoleClient], run_local (LocalServerUpgrade S creds img imageTag))]"

definition JoinCommand where
  "JoinCommand C joinToken =
     executeCommand C [([NodeRoleEmpty], run_local (s_bind (LocalJoin C joinToken) (\<lambda>_. finish)))]"

section \<open>Starting a server\<close>

definition retry_text :: string where
  "retry_text = rule80 @ ''Join failed. Retrying in 30s...'' @ NL
     @ ''To use a new join token instead, run on your client machine: ''
     @ quoted ''wireport server down ...'' @ '' and bootstrap the server again with ''
     @ quoted ''wireport server up ...'' @ NL @ rule80"

text \<open>
  The endless loop of joining attempts, observed for a number of them: the result tells
  whether the loop was left. The sleep of 30 seconds is left out.
\<close>

fun join_until ::
  "('n, 'v, 'j, 't, 'f, 'c, 'k) deps \<Rightarrow> nat \<Rightarrow> ('n, 'v, 'j, 't, 'f, bool) cmd" where
  "join_until C 0 = s_read (\<lambda>_. Inr False)"
| "join_until C (Suc n) =
     s_bind (print (''Attempting to join wireport network using a stored join token'' @ NL)) (\<lambda>_.
     wrapping ''failed to get last join token'' (on_tokens (s_read (JoinTokenGetLast (c_tokens C)))) (\<lambda>joinToken.
     s_bind (LocalJoin C (tok_Token joinToken)) (\<lambda>joined.
     if joined then s_read (\<lambda>_. Inr True)
     else s_bind (eprint retry_text) (\<lambda>_. join_until C n))))"

definition join_as_server ::
  "('n, 'v, 'j, 't, 'f, 'c, 'k) deps \<Rightarrow> nat \<Rightarrow> ('n, 'v, 'j, 't, 'f, unit) cmd \<Rightarrow>
   ('n, 'v, 'j, 't, 'f, unit) cmd" where
  "join_as_server C attempts start_again =
     s_bind (join_until C attempts) (\<lambda>joined.
     if \<not> joined then finish
     else
       wrapping ''failed to clean up join tokens'' (on_tokens (JoinTokenDeleteAll (c_tokens C))) (\<lambda>_.
       wrapping ''failed to get current node after joining wireport network''
         (on_nodes (s_read (GetCurrentNode (c_nodes C)))) (\<lambda>currentNode.
       s_bind (print (''Server node joined wireport network successfully'' @ NL)) (\<lambda>_.
       start_again))))"

text \<open>
  \<open>ServerStart\<close> calls itself after joining; \<open>calls\<close> bounds the nested calls observed.
\<close>

fun ServerStart ::
  "('n, 'v, 'j, 't, 'f, 'c, 'k) deps \<Rightarrow> nat \<Rightarrow> nat \<Rightarrow> nat \<Rightarrow> ('n, 'v, 'j, 't, 'f, unit) cmd" where
  "ServerStart C attempts rounds 0 = finish"
| "ServerStart C attempts rounds (Suc calls) =
     executeCommand C
       [([NodeRoleEmpty], run_local (join_as_server C attempts (ServerStart C attempts rounds calls))),
        ([NodeRoleServer], \<lambda>currentNode api.
           deref api (\<lambda>a. run_local (LocalServerStart C a rounds) currentNode api))]"

end
