(* ===== verification/JoinHandler.thy ===== *)
theory JoinHandler
  imports World
begin

text \<open>
  The handler of \<open>/commands/join\<close> on the gateway (\<open>internal/commands/routes.go\<close>): the token
  is checked against the stored request, the node is created, the gateway's files are
  written, the certificate of the request is withdrawn and the request is deleted. Log
  messages are left out; decoding the JSON body is the parameter \<open>decode\<close>.
\<close>

section \<open>Replies\<close>

text \<open>An HTTP reply: a status without a body of interest, or the node of the response.\<close>

datatype join_reply = BadRequest string | JoinResponse node

type_synonym ('n, 'v, 'j, 't, 'f) join_handler = "('n, 'v, 'j, 't, 'f, join_reply) cmd"

definition bad_request :: "go_error \<Rightarrow> ('n, 'v, 'j, 't, 'f) join_handler" where
  "bad_request e = s_read (\<lambda>_. Inr (BadRequest []))"

text \<open>\<open>_ = f()\<close>: the error value is dropped.\<close>

definition ignoring :: "('s, 'a) op \<Rightarrow> ('s, 'b) op \<Rightarrow> ('s, 'b) op" where
  "ignoring m k = attempt m (\<lambda>_. k) (\<lambda>_. k)"

section \<open>The steps\<close>

text \<open>The checks on the request: the token must be the text of the stored request.\<close>

definition check_token ::
  "('n, 'v, 'j, 't, 'f, 'c, 'k) deps \<Rightarrow> string \<Rightarrow> (join_request \<Rightarrow> join_request \<Rightarrow>
   ('n, 'v, 'j, 't, 'f) join_handler) \<Rightarrow> ('n, 'v, 'j, 't, 'f) join_handler" where
  "check_token C joinToken k =
     attempt (s_read (\<lambda>_. FromBase64 (c_json C) joinToken)) bad_request (\<lambda>decrypted.
     attempt (on_requests (s_read (JoinRequestGet (c_requests C) (jr_ID decrypted)))) bad_request
       (\<lambda>fromDB.
     attempt (s_read (\<lambda>_. ToBase64 (c_json C) fromDB)) bad_request (\<lambda>fromDBBase64.
     if joinToken \<noteq> fromDBBase64 then s_read (\<lambda>_. Inr (BadRequest []))
     else k decrypted fromDB)))"

text \<open>
  What both roles do after the node exists; the reply is left to \<open>restart\<close>. The gateway row
  is read once and written back at the end with the certificate removed.
\<close>

definition update_gateway ::
  "('n, 'v, 'j, 't, 'f, 'c, 'k) deps \<Rightarrow> string \<Rightarrow> ('n, 'v, 'j, 't, 'f) join_handler \<Rightarrow>
   ('n, 'v, 'j, 't, 'f) join_handler" where
  "update_gateway C requestID restart =
     attempt (on_nodes (s_read (GetGatewayNode (c_nodes C)))) bad_request (\<lambda>gatewayNode.
     case gatewayNode of
       None \<Rightarrow> s_read (\<lambda>_. Inr (BadRequest []))
     | Some gw \<Rightarrow>
         attempt (on_services (s_read (ServiceGetAll (c_services C)))) bad_request (\<lambda>publicServices.
         attempt (on_machine (SaveConfigs (c_config C) gw publicServices False)) bad_request (\<lambda>_.
         deref (node_GatewayCertBundle gw) (\<lambda>certBundle.
         attempt (on_nodes (SaveNode (c_nodes C)
                    (gw\<lparr>node_GatewayCertBundle := Some (RemoveClient requestID certBundle)\<rparr>)))
           bad_request (\<lambda>_. restart)))))"

definition create_for_role ::
  "('n, 'v, 'j, 't, 'f, 'c, 'k) deps \<Rightarrow> join_request \<Rightarrow> join_request \<Rightarrow> (node \<Rightarrow>
   ('n, 'v, 'j, 't, 'f) join_handler) \<Rightarrow> ('n, 'v, 'j, 't, 'f) join_handler" where
  "create_for_role C decrypted fromDB k =
     (if jr_Role fromDB = NodeRoleServer then
        attempt (on_nodes (CreateServer (c_env C) (c_nodes C) (jr_DockerSubnet decrypted)))
          bad_request (\<lambda>serverNode.
        update_gateway C (jr_ID fromDB)
          (ignoring (on_machine (RestartNetworkApps C True False False))
             (s_bind ScheduleNetworkAppsRestart (\<lambda>_. k serverNode))))
      else if jr_Role fromDB = NodeRoleClient then
        attempt (on_nodes (CreateClient (c_env C) (c_nodes C))) bad_request (\<lambda>clientNode.
        update_gateway C (jr_ID fromDB)
          (attempt (on_machine (RestartNetworkApps C True False False)) bad_request
             (\<lambda>_. k clientNode)))
      else s_read (\<lambda>_. Inr (BadRequest [])))"

section \<open>The handler\<close>

definition handle_join_token ::
  "('n, 'v, 'j, 't, 'f, 'c, 'k) deps \<Rightarrow> string \<Rightarrow> ('n, 'v, 'j, 't, 'f) join_handler" where
  "handle_join_token C joinToken =
     check_token C joinToken (\<lambda>decrypted fromDB.
     create_for_role C decrypted fromDB (\<lambda>n.
     attempt (on_requests (JoinRequestDelete (c_requests C) (jr_ID decrypted))) bad_request (\<lambda>_.
     s_read (\<lambda>_. Inr (JoinResponse n)))))"

definition handle_join ::
  "('n, 'v, 'j, 't, 'f, 'c, 'k) deps \<Rightarrow> (string \<Rightarrow> string result) \<Rightarrow> bool \<Rightarrow> string \<Rightarrow> string \<Rightarrow>
   ('n, 'v, 'j, 't, 'f) join_handler" where
  "handle_join C decode overTLS httpMethod body =
     (if \<not> overTLS then s_read (\<lambda>_. Inr (BadRequest []))
      else if httpMethod \<noteq> ''POST'' then s_read (\<lambda>_. Inr (BadRequest []))
      else attempt (s_read (\<lambda>_. decode body))
             (\<lambda>e. s_read (\<lambda>_. Inr (BadRequest (err_text e)))) (handle_join_token C))"

end
