(* ===== verification/Router.thy ===== *)
theory Router
  imports Executor JoinHandler
begin

text \<open>
  The control server of the gateway, \<open>internal/commands/routes.go\<close>: what it does with a
  request to each of its addresses. Log messages are left out.
\<close>

section \<open>Replies\<close>

text \<open>\<open>http.Error(w, text, status)\<close> ends the text with a new line.\<close>

definition http_error :: "nat \<Rightarrow> string \<Rightarrow> http_response" where
  "http_error status t = \<lparr>hs_status = status, hs_body = map (\<lambda>c. of_nat (of_char c)) (t @ NL)\<rparr>"

definition ok_with :: "bytes \<Rightarrow> http_response" where
  "ok_with body = \<lparr>hs_status = 200, hs_body = body\<rparr>"

section \<open>A request with a body\<close>

definition validateRequest :: "http_request \<Rightarrow> string \<Rightarrow> bool" where
  "validateRequest r requestFromNodeID =
     (hr_peers r \<noteq> None \<and> hr_method r = ''POST'' \<and> hr_content_type r = ''application/json''
      \<and> requestFromNodeID \<noteq> [])"

text \<open>
  \<open>r.TLS.PeerCertificates[0]\<close> is read before \<open>validateRequest\<close> tests \<open>r.TLS\<close>. A panic ends
  the handler without a reply.
\<close>

definition request_source :: "http_request \<Rightarrow> string result" where
  "request_source r =
     (case hr_peers r of
        None \<Rightarrow> Inl NilDereference
      | Some [] \<Rightarrow> Inl IndexOutOfRange
      | Some (name # names) \<Rightarrow> Inr name)"

definition plain_response :: "string \<Rightarrow> string \<Rightarrow> payload \<Rightarrow> response" where
  "plain_response stdOut errOut p =
     \<lparr>Stdout = trim_space stdOut, Stderr = trim_space errOut, resp_payload = p\<rparr>"

definition handleRequestWithBody ::
  "('n, 'v, 'j, 't, 'f, 'c, 'k) deps \<Rightarrow> http_request \<Rightarrow>
   (string \<Rightarrow> request \<Rightarrow> ('n, 'v, 'j, 't, 'f, unit) cmd) \<Rightarrow>
   (string \<Rightarrow> ('n, 'v, 'j, 't, 'f, payload) cmd) \<Rightarrow> ('n, 'v, 'j, 't, 'f, http_response) cmd" where
  "handleRequestWithBody C r handler packer =
     attempt (s_read (\<lambda>_. request_source r)) (\<lambda>e. s_read (\<lambda>_. Inl e)) (\<lambda>requestFromNodeID.
     if \<not> validateRequest r requestFromNodeID then s_read (\<lambda>_. Inr (http_error 400 []))
     else
       attempt (s_read (\<lambda>_. get_request (c_codec C) (hr_path r) (hr_body r)))
         (\<lambda>_. s_read (\<lambda>_. Inr (http_error 400 []))) (\<lambda>requestDTO.
       attempt (buffered (handler requestFromNodeID requestDTO))
         (\<lambda>_. s_read (\<lambda>_. Inr (http_error 400 []))) (\<lambda>(_, stdOut, errOut).
       attempt (packer requestFromNodeID)
         (\<lambda>_. s_read (\<lambda>_. Inr (http_error 500 []))) (\<lambda>p.
       attempt (s_read (\<lambda>_. put_response (c_codec C) (plain_response stdOut errOut p)))
         (\<lambda>_. s_read (\<lambda>_. Inr (http_error 500 []))) (\<lambda>body.
       s_read (\<lambda>_. Inr (ok_with body)))))))"

section \<open>The routes\<close>

text \<open>What runs for each request. The first argument is the name in the client's certificate.\<close>

fun command_of ::
  "('n, 'v, 'j, 't, 'f, 'c, 'k) deps \<Rightarrow> string \<Rightarrow> request \<Rightarrow> ('n, 'v, 'j, 't, 'f, unit) cmd" where
  "command_of C from (ServerNewRequest force quiet dockerSubnet) = ServerNew C force quiet dockerSubnet"
| "command_of C from (ServerRemoveRequest nodeID) =
     (if nodeID \<noteq> from then s_read (\<lambda>_. Inl (ErrText ''failed to create server node''))
      else ServerRemove C nodeID)"
| "command_of C from ServerListRequest = ServerList C (Some from)"
| "command_of C from (NodeLabelAddRequest nodeIP label) = NodeLabelAdd C nodeIP label"
| "command_of C from (NodeLabelRemoveRequest nodeIP label) = NodeLabelRemove C nodeIP label"
| "command_of C from (ClientNewRequest joinRequest quiet wait) = ClientNew C joinRequest quiet wait"
| "command_of C from ClientListRequest = ClientList C (Some from)"
| "command_of C from (ServicePublishRequest localProtocol localHost localPort
       publicProtocol publicHost publicPort) =
     ServicePublish C (Some from) localProtocol localHost localPort publicProtocol publicHost publicPort"
| "command_of C from (ServiceUnpublishRequest publicProtocol publicHost publicPort) =
     ServiceUnpublish C publicProtocol publicHost publicPort"
| "command_of C from ServiceListRequest = ServiceList C"
| "command_of C from (ServiceParamNewRequest publicProtocol publicHost publicPort paramType paramValue) =
     ServiceParamNew C publicProtocol publicHost publicPort paramType paramValue"
| "command_of C from (ServiceParamRemoveRequest publicProtocol publicHost publicPort paramType paramValue) =
     ServiceParamRemove C publicProtocol publicHost publicPort paramType paramValue"
| "command_of C from (ServiceParamListRequest publicProtocol publicHost publicPort) =
     ServiceParamList C publicProtocol publicHost publicPort"
| "command_of C from NodeConfigRequest = finish"

text \<open>Three addresses add something to the two texts.\<close>

definition pack_response ::
  "('n, 'v, 'j, 't, 'f, 'c, 'k) deps \<Rightarrow> string \<Rightarrow> string \<Rightarrow> ('n, 'v, 'j, 't, 'f, payload) cmd" where
  "pack_response C path from =
     (if path = ''/commands/server/list'' then
        s_bind (on_nodes (s_read (CountNodesByRole (c_nodes C) NodeRoleServer))) (\<lambda>serversCount.
        s_read (\<lambda>_. Inr (ServerNodesCount serversCount)))
      else if path = ''/commands/service/list'' then
        s_bind (on_services (s_read (ServiceGetAll (c_services C)))) (\<lambda>vs.
        s_read (\<lambda>_. Inr (ServiceRows vs)))
      else if path = ''/commands/node/config'' then
        s_bind (on_nodes (s_read (GetByID (c_nodes C) from))) (\<lambda>nodeConfig.
        s_read (\<lambda>_. Inr (NodeConfig (Some nodeConfig))))
      else s_read (\<lambda>_. Inr NoPayload))"

definition command_paths :: "string list" where
  "command_paths =
     [''/commands/server/new'', ''/commands/server/remove'', ''/commands/server/list'',
      ''/commands/node/label/add'', ''/commands/node/label/remove'', ''/commands/client/new'',
      ''/commands/client/list'', ''/commands/service/publish'', ''/commands/service/unpublish'',
      ''/commands/service/list'', ''/commands/service/params/new'', ''/commands/service/params/remove'',
      ''/commands/service/params/list'', ''/commands/node/config'']"

text \<open>
  A reply of the join handler: the status is sent before the node is encoded, so that a
  failing encoder adds a line to a reply with status 200.
\<close>

definition join_http :: "(node \<Rightarrow> bytes result) \<Rightarrow> join_reply \<Rightarrow> http_response" where
  "join_http encode reply =
     (case reply of
        BadRequest t \<Rightarrow> http_error 400 t
      | JoinResponse n \<Rightarrow> (case encode n of Inl e \<Rightarrow> http_error 200 [] | Inr body \<Rightarrow> ok_with body))"

text \<open>
  \<open>RegisterRoutes\<close> and the multiplexer; \<open>decode\<close> and \<open>encode\<close> are \<open>encoding/json\<close> on the
  request and on the response of the join.
\<close>

definition serve_http ::
  "('n, 'v, 'j, 't, 'f, 'c, 'k) deps \<Rightarrow> (string \<Rightarrow> string result) \<Rightarrow> (node \<Rightarrow> bytes result) \<Rightarrow>
   http_request \<Rightarrow> ('n, 'v, 'j, 't, 'f, http_response) cmd" where
  "serve_http C decode encode r =
     (if hr_path r = ''/commands/join'' then
        s_bind (handle_join C decode (hr_peers r \<noteq> None) (hr_method r) (bytes_text (hr_body r)))
          (\<lambda>reply. s_read (\<lambda>_. Inr (join_http encode reply)))
      else if hr_path r \<in> set command_paths then
        handleRequestWithBody C r (command_of C) (pack_response C (hr_path r))
      else s_read (\<lambda>_. Inr (http_error 404 ''404 page not found'')))"

end
