(* ===== verification/NodesInvariant.thy ===== *)
theory NodesInvariant
  imports NodesWrite
begin

text \<open>
  What the node repository keeps true of its table. \<open>net_ok\<close> is the well-formedness of a
  network; every operation of the gateway's repository preserves it (\<open>node_step\<close> is one
  operation, with any arguments), so it holds in every reachable state. The lemmas are
  proved once for every database that meets the contract \<open>node_db\<close>.
\<close>

section \<open>The contract on the table of nodes\<close>

locale node_db = reliable_table T tbl node_ID BeforeCreate node_WGConfig
  for T :: "('s, node) table_api" and tbl :: "'s \<Rightarrow> string \<rightharpoonup> node"

abbreviation mem_nodes :: "(node list, node) table_api" where
  "mem_nodes \<equiv> mem_api node_ID node_WGConfig BeforeCreate"

interpretation mem: node_db mem_nodes "mem_tbl node_ID"
  by (intro node_db.intro mem_reliable) simp

section \<open>Well-formed networks\<close>

abbreviation node_ip :: "node \<Rightarrow> ip" where
  "node_ip n \<equiv> net_ip (if_Address (wg_Interface (node_WGConfig n)))"

definition in_wg_range :: "ip \<Rightarrow> bool" where
  "in_wg_range i = (\<exists>k \<in> {wgPrivateIPStart .. wgPrivateIPEnd}.
     i = v4mapped 10 0 0 (of_nat k))"

text \<open>What holds of each node alone, and of every two nodes.\<close>

definition node_ok :: "node \<Rightarrow> bool" where
  "node_ok n \<longleftrightarrow>
     in_wg_range (node_ip n) \<and>
     node_Role n \<in> {NodeRoleGateway, NodeRoleServer, NodeRoleClient} \<and>
     (node_Role n = NodeRoleGateway \<longrightarrow> node_GatewayCertBundle n \<noteq> None
        \<and> node_WGPublicIP n \<noteq> None \<and> node_WGPublicPort n \<noteq> None) \<and>
     (node_Role n = NodeRoleServer \<longleftrightarrow> node_DockerSubnet n \<noteq> None)"

definition subnets_differ :: "ipnet option \<Rightarrow> ipnet option \<Rightarrow> bool" where
  "subnets_differ x y =
     (case (x, y) of (Some d, Some e) \<Rightarrow> IPNet_String d \<noteq> IPNet_String e | _ \<Rightarrow> True)"

definition compat :: "node \<Rightarrow> node \<Rightarrow> bool" where
  "compat n m \<longleftrightarrow> node_ID n = node_ID m \<or>
     (node_addr n \<noteq> node_addr m
      \<and> \<not> (node_Role n = NodeRoleGateway \<and> node_Role m = NodeRoleGateway)
      \<and> subnets_differ (node_DockerSubnet n) (node_DockerSubnet m))"

definition net_ok :: "node set \<Rightarrow> bool" where
  "net_ok N \<longleftrightarrow> (\<forall>n \<in> N. node_ok n) \<and> (\<forall>n \<in> N. \<forall>m \<in> N. compat n m)"

text \<open>The part of a node that \<open>net_ok\<close> reads.\<close>

definition core ::
  "node \<Rightarrow> string \<times> node_role \<times> ip \<times> ipnet option \<times> bool \<times> string option \<times> 16 word option" where
  "core n = (node_ID n, node_Role n, node_ip n, node_DockerSubnet n,
             node_GatewayCertBundle n = None, node_WGPublicIP n, node_WGPublicPort n)"

lemma core_eqD:
  assumes "core n = core m"
  shows "node_ID n = node_ID m" "node_Role n = node_Role m" "node_ip n = node_ip m"
    "node_addr n = node_addr m" "node_DockerSubnet n = node_DockerSubnet m"
    "node_GatewayCertBundle n = None \<longleftrightarrow> node_GatewayCertBundle m = None"
    "node_WGPublicIP n = node_WGPublicIP m" "node_WGPublicPort n = node_WGPublicPort m"
  using assms by (simp_all add: core_def node_addr_def)

lemma node_ip_frame [simp]:
  "node_ip (set_peers ps n) = node_ip n" "node_ip (set_dns ds n) = node_ip n"
  by (simp_all add: set_peers_def set_dns_def)

lemma core_frame [simp]:
  "core (set_peers ps n) = core n" "core (set_dns ds n) = core n"
  "core (set_labels ls n) = core n" "core (BeforeCreate n) = core n"
  "core (n\<lparr>node_GatewayCertBundle := Some b\<rparr>) = core n \<longleftrightarrow> node_GatewayCertBundle n \<noteq> None"
  by (auto simp: core_def set_labels_def BeforeCreate_def)

lemma set_labels_ID [simp]: "node_ID (set_labels ls n) = node_ID n"
  by (simp add: set_labels_def)

definition covered :: "node set \<Rightarrow> node set \<Rightarrow> bool" where
  "covered N M \<longleftrightarrow> (\<forall>n \<in> N. \<exists>m \<in> M. core n = core m)"

lemma covered_refl [simp]: "covered N N" and covered_subset: "N \<subseteq> M \<Longrightarrow> covered N M"
  by (auto simp: covered_def)

lemma covered_trans: "covered N M \<Longrightarrow> covered M L \<Longrightarrow> covered N L"
  by (fastforce simp: covered_def)

lemma node_ok_core:
  assumes "core n = core m"
  shows "node_ok n = node_ok m"
  using core_eqD [OF assms] by (simp add: node_ok_def)

lemma compat_core:
  assumes "core n = core n'" and "core m = core m'"
  shows "compat n m = compat n' m'"
  using core_eqD [OF assms(1)] core_eqD [OF assms(2)] by (simp add: compat_def)

lemma subnets_differ_sym: "subnets_differ x y = subnets_differ y x"
  by (auto simp: subnets_differ_def split: option.splits)

lemma compat_sym: "compat n m = compat m n"
  unfolding compat_def subnets_differ_sym [of "node_DockerSubnet n"] by auto

lemma compat_refl [simp]: "compat n n"
  by (simp add: compat_def)

lemma net_ok_covered:
  assumes ok: "net_ok M" and cov: "covered N M"
  shows "net_ok N"
  unfolding net_ok_def
proof (intro conjI ballI)
  fix n assume "n \<in> N"
  with cov obtain m where m: "m \<in> M" "core n = core m" by (auto simp: covered_def)
  from ok m(1) have "node_ok m" by (simp add: net_ok_def)
  with node_ok_core [OF m(2)] show "node_ok n" by simp
next
  fix n n' assume "n \<in> N" and "n' \<in> N"
  with cov obtain m m' where m: "m \<in> M" "m' \<in> M"
    and c: "core n = core m" "core n' = core m'"
    unfolding covered_def by blast
  from ok m have "compat m m'" by (simp add: net_ok_def)
  with compat_core [OF c] show "compat n n'" by simp
qed

lemma net_ok_empty [simp]: "net_ok {}"
  by (simp add: net_ok_def)

lemma net_ok_insert:
  assumes "net_ok N" and "node_ok n" and "\<And>m. m \<in> N \<Longrightarrow> compat n m"
  shows "net_ok (insert n N)"
  using assms unfolding net_ok_def by (auto simp: compat_sym [of _ n])

section \<open>Facts on single steps\<close>

lemma refresh_gateway_core: "refresh_gateway old n = Inr n' \<Longrightarrow> core n' = core n"
  by (auto simp: refresh_gateway_def Let_def result_simps)

lemma refresh_member_core [simp]: "core (refresh_member gw ep n) = core n"
  by (simp add: refresh_member_def Let_def)

lemma refresh_node_core: "refresh_node gw ep old n = Inr n' \<Longrightarrow> core n' = core n"
  by (auto simp: refresh_node_def refresh_gateway_core split: if_splits)

lemma new_member_sel [simp]:
  "node_ID (new_member role i ks a cb d gw) = i"
  "node_Role (new_member role i ks a cb d gw) = role"
  "node_ip (new_member role i ks a cb d gw) = a"
  "node_addr (new_member role i ks a cb d gw) = IPToString a"
  "node_DockerSubnet (new_member role i ks a cb d gw) = d"
  "node_ClientCertBundle (new_member role i ks a cb d gw) = Some cb"
  by (simp_all add: new_member_def wg_address_def node_addr_def)

lemma new_gateway_sel [simp]:
  "node_ID (new_gateway i ks a b pip pp gip gp) = i"
  "node_Role (new_gateway i ks a b pip pp gip gp) = NodeRoleGateway"
  "node_ip (new_gateway i ks a b pip pp gip gp) = a"
  "node_addr (new_gateway i ks a b pip pp gip gp) = IPToString a"
  "node_DockerSubnet (new_gateway i ks a b pip pp gip gp) = None"
  "node_GatewayCertBundle (new_gateway i ks a b pip pp gip gp) = Some b"
  "node_WGPublicIP (new_gateway i ks a b pip pp gip gp) = Some (IP_String pip)"
  "node_WGPublicPort (new_gateway i ks a b pip pp gip gp) = Some pp"
  by (simp_all add: new_gateway_def wg_address_def node_addr_def zero_node_def)

lemma ran_upd_subset: "ran (m(k \<mapsto> x)) \<subseteq> insert x (ran m)"
  by (auto simp: ran_def)

context node_db
begin

lemma rows_iff: "r \<in> ran (tbl s) \<longleftrightarrow> tbl s (node_ID r) = Some r"
  using tbl_pk by (fastforce simp: ran_def)

lemma find_set: "db_find T s P = Inr rs \<Longrightarrow> set rs = {r \<in> ran (tbl s). P r}"
  using find_rows by (auto simp: rows_iff)

lemma find_or_nil_subset: "set (find_or_nil T s P) \<subseteq> {r \<in> ran (tbl s). P r}"
  using find_set [of s P] by (auto simp: find_or_nil_def split: sum.split)

lemma first_or_zero_row:
  "node_ID (first_or_zero T s P) \<noteq> [] \<Longrightarrow> first_or_zero T s P \<in> ran (tbl s)
     \<and> P (first_or_zero T s P)"
  using first_row by (auto simp: first_or_zero_def rows_iff zero_node_def split: sum.splits)

lemma save_rows: "ran (tbl (save_or_keep T t n)) \<subseteq> insert n (ran (tbl t))"
proof (cases "db_save T t n")
  case (Inl e)
  then show ?thesis by (auto simp: save_or_keep_def)
next
  case (Inr t')
  then show ?thesis
    using ran_upd_subset [of "tbl t" "node_ID n" n] save_row [OF Inr]
    by (simp add: save_or_keep_def)
qed

lemma create_rows:
  "db_create T t r = Inr t' \<Longrightarrow> ran (tbl t') \<subseteq> insert (BeforeCreate r) (ran (tbl t))"
  using ran_upd_subset [of "tbl t" "node_ID r" "BeforeCreate r"] create_row by metis

lemma save_covered:
  assumes "core n = core m" and "m \<in> M" and "covered (ran (tbl t)) M"
  shows "covered (ran (tbl (save_or_keep T t n))) M"
  using assms save_rows [of t n] by (force simp: covered_def)

lemma update_loop_covered:
  assumes "update_loop T f ns t = Inr t'"
    and "\<And>n n'. n \<in> set ns \<Longrightarrow> f n = Inr n' \<Longrightarrow> core n' = core n"
    and "set ns \<subseteq> M" and "covered (ran (tbl t)) M"
  shows "covered (ran (tbl t')) M"
  using assms
proof (induction ns arbitrary: t)
  case Nil
  then show ?case by simp
next
  case (Cons n ns)
  from Cons.prems(1) obtain n' where n': "f n = Inr n'"
    and l: "update_loop T f ns (save_or_keep T t n') = Inr t'"
    by (auto simp: result_simps)
  from n' Cons.prems(2) have c: "core n' = core n" by simp
  show ?case
    by (rule Cons.IH [OF l]) (use Cons.prems c in \<open>auto intro: save_covered\<close>)
qed

text \<open>A transaction: what holds before it, and after the commit of any run on an equal view.\<close>

lemma transaction_step:
  assumes "Q (tbl s)" and "\<And>t t' x. tbl t = tbl s \<Longrightarrow> f t = Inr (t', x) \<Longrightarrow> Q (tbl t')"
  shows "Q (tbl (fst (s_write (\<lambda>s. db_transaction T s f) s)))"
proof (rule s_write_cases [of "\<lambda>s. db_transaction T s f" s])
  fix s' x assume *: "db_transaction T s f = Inr (s', x)"
    and eq: "s_write (\<lambda>s. db_transaction T s f) s = (s', Inr x)"
  obtain t t' where "tbl t = tbl s" and "f t = Inr (t', x)" and "tbl s' = tbl t'"
    using * by (rule transaction_Inr)
  with assms(2) eq show ?thesis by simp
qed (use assms(1) in simp)

lemma updateNodes_covered: "covered (ran (tbl (fst (updateNodes T s)))) (ran (tbl s))"
  unfolding updateNodes_def
proof (rule transaction_step)
  fix t t' x assume t: "tbl t = tbl s" and u: "update_nodes_tx T t = Inr (t', x)"
  then obtain f where "update_loop T f (find_or_nil T t (\<lambda>_. True)) t = Inr t'"
    and "\<And>n n'. f n = Inr n' \<Longrightarrow> core n' = core n"
    by (auto simp: update_nodes_tx_def Let_def result_simps refresh_node_core
        split: if_splits option.splits)
  then show "covered (ran (tbl t')) (ran (tbl s))"
    using find_or_nil_subset [of t "\<lambda>_. True"] t by (auto intro: update_loop_covered)
qed simp

lemma refreshed_covered: "covered (ran (tbl (fst (refreshed T i s)))) (ran (tbl s))"
  unfolding refreshed_def
  by (rule s_bind_cases [of "updateNodes T" s "\<lambda>_. s_read (GetByID T i)"])
    (simp_all add: updateNodes_covered)

lemma issue_client_covered:
  assumes "issue_client E T gw t = Inr (t', cb)" and "gw \<in> ran (tbl t)"
  shows "covered (ran (tbl t')) (ran (tbl t))"
proof -
  from assms(1) obtain b b' where "node_GatewayCertBundle gw = Some b"
    and "t' = save_or_keep T t (gw\<lparr>node_GatewayCertBundle := Some b'\<rparr>)"
    by (auto simp: issue_client_def result_simps split: option.splits)
  with assms(2) show ?thesis by (auto intro!: save_covered [where m = gw])
qed

lemma wg_ip_spec:
  assumes "GetNextAssignableWGPrivateIP T s = Inr i"
  shows "in_wg_range i" and "n \<in> ran (tbl s) \<Longrightarrow> node_addr n \<noteq> IPToString i"
proof -
  from assms obtain ns where ns: "set ns = ran (tbl s)"
    and sc: "scan mk_wg_ip (\<lambda>i. \<exists>n \<in> set ns. node_addr n = IPToString i)
      ErrNoAvailableWGPrivateIPs [wgPrivateIPStart ..< Suc wgPrivateIPEnd] = Inr i"
    by (auto simp: GetNextAssignableWGPrivateIP_def result_simps dest: find_set)
  obtain k where k: "wgPrivateIPStart \<le> k" "k < Suc wgPrivateIPEnd" "mk_wg_ip k = Inr i"
    and "\<not> (\<exists>n \<in> set ns. node_addr n = IPToString i)"
    using sc by (rule scan_Inr)
  then show "n \<in> ran (tbl s) \<Longrightarrow> node_addr n \<noteq> IPToString i" using ns by auto
  from k have "k < 256" by (simp add: wgPrivateIPEnd_def)
  with k(3) have "i = v4mapped 10 0 0 (of_nat k)" by (simp add: mk_wg_ip_eq)
  then show "in_wg_range i" unfolding in_wg_range_def using k(1,2) by force
qed

lemma docker_subnet_spec:
  assumes "choose_docker_subnet T force s = Inr d"
    and "n \<in> ran (tbl s)" and "node_Role n = NodeRoleServer" and "node_DockerSubnet n = Some e"
  shows "IPNet_String e \<noteq> IPNet_String d"
proof (cases force)
  case None
  with assms(1) obtain ns where ns: "db_find T s docker_roles = Inr ns"
    and sc: "scan mk_docker_subnet (\<lambda>p. \<exists>n \<in> set ns. uses_subnet n (IPNet_String p))
      ErrNoAvailableDockerSubnets [dockerSubnetStart ..< Suc dockerSubnetEnd] = Inr d"
    by (auto simp: choose_docker_subnet_def GetNextAssignableDockerSubnet_def result_simps)
  have "n \<in> set ns" using find_set [OF ns] assms(2,3) by simp
  moreover have "\<not> (\<exists>n \<in> set ns. uses_subnet n (IPNet_String d))"
    using sc by (rule scan_Inr)
  ultimately show ?thesis using assms(4) by (auto simp: uses_subnet_def)
next
  case (Some str)
  with assms(1) have "IsDockerSubnetAvailable T d s"
    by (auto simp: choose_docker_subnet_def result_simps split: if_splits)
  then obtain ns where ns: "db_find T s docker_roles = Inr ns"
    and "\<not> (\<exists>n \<in> set ns. uses_subnet n (IPNet_String d))"
    by (auto simp: IsDockerSubnetAvailable_def split: sum.splits)
  moreover have "n \<in> set ns" using find_set [OF ns] assms(2,3) by simp
  ultimately show ?thesis using assms(4) by (auto simp: uses_subnet_def)
qed


text \<open>Inserting a new row keeps a network well formed.\<close>

lemma create_ok_net:
  assumes "db_create T t r = Inr t'" and "net_ok N" and "covered (ran (tbl t)) N"
    and "node_ok r" and "\<And>m. m \<in> N \<Longrightarrow> compat r m"
  shows "net_ok (ran (tbl t'))"
proof (rule net_ok_covered)
  show "net_ok (insert r N)" using assms(2,4,5) by (rule net_ok_insert)
  show "covered (ran (tbl t')) (insert r N)"
    using create_rows [OF assms(1)] assms(3) core_frame(4) [of r]
    unfolding covered_def by blast
qed

lemma new_member_ok:
  assumes "in_wg_range a" and "(role = NodeRoleServer \<and> d \<noteq> None)
      \<or> (role = NodeRoleClient \<and> d = None)"
  shows "node_ok (new_member role i ks a cb d gw)"
  using assms by (auto simp: node_ok_def)

lemma new_server_compat:
  assumes "net_ok N" and "m \<in> N" and "node_addr m \<noteq> IPToString a"
    and "\<And>e. node_Role m = NodeRoleServer \<Longrightarrow> node_DockerSubnet m = Some e \<Longrightarrow>
           IPNet_String e \<noteq> IPNet_String d"
  shows "compat (new_member NodeRoleServer i ks a cb (Some d) gw) m"
proof -
  have "node_ok m" using assms(1,2) by (simp add: net_ok_def)
  then have "node_DockerSubnet m \<noteq> None \<Longrightarrow> node_Role m = NodeRoleServer"
    by (simp add: node_ok_def)
  with assms(3,4) show ?thesis
    by (auto simp: compat_def subnets_differ_def split: option.split)
qed

lemma op_then_refresh_ok:
  assumes "net_ok (ran (tbl (fst (m s))))"
  shows "net_ok (ran (tbl (fst (s_bind m (\<lambda>_. refreshed T i) s))))"
  using assms refreshed_covered net_ok_covered
  by (cases rule: s_bind_cases [of m s "\<lambda>_. refreshed T i"]) auto

lemma CreateServer_net_ok:
  assumes ok: "net_ok (ran (tbl s))"
  shows "net_ok (ran (tbl (fst (CreateServer E T force s))))"
  unfolding CreateServer_def
proof (rule op_then_refresh_ok, rule s_write_fst [where Q = "\<lambda>s. net_ok (ran (tbl s))"], goal_cases)
  case 1
  show ?case by (rule ok)
next
  case (2 s' x)
  then obtain ks f where tx: "db_transaction T s f = Inr (s', x)"
    and f: "\<And>t. f t = (let gw = first_or_zero T t (\<lambda>n. node_Role n = NodeRoleGateway)
          in if node_ID gw = [] then Inl (ErrText ''gateway node not found'')
             else rbind (issue_client E T gw t) (\<lambda>(t', clientCertBundle).
               if node_WGPublicIP gw = None \<or> node_WGPublicPort gw = None
               then Inl (ErrText ''gateway node public ip or port not found'')
               else rbind (GetNextAssignableWGPrivateIP T s) (\<lambda>wgPrivateIP.
                 rbind (choose_docker_subnet T force s) (\<lambda>dockerSubnet.
                 rbind (db_create T t' (new_member NodeRoleServer (env_uuid E) ks wgPrivateIP
                          clientCertBundle (Some dockerSubnet) gw)) (\<lambda>t''.
                 Inr (t'', ()))))))"
    by (auto simp: result_simps)
  from tx obtain t t' where t: "tbl t = tbl s" and ft: "f t = Inr (t', x)"
    and s': "tbl s' = tbl t'" by (rule transaction_Inr)
  define gw where "gw = first_or_zero T t (\<lambda>n. node_Role n = NodeRoleGateway)"
  from ft obtain u cb a d where gw: "node_ID gw \<noteq> []"
    and u: "issue_client E T gw t = Inr (u, cb)"
    and a: "GetNextAssignableWGPrivateIP T s = Inr a"
    and d: "choose_docker_subnet T force s = Inr d"
    and cr: "db_create T u (new_member NodeRoleServer (env_uuid E) ks a cb (Some d) gw) = Inr t'"
    unfolding f gw_def [symmetric] Let_def by (auto simp: result_simps split: if_splits)
  have "gw \<in> ran (tbl t)" using first_or_zero_row gw unfolding gw_def by blast
  then have "covered (ran (tbl u)) (ran (tbl s))" using issue_client_covered [OF u] t by simp
  with cr ok have "net_ok (ran (tbl t'))"
    by (rule create_ok_net)
      (use a d ok in \<open>auto intro!: new_member_ok new_server_compat
         dest: wg_ip_spec docker_subnet_spec\<close>)
  with s' show ?case by simp
qed

lemma CreateClient_net_ok:
  assumes ok: "net_ok (ran (tbl s))"
  shows "net_ok (ran (tbl (fst (CreateClient E T s))))"
  unfolding CreateClient_def
proof (rule op_then_refresh_ok, rule s_write_fst [where Q = "\<lambda>s. net_ok (ran (tbl s))"], goal_cases)
  case 1
  show ?case by (rule ok)
next
  case (2 s' x)
  then obtain ks f where tx: "db_transaction T s f = Inr (s', x)"
    and f: "\<And>t. f t = rbind (GetNextAssignableWGPrivateIP T s) (\<lambda>wgPrivateIP.
         (let gw = (case find_or_nil T t (\<lambda>n. node_Role n = NodeRoleGateway) of
                      [] \<Rightarrow> zero_node | g # _ \<Rightarrow> g)
          in if node_ID gw = [] then Inl (ErrText ''gateway node not found'')
             else rbind (issue_client E T gw t) (\<lambda>(t', clientCertBundle).
               rbind (db_create T t' (new_member NodeRoleClient (env_uuid E) ks wgPrivateIP
                        clientCertBundle None gw)) (\<lambda>t''.
               Inr (t'', ())))))"
    by (auto simp: result_simps)
  from tx obtain t t' where t: "tbl t = tbl s" and ft: "f t = Inr (t', x)"
    and s': "tbl s' = tbl t'" by (rule transaction_Inr)
  define gw where "gw = (case find_or_nil T t (\<lambda>n. node_Role n = NodeRoleGateway) of
                      [] \<Rightarrow> zero_node | g # _ \<Rightarrow> g)"
  from ft obtain u cb a where gw: "node_ID gw \<noteq> []"
    and u: "issue_client E T gw t = Inr (u, cb)"
    and a: "GetNextAssignableWGPrivateIP T s = Inr a"
    and cr: "db_create T u (new_member NodeRoleClient (env_uuid E) ks a cb None gw) = Inr t'"
    unfolding f gw_def [symmetric] Let_def by (auto simp: result_simps split: if_splits)
  have "gw \<in> ran (tbl t)"
    using gw find_or_nil_subset [of t "\<lambda>n. node_Role n = NodeRoleGateway"]
    unfolding gw_def by (auto simp: zero_node_def split: list.splits)
  then have "covered (ran (tbl u)) (ran (tbl s))" using issue_client_covered [OF u] t by simp
  with cr ok have "net_ok (ran (tbl t'))"
    by (rule create_ok_net)
      (use a in \<open>auto intro!: new_member_ok simp: compat_def subnets_differ_def
         dest: wg_ip_spec\<close>)
  with s' show ?case by simp
qed

lemma CreateGateway_net_ok:
  assumes ok: "net_ok (ran (tbl s))"
  shows "net_ok (ran (tbl (fst (CreateGateway E T pip pp gip gp s))))"
  unfolding CreateGateway_def
proof (rule op_then_refresh_ok, rule s_write_fst [where Q = "\<lambda>s. net_ok (ran (tbl s))"], goal_cases)
  case 1
  show ?case by (rule ok)
next
  case (2 s' x)
  then obtain a ks b f where none: "\<not> is_ok (db_first T s (\<lambda>n. node_Role n = NodeRoleGateway))"
    and a: "GetNextAssignableWGPrivateIP T s = Inr a"
    and tx: "db_transaction T s f = Inr (s', x)"
    and f: "\<And>t. f t = rbind (db_create T t (new_gateway (env_uuid E) ks a b pip pp gip gp))
             (\<lambda>t'. Inr (t', ()))"
    by (auto simp: result_simps split: if_splits)
  from tx obtain t t' where t: "tbl t = tbl s" and ft: "f t = Inr (t', x)"
    and s': "tbl s' = tbl t'" by (rule transaction_Inr)
  from ft have cr: "db_create T t (new_gateway (env_uuid E) ks a b pip pp gip gp) = Inr t'"
    unfolding f by (auto simp: result_simps)
  have role: "\<forall>m \<in> ran (tbl s). node_Role m \<noteq> NodeRoleGateway"
  proof
    fix m assume m: "m \<in> ran (tbl s)"
    then have row: "tbl s (node_ID m) = Some m" by (simp add: rows_iff)
    show "node_Role m \<noteq> NodeRoleGateway"
    proof
      assume "node_Role m = NodeRoleGateway"
      from first_ok [OF row, of "\<lambda>n. node_Role n = NodeRoleGateway", OF this] none
      show False by auto
    qed
  qed
  have c: "compat (new_gateway (env_uuid E) ks a b pip pp gip gp) m"
    if m: "m \<in> ran (tbl s)" for m
    using role m wg_ip_spec(2) [OF a m, symmetric] by (simp add: compat_def subnets_differ_def)
  have "node_ok (new_gateway (env_uuid E) ks a b pip pp gip gp)"
    using wg_ip_spec(1) [OF a] by (simp add: node_ok_def)
  then have "net_ok (ran (tbl t'))"
    by (rule create_ok_net [OF cr ok, rotated]) (simp_all add: c t)
  with s' show ?case by simp
qed

lemma EnsureGatewayNode_net_ok:
  assumes "net_ok (ran (tbl s))"
  shows "net_ok (ran (tbl (fst (EnsureGatewayNode E T pip pp gip gp s))))"
  using assms by (simp add: EnsureGatewayNode_def s_bind_eq CreateGateway_net_ok
      split: sum.split option.split)

lemma map_delete_rows: "ran (map_delete P (tbl s)) = {r \<in> ran (tbl s). \<not> P r}"
  by (auto simp: map_delete_def ran_def split: option.splits if_splits)

lemma delete_net_ok:
  assumes "net_ok (ran (tbl s))"
  shows "net_ok (ran (tbl (fst (s_write (\<lambda>s. rbind (db_delete T s P)
           (\<lambda>(s', _). Inr (s', ()))) s))))"
proof (rule s_write_fst [where Q = "\<lambda>s. net_ok (ran (tbl s))"], rule assms)
  fix s' x assume "rbind (db_delete T s P) (\<lambda>(s', _). Inr (s', ())) = Inr (s', x)"
  then obtain n where "db_delete T s P = Inr (s', n)" by (auto simp: result_simps)
  from delete_rows [OF this] have "ran (tbl s') \<subseteq> ran (tbl s)" by (auto simp: map_delete_rows)
  with assms show "net_ok (ran (tbl s'))" by (rule net_ok_covered [OF _ covered_subset])
qed

lemma SaveNode_net_ok:
  assumes "net_ok (ran (tbl s))" and "core n = core m" and "m \<in> ran (tbl s)"
  shows "net_ok (ran (tbl (fst (SaveNode T n s))))"
  unfolding SaveNode_def
proof (rule s_write_fst [where Q = "\<lambda>s. net_ok (ran (tbl s))"], rule assms(1))
  fix s' x assume "rbind (db_save T s n) (\<lambda>s'. Inr (s', ())) = Inr (s', x)"
  then have "db_save T s n = Inr s'" by (auto simp: result_simps)
  then have "s' = save_or_keep T s n" by (simp add: save_or_keep_def)
  with assms(1) save_covered [OF assms(2,3) covered_refl] show "net_ok (ran (tbl s'))"
    by (simp add: net_ok_covered)
qed

lemma map_change_rows: "ran (map_change P f (tbl s)) = (\<lambda>r. if P r then f r else r) ` ran (tbl s)"
proof -
  have "map_change P f (tbl s) = (\<lambda>k. map_option (\<lambda>r. if P r then f r else r) (tbl s k))"
    by (rule ext) (simp add: map_change_def split: option.split)
  then show ?thesis by (simp add: ran_map_option)
qed

lemma updateNodeLabels_tbl:
  assumes "updateNodeLabels T t i ls = Inr (t', u)"
  shows "tbl t' = map_change (\<lambda>n. node_ID n = i) (set_labels ls) (tbl t)"
    and "\<exists>r. tbl t i = Some r"
proof -
  from assms obtain n
    where u: "db_update T t (\<lambda>n. node_ID n = i) (set_labels ls) = Inr (t', n)" and "n \<noteq> 0"
    by (auto simp: updateNodeLabels_def result_simps split: if_splits)
  from update_rows [OF u] show "tbl t' = map_change (\<lambda>n. node_ID n = i) (set_labels ls) (tbl t)"
    by simp
  from update_rows [OF u] \<open>n \<noteq> 0\<close> have "{r. tbl t (node_ID r) = Some r \<and> node_ID r = i} \<noteq> {}"
    by (metis card.empty set_labels_ID)
  then show "\<exists>r. tbl t i = Some r" by auto
qed

lemma change_labels_covered:
  "covered (ran (map_change P (set_labels ls) (tbl t))) (ran (tbl t))"
  by (auto simp: map_change_rows covered_def)

lemma label_tx_net_ok:
  assumes "net_ok (ran (tbl s))"
    and "\<And>t t' x. f t = Inr (t', x) \<Longrightarrow>
           t' = t \<or> (\<exists>ls. updateNodeLabels T t i ls = Inr (t', x))"
  shows "net_ok (ran (tbl (fst (s_write (\<lambda>s. db_transaction T s f) s))))"
proof (rule transaction_step [where Q = "\<lambda>m. net_ok (ran m)"], rule assms(1))
  fix t t' x assume "tbl t = tbl s" and "f t = Inr (t', x)"
  with assms show "net_ok (ran (tbl t'))"
    using change_labels_covered updateNodeLabels_tbl(1) net_ok_covered by metis
qed

lemma labels_net_ok:
  assumes "net_ok (ran (tbl s))"
  shows "net_ok (ran (tbl (fst (AddLabelToNode T i l s))))"
    and "net_ok (ran (tbl (fst (RemoveLabelFromNode T i l s))))"
    and "net_ok (ran (tbl (fst (UpdateLabels T i ls s))))"
  unfolding AddLabelToNode_def RemoveLabelFromNode_def UpdateLabels_def
    assignLabelToNode_def removeLabelFromNode_def
  by (rule label_tx_net_ok [OF assms]; auto simp: result_simps split: if_splits)+

end

section \<open>Reachable states\<close>

text \<open>
  One operation on the gateway's database, with any arguments. Of the calls of
  \<open>SaveNode\<close> on the gateway's machine the handlers make, each writes back the row
  \<open>GetGatewayNode\<close> returned, with a changed certificate bundle.
\<close>

inductive node_step ::
  "('c, 'k) crypto \<Rightarrow> ('s, node) table_api \<Rightarrow> 's \<Rightarrow> 's \<Rightarrow> bool"
  for C :: "('c, 'k) crypto" and T :: "('s, node) table_api" where
  gateway: "env_crypto E = C \<Longrightarrow> node_step C T s (fst (CreateGateway E T pip pp gip gp s))"
| ensure: "env_crypto E = C \<Longrightarrow> node_step C T s (fst (EnsureGatewayNode E T pip pp gip gp s))"
| server: "env_crypto E = C \<Longrightarrow> node_step C T s (fst (CreateServer E T force s))"
| client: "env_crypto E = C \<Longrightarrow> node_step C T s (fst (CreateClient E T s))"
| save_bundle: "GetGatewayNode T s = Inr (Some gw) \<Longrightarrow>
    node_step C T s (fst (SaveNode T (gw\<lparr>node_GatewayCertBundle := Some b\<rparr>) s))"
| delete_server: "node_step C T s (fst (DeleteServer T i s))"
| delete_all: "node_step C T s (fst (DeleteAll T s))"
| add_label: "node_step C T s (fst (AddLabelToNode T i l s))"
| remove_label: "node_step C T s (fst (RemoveLabelFromNode T i l s))"
| update_labels: "node_step C T s (fst (UpdateLabels T i ls s))"

inductive node_reach ::
  "('c, 'k) crypto \<Rightarrow> ('s, node) table_api \<Rightarrow> 's \<Rightarrow> 's \<Rightarrow> bool"
  for C :: "('c, 'k) crypto" and T :: "('s, node) table_api" and s0 :: 's where
  start: "node_reach C T s0 s0"
| step: "node_reach C T s0 s \<Longrightarrow> node_step C T s s' \<Longrightarrow> node_reach C T s0 s'"

context node_db
begin

lemma GetGatewayNode_row:
  "GetGatewayNode T s = Inr (Some gw) \<Longrightarrow> gw \<in> ran (tbl s) \<and> node_Role gw = NodeRoleGateway"
  using first_row by (auto simp: GetGatewayNode_def rows_iff split: sum.splits if_splits)

lemma step_net_ok:
  assumes "node_step C T s s'" and ok: "net_ok (ran (tbl s))"
  shows "net_ok (ran (tbl s'))"
  using assms(1)
proof cases
  case (save_bundle gw b)
  from GetGatewayNode_row [OF save_bundle(2)] have gw: "gw \<in> ran (tbl s)"
    and "node_Role gw = NodeRoleGateway" by blast+
  with ok have "node_GatewayCertBundle gw \<noteq> None" by (auto simp: net_ok_def node_ok_def)
  with save_bundle gw ok show ?thesis by (simp add: SaveNode_net_ok [where m = gw])
next
  case (delete_server i)
  with ok show ?thesis unfolding DeleteServer_def by (simp add: delete_net_ok)
next
  case delete_all
  with ok show ?thesis unfolding DeleteAll_def by (simp add: delete_net_ok)
qed (simp_all add: ok CreateGateway_net_ok EnsureGatewayNode_net_ok CreateServer_net_ok
      CreateClient_net_ok labels_net_ok)

lemma reach_net_ok:
  "node_reach C T s0 s \<Longrightarrow> tbl s0 = Map.empty \<Longrightarrow> net_ok (ran (tbl s))"
  by (induction rule: node_reach.induct) (simp_all add: step_net_ok)

end

end
