(* ===== verification/NodesStar.thy ===== *)
theory NodesStar
  imports NodesInvariant
begin

text \<open>
  What \<open>updateNodes\<close> computes. \<open>star\<close> is the abstract picture of the WireGuard network: the
  gateway has one peer per client and server, routed by its address and docker subnet;
  every client and server has the gateway as its only peer. \<open>updateNodes\<close> brings every
  well-formed network into that form, changing nothing else.
\<close>

section \<open>The picture\<close>

abbreviation single :: "ip \<Rightarrow> ipnet" where
  "single i \<equiv> \<lparr>net_ip = i, net_mask = CIDRMask 32 32\<rparr>"

abbreviation member_role :: "node \<Rightarrow> bool" where
  "member_role n \<equiv> node_Role n = NodeRoleClient \<or> node_Role n = NodeRoleServer"

text \<open>The gateway's peer for a member; what the docker subnet parses back to is routed to it.\<close>

definition peer_of_member :: "node \<Rightarrow> wg_peer" where
  "peer_of_member n =
     \<lparr>peer_PublicKey = node_WGPublicKey n, peer_Endpoint = None,
      peer_AllowedIPs = single (node_ip n)
        # (case node_DockerSubnet n of
             None \<Rightarrow> [] | Some d \<Rightarrow> MapStringsToIPNetMarshables [IPNet_String d]),
      peer_PersistentKeepalive = None\<rparr>"

text \<open>A member's only peer: the gateway at its public endpoint.\<close>

definition peer_of_gateway :: "node \<Rightarrow> string \<Rightarrow> 16 word \<Rightarrow> node \<Rightarrow> wg_peer" where
  "peer_of_gateway gw publicIP port n =
     \<lparr>peer_PublicKey = node_WGPublicKey gw,
      peer_Endpoint = Some (gateway_endpoint publicIP port),
      peer_AllowedIPs =
        (if node_Role n = NodeRoleServer
         then [\<lparr>net_ip = v4mapped 10 0 0 0, net_mask = CIDRMask 24 32\<rparr>]
         else [\<lparr>net_ip = v4mapped 172 16 0 0, net_mask = CIDRMask 12 32\<rparr>,
               \<lparr>net_ip = node_ip gw, net_mask = CIDRMask 24 32\<rparr>]),
      peer_PersistentKeepalive = Some 15\<rparr>"

definition docker_dns :: ip where
  "docker_dns = v4mapped 127 0 0 11"

definition star :: "node \<Rightarrow> string \<Rightarrow> 16 word \<Rightarrow> node set \<Rightarrow> bool" where
  "star gw publicIP port N \<longleftrightarrow>
     set (wg_Peers (node_WGConfig gw)) = peer_of_member ` {n \<in> N. member_role n} \<and>
     set (if_DNS (wg_Interface (node_WGConfig gw)))
       = insert (single docker_dns) ((\<lambda>n. single (node_ip n)) ` {n \<in> N. node_Role n = NodeRoleServer}) \<and>
     (\<forall>n \<in> N. member_role n \<longrightarrow>
        wg_Peers (node_WGConfig n) = [peer_of_gateway gw publicIP port n] \<and>
        if_DNS (wg_Interface (node_WGConfig n))
          = single (node_ip gw) # (if node_Role n = NodeRoleServer then [single docker_dns] else []))"

section \<open>The refreshed rows\<close>

lemma itoa_masks: "itoa 32 = ''32''" "itoa 24 = ''24''" "itoa 12 = ''12''"
  by code_simp+

lemma in_wg_range_dotted:
  assumes "in_wg_range i"
  obtains k where "i = v4mapped 10 0 0 k" and "IPToString i = dotted 10 0 0 k"
  using assms by (auto simp: in_wg_range_def)

lemma MapStrings_addr:
  assumes "in_wg_range (node_ip n)"
  shows "MapStringsToIPNetMarshables ((node_addr n @ ''/32'') # ss)
       = single (node_ip n) # MapStringsToIPNetMarshables ss"
    and "MapStringsToIPNetMarshables ((node_addr n @ ''/24'') # ss)
       = \<lparr>net_ip = node_ip n, net_mask = CIDRMask 24 32\<rparr> # MapStringsToIPNetMarshables ss"
    and "MapStringsToIPNetMarshables (node_addr n # ss)
       = single (node_ip n) # MapStringsToIPNetMarshables ss"
proof -
  obtain k where k: "node_ip n = v4mapped 10 0 0 k" "node_addr n = dotted 10 0 0 k"
    using assms by (rule in_wg_range_dotted) (simp add: node_addr_def)
  show "MapStringsToIPNetMarshables ((node_addr n @ ''/32'') # ss)
       = single (node_ip n) # MapStringsToIPNetMarshables ss"
    using MapStrings_net [of 32 10 0 0 k ss] by (simp add: k itoa_masks del: MapStringsToIPNetMarshables.simps(2))
  show "MapStringsToIPNetMarshables ((node_addr n @ ''/24'') # ss)
       = \<lparr>net_ip = node_ip n, net_mask = CIDRMask 24 32\<rparr> # MapStringsToIPNetMarshables ss"
    using MapStrings_net [of 24 10 0 0 k ss] by (simp add: k itoa_masks del: MapStringsToIPNetMarshables.simps(2))
  show "MapStringsToIPNetMarshables (node_addr n # ss)
       = single (node_ip n) # MapStringsToIPNetMarshables ss"
    by (simp add: k MapStrings_bare del: MapStringsToIPNetMarshables.simps(2))
qed

lemma MapStrings_addrs:
  assumes "\<And>n. n \<in> set ns \<Longrightarrow> in_wg_range (node_ip n)"
  shows "MapStringsToIPNetMarshables (map node_addr ns) = map (\<lambda>n. single (node_ip n)) ns"
  using assms by (induction ns) (simp_all add: MapStrings_addr(3) del: MapStringsToIPNetMarshables.simps(2))

lemma MapStrings_consts:
  "MapStringsToIPNetMarshables [''127.0.0.11''] = [single docker_dns]"
  "MapStringsToIPNetMarshables [''10.0.0.0/24'']
     = [\<lparr>net_ip = v4mapped 10 0 0 0, net_mask = CIDRMask 24 32\<rparr>]"
  by code_simp+

lemma MapStrings_Cons:
  "MapStringsToIPNetMarshables (s # ss)
     = MapStringsToIPNetMarshables [s] @ MapStringsToIPNetMarshables ss"
  by (simp add: Let_def split: sum.split)

lemma MapStrings_docker: "MapStringsToIPNetMarshables [''172.16.0.0/12'']
     = [\<lparr>net_ip = v4mapped 172 16 0 0, net_mask = CIDRMask 12 32\<rparr>]"
  by code_simp

lemma gateway_peer_member:
  assumes "node_ok n" and "member_role n"
  shows "gateway_peer n = Inr (peer_of_member n)"
proof -
  from assms(1) have r: "in_wg_range (node_ip n)"
    and d: "node_Role n = NodeRoleServer \<longleftrightarrow> node_DockerSubnet n \<noteq> None"
    by (auto simp: node_ok_def)
  from assms(2) show ?thesis
  proof
    assume c: "node_Role n = NodeRoleClient"
    with d have "node_DockerSubnet n = None" by simp
    with c show ?thesis
      by (simp add: gateway_peer_def peer_of_member_def MapStrings_addr(1) [OF r]
          del: MapStringsToIPNetMarshables.simps(2))
  next
    assume s: "node_Role n = NodeRoleServer"
    with d obtain e where "node_DockerSubnet n = Some e" by auto
    with s show ?thesis
      by (simp add: gateway_peer_def peer_of_member_def MapStrings_addr(1) [OF r]
          del: MapStringsToIPNetMarshables.simps(2))
  qed
qed

lemma refresh_member_eq:
  assumes "node_ok gw" and "member_role n"
  shows "refresh_member gw (gateway_endpoint publicIP port) n
       = set_peers [peer_of_gateway gw publicIP port n]
           (set_dns (single (node_ip gw) #
              (if node_Role n = NodeRoleServer then [single docker_dns] else [])) n)"
proof -
  from assms(1) have r: "in_wg_range (node_ip gw)" by (simp add: node_ok_def)
  show ?thesis
    using assms(2) by (auto simp: refresh_member_def Let_def peer_of_gateway_def
        MapStrings_addr [OF r] MapStrings_consts MapStrings_docker
        MapStrings_Cons [of "''172.16.0.0/12''" "[_]"]
        simp del: MapStringsToIPNetMarshables.simps(2))
qed

lemma refresh_gateway_eq:
  assumes "\<And>n. n \<in> set old \<Longrightarrow> node_ok n"
  shows "refresh_gateway old gw
       = Inr (set_peers (map peer_of_member (filter member_role old))
           (set_dns (single docker_dns #
              map (\<lambda>n. single (node_ip n)) (filter (\<lambda>n. node_Role n = NodeRoleServer) old)) gw))"
proof -
  have f: "filterNodes old [NodeRoleClient, NodeRoleServer] = filter member_role old"
    and g: "filterNodes old [NodeRoleServer] = filter (\<lambda>n. node_Role n = NodeRoleServer) old"
    by (simp_all add: filterNodes_def)
  have "rmap gateway_peer (filter member_role old)
      = Inr (map peer_of_member (filter member_role old))"
    by (rule rmap_ok) (use assms in \<open>auto intro: gateway_peer_member\<close>)
  moreover have "MapStringsToIPNetMarshables (''127.0.0.11'' #
        map node_addr (filter (\<lambda>n. node_Role n = NodeRoleServer) old))
      = single docker_dns #
        map (\<lambda>n. single (node_ip n)) (filter (\<lambda>n. node_Role n = NodeRoleServer) old)"
    by (subst MapStrings_Cons, subst MapStrings_addrs)
      (use assms in \<open>auto simp: node_ok_def MapStrings_consts
         simp del: MapStringsToIPNetMarshables.simps(2)\<close>)
  ultimately show ?thesis by (simp add: refresh_gateway_def f g)
qed

text \<open>What a refresh makes of each row.\<close>

definition refreshed_row :: "node \<Rightarrow> string \<Rightarrow> 16 word \<Rightarrow> node list \<Rightarrow> node \<Rightarrow> node" where
  "refreshed_row gw publicIP port old n =
     (if node_Role n = NodeRoleGateway
      then set_peers (map peer_of_member (filter member_role old))
           (set_dns (single docker_dns #
              map (\<lambda>n. single (node_ip n)) (filter (\<lambda>n. node_Role n = NodeRoleServer) old)) n)
      else set_peers [peer_of_gateway gw publicIP port n]
           (set_dns (single (node_ip gw) #
              (if node_Role n = NodeRoleServer then [single docker_dns] else [])) n))"

section \<open>The loop over the table\<close>

context node_db
begin

lemma save_distinct_addr:
  assumes "covered (ran (tbl t)) M" and "net_ok M" and "m \<in> M" and "core n = core m"
  shows "\<exists>t'. db_save T t n = Inr t' \<and> save_or_keep T t n = t'
           \<and> tbl t' = (tbl t)(node_ID n \<mapsto> n)"
proof -
  have diff: "node_WGConfig r \<noteq> node_WGConfig n" if r: "tbl t k = Some r" and k: "k \<noteq> node_ID n" for k r
  proof -
    from r tbl_pk have rk: "r \<in> ran (tbl t)" "node_ID r = k" by (auto simp: ran_def)
    with assms(1) obtain q where q: "q \<in> M" "core r = core q" unfolding covered_def by blast
    from assms(2) q(1) assms(3) have "compat q m" by (simp add: net_ok_def)
    then have "compat r n" using compat_core [OF q(2) assms(4)] by simp
    with rk k have "node_addr r \<noteq> node_addr n" by (simp add: compat_def)
    then show ?thesis by (auto simp: node_addr_def)
  qed
  have "\<exists>t'. db_save T t n = Inr t'" by (rule save_ok) (rule diff)
  then obtain t' where "db_save T t n = Inr t'" by blast
  with save_row show ?thesis by (auto simp: save_or_keep_def)
qed

lemma update_loop_exact:
  assumes "\<And>n. n \<in> set ns \<Longrightarrow> f n = Inr (g n) \<and> core (g n) = core n"
    and "distinct (map node_ID ns)" and "set ns \<subseteq> M" and "net_ok M" and "covered (ran (tbl t)) M"
  shows "\<exists>t'. update_loop T f ns t = Inr t' \<and>
     (\<forall>n \<in> set ns. tbl t' (node_ID n) = Some (g n)) \<and>
     (\<forall>k. k \<notin> node_ID ` set ns \<longrightarrow> tbl t' k = tbl t k)"
  using assms
proof (induction ns arbitrary: t)
  case Nil
  then show ?case by simp
next
  case (Cons n ns)
  from Cons.prems(1) have f: "f n = Inr (g n)" and c: "core (g n) = core n" by simp_all
  from Cons.prems(3) have "n \<in> M" by simp
  with save_distinct_addr [OF Cons.prems(5,4) _ c] obtain u
    where u: "save_or_keep T t (g n) = u" "tbl u = (tbl t)(node_ID (g n) \<mapsto> g n)" by blast
  have cov: "covered (ran (tbl u)) M"
    using save_covered [OF c \<open>n \<in> M\<close> Cons.prems(5)] u(1) by simp
  obtain t' where t': "update_loop T f ns u = Inr t'"
    "\<forall>n \<in> set ns. tbl t' (node_ID n) = Some (g n)"
    "\<forall>k. k \<notin> node_ID ` set ns \<longrightarrow> tbl t' k = tbl u k"
    using Cons.IH [of u] Cons.prems cov by auto
  have id: "node_ID (g n) = node_ID n" using core_eqD(1) [OF c] .
  from Cons.prems(2) have "node_ID n \<notin> node_ID ` set ns" by auto
  with t'(3) u(2) id have "tbl t' (node_ID n) = Some (g n)" by simp
  with t' f u id show ?case by auto
qed

lemma gateway_unique:
  assumes "net_ok (ran (tbl s))" and "gw \<in> ran (tbl s)" and "node_Role gw = NodeRoleGateway"
    and "g \<in> ran (tbl s)" and "node_Role g = NodeRoleGateway"
  shows "g = gw"
proof -
  from assms have "compat g gw" by (simp add: net_ok_def)
  with assms(3,5) have "node_ID g = node_ID gw" by (simp add: compat_def)
  with assms(2,4) rows_iff show ?thesis by (metis option.inject)
qed

lemma first_gateway:
  assumes "net_ok (ran (tbl s))" and "gw \<in> ran (tbl s)" and "node_Role gw = NodeRoleGateway"
  shows "db_first T s (\<lambda>n. node_Role n = NodeRoleGateway) = Inr gw"
proof -
  from assms(2) rows_iff have "tbl s (node_ID gw) = Some gw" by simp
  from first_ok [OF this, of "\<lambda>n. node_Role n = NodeRoleGateway"] assms(3) obtain g
    where g: "db_first T s (\<lambda>n. node_Role n = NodeRoleGateway) = Inr g" by auto
  from first_row [OF g] have "g \<in> ran (tbl s)" "node_Role g = NodeRoleGateway"
    by (simp_all add: rows_iff)
  with g gateway_unique [OF assms] show ?thesis by simp
qed

lemma distinct_ids:
  assumes "distinct rs" and "set rs \<subseteq> ran (tbl s)"
  shows "distinct (map node_ID rs)"
  using assms by (auto simp: distinct_map inj_on_def rows_iff subset_iff) (metis option.inject)

lemma update_nodes_exact:
  assumes ok: "net_ok (ran (tbl s))" and gw: "gw \<in> ran (tbl s)" "node_Role gw = NodeRoleGateway"
    and id: "node_ID gw \<noteq> []"
    and pub: "node_WGPublicIP gw = Some publicIP" "node_WGPublicPort gw = Some port"
  shows "\<exists>s' old. updateNodes T s = (s', Inr ()) \<and> set old = ran (tbl s) \<and>
     dom (tbl s') = dom (tbl s) \<and>
     (\<forall>n \<in> ran (tbl s). tbl s' (node_ID n) = Some (refreshed_row gw publicIP port old n))"
proof -
  obtain t where t: "db_begin T s = Inr t" using begin_ok by blast
  have tt: "tbl t = tbl s" using begin_view [OF t] .
  have first: "first_or_zero T t (\<lambda>n. node_Role n = NodeRoleGateway) = gw"
    using first_gateway [of t gw] ok gw tt by (simp add: first_or_zero_def)
  obtain old where old: "db_find T t (\<lambda>_. True) = Inr old" using find_ok by blast
  from find_rows [OF old] have "distinct old" by blast
  have so: "set old = ran (tbl s)" using find_set [OF old] tt by simp
  define f where "f = refresh_node gw (gateway_endpoint publicIP port) old"
  define g where "g = refreshed_row gw publicIP port old"
  have nok: "node_ok n" if "n \<in> set old" for n using that so ok by (simp add: net_ok_def)
  have fg: "f n = Inr (g n) \<and> core (g n) = core n" if n: "n \<in> set old" for n
  proof (cases "node_Role n = NodeRoleGateway")
    case True
    then show ?thesis using refresh_gateway_eq [OF nok, of old]
      by (simp add: f_def g_def refresh_node_def refreshed_row_def)
  next
    case False
    with nok [OF n] have "member_role n" by (auto simp: node_ok_def)
    moreover from this have "node_Role n = NodeRoleServer \<or> node_Role n = NodeRoleClient" by blast
    ultimately show ?thesis using False refresh_member_eq [of gw n publicIP port] nok [of gw] so gw
      by (simp add: f_def g_def refresh_node_def refreshed_row_def)
  qed
  have "\<exists>t'. update_loop T f old t = Inr t' \<and>
     (\<forall>n \<in> set old. tbl t' (node_ID n) = Some (g n)) \<and>
     (\<forall>k. k \<notin> node_ID ` set old \<longrightarrow> tbl t' k = tbl t k)"
    by (rule update_loop_exact [where M = "ran (tbl s)"])
      (use fg distinct_ids [of old s] \<open>distinct old\<close> so ok tt in auto)
  then obtain t' where t': "update_loop T f old t = Inr t'"
    "\<forall>n \<in> set old. tbl t' (node_ID n) = Some (g n)"
    "\<forall>k. k \<notin> node_ID ` set old \<longrightarrow> tbl t' k = tbl t k" by blast
  obtain s' where s': "db_commit T t' = Inr s'" using commit_ok by blast
  have ts: "tbl s' = tbl t'" using commit_view [OF s'] .
  have "update_nodes_tx T t = Inr (t', ())"
    using t'(1) by (simp add: update_nodes_tx_def first id pub find_or_nil_def old f_def)
  then have "updateNodes T s = (s', Inr ())"
    using t s' by (simp add: updateNodes_def db_transaction_def)
  moreover have "dom (tbl s') = dom (tbl s)"
  proof (rule set_eqI)
    fix k
    show "k \<in> dom (tbl s') \<longleftrightarrow> k \<in> dom (tbl s)"
    proof (cases "k \<in> node_ID ` set old")
      case True
      then show ?thesis using t'(2) so ts rows_iff by auto
    next
      case False
      then show ?thesis using t'(3) tt ts by (simp add: dom_def)
    qed
  qed
  ultimately show ?thesis using t'(2) so ts unfolding g_def by auto
qed

lemma image_filter_image:
  assumes "\<And>n. f (g n) = f n" and "\<And>n. P (g n) = P n"
  shows "f ` {n \<in> g ` N. P n} = f ` {n \<in> N. P n}"
proof (intro set_eqI iffI)
  fix y assume "y \<in> f ` {n \<in> g ` N. P n}"
  then obtain n where "n \<in> N" "P (g n)" "y = f (g n)" by blast
  with assms show "y \<in> f ` {n \<in> N. P n}" by auto
next
  fix y assume "y \<in> f ` {n \<in> N. P n}"
  then obtain n where "n \<in> N" "P n" "y = f n" by blast
  with assms have "g n \<in> g ` N" "P (g n)" "y = f (g n)" by simp_all
  then show "y \<in> f ` {n \<in> g ` N. P n}" by blast
qed

lemma refreshed_row_sel [simp]:
  "core (refreshed_row gw publicIP port old n) = core n"
  "node_WGPublicKey (refreshed_row gw publicIP port old n) = node_WGPublicKey n"
  "node_GatewayCertBundle (refreshed_row gw publicIP port old n) = node_GatewayCertBundle n"
  "node_ClientCertBundle (refreshed_row gw publicIP port old n) = node_ClientCertBundle n"
  "node_Labels (refreshed_row gw publicIP port old n) = node_Labels n"
  "node_ID (refreshed_row gw publicIP port old n) = node_ID n"
  "node_Role (refreshed_row gw publicIP port old n) = node_Role n"
  "node_ip (refreshed_row gw publicIP port old n) = node_ip n"
  "node_DockerSubnet (refreshed_row gw publicIP port old n) = node_DockerSubnet n"
  by (simp_all add: refreshed_row_def)

lemma peer_of_member_refreshed [simp]:
  "peer_of_member (refreshed_row gw publicIP port old n) = peer_of_member n"
  by (simp add: peer_of_member_def)

lemma refreshed_image:
  assumes "dom (tbl s') = dom (tbl s)"
    and "\<And>n. n \<in> ran (tbl s) \<Longrightarrow> tbl s' (node_ID n) = Some (g n)"
  shows "ran (tbl s') = g ` ran (tbl s)"
proof (intro set_eqI iffI)
  fix r assume "r \<in> ran (tbl s')"
  then obtain k where k: "tbl s' k = Some r" by (auto simp: ran_def)
  with assms(1) obtain n where n: "tbl s k = Some n" by blast
  with tbl_pk have "node_ID n = k" "n \<in> ran (tbl s)" by (auto simp: ran_def)
  with assms(2) k show "r \<in> g ` ran (tbl s)" by force
qed (use assms(2) in \<open>auto simp: ran_def\<close>)

lemma refreshed_star:
  assumes "net_ok N" and "gw \<in> N" and "node_Role gw = NodeRoleGateway" and "set old = N"
    and g_def: "g = refreshed_row gw publicIP port old"
  shows "star (g gw) publicIP port (g ` N)"
proof -
  have sel: "node_Role (g n) = node_Role n" "node_ip (g n) = node_ip n"
    "peer_of_gateway (g gw) publicIP port (g n) = peer_of_gateway gw publicIP port n" for n
    by (simp_all add: peer_of_gateway_def g_def)
  have members: "peer_of_member ` {n \<in> g ` N. member_role n}
      = peer_of_member ` {n \<in> N. member_role n}"
    by (rule image_filter_image) (simp_all add: g_def)
  have servers: "(\<lambda>n. single (node_ip n)) ` {n \<in> g ` N. node_Role n = NodeRoleServer}
      = (\<lambda>n. single (node_ip n)) ` {n \<in> N. node_Role n = NodeRoleServer}"
    by (rule image_filter_image) (simp_all add: g_def)
  show ?thesis
    unfolding star_def members servers
  proof (intro conjI ballI impI)
    show "set (wg_Peers (node_WGConfig (g gw))) = peer_of_member ` {n \<in> N. member_role n}"
      and "set (if_DNS (wg_Interface (node_WGConfig (g gw))))
        = insert (single docker_dns) ((\<lambda>n. single (node_ip n)) ` {n \<in> N. node_Role n = NodeRoleServer})"
      using assms(3,4) by (simp_all add: g_def refreshed_row_def)
  next
    fix n' assume "n' \<in> g ` N" and m: "member_role n'"
    then obtain n where n: "n' = g n" by blast
    with m have "node_Role n \<noteq> NodeRoleGateway" by (auto simp: sel)
    then show "wg_Peers (node_WGConfig n') = [peer_of_gateway (g gw) publicIP port n']"
      and "if_DNS (wg_Interface (node_WGConfig n')) = single (node_ip (g gw)) #
             (if node_Role n' = NodeRoleServer then [single docker_dns] else [])"
      by (simp_all add: n sel) (simp_all add: g_def refreshed_row_def)
  qed
qed

lemma update_nodes_star:
  assumes ok: "net_ok (ran (tbl s))" and gw: "gw \<in> ran (tbl s)" "node_Role gw = NodeRoleGateway"
    and id: "node_ID gw \<noteq> []"
  shows "\<exists>s' gw' publicIP port. updateNodes T s = (s', Inr ()) \<and> gw' \<in> ran (tbl s')
     \<and> node_ID gw' = node_ID gw \<and> node_WGPublicIP gw = Some publicIP
     \<and> node_WGPublicPort gw = Some port \<and> star gw' publicIP port (ran (tbl s'))
     \<and> covered (ran (tbl s)) (ran (tbl s')) \<and> covered (ran (tbl s')) (ran (tbl s))"
proof -
  from ok gw obtain publicIP port
    where pub: "node_WGPublicIP gw = Some publicIP" "node_WGPublicPort gw = Some port"
    by (auto simp: net_ok_def node_ok_def)
  obtain s' old where s': "updateNodes T s = (s', Inr ())" and old: "set old = ran (tbl s)"
    and d: "dom (tbl s') = dom (tbl s)"
    and r: "\<forall>n \<in> ran (tbl s). tbl s' (node_ID n) = Some (refreshed_row gw publicIP port old n)"
    using update_nodes_exact [OF ok gw id pub] by blast
  define g where "g = refreshed_row gw publicIP port old"
  have rows: "ran (tbl s') = g ` ran (tbl s)" using refreshed_image [OF d] r unfolding g_def by blast
  have "star (g gw) publicIP port (ran (tbl s'))"
    unfolding rows by (rule refreshed_star [OF ok gw old g_def])
  moreover have "core (g n) = core n" for n by (simp add: g_def)
  then have "covered (ran (tbl s)) (ran (tbl s'))" and "covered (ran (tbl s')) (ran (tbl s))"
    unfolding rows covered_def by auto
  moreover have "node_ID (g gw) = node_ID gw" and "g gw \<in> ran (tbl s')"
    using gw(1) by (simp_all add: g_def rows)
  ultimately show ?thesis using s' pub by blast
qed

section \<open>Room for a new node\<close>

lemma rows_finite_ran: "finite (ran (tbl s))"
  using tbl_finite by (simp add: finite_ran)

lemma wg_room:
  assumes "card (ran (tbl s)) < 254"
  shows "\<exists>i. GetNextAssignableWGPrivateIP T s = Inr i"
proof -
  obtain ns where ns: "db_find T s (\<lambda>_. True) = Inr ns" using find_ok by blast
  have set_ns: "set ns = ran (tbl s)" using find_set [OF ns] by simp
  have "card (node_addr ` ran (tbl s)) < Suc wgPrivateIPEnd - wgPrivateIPStart"
    using card_image_le [OF rows_finite_ran [of s], of node_addr] assms
    by (simp add: wgPrivateIPEnd_def wgPrivateIPStart_def)
  from wg_alloc.room [OF _ this] obtain i
    where "scan mk_wg_ip (\<lambda>x. IPToString x \<in> node_addr ` ran (tbl s)) ErrNoAvailableWGPrivateIPs
      [wgPrivateIPStart..<Suc wgPrivateIPEnd] = Inr i" using rows_finite_ran by blast
  moreover have "(\<lambda>x. IPToString x \<in> node_addr ` ran (tbl s))
      = (\<lambda>i. \<exists>n \<in> set ns. node_addr n = IPToString i)"
    by (auto simp: set_ns fun_eq_iff image_iff eq_commute)
  ultimately show ?thesis
    by (simp add: GetNextAssignableWGPrivateIP_def ns del: upt_Suc)
qed

lemma docker_room:
  assumes "net_ok (ran (tbl s))" and "card {n \<in> ran (tbl s). node_Role n = NodeRoleServer} < 12"
  shows "\<exists>d. GetNextAssignableDockerSubnet T s = Inr d"
proof -
  obtain ns where ns: "db_find T s docker_roles = Inr ns" using find_ok by blast
  define S where "S = {n \<in> ran (tbl s). node_Role n = NodeRoleServer}"
  define u where "u = (\<lambda>n :: node. IPNet_String (the (node_DockerSubnet n)))"
  have "finite S" using rows_finite_ran by (simp add: S_def)
  then have "finite (u ` S)" and "card (u ` S) < Suc dockerSubnetEnd - dockerSubnetStart"
    using card_image_le [of S u] assms(2)
    by (simp_all add: dockerSubnetEnd_def dockerSubnetStart_def S_def)
  from docker_alloc.room [OF this] obtain d
    where "scan mk_docker_subnet (\<lambda>x. IPNet_String x \<in> u ` S) ErrNoAvailableDockerSubnets
      [dockerSubnetStart..<Suc dockerSubnetEnd] = Inr d" by blast
  moreover have "(IPNet_String p \<in> u ` S) = (\<exists>n \<in> set ns. uses_subnet n (IPNet_String p))" for p
  proof -
    have "node_DockerSubnet n \<noteq> None \<longleftrightarrow> node_Role n = NodeRoleServer" if "n \<in> ran (tbl s)" for n
      using assms(1) that by (auto simp: net_ok_def node_ok_def)
    then show ?thesis
      by (auto simp: find_set [OF ns] S_def u_def uses_subnet_def image_iff split: option.splits)
        (metis option.sel)+
  qed
  ultimately show ?thesis
    by (simp add: GetNextAssignableDockerSubnet_def ns del: upt_Suc)
qed

end

end
