(* ===== verification/NodesProps.thy ===== *)
theory NodesProps
  imports NodesStar
begin

text \<open>
  The properties of the node repository, for every database that meets \<open>node_db\<close>, with
  instances on the reference database. \<open>demo_crypto\<close> and \<open>demo_env\<close> are concrete values of
  the parameters, for the instances only.
\<close>

section \<open>Concrete parameters for the instances\<close>

definition demo_crypto :: "(string, string) crypto" where
  "demo_crypto =
     \<lparr>generate_key = (\<lambda>r. Inr (''key'' @ itoa r)),
      create_certificate = (\<lambda>r tpl ca k sk. Inr (''cert:'' @ Subject tpl)),
      template_cert = Subject, parse_certificate = (\<lambda>s. Inr s), parse_ec_key = (\<lambda>s. Inr s),
      marshal_ec_key = (\<lambda>k. Inr k), pem_encode = (\<lambda>t s. s), pem_decode = (\<lambda>s. Some s),
      x509_key_pair = (\<lambda>c k. Inr ())\<rparr>"

definition demo_env :: "string \<Rightarrow> (string, string) env" where
  "demo_env u = \<lparr>env_exec = (\<lambda>cmd args. Inr ''k''), env_uuid = u, env_now = 0, env_rnd = 0,
                 env_crypto = demo_crypto\<rparr>"

definition demo_bundle :: gateway_bundle where
  "demo_bundle = \<lparr>gb_RootCA = \<lparr>CertPEM = ''ca'', KeyPEM = ''cakey''\<rparr>,
     gb_Server = \<lparr>CertPEM = ''srv'', KeyPEM = ''srvkey''\<rparr>, gb_Clients = Map.empty,
     gb_Generated = 0\<rparr>"

definition demo_gateway :: node where
  "demo_gateway = new_gateway ''gw'' (''priv'', ''pub'') (v4mapped 10 0 0 1) demo_bundle
     (v4mapped 203 0 113 7) 51820 ''203.0.113.7'' 4060"

definition demo_server :: "string \<Rightarrow> 8 word \<Rightarrow> 8 word \<Rightarrow> node" where
  "demo_server i host net = new_member NodeRoleServer i (''spriv'' @ i, ''spub'' @ i)
     (v4mapped 10 0 0 host)
     \<lparr>cb_RootCA = \<lparr>CertPEM = [], KeyPEM = []\<rparr>, cb_Client = \<lparr>CertPEM = [], KeyPEM = []\<rparr>,
      cb_Generated = 0\<rparr>
     (Some \<lparr>net_ip = v4mapped 172 net 0 0, net_mask = CIDRMask 16 32\<rparr>) demo_gateway"

lemma in_wg_range_host:
  assumes "wgPrivateIPStart \<le> unat (h :: 8 word)" and "unat h \<le> wgPrivateIPEnd"
  shows "in_wg_range (v4mapped 10 0 0 h)"
  unfolding in_wg_range_def using assms by (intro bexI [of _ "unat h"]) simp_all

lemma demo_gateway_sel [simp]:
  "node_ID demo_gateway = ''gw''" "node_Role demo_gateway = NodeRoleGateway"
  "node_GatewayCertBundle demo_gateway = Some demo_bundle"
  "node_WGPublicIP demo_gateway = Some ''203.0.113.7''"
  "node_WGPublicPort demo_gateway = Some 51820"
  "node_ip demo_gateway = v4mapped 10 0 0 1" "node_DockerSubnet demo_gateway = None"
  by (simp_all add: demo_gateway_def) code_simp

lemma demo_gateway_ok [simp]: "net_ok {demo_gateway}"
  using in_wg_range_host [of 1]
  by (simp add: net_ok_def node_ok_def wgPrivateIPStart_def wgPrivateIPEnd_def)

lemma demo_rows [simp]: "ran (mem_tbl node_ID [demo_gateway]) = {demo_gateway}"
  by (auto simp: mem_tbl_def ran_def)

lemma mem_node_db: "node_db mem_nodes (mem_tbl node_ID)"
  by (rule mem.node_db_axioms)

section \<open>Reachable networks\<close>

text \<open>
  C1. Every state of the node table that a sequence of the repository's operations can
  reach from an empty table is a well-formed network: distinct tunnel addresses inside
  10.0.0.1-254, at most one gateway, a docker subnet exactly on servers and no two nodes
  with the same one.
\<close>

theorem reachable_network_ok:
  assumes "node_db T tbl" and "tbl s0 = Map.empty" and "node_reach C T s0 s"
  shows "net_ok (ran (tbl s))"
  using node_db.reach_net_ok [OF assms(1,3,2)] .

theorem reachable_network_ok_witness:
  "net_ok (ran (mem_tbl node_ID
     (fst (CreateServer (demo_env ''s'') mem_nodes None
       (fst (CreateGateway (demo_env ''g'') mem_nodes (v4mapped 1 2 3 4) 51820 ''h'' 4060 []))))))"
proof (rule reachable_network_ok [OF mem_node_db, of "[]" demo_crypto])
  show "mem_tbl node_ID [] = Map.empty" by (auto simp: mem_tbl_def)
  show "node_reach demo_crypto mem_nodes []
     (fst (CreateServer (demo_env ''s'') mem_nodes None
       (fst (CreateGateway (demo_env ''g'') mem_nodes (v4mapped 1 2 3 4) 51820 ''h'' 4060 []))))"
    by (rule node_reach.step [OF node_reach.step [OF node_reach.start]];
        rule node_step.intros; simp add: demo_env_def)
qed

section \<open>The WireGuard configurations\<close>

text \<open>
  C2. On a well-formed network with a gateway, \<open>updateNodes\<close> succeeds and leaves the
  configurations in star form: the gateway's peers and DNS servers are exactly those of
  the clients and servers, and every client and server has the gateway as its only peer.
  It adds and removes no node and changes no role, address, subnet or public endpoint.
\<close>

theorem updateNodes_star:
  assumes "node_db T tbl" and "net_ok (ran (tbl s))" and "gw \<in> ran (tbl s)"
    and "node_Role gw = NodeRoleGateway" and "node_ID gw \<noteq> []"
  shows "\<exists>s' gw' publicIP port. updateNodes T s = (s', Inr ()) \<and> gw' \<in> ran (tbl s')
     \<and> node_ID gw' = node_ID gw \<and> node_WGPublicIP gw = Some publicIP
     \<and> node_WGPublicPort gw = Some port \<and> star gw' publicIP port (ran (tbl s'))
     \<and> core ` ran (tbl s') = core ` ran (tbl s)"
proof -
  have "covered A B \<Longrightarrow> covered B A \<Longrightarrow> core ` B = core ` A" for A B
    by (auto simp: covered_def image_iff)
  with node_db.update_nodes_star [OF assms] show ?thesis by meson
qed

theorem updateNodes_star_witness:
  "\<exists>s' gw' publicIP port. updateNodes mem_nodes [demo_gateway] = (s', Inr ())
     \<and> gw' \<in> ran (mem_tbl node_ID s') \<and> node_ID gw' = ''gw''
     \<and> Some ''203.0.113.7'' = Some publicIP \<and> Some 51820 = Some port
     \<and> star gw' publicIP port (ran (mem_tbl node_ID s'))
     \<and> core ` ran (mem_tbl node_ID s') = core ` {demo_gateway}"
  using updateNodes_star [OF mem_node_db, of "[demo_gateway]" demo_gateway] by simp

section \<open>Creating a server\<close>

text \<open>The options of a client certificate, as \<open>CreateServer\<close> and \<open>CreateClient\<close> fill them.\<close>

abbreviation client_options :: "string \<Rightarrow> options" where
  "client_options i \<equiv> \<lparr>CommonName = i, Expiry = CertExpiry, DNSNames = [], IPAddresses = []\<rparr>"

context node_db
begin

lemma issue_client_exact:
  assumes ok: "net_ok (ran (tbl s))" and t: "tbl t = tbl s" and gw: "gw \<in> ran (tbl s)"
    and b: "node_GatewayCertBundle gw = Some b"
    and add: "AddClient (env_crypto E) (env_rnd E) (env_now E) (client_options (env_uuid E)) b = Inr b'"
  shows "\<exists>u cb. issue_client E T gw t = Inr (u, cb)
     \<and> GetClientBundlePublic (env_uuid E) b' = Inr cb
     \<and> tbl u = (tbl s)(node_ID gw \<mapsto> gw\<lparr>node_GatewayCertBundle := Some b'\<rparr>)"
proof -
  from add GetClientBundlePublic_after_AddClient [OF add] obtain cb
    where cb: "GetClientBundlePublic (env_uuid E) b' = Inr cb" by auto
  have c: "core (gw\<lparr>node_GatewayCertBundle := Some b'\<rparr>) = core gw" using b by simp
  from save_distinct_addr [OF _ ok gw c, of t] t obtain u
    where "save_or_keep T t (gw\<lparr>node_GatewayCertBundle := Some b'\<rparr>) = u"
      and "tbl u = (tbl s)(node_ID gw \<mapsto> gw\<lparr>node_GatewayCertBundle := Some b'\<rparr>)" by auto
  with cb b add show ?thesis by (auto simp: issue_client_def)
qed

lemma create_fresh:
  assumes "covered (ran (tbl u)) N" and "tbl u (node_ID r) = None"
    and "\<And>m. m \<in> N \<Longrightarrow> node_addr m \<noteq> node_addr r"
  shows "\<exists>v. db_create T u r = Inr v \<and> tbl v = (tbl u)(node_ID r \<mapsto> BeforeCreate r)"
proof -
  have diff: "node_WGConfig q \<noteq> node_WGConfig (BeforeCreate r)" if "tbl u k = Some q" for k q
  proof -
    from that have "q \<in> ran (tbl u)" by (auto simp: ran_def)
    with assms(1) obtain m where "m \<in> N" "core q = core m" unfolding covered_def by blast
    with assms(3) core_eqD(4) have "node_addr q \<noteq> node_addr r" by metis
    then show ?thesis by (auto simp: node_addr_def)
  qed
  have "\<exists>v. db_create T u r = Inr v" by (rule create_ok [OF assms(2)]) (rule diff)
  then obtain v where "db_create T u r = Inr v" by blast
  with create_row [OF this] show ?thesis by blast
qed

lemma first_by_id:
  assumes "tbl s i = Some n"
  shows "db_first T s (\<lambda>n. node_ID n = i) = Inr n"
proof -
  from assms tbl_pk have "node_ID n = i" by blast
  with first_ok [OF assms, of "\<lambda>n. node_ID n = i"] obtain m
    where m: "db_first T s (\<lambda>n. node_ID n = i) = Inr m" by blast
  from first_row [OF m] assms have "m = n" by auto
  with m show ?thesis by simp
qed

lemma refreshed_exact:
  assumes ok: "net_ok (ran (tbl s))" and gw: "gw \<in> ran (tbl s)" "node_Role gw = NodeRoleGateway"
    and id: "node_ID gw \<noteq> []"
    and pub: "node_WGPublicIP gw = Some publicIP" "node_WGPublicPort gw = Some port"
    and r: "tbl s i = Some r"
  shows "\<exists>s' n gw'. refreshed T i s = (s', Inr n) \<and> tbl s' i = Some n
     \<and> core n = core r \<and> node_WGPublicKey n = node_WGPublicKey r
     \<and> node_ClientCertBundle n = node_ClientCertBundle r \<and> node_Labels n = node_Labels r
     \<and> tbl s' (node_ID gw) = Some gw' \<and> node_GatewayCertBundle gw' = node_GatewayCertBundle gw
     \<and> node_Role gw' = NodeRoleGateway \<and> star gw' publicIP port (ran (tbl s')) \<and> dom (tbl s') = dom (tbl s)"
proof -
  obtain s' old where s': "updateNodes T s = (s', Inr ())" and old: "set old = ran (tbl s)"
    and d: "dom (tbl s') = dom (tbl s)"
    and rr: "\<forall>n \<in> ran (tbl s). tbl s' (node_ID n) = Some (refreshed_row gw publicIP port old n)"
    using update_nodes_exact [OF ok gw id pub] by blast
  define g where "g = refreshed_row gw publicIP port old"
  have rows: "ran (tbl s') = g ` ran (tbl s)" using refreshed_image [OF d] rr unfolding g_def by blast
  have st: "star (g gw) publicIP port (ran (tbl s'))"
    unfolding rows by (rule refreshed_star [OF ok gw old g_def])
  from r tbl_pk have "r \<in> ran (tbl s)" and "node_ID r = i" by (auto simp: ran_def)
  with rr have n: "tbl s' i = Some (g r)" unfolding g_def by blast
  have "refreshed T i s = (s', Inr (g r))"
    by (simp add: refreshed_def s_bind_eq s' s_read_def GetByID_def first_by_id [OF n])
  moreover have "tbl s' (node_ID gw) = Some (g gw)" using rr gw(1) unfolding g_def by blast
  moreover have "core (g r) = core r" "node_WGPublicKey (g r) = node_WGPublicKey r"
    "node_ClientCertBundle (g r) = node_ClientCertBundle r" "node_Labels (g r) = node_Labels r"
    "node_GatewayCertBundle (g gw) = node_GatewayCertBundle gw"
    by (simp_all add: g_def)
  moreover have "core (g gw) = core gw" by (simp add: g_def)
  then have "node_Role (g gw) = NodeRoleGateway" using gw(2) core_eqD(2) by metis
  ultimately show ?thesis using n st d by blast
qed

lemma gateway_found:
  assumes "net_ok (ran (tbl s))" and "gw \<in> ran (tbl s)" and "node_Role gw = NodeRoleGateway"
    and "tbl t = tbl s"
  shows "\<exists>ns. find_or_nil T t (\<lambda>n. node_Role n = NodeRoleGateway) = gw # ns"
proof -
  obtain rs where rs: "db_find T t (\<lambda>n. node_Role n = NodeRoleGateway) = Inr rs"
    using find_ok by blast
  from find_set [OF rs] assms(4) have set: "set rs = {n \<in> ran (tbl s). node_Role n = NodeRoleGateway}"
    by simp
  with assms(2,3) obtain g ns where g: "rs = g # ns" by (cases rs) auto
  with set have "g \<in> ran (tbl s)" "node_Role g = NodeRoleGateway" by auto
  moreover from this assms(1,2,3) have "node_ID g = node_ID gw"
    by (auto simp: net_ok_def compat_def)
  ultimately have "g = gw" using assms(2) rows_iff by fastforce
  with rs g show ?thesis by (simp add: find_or_nil_def)
qed

text \<open>
  The end of both creations: the new row is inserted and the configurations are refreshed.
\<close>

lemma new_row_refreshed:
  assumes ok: "net_ok (ran (tbl s))" and gw: "gw \<in> ran (tbl s)" "node_Role gw = NodeRoleGateway"
    and id: "node_ID gw \<noteq> []" and fresh: "tbl s (env_uuid E) = None" and t: "tbl t = tbl s"
    and b: "node_GatewayCertBundle gw = Some b"
    and pub: "node_WGPublicIP gw = Some publicIP" "node_WGPublicPort gw = Some port"
    and ip: "GetNextAssignableWGPrivateIP T s = Inr i"
    and u: "issue_client E T gw t = Inr (u, cb)"
      "tbl u = (tbl s)(node_ID gw \<mapsto> gw\<lparr>node_GatewayCertBundle := Some b'\<rparr>)"
    and r: "r = new_member role (env_uuid E) ks i cb dopt gw"
    and net: "\<And>v. db_create T u r = Inr v \<Longrightarrow> covered (ran (tbl u)) (ran (tbl s)) \<Longrightarrow> net_ok (ran (tbl v))"
  shows "\<exists>v. db_create T u r = Inr v \<and> (\<forall>s1. tbl s1 = tbl v \<longrightarrow>
     (\<exists>s' n gw'. refreshed T (env_uuid E) s1 = (s', Inr n)
       \<and> node_ID n = env_uuid E \<and> node_Role n = role \<and> node_ip n = i
       \<and> node_DockerSubnet n = dopt \<and> node_WGPublicKey n = snd ks
       \<and> node_Labels n = [] \<and> tbl s' (env_uuid E) = Some n
       \<and> tbl s' (node_ID gw) = Some gw' \<and> node_GatewayCertBundle gw' = Some b'
       \<and> node_Role gw' = NodeRoleGateway \<and> star gw' publicIP port (ran (tbl s'))
       \<and> dom (tbl s') = insert (env_uuid E) (dom (tbl s))))"
proof -
  define gw2 where "gw2 = gw\<lparr>node_GatewayCertBundle := Some b'\<rparr>"
  have "tbl s (node_ID gw) = Some gw" using gw(1) rows_iff by blast
  with fresh have ne: "env_uuid E \<noteq> node_ID gw" by auto
  have cov: "covered (ran (tbl u)) (ran (tbl s))"
    using issue_client_covered [OF u(1)] t gw(1) by simp
  have addr: "node_addr m \<noteq> node_addr r" if "m \<in> ran (tbl s)" for m
    using wg_ip_spec(2) [OF ip that] by (simp add: r)
  have "tbl u (node_ID r) = None" using fresh ne by (simp add: u(2) r)
  from create_fresh [OF cov this addr] obtain v
    where v: "db_create T u r = Inr v" "tbl v = (tbl u)(node_ID r \<mapsto> BeforeCreate r)" by blast
  have "\<exists>s' n gw'. refreshed T (env_uuid E) s1 = (s', Inr n)
       \<and> node_ID n = env_uuid E \<and> node_Role n = role \<and> node_ip n = i
       \<and> node_DockerSubnet n = dopt \<and> node_WGPublicKey n = snd ks
       \<and> node_Labels n = [] \<and> tbl s' (env_uuid E) = Some n
       \<and> tbl s' (node_ID gw) = Some gw' \<and> node_GatewayCertBundle gw' = Some b'
       \<and> node_Role gw' = NodeRoleGateway \<and> star gw' publicIP port (ran (tbl s'))
       \<and> dom (tbl s') = insert (env_uuid E) (dom (tbl s))" if s1: "tbl s1 = tbl v" for s1
  proof -
    have ts1: "tbl s1 = (tbl s)(node_ID gw \<mapsto> gw2, env_uuid E \<mapsto> BeforeCreate r)"
      using s1 v(2) u(2) by (simp add: r gw2_def)
    have net1: "net_ok (ran (tbl s1))" using net [OF v(1) cov] s1 by simp
    have row: "tbl s1 (env_uuid E) = Some (BeforeCreate r)" by (simp add: ts1)
    have "gw2 \<in> ran (tbl s1)" using ne by (auto simp: ts1 ran_def)
    moreover have "node_ID gw2 = node_ID gw" "node_Role gw2 = node_Role gw"
      "node_WGPublicIP gw2 = node_WGPublicIP gw" "node_WGPublicPort gw2 = node_WGPublicPort gw"
      "node_GatewayCertBundle gw2 = Some b'" by (simp_all add: gw2_def)
    ultimately obtain s' n gw' where fin: "refreshed T (env_uuid E) s1 = (s', Inr n)"
      and n: "tbl s' (env_uuid E) = Some n" "core n = core r" "node_WGPublicKey n = snd ks"
        "node_Labels n = []"
      and g: "tbl s' (node_ID gw) = Some gw'" "node_GatewayCertBundle gw' = Some b'"
        "node_Role gw' = NodeRoleGateway"
        "star gw' publicIP port (ran (tbl s'))" and d: "dom (tbl s') = dom (tbl s1)"
      using refreshed_exact [OF net1, of gw2 publicIP port, OF _ _ _ _ _ row] gw(2) id pub
      by (auto simp: r new_member_def)
    have "dom (tbl s1) = insert (env_uuid E) (dom (tbl s))"
      using \<open>tbl s (node_ID gw) = Some gw\<close> by (auto simp: ts1)
    with fin n g d core_eqD(1,2,3,5) [OF n(2)] show ?thesis by (simp add: r)
  qed
  with v(1) show ?thesis by blast
qed

lemma gateway_public:
  assumes "net_ok (ran (tbl s))" and "gw \<in> ran (tbl s)" and "node_Role gw = NodeRoleGateway"
  obtains publicIP port where "node_WGPublicIP gw = Some publicIP" and "node_WGPublicPort gw = Some port"
  using assms by (auto simp: net_ok_def node_ok_def)

lemma create_server_result:
  assumes ok: "net_ok (ran (tbl s))" and gw: "gw \<in> ran (tbl s)" "node_Role gw = NodeRoleGateway"
    and id: "node_ID gw \<noteq> []" and fresh: "tbl s (env_uuid E) = None"
    and keys: "GenerateKeyPair (env_exec E) = Inr ks"
    and b: "node_GatewayCertBundle gw = Some b"
    and add: "AddClient (env_crypto E) (env_rnd E) (env_now E) (client_options (env_uuid E)) b = Inr b'"
    and ip: "GetNextAssignableWGPrivateIP T s = Inr i"
    and sub: "choose_docker_subnet T force s = Inr d"
  shows "\<exists>s' n gw' publicIP port. CreateServer E T force s = (s', Inr n)
     \<and> node_ID n = env_uuid E \<and> node_Role n = NodeRoleServer \<and> node_ip n = i
     \<and> node_DockerSubnet n = Some d \<and> node_WGPublicKey n = snd ks
     \<and> node_Labels n = [] \<and> tbl s' (env_uuid E) = Some n
     \<and> tbl s' (node_ID gw) = Some gw' \<and> node_GatewayCertBundle gw' = Some b'
     \<and> node_Role gw' = NodeRoleGateway
     \<and> node_WGPublicIP gw = Some publicIP \<and> node_WGPublicPort gw = Some port
     \<and> star gw' publicIP port (ran (tbl s'))
     \<and> dom (tbl s') = insert (env_uuid E) (dom (tbl s))"
proof -
  obtain publicIP port
    where pub: "node_WGPublicIP gw = Some publicIP" "node_WGPublicPort gw = Some port"
    using gateway_public [OF ok gw] .
  obtain t where t: "db_begin T s = Inr t" using begin_ok by blast
  have tt: "tbl t = tbl s" using begin_view [OF t] .
  have first: "first_or_zero T t (\<lambda>n. node_Role n = NodeRoleGateway) = gw"
    using first_gateway [of t gw] ok gw tt by (simp add: first_or_zero_def)
  obtain u cb where u: "issue_client E T gw t = Inr (u, cb)"
    "tbl u = (tbl s)(node_ID gw \<mapsto> gw\<lparr>node_GatewayCertBundle := Some b'\<rparr>)"
    using issue_client_exact [OF ok tt gw(1) b add] by blast
  define r where "r = new_member NodeRoleServer (env_uuid E) ks i cb (Some d) gw"
  have net: "net_ok (ran (tbl v))"
    if "db_create T u r = Inr v" and "covered (ran (tbl u)) (ran (tbl s))" for v
    by (rule create_ok_net [OF that(1) ok that(2)])
      (use wg_ip_spec [OF ip] docker_subnet_spec [OF sub] ok in
        \<open>auto simp: r_def intro!: new_member_ok new_server_compat\<close>)
  obtain v where v: "db_create T u r = Inr v"
    and rest: "\<forall>s1. tbl s1 = tbl v \<longrightarrow> (\<exists>s' n gw'. refreshed T (env_uuid E) s1 = (s', Inr n)
       \<and> node_ID n = env_uuid E \<and> node_Role n = NodeRoleServer \<and> node_ip n = i
       \<and> node_DockerSubnet n = Some d \<and> node_WGPublicKey n = snd ks
       \<and> node_Labels n = [] \<and> tbl s' (env_uuid E) = Some n
       \<and> tbl s' (node_ID gw) = Some gw' \<and> node_GatewayCertBundle gw' = Some b'
       \<and> node_Role gw' = NodeRoleGateway \<and> star gw' publicIP port (ran (tbl s'))
       \<and> dom (tbl s') = insert (env_uuid E) (dom (tbl s)))"
    using new_row_refreshed [OF ok gw id fresh tt b pub ip u r_def net] by blast
  obtain s1 where s1: "db_commit T v = Inr s1" using commit_ok by blast
  have "CreateServer E T force s = refreshed T (env_uuid E) s1"
    using t s1 v u(1) ip sub pub
    by (simp add: CreateServer_def s_bind_eq s_write_def keys db_transaction_def first id r_def)
  with rest [rule_format, OF commit_view [OF s1]] pub show ?thesis by simp
qed

lemma create_client_result:
  assumes ok: "net_ok (ran (tbl s))" and gw: "gw \<in> ran (tbl s)" "node_Role gw = NodeRoleGateway"
    and id: "node_ID gw \<noteq> []" and fresh: "tbl s (env_uuid E) = None"
    and keys: "GenerateKeyPair (env_exec E) = Inr ks"
    and b: "node_GatewayCertBundle gw = Some b"
    and add: "AddClient (env_crypto E) (env_rnd E) (env_now E) (client_options (env_uuid E)) b = Inr b'"
    and ip: "GetNextAssignableWGPrivateIP T s = Inr i"
  shows "\<exists>s' n gw'. CreateClient E T s = (s', Inr n)
     \<and> node_ID n = env_uuid E \<and> node_Role n = NodeRoleClient \<and> node_ip n = i
     \<and> node_DockerSubnet n = None \<and> tbl s' (env_uuid E) = Some n
     \<and> tbl s' (node_ID gw) = Some gw' \<and> node_GatewayCertBundle gw' = Some b'
     \<and> node_Role gw' = NodeRoleGateway
     \<and> dom (tbl s') = insert (env_uuid E) (dom (tbl s))"
proof -
  obtain publicIP port
    where pub: "node_WGPublicIP gw = Some publicIP" "node_WGPublicPort gw = Some port"
    using gateway_public [OF ok gw] .
  obtain t where t: "db_begin T s = Inr t" using begin_ok by blast
  have tt: "tbl t = tbl s" using begin_view [OF t] .
  obtain ns where ns: "find_or_nil T t (\<lambda>n. node_Role n = NodeRoleGateway) = gw # ns"
    using gateway_found [OF ok gw tt] by blast
  obtain u cb where u: "issue_client E T gw t = Inr (u, cb)"
    "tbl u = (tbl s)(node_ID gw \<mapsto> gw\<lparr>node_GatewayCertBundle := Some b'\<rparr>)"
    using issue_client_exact [OF ok tt gw(1) b add] by blast
  define r where "r = new_member NodeRoleClient (env_uuid E) ks i cb None gw"
  have net: "net_ok (ran (tbl v))"
    if "db_create T u r = Inr v" and "covered (ran (tbl u)) (ran (tbl s))" for v
    by (rule create_ok_net [OF that(1) ok that(2)])
      (use ip in \<open>auto simp: r_def compat_def subnets_differ_def intro!: new_member_ok dest: wg_ip_spec\<close>)
  obtain v where v: "db_create T u r = Inr v"
    and rest: "\<forall>s1. tbl s1 = tbl v \<longrightarrow> (\<exists>s' n gw'. refreshed T (env_uuid E) s1 = (s', Inr n)
       \<and> node_ID n = env_uuid E \<and> node_Role n = NodeRoleClient \<and> node_ip n = i
       \<and> node_DockerSubnet n = None \<and> node_WGPublicKey n = snd ks
       \<and> node_Labels n = [] \<and> tbl s' (env_uuid E) = Some n
       \<and> tbl s' (node_ID gw) = Some gw' \<and> node_GatewayCertBundle gw' = Some b'
       \<and> node_Role gw' = NodeRoleGateway \<and> star gw' publicIP port (ran (tbl s'))
       \<and> dom (tbl s') = insert (env_uuid E) (dom (tbl s)))"
    using new_row_refreshed [OF ok gw id fresh tt b pub ip u r_def net] by blast
  obtain s1 where s1: "db_commit T v = Inr s1" using commit_ok by blast
  have "CreateClient E T s = refreshed T (env_uuid E) s1"
    using t s1 v u(1) ip
    by (simp add: CreateClient_def s_bind_eq s_write_def keys db_transaction_def ns id r_def)
  with rest [rule_format, OF commit_view [OF s1]] show ?thesis by auto
qed

end

text \<open>
  C9. \<open>CreateServer\<close> without a forced subnet succeeds on every well-formed network with a
  gateway, room in both ranges (fewer than 254 nodes, fewer than 12 servers), a fresh node
  id and working key and certificate primitives. The new node has the address and the
  subnet the allocators return, its certificate is in the gateway's bundle, exactly one
  row is added, and the whole network is in star form afterwards.
\<close>

theorem CreateServer_succeeds:
  assumes "node_db T tbl" and "net_ok (ran (tbl s))" and "gw \<in> ran (tbl s)"
    and "node_Role gw = NodeRoleGateway" and "node_ID gw \<noteq> []" and "tbl s (env_uuid E) = None"
    and "GenerateKeyPair (env_exec E) = Inr ks" and "node_GatewayCertBundle gw = Some b"
    and "AddClient (env_crypto E) (env_rnd E) (env_now E) (client_options (env_uuid E)) b = Inr b'"
    and "card (ran (tbl s)) < 254"
    and "card {n \<in> ran (tbl s). node_Role n = NodeRoleServer} < 12"
  shows "\<exists>s' n gw' publicIP port d. CreateServer E T None s = (s', Inr n)
     \<and> node_ID n = env_uuid E \<and> node_Role n = NodeRoleServer
     \<and> GetNextAssignableWGPrivateIP T s = Inr (node_ip n)
     \<and> node_DockerSubnet n = Some d \<and> GetNextAssignableDockerSubnet T s = Inr d
     \<and> node_WGPublicKey n = snd ks \<and> node_Labels n = [] \<and> tbl s' (env_uuid E) = Some n
     \<and> tbl s' (node_ID gw) = Some gw' \<and> node_GatewayCertBundle gw' = Some b'
     \<and> star gw' publicIP port (ran (tbl s'))
     \<and> dom (tbl s') = insert (env_uuid E) (dom (tbl s))"
proof -
  obtain i where i: "GetNextAssignableWGPrivateIP T s = Inr i"
    using node_db.wg_room [OF assms(1,10)] by blast
  obtain d where d: "GetNextAssignableDockerSubnet T s = Inr d"
    using node_db.docker_room [OF assms(1,2,11)] by blast
  then have "choose_docker_subnet T None s = Inr d" by (simp add: choose_docker_subnet_def)
  from node_db.create_server_result [OF assms(1-9) i this] i d show ?thesis
    by (elim exE conjE) (intro exI conjI; (assumption | simp))
qed

lemma demo_AddClient:
  "AddClient demo_crypto 0 0 (client_options i) demo_bundle
     = Inr (demo_bundle\<lparr>gb_Clients := [i \<mapsto> \<lparr>CertPEM = ''cert:'' @ i, KeyPEM = ''key0''\<rparr>]\<rparr>)"
  by (simp add: AddClient_def createSignedCert_def demo_crypto_def demo_bundle_def
      leaf_template_def itoa_range_octets)

lemma demo_env_sel [simp]:
  "env_uuid (demo_env i) = i" "env_crypto (demo_env i) = demo_crypto"
  "env_rnd (demo_env i) = 0" "env_now (demo_env i) = 0"
  by (simp_all add: demo_env_def)

lemma demo_keys: "GenerateKeyPair (env_exec (demo_env i)) = Inr (''k'', ''k'')"
  by (simp add: GenerateKeyPair_def demo_env_def)

theorem CreateServer_succeeds_witness:
  "\<exists>s' n gw' publicIP port d. CreateServer (demo_env ''s'') mem_nodes None [demo_gateway] = (s', Inr n)
     \<and> node_ID n = ''s'' \<and> node_Role n = NodeRoleServer
     \<and> GetNextAssignableWGPrivateIP mem_nodes [demo_gateway] = Inr (node_ip n)
     \<and> node_DockerSubnet n = Some d \<and> GetNextAssignableDockerSubnet mem_nodes [demo_gateway] = Inr d
     \<and> node_WGPublicKey n = ''k'' \<and> node_Labels n = []
     \<and> mem_tbl node_ID s' ''s'' = Some n \<and> mem_tbl node_ID s' ''gw'' = Some gw'
     \<and> node_GatewayCertBundle gw' = Some (demo_bundle\<lparr>gb_Clients :=
          [''s'' \<mapsto> \<lparr>CertPEM = ''cert:s'', KeyPEM = ''key0''\<rparr>]\<rparr>)
     \<and> star gw' publicIP port (ran (mem_tbl node_ID s'))
     \<and> dom (mem_tbl node_ID s') = insert ''s'' (dom (mem_tbl node_ID [demo_gateway]))"
proof -
  have none: "{n. n = demo_gateway \<and> node_Role n = NodeRoleServer} = {}" by auto
  have add: "AddClient (env_crypto (demo_env ''s'')) (env_rnd (demo_env ''s''))
      (env_now (demo_env ''s'')) (client_options (env_uuid (demo_env ''s''))) demo_bundle
    = Inr (demo_bundle\<lparr>gb_Clients := [''s'' \<mapsto> \<lparr>CertPEM = ''cert:s'', KeyPEM = ''key0''\<rparr>]\<rparr>)"
    by (simp add: demo_AddClient)
  have new: "mem_tbl node_ID [demo_gateway] (env_uuid (demo_env ''s'')) = None"
    by (simp add: mem_tbl_def)
  show ?thesis
    using CreateServer_succeeds [OF mem_node_db, where gw = demo_gateway,
        OF _ _ _ _ new demo_keys _ add]
    by (simp add: none)
qed

section \<open>The address allocator\<close>

text \<open>The addresses in use, as the allocator compares them.\<close>

definition host_used :: "node set \<Rightarrow> nat \<Rightarrow> bool" where
  "host_used N k \<longleftrightarrow> dotted 10 0 0 (of_nat k) \<in> node_addr ` N"

lemma host_used_iff:
  "k < 256 \<Longrightarrow> mk_wg_ip k = Inr x \<Longrightarrow> IPToString x \<in> node_addr ` N \<longleftrightarrow> host_used N k"
  by (simp add: mk_wg_ip_eq host_used_def) (metis IPToString_v4mapped)

lemma card_range_split:
  "card {k \<in> {a..b :: nat}. P k} + card {k \<in> {a..b}. \<not> P k} = Suc b - a"
proof -
  have "card {a..b} = card ({k \<in> {a..b}. P k} \<union> {k \<in> {a..b}. \<not> P k})"
    by (rule arg_cong [where f = card]) auto
  also have "\<dots> = card {k \<in> {a..b}. P k} + card {k \<in> {a..b}. \<not> P k}"
    by (rule card_Un_disjoint) auto
  finally show ?thesis by simp
qed

context node_db
begin

lemma wg_scan:
  obtains e where "db_find T s (\<lambda>_. True) = Inl e"
  | "GetNextAssignableWGPrivateIP T s = scan mk_wg_ip (\<lambda>x. IPToString x \<in> node_addr ` ran (tbl s))
       ErrNoAvailableWGPrivateIPs [wgPrivateIPStart..<Suc wgPrivateIPEnd]"
proof (cases "db_find T s (\<lambda>_. True)")
  case (Inr ns)
  have "set ns = ran (tbl s)" using find_set [OF Inr] by simp
  then have "(\<lambda>x. IPToString x \<in> node_addr ` ran (tbl s))
      = (\<lambda>i. \<exists>n \<in> set ns. node_addr n = IPToString i)"
    by (auto simp: fun_eq_iff image_iff eq_commute)
  then show ?thesis using that(2) by (simp add: GetNextAssignableWGPrivateIP_def Inr del: upt_Suc)
qed (rule that(1))

lemma wg_ip_least:
  assumes "GetNextAssignableWGPrivateIP T s = Inr i"
  shows "\<exists>k. 1 \<le> k \<and> k \<le> 254 \<and> i = v4mapped 10 0 0 (of_nat k)
     \<and> \<not> host_used (ran (tbl s)) k \<and> (\<forall>j. 1 \<le> j \<and> j < k \<longrightarrow> host_used (ran (tbl s)) j)"
proof -
  have sc: "scan mk_wg_ip (\<lambda>x. IPToString x \<in> node_addr ` ran (tbl s))
       ErrNoAvailableWGPrivateIPs [wgPrivateIPStart..<Suc wgPrivateIPEnd] = Inr i"
    using assms by (cases rule: wg_scan [of s]) (simp_all add: GetNextAssignableWGPrivateIP_def del: upt_Suc)
  obtain k where k: "wgPrivateIPStart \<le> k" "k < Suc wgPrivateIPEnd" "mk_wg_ip k = Inr i"
    and l: "\<And>j y. wgPrivateIPStart \<le> j \<Longrightarrow> j < k \<Longrightarrow> mk_wg_ip j = Inr y \<Longrightarrow>
               IPToString y \<in> node_addr ` ran (tbl s)"
    using sc by (rule wg_alloc.least) blast
  then have "k < 256" by (simp add: wgPrivateIPEnd_def)
  have "\<not> host_used (ran (tbl s)) k"
    using wg_alloc.fresh [OF sc] host_used_iff [OF \<open>k < 256\<close> k(3)] by simp
  moreover have "host_used (ran (tbl s)) j" if "1 \<le> j" "j < k" for j
    using l [of j] that host_used_iff [of j] mk_wg_ip_eq [of j] \<open>k < 256\<close>
    by (simp add: wgPrivateIPStart_def)
  ultimately show ?thesis using k \<open>k < 256\<close>
    by (auto simp: mk_wg_ip_eq wgPrivateIPStart_def wgPrivateIPEnd_def)
qed

lemma wg_ip_exhausted:
  "GetNextAssignableWGPrivateIP T s = Inl e \<longleftrightarrow>
     e = ErrNoAvailableWGPrivateIPs \<and> (\<forall>k. 1 \<le> k \<and> k \<le> 254 \<longrightarrow> host_used (ran (tbl s)) k)"
proof (cases rule: wg_scan [of s])
  case (1 e)
  with find_ok show ?thesis by (metis Inr_not_Inl)
next
  case 2
  have h: "(\<forall>x. mk_wg_ip k = Inr x \<longrightarrow> IPToString x \<in> node_addr ` ran (tbl s))
      \<longleftrightarrow> host_used (ran (tbl s)) k" if "k \<le> 254" for k
    using host_used_iff [of k] mk_wg_ip_eq [of k] that by simp
  have "(\<forall>k x. wgPrivateIPStart \<le> k \<and> k < Suc wgPrivateIPEnd \<and> mk_wg_ip k = Inr x
          \<longrightarrow> IPToString x \<in> node_addr ` ran (tbl s))
      \<longleftrightarrow> (\<forall>k. 1 \<le> k \<and> k \<le> 254 \<longrightarrow>
             (\<forall>x. mk_wg_ip k = Inr x \<longrightarrow> IPToString x \<in> node_addr ` ran (tbl s)))"
    by (simp only: less_Suc_eq_le wgPrivateIPStart_def wgPrivateIPEnd_def) blast
  also have "\<dots> \<longleftrightarrow> (\<forall>k. 1 \<le> k \<and> k \<le> 254 \<longrightarrow> host_used (ran (tbl s)) k)"
    by (simp only: h cong: conj_cong imp_cong)
  finally have "(\<forall>k x. wgPrivateIPStart \<le> k \<and> k < Suc wgPrivateIPEnd \<and> mk_wg_ip k = Inr x
          \<longrightarrow> IPToString x \<in> node_addr ` ran (tbl s))
      \<longleftrightarrow> (\<forall>k. 1 \<le> k \<and> k \<le> 254 \<longrightarrow> host_used (ran (tbl s)) k)" .
  with 2 wg_alloc.exhausted show ?thesis by simp
qed

lemma wg_capacity:
  assumes ok: "net_ok (ran (tbl s))" and c: "TotalAvailableWireguardClients T s = Inr (c, a)"
  shows "a = int (card {k \<in> {1..254}. \<not> host_used (ran (tbl s)) k})"
proof -
  let ?N = "ran (tbl s)"
  let ?U = "{k \<in> {1..254}. host_used ?N k}"
  from c obtain n where cnt: "db_count T s (\<lambda>_. True) = Inr n" and a: "a = 254 - int n"
    by (auto simp: TotalAvailableWireguardClients_def result_simps wgPrivateIPEnd_def
        wgPrivateIPStart_def)
  have "?N = {r. tbl s (node_ID r) = Some r \<and> True}" by (auto simp: rows_iff)
  with count_rows [OF cnt] have n: "n = card ?N" by simp
  define f where "f k = dotted 10 0 0 (of_nat k)" for k
  have inj: "inj_on f ?U"
    by (rule inj_onI) (auto simp: f_def intro: of_nat_byte_inj)
  have img: "f ` ?U = node_addr ` ?N"
  proof (intro equalityI subsetI)
    fix x assume "x \<in> node_addr ` ?N"
    then obtain m where m: "m \<in> ?N" "x = node_addr m" by blast
    with ok have "in_wg_range (node_ip m)" by (simp add: net_ok_def node_ok_def)
    then obtain k where k: "1 \<le> k" "k \<le> 254" "node_ip m = v4mapped 10 0 0 (of_nat k)"
      by (auto simp: in_wg_range_def wgPrivateIPEnd_def wgPrivateIPStart_def)
    then have "x = f k" by (simp add: m f_def node_addr_def)
    with m have "f k \<in> node_addr ` ?N" by auto
    with k have "k \<in> ?U" by (simp add: host_used_def f_def)
    with \<open>x = f k\<close> show "x \<in> f ` ?U" by blast
  qed (auto simp: host_used_def f_def)
  have "card ?U = card (node_addr ` ?N)" using card_image [OF inj] by (simp only: img)
  also have "\<dots> = card ?N"
  proof (rule card_image, rule inj_onI)
    fix x y assume xy: "x \<in> ?N" "y \<in> ?N" "node_addr x = node_addr y"
    from ok xy(1,2) have "compat x y" unfolding net_ok_def by blast
    with xy(3) have id: "node_ID x = node_ID y" by (simp add: compat_def)
    from xy(1,2) have "tbl s (node_ID x) = Some x" and "tbl s (node_ID y) = Some y"
      by (simp_all only: rows_iff)
    then show "x = y" unfolding id by (metis option.inject)
  qed
  finally have u: "card ?U = n" by (simp add: n)
  with a card_range_split [of 1 254 "host_used ?N"] show ?thesis by simp
qed

end

definition subnet_used :: "node set \<Rightarrow> nat \<Rightarrow> bool" where
  "subnet_used N k \<longleftrightarrow>
     (\<exists>n \<in> N. docker_roles n \<and> uses_subnet n (dotted 172 (of_nat k) 0 0 @ ''/16''))"

lemma subnet_string:
  "k < 256 \<Longrightarrow> mk_docker_subnet k = Inr x \<Longrightarrow> IPNet_String x = dotted 172 (of_nat k) 0 0 @ ''/16''"
proof -
  have "itoa 16 = ''16''" by code_simp
  then show "k < 256 \<Longrightarrow> mk_docker_subnet k = Inr x \<Longrightarrow>
      IPNet_String x = dotted 172 (of_nat k) 0 0 @ ''/16''"
    by (auto simp: mk_docker_subnet_eq IPNet_String_v4)
qed

context node_db
begin

lemma docker_scan:
  assumes "GetNextAssignableDockerSubnet T s = r"
  shows "r = scan mk_docker_subnet
       (\<lambda>x. IPNet_String x \<in> {y. \<exists>n \<in> ran (tbl s). docker_roles n \<and> uses_subnet n y})
       ErrNoAvailableDockerSubnets [dockerSubnetStart..<Suc dockerSubnetEnd]"
proof -
  obtain ns where ns: "db_find T s docker_roles = Inr ns" using find_ok by blast
  have "(\<exists>n \<in> set ns. uses_subnet n y) = (\<exists>n \<in> ran (tbl s). docker_roles n \<and> uses_subnet n y)" for y
    using find_set [OF ns] by blast
  with assms show ?thesis by (simp add: GetNextAssignableDockerSubnet_def ns del: upt_Suc)
qed

lemma docker_least:
  assumes "GetNextAssignableDockerSubnet T s = Inr d"
  shows "\<exists>k. 20 \<le> k \<and> k \<le> 31
     \<and> d = \<lparr>net_ip = v4mapped 172 (of_nat k) 0 0, net_mask = CIDRMask 16 32\<rparr>
     \<and> \<not> subnet_used (ran (tbl s)) k \<and> (\<forall>j. 20 \<le> j \<and> j < k \<longrightarrow> subnet_used (ran (tbl s)) j)"
proof -
  note sc = docker_scan [OF assms, symmetric]
  obtain k where k: "dockerSubnetStart \<le> k" "k < Suc dockerSubnetEnd" "mk_docker_subnet k = Inr d"
    and l: "\<And>j y. dockerSubnetStart \<le> j \<Longrightarrow> j < k \<Longrightarrow> mk_docker_subnet j = Inr y \<Longrightarrow>
      IPNet_String y \<in> {y. \<exists>n \<in> ran (tbl s). docker_roles n \<and> uses_subnet n y}"
    using sc by (rule docker_alloc.least) blast
  then have k256: "k < 256" by (simp add: dockerSubnetEnd_def)
  have "\<not> subnet_used (ran (tbl s)) k"
    using docker_alloc.fresh [OF sc] subnet_string [OF k256 k(3)] by (simp add: subnet_used_def)
  moreover have "subnet_used (ran (tbl s)) j" if j: "20 \<le> j" "j < k" for j
  proof -
    from j k256 have "j < 256" by simp
    with l [of j] j subnet_string [of j] show ?thesis
      by (simp add: mk_docker_subnet_eq subnet_used_def dockerSubnetStart_def)
  qed
  ultimately show ?thesis using k k256
    by (auto simp: mk_docker_subnet_eq dockerSubnetStart_def dockerSubnetEnd_def)
qed

lemma docker_undercount:
  assumes c: "TotalAndAvailableDockerSubnets T s = Inr (c, a)"
    and g: "g \<in> ran (tbl s)" "docker_roles g" "node_DockerSubnet g = None"
  shows "a < int (card {k \<in> {20..31}. \<not> subnet_used (ran (tbl s)) k})"
proof -
  let ?N = "{n \<in> ran (tbl s). docker_roles n}"
  let ?U = "{k \<in> {20..31}. subnet_used (ran (tbl s)) k}"
  let ?F = "{k \<in> {20..31}. \<not> subnet_used (ran (tbl s)) k}"
  obtain ns where ns: "db_find T s docker_roles = Inr ns" using find_ok by blast
  have "length ns = card ?N" using find_length [OF ns] by (simp add: rows_iff)
  with c ns have a: "a = 12 - int (card ?N)"
    by (auto simp: TotalAndAvailableDockerSubnets_def dockerSubnetEnd_def dockerSubnetStart_def)
  define f where "f k = (SOME n. n \<in> ?N \<and> uses_subnet n (dotted 172 (of_nat k) 0 0 @ ''/16''))" for k
  have f: "f k \<in> ?N \<and> uses_subnet (f k) (dotted 172 (of_nat k) 0 0 @ ''/16'')" if k: "k \<in> ?U" for k
  proof -
    from k obtain n where "n \<in> ?N \<and> uses_subnet n (dotted 172 (of_nat k) 0 0 @ ''/16'')"
      unfolding subnet_used_def by blast
    then show ?thesis unfolding f_def
      by (rule someI [where P = "\<lambda>n. n \<in> ?N \<and> uses_subnet n (dotted 172 (of_nat k) 0 0 @ ''/16'')"])
  qed
  have inj: "inj_on f ?U"
  proof (rule inj_onI)
    fix k j assume kj: "k \<in> ?U" "j \<in> ?U" "f k = f j"
    with f [OF kj(1)] f [OF kj(2)]
    have "dotted 172 (of_nat k) 0 0 @ ''/16'' = dotted 172 (of_nat j) 0 0 @ ''/16''"
      by (auto simp: uses_subnet_def split: option.splits)
    then have "(of_nat k :: 8 word) = of_nat j" by simp
    with kj(1,2) show "k = j" by (auto intro: of_nat_byte_inj)
  qed
  have img: "f ` ?U \<subseteq> ?N - {g}"
  proof
    fix n assume "n \<in> f ` ?U"
    then obtain k where "k \<in> ?U" "n = f k" by blast
    with f [of k] have n: "n \<in> ?N" "uses_subnet n (dotted 172 (of_nat k) 0 0 @ ''/16'')" by blast+
    with g(3) have "n \<noteq> g" by (auto simp: uses_subnet_def)
    with n(1) show "n \<in> ?N - {g}" by blast
  qed
  have fin: "finite ?N" using rows_finite_ran by simp
  then have "card ?U \<le> card (?N - {g})" by (intro card_inj_on_le [OF inj img] finite_Diff)
  also have "\<dots> < card ?N" using fin g by (intro psubset_card_mono) auto
  finally have u: "card ?U < card ?N" .
  with a card_range_split [of 20 31 "subnet_used (ran (tbl s))"] show ?thesis by simp
qed

end

lemma demo_GetNextWG:
  "GetNextAssignableWGPrivateIP mem_nodes [demo_gateway] = Inr (v4mapped 10 0 0 2)"
proof -
  have "node_addr demo_gateway = dotted 10 0 0 1" by (simp add: node_addr_def)
  moreover have "[1..<255] = 1 # 2 # [3..<255]" by (simp add: upt_conv_Cons)
  ultimately show ?thesis
    by (simp add: GetNextAssignableWGPrivateIP_def wgPrivateIPStart_def wgPrivateIPEnd_def
        mk_wg_ip_eq del: upt_Suc)
qed

text \<open>
  C30. The address allocator returns the least free host of 10.0.0.1-254: no node of the
  table has the address, and every smaller host is taken.
\<close>

theorem wg_ip_least_free:
  assumes "node_db T tbl" and "GetNextAssignableWGPrivateIP T s = Inr i"
  shows "\<exists>k. 1 \<le> k \<and> k \<le> 254 \<and> i = v4mapped 10 0 0 (of_nat k)
     \<and> \<not> host_used (ran (tbl s)) k \<and> (\<forall>j. 1 \<le> j \<and> j < k \<longrightarrow> host_used (ran (tbl s)) j)"
  using node_db.wg_ip_least [OF assms] .

theorem wg_ip_least_free_witness:
  "\<exists>k. 1 \<le> k \<and> k \<le> 254 \<and> v4mapped 10 0 0 2 = v4mapped 10 0 0 (of_nat k)
     \<and> \<not> host_used {demo_gateway} k \<and> (\<forall>j. 1 \<le> j \<and> j < k \<longrightarrow> host_used {demo_gateway} j)"
  using wg_ip_least_free [OF mem_node_db demo_GetNextWG] by simp

text \<open>
  The address allocator fails only with \<open>ErrNoAvailableWGPrivateIPs\<close>, and exactly when
  all 254 host addresses are taken.
\<close>

theorem wg_ip_fails_iff_exhausted:
  assumes "node_db T tbl"
  shows "GetNextAssignableWGPrivateIP T s = Inl e \<longleftrightarrow>
     e = ErrNoAvailableWGPrivateIPs \<and> (\<forall>k. 1 \<le> k \<and> k \<le> 254 \<longrightarrow> host_used (ran (tbl s)) k)"
  using node_db.wg_ip_exhausted [OF assms] .

theorem wg_ip_fails_iff_exhausted_witness:
  "\<not> (\<forall>k. 1 \<le> k \<and> k \<le> 254 \<longrightarrow> host_used {demo_gateway} k)"
  using wg_ip_fails_iff_exhausted [OF mem_node_db, of "[demo_gateway]" ErrNoAvailableWGPrivateIPs]
  by (simp add: demo_GetNextWG)

text \<open>
  C31. On a well-formed network, the number of available tunnel addresses the code reports
  is the number of free host addresses.
\<close>

theorem wg_capacity_exact:
  assumes "node_db T tbl" and "net_ok (ran (tbl s))"
    and "TotalAvailableWireguardClients T s = Inr (c, a)"
  shows "a = int (card {k \<in> {1..254}. \<not> host_used (ran (tbl s)) k})"
  using node_db.wg_capacity [OF assms] .

theorem wg_capacity_exact_witness:
  "253 = int (card {k \<in> {1..254}. \<not> host_used {demo_gateway} k})"
proof -
  have "TotalAvailableWireguardClients mem_nodes [demo_gateway] = Inr (1, 253)"
    by (simp add: TotalAvailableWireguardClients_def wgPrivateIPEnd_def wgPrivateIPStart_def)
  from wg_capacity_exact [OF mem_node_db _ this] show ?thesis by simp
qed

section \<open>The docker subnets\<close>

lemma demo_GetNextDocker:
  "GetNextAssignableDockerSubnet mem_nodes [demo_gateway]
     = Inr \<lparr>net_ip = v4mapped 172 20 0 0, net_mask = CIDRMask 16 32\<rparr>"
proof -
  have "[20..<32] = 20 # [21..<32]" by (simp add: upt_conv_Cons)
  then show ?thesis
    by (simp add: GetNextAssignableDockerSubnet_def dockerSubnetStart_def dockerSubnetEnd_def
        mk_docker_subnet_eq uses_subnet_def del: upt_Suc)
qed

text \<open>
  The subnet allocator returns the least 172.k.0.0/16 with k from 20 to 31 that no
  server or gateway uses.
\<close>

lemma docker_subnet_least_free:
  assumes "node_db T tbl" and "GetNextAssignableDockerSubnet T s = Inr d"
  shows "\<exists>k. 20 \<le> k \<and> k \<le> 31
     \<and> d = \<lparr>net_ip = v4mapped 172 (of_nat k) 0 0, net_mask = CIDRMask 16 32\<rparr>
     \<and> \<not> subnet_used (ran (tbl s)) k \<and> (\<forall>j. 20 \<le> j \<and> j < k \<longrightarrow> subnet_used (ran (tbl s)) j)"
  using node_db.docker_least [OF assms] .

text \<open>
  Where the table has a gateway without a docker subnet, the number of available
  subnets the code reports is smaller than the number of free ones: the gateway's row is
  counted as a subnet in use. So the count can be 0 while the allocator still has one.
\<close>

theorem docker_capacity_undercounts:
  assumes "node_db T tbl" and "TotalAndAvailableDockerSubnets T s = Inr (c, a)"
    and "g \<in> ran (tbl s)" and "node_Role g = NodeRoleGateway" and "node_DockerSubnet g = None"
  shows "a < int (card {k \<in> {20..31}. \<not> subnet_used (ran (tbl s)) k})"
  using node_db.docker_undercount [OF assms(1-3) _ assms(5)] assms(4) by simp

theorem docker_capacity_undercounts_witness:
  "11 < int (card {k \<in> {20..31}. \<not> subnet_used {demo_gateway} k})"
proof -
  have "TotalAndAvailableDockerSubnets mem_nodes [demo_gateway] = Inr (1, 11)"
    by (simp add: TotalAndAvailableDockerSubnets_def dockerSubnetEnd_def dockerSubnetStart_def)
  from docker_capacity_undercounts [OF mem_node_db this, of demo_gateway] show ?thesis by simp
qed


end
