(* ===== verification/NodesOps.thy ===== *)
theory NodesOps
  imports NodesProps
begin

text \<open>
  The remaining operations of the node repository: labels as a set, deletion, the look-up
  of a server by its tunnel address, and what happens when two requests of the gateway
  work on the gateway's row at the same time.
\<close>

section \<open>Labels\<close>

definition add_label :: "string \<Rightarrow> string list \<Rightarrow> string list" where
  "add_label l ls = (if l \<in> set ls then ls else ls @ [l])"

definition remove_label :: "string \<Rightarrow> string list \<Rightarrow> string list" where
  "remove_label l ls = filter (\<lambda>x. x \<noteq> l) ls"

lemma add_label_set [simp]: "set (add_label l ls) = insert l (set ls)"
  by (auto simp: add_label_def)

lemma remove_label_set [simp]: "set (remove_label l ls) = set ls - {l}"
  by (auto simp: remove_label_def)

lemma remove_add_label: "l \<notin> set ls \<Longrightarrow> remove_label l (add_label l ls) = ls"
  by (auto simp: add_label_def remove_label_def filter_id_conv)

lemma set_labels_same [simp]: "set_labels (node_Labels n) n = n"
  by (simp add: set_labels_def)

lemma set_labels_idem [simp]: "set_labels ls (set_labels ks n) = set_labels ls n"
  by (simp add: set_labels_def)

lemma set_labels_Labels [simp]: "node_Labels (set_labels ls n) = ls"
  by (simp add: set_labels_def)

context node_db
begin

lemma map_change_id:
  assumes "tbl t i = Some n"
  shows "map_change (\<lambda>n. node_ID n = i) f (tbl t) = (tbl t)(i \<mapsto> f n)"
proof (rule ext)
  fix k
  from assms tbl_pk have "node_ID n = i" by blast
  then show "map_change (\<lambda>n. node_ID n = i) f (tbl t) k = ((tbl t)(i \<mapsto> f n)) k"
    using assms tbl_pk [of t k] by (auto simp: map_change_def split: option.split)
qed

lemma updateNodeLabels_exact:
  assumes "tbl t i = Some n"
  shows "\<exists>t'. updateNodeLabels T t i ls = Inr (t', ()) \<and> tbl t' = (tbl t)(i \<mapsto> set_labels ls n)"
proof -
  obtain t' c where u: "db_update T t (\<lambda>n. node_ID n = i) (set_labels ls) = Inr (t', c)"
    using update_ok by blast
  from assms tbl_pk have "node_ID n = i" by blast
  with assms have "n \<in> {r. tbl t (node_ID r) = Some r \<and> node_ID r = i}" by simp
  moreover have "finite {r. tbl t (node_ID r) = Some r \<and> node_ID r = i}" by (rule rows_finite)
  ultimately have "c \<noteq> 0" using update_rows [OF u] by auto
  with u update_rows [OF u] map_change_id [OF assms] show ?thesis
    by (simp add: updateNodeLabels_def)
qed

text \<open>A transaction that runs one total step on a view with the same rows.\<close>

lemma transaction_exact:
  assumes "\<And>t. tbl t = tbl s \<Longrightarrow> \<exists>t'. f t = Inr (t', x) \<and> tbl t' = m"
  shows "snd (s_write (\<lambda>s. db_transaction T s f) s) = Inr x
     \<and> tbl (fst (s_write (\<lambda>s. db_transaction T s f) s)) = m"
proof -
  obtain t where t: "db_begin T s = Inr t" using begin_ok by blast
  from assms [OF begin_view [OF t]] obtain t' where t': "f t = Inr (t', x)" "tbl t' = m" by blast
  obtain s' where "db_commit T t' = Inr s'" using commit_ok by blast
  with t t' commit_view [of t' s'] show ?thesis by (simp add: s_write_def db_transaction_def)
qed

lemma transaction_error:
  assumes "\<And>t. tbl t = tbl s \<Longrightarrow> f t = Inl e"
  shows "s_write (\<lambda>s. db_transaction T s f) s = (s, Inl e)"
proof -
  obtain t where t: "db_begin T s = Inr t" using begin_ok by blast
  from assms [OF begin_view [OF t]] t show ?thesis
    by (simp add: s_write_def db_transaction_def)
qed

lemma first_by_id_none:
  assumes "tbl s i = None"
  shows "db_first T s (\<lambda>n. node_ID n = i) = Inl ErrRecordNotFound"
proof (cases "db_first T s (\<lambda>n. node_ID n = i)")
  case (Inl e)
  with first_err show ?thesis by blast
next
  case (Inr m)
  from first_row [OF Inr] assms show ?thesis by auto
qed

lemma label_op:
  assumes f: "f = (\<lambda>t. rbind (db_first T t (\<lambda>n. node_ID n = i)) (\<lambda>n.
       if g (node_Labels n) = node_Labels n then Inr (t, ())
       else updateNodeLabels T t i (g (node_Labels n))))"
  shows "snd (s_write (\<lambda>s. db_transaction T s f) s)
       = (case tbl s i of None \<Rightarrow> Inl ErrRecordNotFound | Some n \<Rightarrow> Inr ())
     \<and> tbl (fst (s_write (\<lambda>s. db_transaction T s f) s))
       = (case tbl s i of None \<Rightarrow> tbl s | Some n \<Rightarrow> (tbl s)(i \<mapsto> set_labels (g (node_Labels n)) n))"
proof (cases "tbl s i")
  case None
  then have "s_write (\<lambda>s. db_transaction T s f) s = (s, Inl ErrRecordNotFound)"
    by (intro transaction_error) (simp add: f first_by_id_none)
  with None show ?thesis by simp
next
  case (Some n)
  have "\<exists>t'. f t = Inr (t', ()) \<and> tbl t' = (tbl s)(i \<mapsto> set_labels (g (node_Labels n)) n)"
    if t: "tbl t = tbl s" for t
  proof (cases "g (node_Labels n) = node_Labels n")
    case True
    with Some t show ?thesis by (simp add: f first_by_id fun_upd_idem)
  next
    case False
    with Some t updateNodeLabels_exact [of t i n "g (node_Labels n)"] show ?thesis
      by (simp add: f first_by_id)
  qed
  from transaction_exact [OF this] Some show ?thesis by simp
qed

lemma add_label_op:
  "snd (AddLabelToNode T i l s) = (case tbl s i of None \<Rightarrow> Inl ErrRecordNotFound | Some n \<Rightarrow> Inr ())
   \<and> tbl (fst (AddLabelToNode T i l s))
     = (case tbl s i of None \<Rightarrow> tbl s
        | Some n \<Rightarrow> (tbl s)(i \<mapsto> set_labels (add_label l (node_Labels n)) n))"
  unfolding AddLabelToNode_def assignLabelToNode_def
  by (rule label_op) (rule ext, auto simp: add_label_def intro!: rbind_cong)

lemma remove_label_op:
  "snd (RemoveLabelFromNode T i l s) = (case tbl s i of None \<Rightarrow> Inl ErrRecordNotFound | Some n \<Rightarrow> Inr ())
   \<and> tbl (fst (RemoveLabelFromNode T i l s))
     = (case tbl s i of None \<Rightarrow> tbl s
        | Some n \<Rightarrow> (tbl s)(i \<mapsto> set_labels (remove_label l (node_Labels n)) n))"
  unfolding RemoveLabelFromNode_def removeLabelFromNode_def
proof (rule label_op, rule ext)
  fix t
  have "(l \<notin> set ls) = (remove_label l ls = ls)" for ls
    by (auto simp: remove_label_def filter_id_conv)
  then show "rbind (db_first T t (\<lambda>n. node_ID n = i)) (\<lambda>n.
       if l \<notin> set (node_Labels n) then Inr (t, ())
       else updateNodeLabels T t i (filter (\<lambda>x. x \<noteq> l) (node_Labels n)))
     = rbind (db_first T t (\<lambda>n. node_ID n = i)) (\<lambda>n.
       if remove_label l (node_Labels n) = node_Labels n then Inr (t, ())
       else updateNodeLabels T t i (remove_label l (node_Labels n)))"
    by (simp only: remove_label_def)
qed

lemma delete_server_op:
  "snd (DeleteServer T i s) = Inr ()
   \<and> tbl (fst (DeleteServer T i s))
     = (if \<exists>n. tbl s i = Some n \<and> node_Role n = NodeRoleServer then (tbl s)(i := None) else tbl s)"
proof -
  let ?P = "\<lambda>n. node_ID n = i \<and> node_Role n = NodeRoleServer"
  obtain s' c where d: "db_delete T s ?P = Inr (s', c)" using delete_ok by blast
  have "map_delete ?P (tbl s)
      = (if \<exists>n. tbl s i = Some n \<and> node_Role n = NodeRoleServer then (tbl s)(i := None) else tbl s)"
    (is "_ = ?m")
  proof (rule ext)
    fix k show "map_delete ?P (tbl s) k = ?m k"
      using tbl_pk [of s k] by (auto simp: map_delete_def split: option.split)
  qed
  with d delete_rows [OF d] show ?thesis by (simp add: DeleteServer_def s_write_def)
qed

lemma lookup_server:
  assumes ok: "net_ok (ran (tbl s))"
  shows "GetServerByWGPrivateIP T x s = Inr n \<longleftrightarrow>
     (\<exists>i. ParseIPNetMarshable (trim_space x) False = Inr i \<and> n \<in> ran (tbl s)
        \<and> node_Role n = NodeRoleServer \<and> node_addr n = IPToString (net_ip i))"
proof (cases "ParseIPNetMarshable (trim_space x) False")
  case (Inl e)
  then show ?thesis by (simp add: GetServerByWGPrivateIP_def)
next
  case (Inr i)
  obtain ns where ns: "db_find T s (\<lambda>n. node_Role n = NodeRoleServer) = Inr ns"
    using find_ok by blast
  let ?P = "\<lambda>n. node_addr n = IPToString (net_ip i)"
  have eq: "GetServerByWGPrivateIP T x s
      = (case List.find ?P ns of None \<Rightarrow> Inl ErrRecordNotFound | Some n \<Rightarrow> Inr n)"
    by (simp add: GetServerByWGPrivateIP_def Inr GetNodesByRole_def ns)
  have uniq: "m = n" if "m \<in> ran (tbl s)" "n \<in> ran (tbl s)" "node_addr m = node_addr n" for m n
  proof -
    from ok that(1,2) have "compat m n" unfolding net_ok_def by blast
    with that(3) have id: "node_ID m = node_ID n" by (simp add: compat_def)
    from that(1,2) have "tbl s (node_ID m) = Some m" "tbl s (node_ID n) = Some n"
      by (simp_all only: rows_iff)
    then show ?thesis unfolding id by (metis option.inject)
  qed
  show ?thesis
  proof
    assume "GetServerByWGPrivateIP T x s = Inr n"
    then have "List.find ?P ns = Some n" by (auto simp: eq split: option.splits)
    from find_SomeD [OF this] find_set [OF ns] Inr show "\<exists>i. ParseIPNetMarshable (trim_space x) False = Inr i
        \<and> n \<in> ran (tbl s) \<and> node_Role n = NodeRoleServer \<and> node_addr n = IPToString (net_ip i)" by auto
  next
    assume "\<exists>i. ParseIPNetMarshable (trim_space x) False = Inr i \<and> n \<in> ran (tbl s)
        \<and> node_Role n = NodeRoleServer \<and> node_addr n = IPToString (net_ip i)"
    with Inr have n: "n \<in> ran (tbl s)" "node_Role n = NodeRoleServer" "?P n" by auto
    with find_set [OF ns] have "n \<in> set ns" by simp
    with n(3) obtain m where m: "List.find ?P ns = Some m" using find_SomeI [of n ns ?P] by blast
    from find_SomeD [OF m] find_set [OF ns] n have "m = n" by (intro uniq) auto
    with m show "GetServerByWGPrivateIP T x s = Inr n" by (simp add: eq)
  qed
qed

end

text \<open>
  C33. Adding a label acts on the labels of one node as on a set kept in insertion order:
  it fails with \<open>record not found\<close> exactly for an unknown node and then changes nothing,
  does nothing for a label already there, and changes no other node.
\<close>

theorem AddLabelToNode_effect:
  assumes "node_db T tbl"
  shows "snd (AddLabelToNode T i l s)
       = (case tbl s i of None \<Rightarrow> Inl ErrRecordNotFound | Some n \<Rightarrow> Inr ())
     \<and> tbl (fst (AddLabelToNode T i l s))
       = (case tbl s i of None \<Rightarrow> tbl s
          | Some n \<Rightarrow> (tbl s)(i \<mapsto> set_labels (add_label l (node_Labels n)) n))"
  using node_db.add_label_op [OF assms] .

theorem AddLabelToNode_effect_witness:
  "snd (AddLabelToNode mem_nodes ''x'' ''web'' [demo_gateway]) = Inl ErrRecordNotFound"
  using AddLabelToNode_effect [OF mem_node_db, of "''x''" "''web''" "[demo_gateway]"]
  by (simp add: mem_tbl_def)

text \<open>
  Publishing a node's docker socket and unpublishing it again restores the table,
  whatever other labels the node has.
\<close>

lemma publish_unpublish_restores:
  assumes "node_db T tbl" and "tbl s i = Some n"
    and "DockerSocketPublishedLabel \<notin> set (node_Labels n)"
  shows "snd (PublishDockerSocket T i s) = Inr ()
     \<and> snd (UnpublishDockerSocket T i (fst (PublishDockerSocket T i s))) = Inr ()
     \<and> tbl (fst (UnpublishDockerSocket T i (fst (PublishDockerSocket T i s)))) = tbl s"
proof -
  have pub: "PublishDockerSocket T i s = AddLabelToNode T i DockerSocketPublishedLabel s" for s
    by (simp add: PublishDockerSocket_def AddLabelToNode_def)
  have unpub: "UnpublishDockerSocket T i s = RemoveLabelFromNode T i DockerSocketPublishedLabel s" for s
    by (simp add: UnpublishDockerSocket_def RemoveLabelFromNode_def)
  show ?thesis
    using node_db.add_label_op [OF assms(1), of i DockerSocketPublishedLabel s]
      node_db.remove_label_op [OF assms(1), of i DockerSocketPublishedLabel
        "fst (AddLabelToNode T i DockerSocketPublishedLabel s)"] assms(2,3)
    by (simp add: pub unpub remove_add_label fun_upd_idem)
qed

section \<open>Looking up and deleting servers\<close>

text \<open>
  On a well-formed network the look-up by tunnel address returns a node exactly when
  the text, trimmed, parses to an address or network with that node's address and the node
  is a server; so a server is found under its printed address, and nothing else is.
\<close>

theorem GetServerByWGPrivateIP_exact:
  assumes "node_db T tbl" and "net_ok (ran (tbl s))"
  shows "GetServerByWGPrivateIP T x s = Inr n \<longleftrightarrow>
     (\<exists>i. ParseIPNetMarshable (trim_space x) False = Inr i \<and> n \<in> ran (tbl s)
        \<and> node_Role n = NodeRoleServer \<and> node_addr n = IPToString (net_ip i))"
  using node_db.lookup_server [OF assms] .

theorem GetServerByWGPrivateIP_exact_witness:
  "GetServerByWGPrivateIP mem_nodes ''10.0.0.1'' [demo_gateway] \<noteq> Inr demo_gateway"
  using GetServerByWGPrivateIP_exact [OF mem_node_db, of "[demo_gateway]" "''10.0.0.1''" demo_gateway]
  by simp

text \<open>A network in star form, for the instances.\<close>

definition star_server :: node where
  "star_server = set_peers [peer_of_gateway demo_gateway ''203.0.113.7'' 51820 (demo_server ''s1'' 2 20)]
     (set_dns [single (v4mapped 10 0 0 1), single docker_dns] (demo_server ''s1'' 2 20))"

definition star_gateway :: node where
  "star_gateway = set_peers [peer_of_member (demo_server ''s1'' 2 20)]
     (set_dns [single docker_dns, single (v4mapped 10 0 0 2)] demo_gateway)"

lemma star_demo_sel [simp]:
  "node_ID star_server = ''s1''" "node_Role star_server = NodeRoleServer"
  "node_ip star_server = v4mapped 10 0 0 2"
  "node_DockerSubnet star_server
     = Some \<lparr>net_ip = v4mapped 172 20 0 0, net_mask = CIDRMask 16 32\<rparr>"
  "peer_of_member star_server = peer_of_member (demo_server ''s1'' 2 20)"
  "peer_of_gateway star_gateway i p star_server = peer_of_gateway demo_gateway i p (demo_server ''s1'' 2 20)"
  "node_ID star_gateway = ''gw''" "node_Role star_gateway = NodeRoleGateway"
  "node_ip star_gateway = v4mapped 10 0 0 1" "node_DockerSubnet star_gateway = None"
  "node_GatewayCertBundle star_gateway = Some demo_bundle"
  "node_WGPublicIP star_gateway = Some ''203.0.113.7''"
  "node_WGPublicPort star_gateway = Some 51820"
  by (simp_all add: star_server_def star_gateway_def demo_server_def peer_of_member_def
      peer_of_gateway_def)

lemma star_demo_rows [simp]:
  "ran (mem_tbl node_ID [star_gateway, star_server]) = {star_gateway, star_server}"
  by (simp add: mem_rows)

lemma star_demo_ok [simp]: "net_ok {star_gateway, star_server}"
  using in_wg_range_host [of 1] in_wg_range_host [of 2]
  by (simp add: net_ok_def node_ok_def compat_def subnets_differ_def node_addr_def
      wgPrivateIPStart_def wgPrivateIPEnd_def)

lemma star_demo_config:
  "wg_Peers (node_WGConfig star_gateway) = [peer_of_member (demo_server ''s1'' 2 20)]"
  "if_DNS (wg_Interface (node_WGConfig star_gateway)) = [single docker_dns, single (v4mapped 10 0 0 2)]"
  "wg_Peers (node_WGConfig star_server)
     = [peer_of_gateway demo_gateway ''203.0.113.7'' 51820 (demo_server ''s1'' 2 20)]"
  "if_DNS (wg_Interface (node_WGConfig star_server)) = [single (v4mapped 10 0 0 1), single docker_dns]"
  by (simp_all add: star_gateway_def star_server_def)

lemma star_demo: "star star_gateway ''203.0.113.7'' 51820 {star_gateway, star_server}"
proof -
  have m: "{n \<in> {star_gateway, star_server}. member_role n} = {star_server}"
    and r: "{n \<in> {star_gateway, star_server}. node_Role n = NodeRoleServer} = {star_server}"
    by auto
  show ?thesis
    unfolding star_def m r by (simp add: star_demo_config)
qed

text \<open>
  \<open>DeleteServer\<close> always reports success and removes the row with the given id exactly
  when it is a server: a wrong id, a client or the gateway is silently left alone.
\<close>

lemma DeleteServer_effect:
  assumes "node_db T tbl"
  shows "snd (DeleteServer T i s) = Inr ()
     \<and> tbl (fst (DeleteServer T i s))
       = (if \<exists>n. tbl s i = Some n \<and> node_Role n = NodeRoleServer then (tbl s)(i := None) else tbl s)"
  using node_db.delete_server_op [OF assms] .

text \<open>
  C28. A deleted server stays a peer of the gateway: \<open>DeleteServer\<close> does not refresh the
  configurations, so the stored gateway configuration still routes the deleted server's
  address and subnet to its key.
\<close>

theorem deleted_server_stays_routed:
  assumes "node_db T tbl" and "gw \<in> ran (tbl s)" and "node_Role gw = NodeRoleGateway"
    and "star gw publicIP port (ran (tbl s))"
    and "n \<in> ran (tbl s)" and "node_Role n = NodeRoleServer"
  shows "tbl (fst (DeleteServer T (node_ID n) s)) (node_ID n) = None
     \<and> tbl (fst (DeleteServer T (node_ID n) s)) (node_ID gw) = Some gw
     \<and> peer_of_member n \<in> set (wg_Peers (node_WGConfig gw))"
proof -
  have gw: "tbl s (node_ID gw) = Some gw" and n: "tbl s (node_ID n) = Some n"
    using assms(2,5) by (simp_all add: node_db.rows_iff [OF assms(1)])
  with assms(3,6) have "node_ID n \<noteq> node_ID gw" by auto
  moreover have "peer_of_member n \<in> set (wg_Peers (node_WGConfig gw))"
    using assms(4-6) by (simp add: star_def)
  ultimately show ?thesis
    using node_db.delete_server_op [OF assms(1), of "node_ID n" s] gw n assms(6) by simp
qed

theorem deleted_server_stays_routed_witness:
  "mem_tbl node_ID (fst (DeleteServer mem_nodes ''s1'' [star_gateway, star_server])) ''s1'' = None
   \<and> mem_tbl node_ID (fst (DeleteServer mem_nodes ''s1'' [star_gateway, star_server])) ''gw''
       = Some star_gateway
   \<and> peer_of_member star_server \<in> set (wg_Peers (node_WGConfig star_gateway))"
  using deleted_server_stays_routed [OF mem_node_db, of star_gateway "[star_gateway, star_server]"
      "''203.0.113.7''" 51820 star_server] star_demo by simp

section \<open>Concurrent requests\<close>

context node_db
begin

lemma created_row:
  assumes "s_bind m (\<lambda>_. refreshed T i) s = (s', Inr n)"
  shows "tbl s' i = Some n"
proof -
  from assms obtain u where "refreshed T i u = (s', Inr n)"
    by (auto simp: s_bind_eq split: sum.splits)
  then have "GetByID T i s' = Inr n"
    by (auto simp: refreshed_def s_bind_eq s_read_def split: sum.splits)
  from first_row [OF this [unfolded GetByID_def]] show ?thesis by auto
qed

end

text \<open>
  C26. The handler of a join request reads the gateway's row, and after its other work
  writes the row back without its own certificate. If another request creates a server
  between the read and the write, the new server's peer and its certificate disappear from
  the gateway's row although the server stays in the table: the update is lost.
\<close>

theorem join_handlers_lose_update:
  assumes "node_db T tbl" and "GetGatewayNode T s = Inr (Some gw)"
    and "node_GatewayCertBundle gw = Some b" and "gb_Clients b (env_uuid E) = None"
    and "tbl s (env_uuid E) = None" and "CreateServer E T force s = (s1, Inr n)"
    and "peer_of_member n \<notin> set (wg_Peers (node_WGConfig gw))"
    and "SaveNode T (gw\<lparr>node_GatewayCertBundle := Some (RemoveClient c b)\<rparr>) s1 = (s2, Inr ())"
  shows "tbl s2 (env_uuid E) = Some n
     \<and> (\<exists>gw' b'. tbl s2 (node_ID gw) = Some gw' \<and> peer_of_member n \<notin> set (wg_Peers (node_WGConfig gw'))
          \<and> node_GatewayCertBundle gw' = Some b' \<and> gb_Clients b' (env_uuid E) = None)"
proof -
  from node_db.GetGatewayNode_row [OF assms(1,2)]
  have "tbl s (node_ID gw) = Some gw" by (simp add: node_db.rows_iff [OF assms(1)])
  with assms(5) have ne: "env_uuid E \<noteq> node_ID gw" by auto
  have n: "tbl s1 (env_uuid E) = Some n"
    using assms(6) unfolding CreateServer_def by (rule node_db.created_row [OF assms(1)])
  from assms(8) have "db_save T s1 (gw\<lparr>node_GatewayCertBundle := Some (RemoveClient c b)\<rparr>) = Inr s2"
    by (auto simp: SaveNode_def s_write_def result_simps split: sum.splits)
  moreover have "gorm_table T tbl node_ID BeforeCreate"
    using assms(1) by (simp add: node_db_def reliable_table_def)
  ultimately have "tbl s2 = (tbl s1)(node_ID gw \<mapsto> gw\<lparr>node_GatewayCertBundle := Some (RemoveClient c b)\<rparr>)"
    using gorm_table.save_row by fastforce
  with n ne assms(4,7) show ?thesis by simp
qed

lemma demo_GetGatewayNode: "GetGatewayNode mem_nodes [demo_gateway] = Inr (Some demo_gateway)"
  by (simp add: GetGatewayNode_def)

lemma demo_save_after_create:
  assumes "CreateServer (demo_env ''s'') mem_nodes None [demo_gateway] = (s1, Inr n)"
    and "node_addr n = dotted 10 0 0 2" and "mem_tbl node_ID s1 ''s'' = Some n"
    and "dom (mem_tbl node_ID s1) = {''s'', ''gw''}"
  shows "\<exists>s2. SaveNode mem_nodes (demo_gateway\<lparr>node_GatewayCertBundle := Some b\<rparr>) s1 = (s2, Inr ())"
proof -
  let ?gw = "demo_gateway\<lparr>node_GatewayCertBundle := Some b\<rparr>"
  have "\<exists>s2. db_save mem_nodes s1 ?gw = Inr s2"
  proof (rule mem.save_ok)
    fix k r assume r: "mem_tbl node_ID s1 k = Some r" and "k \<noteq> node_ID ?gw"
    with assms(3,4) have "k = ''s''" by auto
    with r assms(3) have "r = n" by simp
    with assms(2) have "node_addr r \<noteq> node_addr ?gw" by (simp add: node_addr_def)
    then show "node_WGConfig r \<noteq> node_WGConfig ?gw" by (auto simp: node_addr_def)
  qed
  then show ?thesis by (auto simp: SaveNode_def s_write_def)
qed

theorem join_handlers_lose_update_witness:
  "\<exists>s1 n s2. CreateServer (demo_env ''s'') mem_nodes None [demo_gateway] = (s1, Inr n)
     \<and> SaveNode mem_nodes (demo_gateway\<lparr>node_GatewayCertBundle := Some (RemoveClient ''j'' demo_bundle)\<rparr>) s1
         = (s2, Inr ())
     \<and> mem_tbl node_ID s2 ''s'' = Some n
     \<and> (\<exists>gw' b'. mem_tbl node_ID s2 ''gw'' = Some gw' \<and> peer_of_member n \<notin> set (wg_Peers (node_WGConfig gw'))
          \<and> node_GatewayCertBundle gw' = Some b' \<and> gb_Clients b' ''s'' = None)"
proof -
  have add: "AddClient (env_crypto (demo_env ''s'')) (env_rnd (demo_env ''s''))
      (env_now (demo_env ''s'')) (client_options (env_uuid (demo_env ''s''))) demo_bundle
    = Inr (demo_bundle\<lparr>gb_Clients := [''s'' \<mapsto> \<lparr>CertPEM = ''cert:s'', KeyPEM = ''key0''\<rparr>]\<rparr>)"
    by (simp add: demo_AddClient)
  have new: "mem_tbl node_ID [demo_gateway] (env_uuid (demo_env ''s'')) = None"
    by (simp add: mem_tbl_def)
  have sub: "choose_docker_subnet mem_nodes None [demo_gateway]
      = Inr \<lparr>net_ip = v4mapped 172 20 0 0, net_mask = CIDRMask 16 32\<rparr>"
    by (simp add: choose_docker_subnet_def demo_GetNextDocker)
  obtain s1 n where c: "CreateServer (demo_env ''s'') mem_nodes None [demo_gateway] = (s1, Inr n)"
    and ip: "node_ip n = v4mapped 10 0 0 2" and row: "mem_tbl node_ID s1 ''s'' = Some n"
    and d: "dom (mem_tbl node_ID s1) = insert ''s'' (dom (mem_tbl node_ID [demo_gateway]))"
    using mem.create_server_result [where gw = demo_gateway,
        OF _ _ _ _ new demo_keys _ add demo_GetNextWG sub] by auto
  have "dom (mem_tbl node_ID [demo_gateway]) = {''gw''}" by (auto simp: mem_tbl_def split: if_splits)
  with d have dm: "dom (mem_tbl node_ID s1) = {''s'', ''gw''}" by simp
  have addr: "node_addr n = dotted 10 0 0 2" by (simp add: node_addr_def ip)
  obtain s2 where s2: "SaveNode mem_nodes
      (demo_gateway\<lparr>node_GatewayCertBundle := Some (RemoveClient ''j'' demo_bundle)\<rparr>) s1 = (s2, Inr ())"
    using demo_save_after_create [OF c addr row dm] by blast
  have peers: "wg_Peers (node_WGConfig demo_gateway) = []"
    by (simp add: demo_gateway_def new_gateway_def)
  have "mem_tbl node_ID s2 (env_uuid (demo_env ''s'')) = Some n
     \<and> (\<exists>gw' b'. mem_tbl node_ID s2 (node_ID demo_gateway) = Some gw'
          \<and> peer_of_member n \<notin> set (wg_Peers (node_WGConfig gw'))
          \<and> node_GatewayCertBundle gw' = Some b' \<and> gb_Clients b' (env_uuid (demo_env ''s'')) = None)"
    by (rule join_handlers_lose_update [OF mem_node_db demo_GetGatewayNode _ _ new c _ s2])
      (simp_all add: peers demo_bundle_def)
  then show ?thesis
    by (rule_tac x = s1 in exI, rule_tac x = n in exI, rule_tac x = s2 in exI) (simp add: c s2)
qed

end
