(* ===== verification/ServiceProps.thy ===== *)
theory ServiceProps
  imports Services
begin

text \<open>
  The repository of published services behaves as a map from (protocol, host, port) to
  services, for every table that meets \<open>service_db\<close>; and what the Caddy entries say.
  \<open>service_store\<close> is the interface the request handlers use.
\<close>

section \<open>The interface of the handlers\<close>

locale service_store =
  fixes view :: "'s \<Rightarrow> service_key \<rightharpoonup> service"
    and get :: "service_key \<Rightarrow> 's \<Rightarrow> service result"
    and put :: "service \<Rightarrow> ('s, unit) op"
    and del :: "service_key \<Rightarrow> 's \<Rightarrow> 's \<times> bool"
    and all :: "'s \<Rightarrow> service list result"
    and now :: int
  assumes get_view: "get k s = (case view s k of None \<Rightarrow> Inl ErrServiceNotFound | Some v \<Rightarrow> Inr v)"
    and put_ok: "snd (put v s) = Inr ()"
    and put_view: "view (fst (put v s)) = (view s)(svc_key v \<mapsto>
          (case view s (svc_key v) of
             None \<Rightarrow> stamp now v | Some e \<Rightarrow> v\<lparr>CreatedAt := CreatedAt e\<rparr>))"
    and del_result: "snd (del k s) = (view s k \<noteq> None)"
    and del_view: "view (fst (del k s)) = (view s)(k := None)"
    and all_view: "\<exists>vs. all s = Inr vs \<and> distinct vs \<and> set vs = ran (view s)"
begin

lemma get_put: "get (svc_key v) (fst (put v s)) = Inr (
    case view s (svc_key v) of None \<Rightarrow> stamp now v | Some e \<Rightarrow> v\<lparr>CreatedAt := CreatedAt e\<rparr>)"
  by (simp add: get_view put_view)

lemma get_put_other: "k \<noteq> svc_key v \<Longrightarrow> get k (fst (put v s)) = get k s"
  by (simp add: get_view put_view)

lemma get_del: "get k (fst (del k s)) = Inl ErrServiceNotFound"
  by (simp add: get_view del_view)

lemma get_del_other: "k \<noteq> j \<Longrightarrow> get k (fst (del j s)) = get k s"
  by (simp add: get_view del_view)

lemma put_del: "view s (svc_key v) = None \<Longrightarrow> view (fst (del (svc_key v) (fst (put v s)))) = view s"
  by (auto simp: del_view put_view)

lemma del_twice: "snd (del k (fst (del k s))) = False"
  by (simp add: del_result del_view)

end

section \<open>The repository meets it\<close>

lemma svc_key_stamp [simp]: "svc_key (stamp now v) = svc_key v"
  by (simp add: stamp_def svc_key_def)

lemma svc_key_updates [simp]:
  "svc_key (v\<lparr>CreatedAt := t\<rparr>) = svc_key v" "svc_key (v\<lparr>Params := ps\<rparr>) = svc_key v"
  by (simp_all add: svc_key_def)

locale service_db = reliable_table T tbl svc_key "stamp now" svc_key
  for T :: "('s, service) table_api" and tbl :: "'s \<Rightarrow> service_key \<rightharpoonup> service" and now :: int
begin

lemma first_key:
  "db_first T s (has_key k) = (case tbl s k of None \<Rightarrow> Inl ErrRecordNotFound | Some v \<Rightarrow> Inr v)"
proof (cases "db_first T s (has_key k)")
  case (Inl e)
  with first_err have e: "e = ErrRecordNotFound" by blast
  have "tbl s k = None"
  proof (rule ccontr)
    assume "tbl s k \<noteq> None"
    then obtain v where v: "tbl s k = Some v" by blast
    from first_none [OF Inl [unfolded e] v] tbl_pk [OF v] show False by simp
  qed
  with Inl e show ?thesis by simp
next
  case (Inr v)
  from first_row [OF Inr] Inr show ?thesis by auto
qed

lemma save_existing: "\<exists>s'. db_save T s v = Inr s'"
  by (rule save_ok) (use tbl_pk in auto)

lemma ServiceGet_view:
  "ServiceGet T k s = (case tbl s k of None \<Rightarrow> Inl ErrServiceNotFound | Some v \<Rightarrow> Inr v)"
  by (simp add: ServiceGet_def first_key split: option.split)

lemma ServiceSave_view:
  "snd (ServiceSave T v s) = Inr ()
   \<and> tbl (fst (ServiceSave T v s)) = (tbl s)(svc_key v \<mapsto>
       (case tbl s (svc_key v) of None \<Rightarrow> stamp now v | Some e \<Rightarrow> v\<lparr>CreatedAt := CreatedAt e\<rparr>))"
proof (cases "tbl s (svc_key v)")
  case None
  have "\<exists>s'. db_create T s v = Inr s'"
  proof (rule create_ok [OF None])
    fix k r assume "tbl s k = Some r"
    with None tbl_pk [OF this] show "svc_key r \<noteq> svc_key (stamp now v)" by auto
  qed
  then obtain s' where s': "db_create T s v = Inr s'" by blast
  from create_row [OF s'] s' None show ?thesis
    by (simp add: ServiceSave_def s_write_def first_key)
next
  case (Some e)
  obtain s' where s': "db_save T s (v\<lparr>CreatedAt := CreatedAt e\<rparr>) = Inr s'"
    using save_existing by blast
  from save_row [OF s'] s' Some show ?thesis
    by (simp add: ServiceSave_def s_write_def first_key)
qed

lemma ServiceDelete_view:
  "snd (ServiceDelete T k s) = (tbl s k \<noteq> None)
   \<and> tbl (fst (ServiceDelete T k s)) = (tbl s)(k := None)"
proof -
  obtain s' n where d: "db_delete T s (has_key k) = Inr (s', n)" using delete_ok by blast
  have "map_delete (has_key k) (tbl s) = (tbl s)(k := None)"
  proof (rule ext)
    fix j show "map_delete (has_key k) (tbl s) j = ((tbl s)(k := None)) j"
      using tbl_pk [of s j] by (auto simp: map_delete_def split: option.split)
  qed
  moreover have "0 < n \<longleftrightarrow> tbl s k \<noteq> None"
    using delete_count_zero [OF d] tbl_pk by (metis neq0_conv not_None_eq)
  ultimately show ?thesis using delete_rows [OF d] d by (simp add: ServiceDelete_def)
qed

lemma ServiceGetAll_view: "\<exists>vs. ServiceGetAll T s = Inr vs \<and> distinct vs \<and> set vs = ran (tbl s)"
proof -
  obtain vs where vs: "db_find T s (\<lambda>_. True) = Inr vs" using find_ok by blast
  with find_rows [OF vs] rows_ran [of s "\<lambda>_. True"] show ?thesis by (simp add: ServiceGetAll_def)
qed

end

sublocale service_db \<subseteq> store: service_store tbl "ServiceGet T" "ServiceSave T" "ServiceDelete T"
  "ServiceGetAll T" now
  by unfold_locales
    (simp_all add: ServiceGet_view ServiceSave_view ServiceDelete_view ServiceGetAll_view)

abbreviation mem_services :: "int \<Rightarrow> (service list, service) table_api" where
  "mem_services now \<equiv> mem_api svc_key svc_key (stamp now)"

interpretation mem_svc: service_db "mem_services now" "mem_tbl svc_key" now for now
  by (intro service_db.intro mem_reliable) simp

lemma mem_service_db: "service_db (mem_services now) (mem_tbl svc_key) now"
  by (rule mem_svc.service_db_axioms)

section \<open>Parameters of a service\<close>

definition has_param :: "string \<Rightarrow> string \<Rightarrow> service \<Rightarrow> bool" where
  "has_param t x v = (\<lparr>ParamType = t, ParamValue = x\<rparr> \<in> set (Params v))"

lemma has_param_iff:
  "(\<exists>p \<in> set (Params v). ParamType p = t \<and> ParamValue p = x) = has_param t x v"
proof -
  have "ParamType p = t \<and> ParamValue p = x \<longleftrightarrow> p = \<lparr>ParamType = t, ParamValue = x\<rparr>" for p :: service_param
    by (cases p) auto
  then show ?thesis by (auto simp: has_param_def)
qed

definition with_param :: "string \<Rightarrow> string \<Rightarrow> service \<Rightarrow> service" where
  "with_param t x v = v\<lparr>Params := Params v @ [\<lparr>ParamType = t, ParamValue = x\<rparr>]\<rparr>"

definition without_param :: "string \<Rightarrow> string \<Rightarrow> service \<Rightarrow> service" where
  "without_param t x v = v\<lparr>Params := filter (\<lambda>p. p \<noteq> \<lparr>ParamType = t, ParamValue = x\<rparr>) (Params v)\<rparr>"

lemma without_with_param: "\<not> has_param t x v \<Longrightarrow> without_param t x (with_param t x v) = v"
proof -
  assume "\<not> has_param t x v"
  then have "filter (\<lambda>p. p \<noteq> \<lparr>ParamType = t, ParamValue = x\<rparr>) (Params v) = Params v"
    by (auto simp: has_param_def filter_id_conv)
  then show ?thesis by (simp add: without_param_def with_param_def)
qed

lemma has_with_param [simp]: "has_param t x (with_param t x v)"
  by (simp add: has_param_def with_param_def)

lemma param_frame [simp]:
  "svc_key (with_param t x v) = svc_key v" "svc_key (without_param t x v) = svc_key v"
  by (simp_all add: with_param_def without_param_def)

context service_db
begin

lemma save_params_view:
  "svc_key v = k \<Longrightarrow> snd (save_params T s v) = True \<and> tbl (fst (save_params T s v)) = (tbl s)(k \<mapsto> v)"
  using save_existing [of s v] save_row by (auto simp: save_params_def)

lemma AddParam_view:
  "snd (AddParam T k t x s) = (case tbl s k of None \<Rightarrow> False | Some v \<Rightarrow> \<not> has_param t x v)
   \<and> tbl (fst (AddParam T k t x s)) = (case tbl s k of None \<Rightarrow> tbl s
        | Some v \<Rightarrow> if has_param t x v then tbl s else (tbl s)(k \<mapsto> with_param t x v))"
proof (cases "tbl s k")
  case None
  then show ?thesis by (simp add: AddParam_def first_key)
next
  case (Some v)
  with tbl_pk have "svc_key (with_param t x v) = k" by simp
  from save_params_view [OF this] Some show ?thesis
    by (simp add: AddParam_def first_key has_param_iff with_param_def)
qed

lemma RemoveParam_view:
  "snd (RemoveParam T k t x s) = (case tbl s k of None \<Rightarrow> False | Some v \<Rightarrow> has_param t x v)
   \<and> tbl (fst (RemoveParam T k t x s)) = (case tbl s k of None \<Rightarrow> tbl s
        | Some v \<Rightarrow> if has_param t x v then (tbl s)(k \<mapsto> without_param t x v) else tbl s)"
proof (cases "tbl s k")
  case None
  then show ?thesis by (simp add: RemoveParam_def first_key)
next
  case (Some v)
  with tbl_pk have key: "svc_key (without_param t x v) = k" by simp
  have "(\<lambda>p. \<not> (ParamType p = t \<and> ParamValue p = x)) = (\<lambda>p :: service_param. p \<noteq> \<lparr>ParamType = t, ParamValue = x\<rparr>)"
    by (rule ext) (metis service_param.select_convs service_param.surjective old.unit.exhaust)
  with save_params_view [OF key] Some show ?thesis
    by (simp add: RemoveParam_def first_key has_param_iff without_param_def Let_def)
qed

lemma add_remove_param:
  assumes "tbl s k = Some v" and "\<not> has_param t x v"
  shows "snd (AddParam T k t x s) \<and> snd (RemoveParam T k t x (fst (AddParam T k t x s)))
     \<and> tbl (fst (RemoveParam T k t x (fst (AddParam T k t x s)))) = tbl s"
  using AddParam_view [of k t x s] RemoveParam_view [of k t x "fst (AddParam T k t x s)"] assms
  by (simp add: without_with_param fun_upd_idem)

end

section \<open>Properties\<close>

text \<open>
  C34. Saving a service is an insert or update of one key: it succeeds, a new service gets
  the current time, an existing one keeps its creation time, every other field is
  replaced by the given one (its parameters too), and no other service changes.
\<close>

theorem ServiceSave_upsert:
  assumes "service_db T tbl now"
  shows "snd (ServiceSave T v s) = Inr ()
   \<and> tbl (fst (ServiceSave T v s)) = (tbl s)(svc_key v \<mapsto>
       (case tbl s (svc_key v) of None \<Rightarrow> stamp now v | Some e \<Rightarrow> v\<lparr>CreatedAt := CreatedAt e\<rparr>))"
  using service_db.ServiceSave_view [OF assms] .

definition demo_service :: service where
  "demo_service = \<lparr>PublishedByNodeID = None, LocalProtocol = ''http'', LocalHost = ''web'',
     LocalPort = 8080, PublicProtocol = ''https'', PublicHost = ''a.example'', PublicPort = 443,
     Params = [], CreatedAt = 0\<rparr>"

theorem ServiceSave_upsert_witness:
  "mem_tbl svc_key (fst (ServiceSave (mem_services 7) demo_service [])) (''https'', ''a.example'', 443)
     = Some (demo_service\<lparr>CreatedAt := 7\<rparr>)"
  using ServiceSave_upsert [OF mem_service_db, of 7 demo_service "[]"]
  by (simp add: svc_key_def demo_service_def mem_tbl_def stamp_def)



text \<open>
  C36. Adding a parameter reports true exactly when the service exists without it, and then
  appends it; removing it again reports true and restores the table.
\<close>

theorem add_param_remove_param:
  assumes "service_db T tbl now" and "tbl s k = Some v" and "\<not> has_param t x v"
  shows "snd (AddParam T k t x s) \<and> snd (RemoveParam T k t x (fst (AddParam T k t x s)))
     \<and> tbl (fst (RemoveParam T k t x (fst (AddParam T k t x s)))) = tbl s"
  using service_db.add_remove_param [OF assms] .

theorem add_param_remove_param_witness:
  "snd (AddParam (mem_services 0) (svc_key demo_service) ''t'' ''x'' [demo_service])
   \<and> snd (RemoveParam (mem_services 0) (svc_key demo_service) ''t'' ''x''
       (fst (AddParam (mem_services 0) (svc_key demo_service) ''t'' ''x'' [demo_service])))
   \<and> mem_tbl svc_key (fst (RemoveParam (mem_services 0) (svc_key demo_service) ''t'' ''x''
       (fst (AddParam (mem_services 0) (svc_key demo_service) ''t'' ''x'' [demo_service]))))
     = mem_tbl svc_key [demo_service]"
  by (rule add_param_remove_param [OF mem_service_db, where v = demo_service])
    (simp_all add: mem_tbl_def has_param_def demo_service_def)

text \<open>
  Unpublishing reports true exactly when the service was published, removes it and no
  other, and a second unpublication reports false.
\<close>

theorem ServiceDelete_exact:
  assumes "service_db T tbl now"
  shows "snd (ServiceDelete T k s) = (tbl s k \<noteq> None)
     \<and> tbl (fst (ServiceDelete T k s)) = (tbl s)(k := None)
     \<and> \<not> snd (ServiceDelete T k (fst (ServiceDelete T k s)))"
  using service_db.ServiceDelete_view [OF assms] by simp

theorem ServiceDelete_exact_witness:
  "snd (ServiceDelete (mem_services 0) (svc_key demo_service) [demo_service])"
  using ServiceDelete_exact [OF mem_service_db, of 0 "svc_key demo_service" "[demo_service]"]
  by (simp add: mem_tbl_def)

section \<open>The Caddy entries\<close>

lemma publicHostname_Inl:
  "(\<exists>e. publicHostname s h = Inl e) \<longleftrightarrow> PublicProtocol s = ''https'' \<and> ParseIP h \<noteq> []"
  by (simp add: publicHostname_def Let_def)

text \<open>
  C37. A service has no Caddy entry exactly when a layer 4 protocol is mixed with the other
  one, a host is empty, or https is published on an address (the gateway's own public
  address included, whatever its form).
\<close>

theorem caddy_entry_fails_iff:
  "(\<exists>e. AsCaddyConfigEntry s g = Inl e) \<longleftrightarrow>
     (LocalProtocol s = ''udp'' \<and> PublicProtocol s = ''tcp'')
     \<or> (LocalProtocol s = ''tcp'' \<and> PublicProtocol s = ''udp'')
     \<or> LocalHost s = [] \<or> PublicHost s = []
     \<or> (PublicProtocol s = ''https'' \<and> (PublicHost s = g \<or> ParseIP (PublicHost s) \<noteq> []))"
proof -
  have z: "ParseIP ''0.0.0.0'' \<noteq> []" by code_simp
  have h: "ParseIP (caddy_host g (PublicHost s)) \<noteq> [] \<longleftrightarrow> PublicHost s = g \<or> ParseIP (PublicHost s) \<noteq> []"
    using z by (simp add: caddy_host_def)
  show ?thesis
    by (auto simp: AsCaddyConfigEntry_def Let_def rbind_Inl_iff publicHostname_def h split: if_splits)
qed

theorem caddy_entry_fails_iff_witness:
  "\<exists>e. AsCaddyConfigEntry (demo_service\<lparr>LocalProtocol := ''udp'', PublicProtocol := ''tcp''\<rparr>) [] = Inl e"
  by (rule iffD2 [OF caddy_entry_fails_iff]) simp

text \<open>
  The entry of a tcp or udp service does not depend on its public host: two services
  that differ only in the public host, which the repository keeps as two services, get the
  same listen address in the Caddy configuration.
\<close>

theorem layer4_ignores_public_host:
  assumes "PublicProtocol s = ''tcp'' \<or> PublicProtocol s = ''udp''"
    and "PublicHost s \<noteq> []" and "h \<noteq> []" and "h \<noteq> PublicHost s"
  shows "AsCaddyConfigEntry (s\<lparr>PublicHost := h\<rparr>) g = AsCaddyConfigEntry s g
     \<and> svc_key (s\<lparr>PublicHost := h\<rparr>) \<noteq> svc_key s"
  using assms by (auto simp: AsCaddyConfigEntry_def Let_def svc_key_def)

theorem layer4_ignores_public_host_witness:
  "AsCaddyConfigEntry (demo_service\<lparr>PublicProtocol := ''tcp'', PublicHost := ''b.example''\<rparr>) ''1.2.3.4''
     = AsCaddyConfigEntry (demo_service\<lparr>PublicProtocol := ''tcp''\<rparr>) ''1.2.3.4''"
  using layer4_ignores_public_host [of "demo_service\<lparr>PublicProtocol := ''tcp''\<rparr>" "''b.example''" "''1.2.3.4''"]
  by (simp add: demo_service_def)

end
