(* ===== verification/ConfigProps.thy ===== *)
theory ConfigProps
  imports Configs ServiceProps
begin

text \<open>What \<open>SaveConfigs\<close> writes, and what one unprintable service does to the Caddy file.\<close>

lemma caddy_entries_ok:
  assumes "\<And>v. v \<in> set vs \<Longrightarrow> AsCaddyConfigEntry v g = Inr (f v)"
  shows "caddy_entries g vs l4 l7
       = Inr (l4 @ map f (filter is_layer4 vs), l7 @ map f (filter (\<lambda>v. \<not> is_layer4 v) vs))"
  using assms by (induction vs arbitrary: l4 l7) simp_all

lemma caddy_entries_err:
  assumes "v \<in> set vs" and "AsCaddyConfigEntry v g = Inl e"
  shows "\<exists>e'. caddy_entries g vs l4 l7 = Inl e'"
  using assms
proof (induction vs arbitrary: l4 l7)
  case Nil
  then show ?case by simp
next
  case (Cons w ws)
  then show ?case by (cases "AsCaddyConfigEntry w g") auto
qed

text \<open>
  The Caddy text of a gateway is made from one entry per service, in order, tcp and udp
  services in the first list and all others in the second; it exists exactly when every
  service has an entry and the template executes.
\<close>

lemma caddy_config_made:
  assumes "node_Role n = NodeRoleGateway"
  shows "GetFormattedCaddyConfig K n vs = Inr text \<longleftrightarrow>
     (\<exists>f. (\<forall>v \<in> set vs. AsCaddyConfigEntry v (node_GatewayPublicIP n) = Inr (f v))
        \<and> exec_template K CaddyConfigTemplatePath
            (CaddyContext n (map f (filter is_layer4 vs)) (map f (filter (\<lambda>v. \<not> is_layer4 v) vs)))
          = Inr text)"
    (is "?l \<longleftrightarrow> ?r")
proof
  let ?g = "node_GatewayPublicIP n"
  assume l: ?l
  then obtain p where p: "caddy_entries ?g vs [] [] = Inr p"
    by (auto simp: GetFormattedCaddyConfig_def result_simps split: if_splits)
  define f where "f v = projr (AsCaddyConfigEntry v ?g)" for v
  have ok: "AsCaddyConfigEntry v ?g = Inr (f v)" if "v \<in> set vs" for v
    using caddy_entries_err [OF that, of ?g _ "[]" "[]"] p
    by (cases "AsCaddyConfigEntry v ?g") (auto simp: f_def)
  have "caddy_entries ?g vs [] [] = Inr (map f (filter is_layer4 vs), map f (filter (\<lambda>v. \<not> is_layer4 v) vs))"
    using caddy_entries_ok [of vs ?g f "[]" "[]"] ok by simp
  with l ok show ?r
    by (intro exI [of _ f]) (auto simp: GetFormattedCaddyConfig_def split: if_splits)
next
  assume ?r
  then obtain f where ok: "\<And>v. v \<in> set vs \<Longrightarrow> AsCaddyConfigEntry v (node_GatewayPublicIP n) = Inr (f v)"
    and x: "exec_template K CaddyConfigTemplatePath
      (CaddyContext n (map f (filter is_layer4 vs)) (map f (filter (\<lambda>v. \<not> is_layer4 v) vs))) = Inr text"
    by blast
  from caddy_entries_ok [of vs, OF ok, of "[]" "[]"] x assms show ?l
    by (simp add: GetFormattedCaddyConfig_def)
qed

text \<open>A file system as a map, all writes succeeding.\<close>

definition map_write :: "(string \<rightharpoonup> string) \<Rightarrow> string \<Rightarrow> string \<Rightarrow> (string \<rightharpoonup> string) result" where
  "map_write fs path text = Inr (fs(path \<mapsto> text))"

definition demo_config :: "(string \<rightharpoonup> string) config_env" where
  "demo_config = \<lparr>exec_template = (\<lambda>p c. Inr p), write_file = map_write,
     WireguardConfigPath = ''/etc/wireguard/wg0.conf'', ResolvConfigPath = ''/etc/resolv.conf'',
     CaddyConfigPath = ''/etc/caddy/Caddyfile'', CoreDNSConfigPath = ''/etc/coredns/Corefile''\<rparr>"

definition distinct_paths :: "'f config_env \<Rightarrow> bool" where
  "distinct_paths K = distinct [CaddyConfigPath K, WireguardConfigPath K, ResolvConfigPath K, CoreDNSConfigPath K]"

lemma save_config_ok:
  "config = Inr text \<Longrightarrow> write_file K = map_write \<Longrightarrow>
   save_config K must name path config fs = (fs(path \<mapsto> text), Inr ())"
  by (simp add: save_config_def map_write_def)

text \<open>
  On a gateway where every text can be made, \<open>SaveConfigs\<close> writes exactly the four
  files, whether or not they must exist.
\<close>

lemma SaveConfigs_writes_all:
  assumes "node_Role n = NodeRoleGateway" and "write_file K = map_write"
    and "GetFormattedCoreDNSConfig K n = Inr a" and "GetFormattedResolvConfig K n = Inr b"
    and "GetFormattedCaddyConfig K n vs = Inr c"
  shows "SaveConfigs K n vs must fs
       = (fs(CoreDNSConfigPath K \<mapsto> a, ResolvConfigPath K \<mapsto> b,
             WireguardConfigPath K \<mapsto> ToINI (node_WGConfig n), CaddyConfigPath K \<mapsto> c), Inr ())"
  using assms by (simp add: SaveConfigs_def s_bind_def save_config_ok GetFormattedWireguardConfig_def)

definition gateway_node :: node where
  "gateway_node = zero_node\<lparr>node_Role := NodeRoleGateway, node_GatewayPublicIP := ''203.0.113.7''\<rparr>"

lemma frozen_caddy:
  assumes "node_Role n = NodeRoleGateway" and "write_file K = map_write" and "distinct_paths K"
    and "GetFormattedCoreDNSConfig K n = Inr a" and "GetFormattedResolvConfig K n = Inr b"
    and "v \<in> set vs" and "AsCaddyConfigEntry v (node_GatewayPublicIP n) = Inl e"
  shows "snd (SaveConfigs K n vs False fs) = Inr ()
     \<and> fst (SaveConfigs K n vs False fs) (CaddyConfigPath K) = fs (CaddyConfigPath K)
     \<and> snd (SaveConfigs K n vs True fs)
       = Inl (ErrText (''caddy can'' @ [CHR 0x27] @ ''t be empty''))"
proof -
  obtain e' where "GetFormattedCaddyConfig K n vs = Inl e'"
    using caddy_entries_err [OF assms(6,7), of "[]" "[]"] assms(1)
    by (auto simp: GetFormattedCaddyConfig_def)
  with assms(1-5) show ?thesis
    by (simp add: SaveConfigs_def s_bind_def save_config_ok GetFormattedWireguardConfig_def
        save_config_def [of _ _ "''caddy''"] distinct_paths_def)
qed

text \<open>
  One service without a Caddy entry freezes the Caddy file: with \<open>configsMustExist\<close> false
  (as after publishing) \<open>SaveConfigs\<close> reports success and writes the other files, but the
  Caddy file keeps its old text, whatever the other services are; with it true (as at the
  start of a gateway) the same state is an error.
\<close>

theorem bad_service_freezes_caddy:
  assumes "node_Role n = NodeRoleGateway" and "write_file K = map_write" and "distinct_paths K"
    and "GetFormattedCoreDNSConfig K n = Inr a" and "GetFormattedResolvConfig K n = Inr b"
    and "v \<in> set vs" and "AsCaddyConfigEntry v (node_GatewayPublicIP n) = Inl e"
  shows "snd (SaveConfigs K n vs False fs) = Inr ()
     \<and> fst (SaveConfigs K n vs False fs) (CaddyConfigPath K) = fs (CaddyConfigPath K)
     \<and> snd (SaveConfigs K n vs True fs)
       = Inl (ErrText (''caddy can'' @ [CHR 0x27] @ ''t be empty''))"
  using frozen_caddy [OF assms] .

theorem bad_service_freezes_caddy_witness:
  "snd (SaveConfigs demo_config gateway_node [demo_service\<lparr>PublicHost := ''203.0.113.7''\<rparr>] False Map.empty) = Inr ()
   \<and> fst (SaveConfigs demo_config gateway_node [demo_service\<lparr>PublicHost := ''203.0.113.7''\<rparr>] False Map.empty)
       ''/etc/caddy/Caddyfile'' = None"
proof -
  have p: "CaddyConfigPath demo_config = ''/etc/caddy/Caddyfile''" by (simp add: demo_config_def)
  have e: "AsCaddyConfigEntry (demo_service\<lparr>PublicHost := ''203.0.113.7''\<rparr>)
      (node_GatewayPublicIP gateway_node) = Inl (ErrText ''https on ip address is not supported'')"
  proof -
    have "ParseIP ''0.0.0.0'' \<noteq> []" by code_simp
    then show ?thesis
      by (simp add: AsCaddyConfigEntry_def publicHostname_def caddy_host_def Let_def demo_service_def
          gateway_node_def)
  qed
  show ?thesis
    using bad_service_freezes_caddy [OF _ _ _ _ _ _ e, of demo_config _ _
        "[demo_service\<lparr>PublicHost := ''203.0.113.7''\<rparr>]" Map.empty]
    by (simp add: p) (simp add: gateway_node_def demo_config_def distinct_paths_def
        GetFormattedCoreDNSConfig_def GetFormattedResolvConfig_def)
qed

end
