(* ===== verification/JoinHandlerProps.thy ===== *)
theory JoinHandlerProps
  imports JoinHandler NodesOps ConfigProps
begin

text \<open>What the join handler guarantees, and what it leaves behind when it fails.\<close>

lemma attempt_Inr:
  assumes "attempt m h k s = (s', Inr x)"
  obtains y t where "m s = (t, Inr y)" and "k y t = (s', Inr x)"
  | e t where "m s = (t, Inl e)" and "h e t = (s', Inr x)"
  using assms by (auto simp: attempt_def split: prod.splits sum.splits if_splits)

lemma attempt_bad_request:
  assumes "attempt m bad_request k s = (s', Inr (JoinResponse n))"
  obtains y t where "m s = (t, Inr y)" and "k y t = (s', Inr (JoinResponse n))"
  using assms by (rule attempt_Inr) (auto simp: bad_request_def s_read_def)

lemma requests_kept [simp]:
  "w_requests (fst (on_nodes m w)) = w_requests w"
  "w_requests (fst (on_services m' w)) = w_requests w"
  "w_requests (fst (on_machine f w)) = w_requests w"
  by (simp_all add: on_nodes_def on_services_def on_machine_def split: prod.splits)

lemma on_requests_read: "on_requests (s_read f) w = (w, f (w_requests w))"
  by (simp add: on_requests_def s_read_def)

lemma on_nodes_read: "on_nodes (s_read f) w = (w, f (w_nodes w))"
  by (simp add: on_nodes_def s_read_def)

lemma on_services_read: "on_services (s_read f) w = (w, f (w_services w))"
  by (simp add: on_services_def s_read_def)

lemma requests_of_step:
  "on_nodes m w = (t, r) \<Longrightarrow> w_requests t = w_requests w"
  "on_machine f w = (t, r') \<Longrightarrow> w_requests t = w_requests w"
  by (auto simp: on_nodes_def on_machine_def split: prod.splits)

lemma update_gateway_response:
  assumes "update_gateway C i restart w = (w', Inr (JoinResponse n))"
  obtains t where "w_requests t = w_requests w" and "restart t = (w', Inr (JoinResponse n))"
proof -
  from assms obtain g where 1: "(case g of None \<Rightarrow> s_read (\<lambda>_. Inr (BadRequest []))
     | Some gw \<Rightarrow>
         attempt (on_services (s_read (ServiceGetAll (c_services C)))) bad_request (\<lambda>publicServices.
         attempt (on_machine (SaveConfigs (c_config C) gw publicServices False)) bad_request (\<lambda>_.
         deref (node_GatewayCertBundle gw) (\<lambda>certBundle.
         attempt (on_nodes (SaveNode (c_nodes C)
                    (gw\<lparr>node_GatewayCertBundle := Some (RemoveClient i certBundle)\<rparr>)))
           bad_request (\<lambda>_. restart))))) w = (w', Inr (JoinResponse n))"
    unfolding update_gateway_def by (elim attempt_bad_request) (auto simp: on_nodes_read)
  then obtain gw where g: "g = Some gw" by (cases g) (auto simp: s_read_def)
  from 1 obtain vs t1 where t1: "on_machine (SaveConfigs (c_config C) gw vs False) w = (t1, Inr ())"
    and 2: "deref (node_GatewayCertBundle gw) (\<lambda>certBundle.
         attempt (on_nodes (SaveNode (c_nodes C)
                    (gw\<lparr>node_GatewayCertBundle := Some (RemoveClient i certBundle)\<rparr>)))
           bad_request (\<lambda>_. restart)) t1 = (w', Inr (JoinResponse n))"
    unfolding g option.case by (elim attempt_bad_request) (auto simp: on_services_read)
  from 2 obtain b where b: "node_GatewayCertBundle gw = Some b"
    by (cases "node_GatewayCertBundle gw") (auto simp: deref_def)
  from 2 obtain t2 u where "on_nodes (SaveNode (c_nodes C)
         (gw\<lparr>node_GatewayCertBundle := Some (RemoveClient i b)\<rparr>)) t1 = (t2, Inr u)"
    and "restart t2 = (w', Inr (JoinResponse n))"
    unfolding deref_def b option.case by (elim attempt_bad_request) auto
  with that [of t2] requests_of_step(2) [OF t1] show thesis by (simp add: requests_of_step(1))
qed

lemma create_for_role_response:
  assumes "create_for_role C c r k w = (w', Inr (JoinResponse n))"
  obtains t m where "w_requests t = w_requests w" and "k m t = (w', Inr (JoinResponse n))"
proof (cases "jr_Role r = NodeRoleServer")
  case True
  with assms obtain t1 m where "w_requests t1 = w_requests w"
    and "update_gateway C (jr_ID r)
          (ignoring (on_machine (RestartNetworkApps C True False False))
             (s_bind ScheduleNetworkAppsRestart (\<lambda>_. k m))) t1 = (w', Inr (JoinResponse n))"
    unfolding create_for_role_def by (auto elim!: attempt_bad_request dest: requests_of_step)
  then obtain t2 where t2: "w_requests t2 = w_requests w"
    and ig: "ignoring (on_machine (RestartNetworkApps C True False False))
             (s_bind ScheduleNetworkAppsRestart (\<lambda>_. k m)) t2 = (w', Inr (JoinResponse n))"
    by (auto elim!: update_gateway_response)
  from ig obtain t3 x where t3: "on_machine (RestartNetworkApps C True False False) t2 = (t3, x)"
    and sch: "s_bind ScheduleNetworkAppsRestart (\<lambda>_. k m) t3 = (w', Inr (JoinResponse n))"
    unfolding ignoring_def by (elim attempt_Inr) auto
  from sch have "k m (t3\<lparr>w_restart_pending := True\<rparr>) = (w', Inr (JoinResponse n))"
    by (simp add: s_bind_def ScheduleNetworkAppsRestart_def)
  moreover have "w_requests (t3\<lparr>w_restart_pending := True\<rparr>) = w_requests w"
    using requests_of_step(2) [OF t3] t2 by simp
  ultimately show thesis using that by blast
next
  case False
  with assms have client: "jr_Role r = NodeRoleClient"
    by (auto simp: create_for_role_def s_read_def split: if_splits)
  with False assms obtain t1 m where "w_requests t1 = w_requests w"
    and "update_gateway C (jr_ID r)
          (attempt (on_machine (RestartNetworkApps C True False False)) bad_request (\<lambda>_. k m)) t1
          = (w', Inr (JoinResponse n))"
    unfolding create_for_role_def by (auto elim!: attempt_bad_request dest: requests_of_step)
  then obtain t2 where "w_requests t2 = w_requests w"
    and "attempt (on_machine (RestartNetworkApps C True False False)) bad_request (\<lambda>_. k m) t2
          = (w', Inr (JoinResponse n))"
    by (auto elim!: update_gateway_response)
  then obtain t3 u where "on_machine (RestartNetworkApps C True False False) t2 = (t3, Inr u)"
    and k: "k m t3 = (w', Inr (JoinResponse n))" and "w_requests t2 = w_requests w"
    by (elim conjE attempt_bad_request)
  then have "w_requests t3 = w_requests w" using requests_of_step(2) by metis
  then show thesis using k by (rule that)
qed

section \<open>A join that succeeds\<close>

lemma attempt_ok: "m w = (t, Inr x) \<Longrightarrow> attempt m h k w = k x t"
  by (simp add: attempt_def)

lemma ignoring_eq:
  "(\<And>e. snd (m w) = Inl e \<Longrightarrow> \<not> is_panic e) \<Longrightarrow> ignoring m k w = k (fst (m w))"
  by (simp add: ignoring_def attempt_def split: prod.split sum.split)

lemma restart_no_panic:
  "snd (on_machine (RestartNetworkApps C a b c) w) = Inl e \<Longrightarrow> \<not> is_panic e"
  by (auto simp: on_machine_def RestartNetworkApps_def Let_def s_bind_def restart_app_def is_panic_def
      split: prod.splits sum.splits if_splits)

lemma restart_frame:
  "w_nodes (fst (on_machine f w)) = w_nodes w"
  "w_services (fst (on_machine f w)) = w_services w"
  by (simp_all add: on_machine_def split: prod.splits)

definition writable :: "'f config_env \<Rightarrow> bool" where
  "writable K \<longleftrightarrow> (\<forall>f p t. \<exists>f'. write_file K f p t = Inr f')"

lemma save_config_writable:
  assumes "writable K"
  shows "snd (save_config K False name path t f) = Inr ()"
proof -
  obtain g where "write_file K f path x = Inr (g x)" for x
    using assms by (metis writable_def)
  then show ?thesis by (simp add: save_config_def split: sum.split)
qed

lemma SaveConfigs_writable:
  assumes "writable K" and "node_Role n = NodeRoleGateway"
  shows "snd (SaveConfigs K n vs False f) = Inr ()"
  using assms by (simp add: SaveConfigs_def s_bind_eq save_config_writable)

context node_db
begin

lemma save_gateway:
  assumes ok: "net_ok (ran (tbl s))" and gw: "tbl s (node_ID gw) = Some gw"
    and c: "core gw' = core gw"
  shows "\<exists>s'. SaveNode T gw' s = (s', Inr ()) \<and> tbl s' = (tbl s)(node_ID gw \<mapsto> gw')"
proof -
  have i: "node_ID gw' = node_ID gw" by (rule core_eqD(1) [OF c])
  have a: "node_addr gw' = node_addr gw" by (rule core_eqD(4) [OF c])
  have "\<exists>s'. db_save T s gw' = Inr s'"
  proof (rule save_ok)
    fix k r assume r: "tbl s k = Some r" and k: "k \<noteq> node_ID gw'"
    have "node_ID r = k" using tbl_pk [OF r] .
    moreover have "compat r gw" using ok r gw by (auto simp: net_ok_def intro: ranI)
    ultimately have "node_addr r \<noteq> node_addr gw'" using k i a by (auto simp: compat_def)
    then show "node_WGConfig r \<noteq> node_WGConfig gw'" by (auto simp: node_addr_def)
  qed
  then obtain s' where "db_save T s gw' = Inr s'" by blast
  moreover from save_row [OF this] i have "tbl s' = (tbl s)(node_ID gw \<mapsto> gw')" by simp
  ultimately show ?thesis by (auto simp: SaveNode_def s_write_def)
qed

end

lemma on_nodes_op:
  "m (w_nodes w) = (s, r) \<Longrightarrow> on_nodes m w = (w\<lparr>w_nodes := s\<rparr>, r)"
  by (simp add: on_nodes_def)

lemma on_requests_op:
  "m (w_requests w) = (s, r) \<Longrightarrow> on_requests m w = (w\<lparr>w_requests := s\<rparr>, r)"
  by (simp add: on_requests_def)

lemma update_gateway_ok:
  assumes db: "node_db (c_nodes C) tbl" and vdb: "service_db (c_services C) stbl now"
    and wr: "writable (c_config C)" and ok: "net_ok (ran (tbl (w_nodes w)))"
    and gw: "tbl (w_nodes w) (node_ID gw) = Some gw" "node_Role gw = NodeRoleGateway"
    and b: "node_GatewayCertBundle gw = Some b"
  shows "\<exists>t. update_gateway C i restart w = restart t
     \<and> tbl (w_nodes t) = (tbl (w_nodes w))(node_ID gw \<mapsto>
          gw\<lparr>node_GatewayCertBundle := Some (RemoveClient i b)\<rparr>)
     \<and> w_services t = w_services w \<and> w_requests t = w_requests w"
proof -
  let ?gw = "gw\<lparr>node_GatewayCertBundle := Some (RemoveClient i b)\<rparr>"
  have "gw \<in> ran (tbl (w_nodes w))" using gw(1) by (rule ranI)
  from node_db.first_gateway [OF db ok this gw(2)]
  have g: "GetGatewayNode (c_nodes C) (w_nodes w) = Inr (Some gw)" by (simp add: GetGatewayNode_def)
  obtain vs where vs: "ServiceGetAll (c_services C) (w_services w) = Inr vs"
    using service_db.ServiceGetAll_view [OF vdb] by blast
  define t1 where "t1 = fst (on_machine (SaveConfigs (c_config C) gw vs False) w)"
  have "snd (on_machine (SaveConfigs (c_config C) gw vs False) w) = Inr ()"
    using SaveConfigs_writable [OF wr gw(2), of vs "w_machine w"]
    by (simp add: on_machine_def split_beta)
  then have t1: "on_machine (SaveConfigs (c_config C) gw vs False) w = (t1, Inr ())"
    by (simp add: t1_def prod_eq_iff)
  have n1: "w_nodes t1 = w_nodes w" "w_services t1 = w_services w" "w_requests t1 = w_requests w"
    by (simp_all add: t1_def restart_frame requests_kept(3))
  have "core ?gw = core gw" using b by (simp add: core_def)
  from node_db.save_gateway [OF db ok gw(1) this] obtain s'
    where s': "SaveNode (c_nodes C) ?gw (w_nodes w) = (s', Inr ())"
      "tbl s' = (tbl (w_nodes w))(node_ID gw \<mapsto> ?gw)" by blast
  have t2: "on_nodes (SaveNode (c_nodes C) ?gw) t1 = (t1\<lparr>w_nodes := s'\<rparr>, Inr ())"
    by (rule on_nodes_op) (simp add: n1 s'(1))
  have "update_gateway C i restart w = restart (t1\<lparr>w_nodes := s'\<rparr>)"
    unfolding update_gateway_def
    by (simp add: attempt_def on_nodes_read on_services_read g vs t1 deref_def b t2)
  with s'(2) n1 show ?thesis by (intro exI [of _ "t1\<lparr>w_nodes := s'\<rparr>"]) simp
qed

lemma map_delete_key:
  assumes "gorm_table R rtbl jr_ID rhook"
  shows "map_delete (\<lambda>r. jr_ID r = i) (rtbl s) = (rtbl s)(i := None)"
  by (rule ext) (auto simp: map_delete_def split: option.split dest: gorm_table.tbl_pk [OF assms])

lemma request_delete:
  assumes "reliable_table R rtbl jr_ID rhook ruq"
  shows "\<exists>s'. JoinRequestDelete R i s = (s', Inr ()) \<and> rtbl s' = (rtbl s)(i := None)"
proof -
  from reliable_table.delete_ok [OF assms] obtain s' n
    where d: "db_delete R s (\<lambda>r. jr_ID r = i) = Inr (s', n)" by blast
  have g: "gorm_table R rtbl jr_ID rhook" using assms by (simp add: reliable_table_def)
  have "rtbl s' = (rtbl s)(i := None)"
    using gorm_table.delete_rows [OF g d] map_delete_key [OF g] by simp
  then show ?thesis using d by (auto simp: JoinRequestDelete_def s_write_def)
qed

lemma request_get:
  assumes "reliable_table R rtbl jr_ID rhook ruq" and "rtbl s i = Some r"
  shows "JoinRequestGet R i s = Inr r"
proof -
  have g: "gorm_table R rtbl jr_ID rhook" using assms(1) by (simp add: reliable_table_def)
  from gorm_table.tbl_pk [OF g assms(2)] have "jr_ID r = i" .
  with reliable_table.first_ok [OF assms, of "\<lambda>r. jr_ID r = i"] obtain r'
    where r': "db_first R s (\<lambda>r. jr_ID r = i) = Inr r'" by blast
  from gorm_table.first_row [OF g r'] assms(2) have "r' = r" by auto
  with r' show ?thesis by (simp add: JoinRequestGet_def)
qed

lemma join_server_run:
  fixes C :: "('n, 'v, 'j, 't, 'f, 'c, 'k) deps" and w :: "('n, 'v, 'j, 't, 'f) world"
  assumes "node_db (c_nodes C) tbl" and "service_db (c_services C) stbl now"
    and "reliable_table (c_requests C) rtbl jr_ID rhook ruq" and "writable (c_config C)"
    and "net_ok (ran (tbl (w_nodes w)))" and "gw \<in> ran (tbl (w_nodes w))"
    and "node_Role gw = NodeRoleGateway" and "node_ID gw \<noteq> []"
    and "tbl (w_nodes w) (env_uuid (c_env C)) = None"
    and "GenerateKeyPair (env_exec (c_env C)) = Inr ks" and "node_GatewayCertBundle gw = Some b"
    and "AddClient (env_crypto (c_env C)) (env_rnd (c_env C)) (env_now (c_env C))
           (client_options (env_uuid (c_env C))) b = Inr b'"
    and "card (ran (tbl (w_nodes w))) < 254"
    and "card {n \<in> ran (tbl (w_nodes w)). node_Role n = NodeRoleServer} < 12"
    and "FromBase64 (c_json C) t = Inr c" and "jr_DockerSubnet c = None"
    and "rtbl (w_requests w) (jr_ID c) = Some r" and "ToBase64 (c_json C) r = Inr t"
    and "jr_Role r = NodeRoleServer"
  shows "\<exists>w' n gw'. handle_join_token C t w = (w', Inr (JoinResponse n))
     \<and> node_ID n = env_uuid (c_env C) \<and> node_Role n = NodeRoleServer
     \<and> tbl (w_nodes w') (env_uuid (c_env C)) = Some n
     \<and> tbl (w_nodes w') (node_ID gw) = Some gw'
     \<and> node_GatewayCertBundle gw' = Some (RemoveClient (jr_ID r) b')
     \<and> rtbl (w_requests w') = (rtbl (w_requests w))(jr_ID c := None)
     \<and> w_services w' = w_services w \<and> w_restart_pending w'"
proof -
  let ?E = "c_env C" and ?N = "tbl (w_nodes w)"
  have fresh_id: "env_uuid ?E \<noteq> node_ID gw"
    using assms(6,9) node_db.rows_iff [OF assms(1)] by auto
  obtain i where i: "GetNextAssignableWGPrivateIP (c_nodes C) (w_nodes w) = Inr i"
    using node_db.wg_room [OF assms(1) assms(13)] by blast
  obtain d where d: "GetNextAssignableDockerSubnet (c_nodes C) (w_nodes w) = Inr d"
    using node_db.docker_room [OF assms(1) _ assms(14)] assms(5) by blast
  have "choose_docker_subnet (c_nodes C) None (w_nodes w) = Inr d"
    using d by (simp add: choose_docker_subnet_def)
  from node_db.create_server_result [OF assms(1,5-12) i this] obtain s1 n gw1
    where cr: "CreateServer ?E (c_nodes C) None (w_nodes w) = (s1, Inr n)"
      and n: "node_ID n = env_uuid ?E" "node_Role n = NodeRoleServer" "tbl s1 (env_uuid ?E) = Some n"
      and g1: "tbl s1 (node_ID gw) = Some gw1" "node_GatewayCertBundle gw1 = Some b'"
        "node_Role gw1 = NodeRoleGateway"
    by blast
  have ok1: "net_ok (ran (tbl s1))"
    using node_db.CreateServer_net_ok [OF assms(1,5), of ?E None] by (simp add: cr)
  have "gorm_table (c_nodes C) tbl node_ID BeforeCreate"
    using assms(1) by (simp add: node_db_def reliable_table_def)
  from gorm_table.tbl_pk [OF this g1(1)] have id1: "node_ID gw1 = node_ID gw" .
  define w1 where "w1 = w\<lparr>w_nodes := s1\<rparr>"
  have w1: "on_nodes (CreateServer ?E (c_nodes C) None) w = (w1, Inr n)"
    by (simp add: on_nodes_def cr w1_def)
  let ?gw = "gw1\<lparr>node_GatewayCertBundle := Some (RemoveClient (jr_ID r) b')\<rparr>"
  define k where "k = (\<lambda>m. attempt (on_requests (JoinRequestDelete (c_requests C) (jr_ID c)))
     bad_request (\<lambda>_. s_read (\<lambda>_. Inr (JoinResponse m))) :: ('n, 'v, 'j, 't, 'f) join_handler)"
  from update_gateway_ok [OF assms(1,2,4), of w1 gw1 b' "jr_ID r"
      "ignoring (on_machine (RestartNetworkApps C True False False))
             (s_bind ScheduleNetworkAppsRestart (\<lambda>_. k n))"] ok1 g1 id1
  obtain w2 where w2: "update_gateway C (jr_ID r)
        (ignoring (on_machine (RestartNetworkApps C True False False))
             (s_bind ScheduleNetworkAppsRestart (\<lambda>_. k n))) w1
      = ignoring (on_machine (RestartNetworkApps C True False False))
             (s_bind ScheduleNetworkAppsRestart (\<lambda>_. k n)) w2"
    and t2: "tbl (w_nodes w2) = (tbl s1)(node_ID gw \<mapsto> ?gw)"
    and f2: "w_services w2 = w_services w" "w_requests w2 = w_requests w"
    unfolding w1_def by auto
  define w3 where "w3 = (fst (on_machine (RestartNetworkApps C True False False) w2))\<lparr>w_restart_pending := True\<rparr>"
  have f3: "w_nodes w3 = w_nodes w2" "w_services w3 = w_services w" "w_requests w3 = w_requests w"
    "w_restart_pending w3"
    by (simp_all add: w3_def restart_frame requests_kept(3) f2)
  have w3: "ignoring (on_machine (RestartNetworkApps C True False False))
             (s_bind ScheduleNetworkAppsRestart (\<lambda>_. k n)) w2 = k n w3"
    by (subst ignoring_eq [OF restart_no_panic])
      (simp_all add: s_bind_def ScheduleNetworkAppsRestart_def w3_def)
  obtain rs where rs: "JoinRequestDelete (c_requests C) (jr_ID c) (w_requests w3) = (rs, Inr ())"
    "rtbl rs = (rtbl (w_requests w3))(jr_ID c := None)"
    using request_delete [OF assms(3)] by blast
  define w4 where "w4 = w3\<lparr>w_requests := rs\<rparr>"
  have w4: "k n w3 = (w4, Inr (JoinResponse n))"
    by (simp add: k_def attempt_def on_requests_def rs(1) w4_def s_read_def)
  have get: "JoinRequestGet (c_requests C) (jr_ID c) (w_requests w) = Inr r"
    by (rule request_get [OF assms(3,17)])
  have "handle_join_token C t w = create_for_role C c r k w"
    by (simp add: handle_join_token_def check_token_def attempt_def s_read_def on_requests_def
        assms(15,18) get k_def)
  also have "\<dots> = (w4, Inr (JoinResponse n))"
    using assms(16,19) by (simp add: create_for_role_def attempt_def w1 w2 w3 w4)
  finally have "handle_join_token C t w = (w4, Inr (JoinResponse n))" .
  moreover have "tbl (w_nodes w4) (env_uuid ?E) = Some n" "tbl (w_nodes w4) (node_ID gw) = Some ?gw"
    using n(3) fresh_id by (simp_all add: w4_def f3 t2)
  moreover have "rtbl (w_requests w4) = (rtbl (w_requests w))(jr_ID c := None)"
    by (simp add: w4_def rs(2) f3)
  ultimately show ?thesis using n(1,2) f3
    by (intro exI [of _ w4] exI [of _ n] exI [of _ ?gw]) (simp add: w4_def)
qed

text \<open>
  C3. On a well-formed network with room, the token of a stored server request is answered
  with a new server: its row is stored, the gateway's row holds its certificate and no
  longer the one of the request, the request is gone, no service changes, and a delayed
  restart is scheduled. A restart of WireGuard that fails does not matter.
\<close>

theorem join_server_succeeds:
  fixes C :: "('n, 'v, 'j, 't, 'f, 'c, 'k) deps" and w :: "('n, 'v, 'j, 't, 'f) world"
  assumes "node_db (c_nodes C) tbl" and "service_db (c_services C) stbl now"
    and "reliable_table (c_requests C) rtbl jr_ID rhook ruq" and "writable (c_config C)"
    and "net_ok (ran (tbl (w_nodes w)))" and "gw \<in> ran (tbl (w_nodes w))"
    and "node_Role gw = NodeRoleGateway" and "node_ID gw \<noteq> []"
    and "tbl (w_nodes w) (env_uuid (c_env C)) = None"
    and "GenerateKeyPair (env_exec (c_env C)) = Inr ks" and "node_GatewayCertBundle gw = Some b"
    and "AddClient (env_crypto (c_env C)) (env_rnd (c_env C)) (env_now (c_env C))
           (client_options (env_uuid (c_env C))) b = Inr b'"
    and "card (ran (tbl (w_nodes w))) < 254"
    and "card {n \<in> ran (tbl (w_nodes w)). node_Role n = NodeRoleServer} < 12"
    and "FromBase64 (c_json C) t = Inr c" and "jr_DockerSubnet c = None"
    and "rtbl (w_requests w) (jr_ID c) = Some r" and "ToBase64 (c_json C) r = Inr t"
    and "jr_Role r = NodeRoleServer"
  shows "\<exists>w' n gw'. handle_join_token C t w = (w', Inr (JoinResponse n))
     \<and> node_ID n = env_uuid (c_env C) \<and> node_Role n = NodeRoleServer
     \<and> tbl (w_nodes w') (env_uuid (c_env C)) = Some n
     \<and> tbl (w_nodes w') (node_ID gw) = Some gw'
     \<and> node_GatewayCertBundle gw' = Some (RemoveClient (jr_ID r) b')
     \<and> rtbl (w_requests w') = (rtbl (w_requests w))(jr_ID c := None)
     \<and> w_services w' = w_services w \<and> w_restart_pending w'"
  by (rule join_server_run [OF assms])

section \<open>A token is good for one join\<close>

lemma request_gone:
  assumes "gorm_table R rtbl jr_ID rhook" and "rtbl s i = None"
  shows "JoinRequestGet R i s \<noteq> Inr r"
proof
  assume "JoinRequestGet R i s = Inr r"
  then have f: "db_first R s (\<lambda>r. jr_ID r = i) = Inr r" by (simp add: JoinRequestGet_def)
  from gorm_table.first_row [OF assms(1) f] assms(2) show False by auto
qed

lemma check_token_refuses:
  assumes "gorm_table (c_requests C) rtbl jr_ID rhook" and "FromBase64 (c_json C) t = Inr c"
    and "rtbl (w_requests w) (jr_ID c) = None"
  shows "fst (check_token C t k w) = w \<and> snd (check_token C t k w) \<noteq> Inr (JoinResponse m)"
proof (cases "JoinRequestGet (c_requests C) (jr_ID c) (w_requests w)")
  case (Inl e)
  then show ?thesis
    by (simp add: check_token_def attempt_def s_read_def on_requests_def bad_request_def assms(2))
next
  case (Inr r)
  with request_gone [OF assms(1,3)] show ?thesis by blast
qed

text \<open>
  C4. A join is answered with a node only for a token that is the text of a stored request,
  and the request is then removed. Whatever happens next, as long as no request with that
  id is stored again the same token is refused, and the refusal changes nothing.
\<close>

theorem join_token_single_use:
  fixes C C' :: "('n, 'v, 'j, 't, 'f, 'c, 'k) deps"
  assumes "gorm_table (c_requests C) rtbl jr_ID rhook"
    and "handle_join_token C t w = (w', Inr (JoinResponse n))"
    and "c_requests C' = c_requests C" and "c_json C' = c_json C"
  shows "\<exists>c r. FromBase64 (c_json C) t = Inr c \<and> rtbl (w_requests w) (jr_ID c) = Some r
     \<and> ToBase64 (c_json C) r = Inr t
     \<and> rtbl (w_requests w') = (rtbl (w_requests w))(jr_ID c := None)
     \<and> (\<forall>w2 m. rtbl (w_requests w2) (jr_ID c) = None \<longrightarrow>
          fst (handle_join_token C' t w2) = w2
          \<and> snd (handle_join_token C' t w2) \<noteq> Inr (JoinResponse m))"
proof -
  let ?del = "\<lambda>c :: join_request. JoinRequestDelete (c_requests C) (jr_ID c)"
  define k where "k = (\<lambda>c m. attempt (on_requests (?del c)) bad_request
     (\<lambda>_. s_read (\<lambda>_. Inr (JoinResponse m))) :: ('n, 'v, 'j, 't, 'f) join_handler)"
  have "check_token C t (\<lambda>c r. create_for_role C c r (k c)) w = (w', Inr (JoinResponse n))"
    using assms(2) by (simp add: handle_join_token_def k_def)
  then obtain c r where c: "FromBase64 (c_json C) t = Inr c"
    and r: "JoinRequestGet (c_requests C) (jr_ID c) (w_requests w) = Inr r"
    and tok: "ToBase64 (c_json C) r = Inr t"
    and cr: "create_for_role C c r (k c) w = (w', Inr (JoinResponse n))"
    unfolding check_token_def
    by (elim attempt_bad_request) (auto simp: s_read_def on_requests_def split: if_splits)
  from cr obtain w1 m where w1: "w_requests w1 = w_requests w"
    and del: "k c m w1 = (w', Inr (JoinResponse n))" by (rule create_for_role_response)
  from del obtain rs where "?del c (w_requests w1) = (rs, Inr ())" and w': "w_requests w' = rs"
    unfolding k_def
    by (elim attempt_bad_request) (auto simp: s_read_def on_requests_def split: prod.splits)
  then obtain cnt where d: "db_delete (c_requests C) (w_requests w) (\<lambda>r. jr_ID r = jr_ID c) = Inr (rs, cnt)"
    by (auto simp: JoinRequestDelete_def s_write_def result_simps w1 split: sum.splits)
  from r have f: "db_first (c_requests C) (w_requests w) (\<lambda>r. jr_ID r = jr_ID c) = Inr r"
    by (simp add: JoinRequestGet_def)
  have row: "rtbl (w_requests w) (jr_ID c) = Some r"
    using gorm_table.first_row [OF assms(1) f] by metis
  have gone: "rtbl rs = (rtbl (w_requests w))(jr_ID c := None)"
    using gorm_table.delete_rows [OF assms(1) d] map_delete_key [OF assms(1)] by simp
  have "fst (handle_join_token C' t w2) = w2 \<and> snd (handle_join_token C' t w2) \<noteq> Inr (JoinResponse m)"
    if "rtbl (w_requests w2) (jr_ID c) = None" for w2 m
    unfolding handle_join_token_def
    by (rule check_token_refuses [of C' rtbl rhook t c]) (simp_all add: that assms(1,3,4) c)
  with c row tok gone w' show ?thesis by auto
qed

section \<open>What a failed join leaves behind\<close>

lemma restart_refused:
  assumes "\<And>f. snd (RestartNetworkApps C True False False f) \<noteq> Inr ()"
  shows "\<exists>w'. attempt (on_machine (RestartNetworkApps C True False False)) bad_request k w
       = (w', Inr (BadRequest [])) \<and> w_nodes w' = w_nodes w \<and> w_requests w' = w_requests w"
proof -
  define w' where "w' = fst (on_machine (RestartNetworkApps C True False False) w)"
  have "snd (on_machine (RestartNetworkApps C True False False) w) \<noteq> Inr ()"
    using assms [of "w_machine w"] by (simp add: on_machine_def split_beta)
  then obtain e where e: "on_machine (RestartNetworkApps C True False False) w = (w', Inl e)"
    unfolding w'_def by (cases "snd (on_machine (RestartNetworkApps C True False False) w)")
      (auto simp: prod_eq_iff)
  have "\<not> is_panic e" by (rule restart_no_panic [of C True False False w]) (simp add: e)
  then have "attempt (on_machine (RestartNetworkApps C True False False)) bad_request k w
      = (w', Inr (BadRequest []))"
    by (simp add: attempt_def e bad_request_def s_read_def)
  moreover have "w_nodes w' = w_nodes w" "w_requests w' = w_requests w"
    by (simp_all add: w'_def restart_frame requests_kept(3))
  ultimately show ?thesis by blast
qed

lemma client_row_created:
  assumes "node_db (c_nodes C) tbl" and "net_ok (ran (tbl (w_nodes w)))"
    and "gw \<in> ran (tbl (w_nodes w))" and "node_Role gw = NodeRoleGateway" and "node_ID gw \<noteq> []"
    and "tbl (w_nodes w) (env_uuid (c_env C)) = None"
    and "GenerateKeyPair (env_exec (c_env C)) = Inr ks" and "node_GatewayCertBundle gw = Some b"
    and "AddClient (env_crypto (c_env C)) (env_rnd (c_env C)) (env_now (c_env C))
           (client_options (env_uuid (c_env C))) b = Inr b'"
    and "card (ran (tbl (w_nodes w))) < 254"
  shows "\<exists>s1 n gw1. on_nodes (CreateClient (c_env C) (c_nodes C)) w = (w\<lparr>w_nodes := s1\<rparr>, Inr n)
     \<and> node_Role n = NodeRoleClient \<and> tbl s1 (env_uuid (c_env C)) = Some n
     \<and> tbl s1 (node_ID gw) = Some gw1 \<and> node_GatewayCertBundle gw1 = Some b'
     \<and> node_Role gw1 = NodeRoleGateway \<and> node_ID gw1 = node_ID gw \<and> net_ok (ran (tbl s1))"
proof -
  obtain i where i: "GetNextAssignableWGPrivateIP (c_nodes C) (w_nodes w) = Inr i"
    using node_db.wg_room [OF assms(1,10)] by blast
  from node_db.create_client_result [OF assms(1-9) i] obtain s1 n gw1
    where cr: "CreateClient (c_env C) (c_nodes C) (w_nodes w) = (s1, Inr n)"
      and n: "node_Role n = NodeRoleClient" "tbl s1 (env_uuid (c_env C)) = Some n"
      and g1: "tbl s1 (node_ID gw) = Some gw1" "node_GatewayCertBundle gw1 = Some b'"
        "node_Role gw1 = NodeRoleGateway"
    by blast
  have ok: "net_ok (ran (tbl s1))"
    using node_db.CreateClient_net_ok [OF assms(1,2), of "c_env C"] by (simp add: cr)
  have "gorm_table (c_nodes C) tbl node_ID BeforeCreate"
    using assms(1) by (simp add: node_db_def reliable_table_def)
  from gorm_table.tbl_pk [OF this g1(1)] have same: "node_ID gw1 = node_ID gw" .
  have "on_nodes (CreateClient (c_env C) (c_nodes C)) w = (w\<lparr>w_nodes := s1\<rparr>, Inr n)"
    by (simp add: on_nodes_def cr)
  with n g1 same ok show ?thesis by blast
qed

text \<open>
  C27. If WireGuard cannot be restarted, the join of a client is answered with a failure, but
  the client is already a member of the network: its row stays, and the request stays, so
  the same token creates another client on the next attempt, which the joining machine
  makes by itself because it retries after every status other than 200. The certificate of the
  request has been withdrawn from the gateway's row although the request is still open.
\<close>

theorem failed_join_keeps_client:
  fixes C :: "('n, 'v, 'j, 't, 'f, 'c, 'k) deps" and w :: "('n, 'v, 'j, 't, 'f) world"
  assumes "node_db (c_nodes C) tbl" and "service_db (c_services C) stbl now"
    and "writable (c_config C)" and "net_ok (ran (tbl (w_nodes w)))"
    and "gw \<in> ran (tbl (w_nodes w))" and "node_Role gw = NodeRoleGateway" and "node_ID gw \<noteq> []"
    and "tbl (w_nodes w) (env_uuid (c_env C)) = None"
    and "GenerateKeyPair (env_exec (c_env C)) = Inr ks" and "node_GatewayCertBundle gw = Some b"
    and "AddClient (env_crypto (c_env C)) (env_rnd (c_env C)) (env_now (c_env C))
           (client_options (env_uuid (c_env C))) b = Inr b'"
    and "card (ran (tbl (w_nodes w))) < 254"
    and "FromBase64 (c_json C) t = Inr c"
    and "JoinRequestGet (c_requests C) (jr_ID c) (w_requests w) = Inr r"
    and "ToBase64 (c_json C) r = Inr t" and "jr_Role r = NodeRoleClient"
    and "\<And>f. snd (RestartNetworkApps C True False False f) \<noteq> Inr ()"
  shows "\<exists>w' n gw'. handle_join_token C t w = (w', Inr (BadRequest []))
     \<and> tbl (w_nodes w') (env_uuid (c_env C)) = Some n \<and> node_Role n = NodeRoleClient
     \<and> w_requests w' = w_requests w
     \<and> tbl (w_nodes w') (node_ID gw) = Some gw'
     \<and> node_GatewayCertBundle gw' = Some (RemoveClient (jr_ID r) b')
     \<and> (\<exists>e. judge unm (Answer 400 []) = Retry e)"
proof -
  have fresh_id: "env_uuid (c_env C) \<noteq> node_ID gw"
    using assms(5,8) node_db.rows_iff [OF assms(1)] by auto
  obtain s1 n gw1 where create: "on_nodes (CreateClient (c_env C) (c_nodes C)) w = (w\<lparr>w_nodes := s1\<rparr>, Inr n)"
    and n: "node_Role n = NodeRoleClient" "tbl s1 (env_uuid (c_env C)) = Some n"
    and g1: "tbl s1 (node_ID gw) = Some gw1" "node_GatewayCertBundle gw1 = Some b'"
      "node_Role gw1 = NodeRoleGateway" "node_ID gw1 = node_ID gw" "net_ok (ran (tbl s1))"
    using client_row_created [OF assms(1,4-12)] by blast
  let ?gw = "gw1\<lparr>node_GatewayCertBundle := Some (RemoveClient (jr_ID r) b')\<rparr>"
  define k where "k = (\<lambda>m. attempt (on_requests (JoinRequestDelete (c_requests C) (jr_ID c)))
     bad_request (\<lambda>_. s_read (\<lambda>_. Inr (JoinResponse m))) :: ('n, 'v, 'j, 't, 'f) join_handler)"
  let ?restart = "attempt (on_machine (RestartNetworkApps C True False False)) bad_request (\<lambda>_. k n)"
  from update_gateway_ok [OF assms(1,2,3), of "w\<lparr>w_nodes := s1\<rparr>" gw1 b' "jr_ID r" ?restart] g1
  obtain w2 where w2: "update_gateway C (jr_ID r) ?restart (w\<lparr>w_nodes := s1\<rparr>) = ?restart w2"
    and t2: "tbl (w_nodes w2) = (tbl s1)(node_ID gw \<mapsto> ?gw)" and r2: "w_requests w2 = w_requests w"
    by auto
  obtain w3 where w3: "?restart w2 = (w3, Inr (BadRequest []))"
    and f3: "w_nodes w3 = w_nodes w2" "w_requests w3 = w_requests w2"
    using restart_refused [OF assms(17)] by metis
  have "handle_join_token C t w = create_for_role C c r k w"
    by (simp add: handle_join_token_def check_token_def attempt_def s_read_def on_requests_def
        assms(13,14,15) k_def)
  also have "\<dots> = (w3, Inr (BadRequest []))"
    using assms(16) by (simp add: create_for_role_def attempt_def [of "on_nodes _"] create w2 w3)
  finally have "handle_join_token C t w = (w3, Inr (BadRequest []))" .
  moreover have "tbl (w_nodes w3) (env_uuid (c_env C)) = Some n" "tbl (w_nodes w3) (node_ID gw) = Some ?gw"
    using n(2) fresh_id by (simp_all add: f3 t2)
  ultimately show ?thesis using n(1) f3(2) r2
    by (intro exI [of _ w3] exI [of _ n] exI [of _ ?gw]) (simp add: judge_def)
qed

section \<open>A demonstration gateway\<close>

text \<open>The reference tables, all files present, a shell that always or never succeeds.\<close>

definition demo_json :: "join_request \<Rightarrow> join_request json" where
  "demo_json r = \<lparr>marshal = (\<lambda>_. Inr [1, 2]), unmarshal = (\<lambda>_. Inr r)\<rparr>"

definition demo_join :: "node_role \<Rightarrow> join_request" where
  "demo_join role = \<lparr>jr_ID = ''j'', jr_EncryptionKeyBase64 = [], jr_ClientCertBundle =
     \<lparr>cb_RootCA = \<lparr>CertPEM = [], KeyPEM = []\<rparr>, cb_Client = \<lparr>CertPEM = [], KeyPEM = []\<rparr>, cb_Generated = 0\<rparr>,
     jr_DockerSubnet = None, jr_GatewayHost = ''h'', jr_GatewayPort = 4060, jr_Role = role,
     jr_CreatedAt = 0\<rparr>"

definition demo_docker :: "'f docker" where
  "demo_docker = \<lparr>dk_new = (\<lambda>f. Inr ()), dk_hostname = (\<lambda>f. Inr ''h''), dk_list = (\<lambda>f. Inr []),
     dk_inspect = (\<lambda>i f. Inl (ErrText ''not found'')), dk_network_inspect = (\<lambda>n f. Inr ()),
     dk_network_create = (\<lambda>n d s f. (f, Inr ())), dk_network_remove = (\<lambda>n f. (f, Inr ())),
     dk_network_connect = (\<lambda>n c f. (f, Inr ())), dk_network_disconnect = (\<lambda>n c f. (f, Inr ())),
     dk_parse_prefix = (\<lambda>s. Inr s), dk_is_conflict = (\<lambda>e. False), dk_is_denied = (\<lambda>e. False),
     dk_is_not_found = (\<lambda>e. False)\<rparr>"

definition demo_codec :: codec where
  "demo_codec = \<lparr>put_request = (\<lambda>r. Inr []), get_request = (\<lambda>p b. Inr NodeConfigRequest),
     put_response = (\<lambda>r. Inr []), get_response = (\<lambda>p b. Inl (ErrText ''unexpected end of JSON input''))\<rparr>"

definition refused_error :: net_error where
  "refused_error = \<lparr>ne_text = ''connection refused'', ne_chain = []\<rparr>"

definition demo_deps :: "bool \<Rightarrow> node_role \<Rightarrow>
    (node list, service list, join_request list, join_token list, string \<rightharpoonup> string, string, string) deps"
  where
  "demo_deps shell_ok role =
     \<lparr>c_nodes = mem_nodes, c_services = mem_services 0, c_requests = mem_api jr_ID jr_ID id,
      c_tokens = mem_api tok_Token tok_Token id, c_env = demo_env ''s'', c_config = demo_config,
      c_random32 = Inr (replicate 32 0), c_json = demo_json (demo_join role),
      c_file_exists = (\<lambda>f p. True), c_stat_ok = (\<lambda>f p. True), c_process_running = (\<lambda>p f. False),
      c_shell = (\<lambda>cmd f. (f, if shell_ok then Inr () else Inl (ErrText ''exit status 1''))),
      c_script = (\<lambda>t f. (f, [], Inr ())), c_render = (\<lambda>p vars. Inr p), c_docker = demo_docker, c_tick = (\<lambda>s. s), c_codec = demo_codec,
      c_new_request = (\<lambda>u. Inr ()), c_post = (\<lambda>c u b f. (f, Inr (200, Inr b))),
      c_join_post = (\<lambda>b a t f. (f, SendFailed refused_error)), c_join_answer = (\<lambda>t. Inr None),
      c_join_times = (''t'', ''u''), c_parse_url = (\<lambda>a. Inl (ErrText a)),
      c_quote = (\<lambda>t. ''<'' @ t @ ''>''), c_doc_url = ''doc''\<rparr>"

definition demo_world :: "node_role \<Rightarrow>
    (node list, service list, join_request list, join_token list, string \<rightharpoonup> string) world" where
  "demo_world role = \<lparr>w_nodes = [demo_gateway], w_services = [], w_requests = [demo_join role],
     w_tokens = [], w_machine = Map.empty, w_out = [], w_err = [], w_restart_pending = False\<rparr>"

definition demo_token :: string where
  "demo_token = b64_encode [1, 2]"

lemma demo_deps_sel [simp]:
  "c_nodes (demo_deps b role) = mem_nodes" "c_services (demo_deps b role) = mem_services 0"
  "c_requests (demo_deps b role) = mem_api jr_ID jr_ID id"
  "c_env (demo_deps b role) = demo_env ''s''" "c_config (demo_deps b role) = demo_config"
  "c_json (demo_deps b role) = demo_json (demo_join role)"
  by (simp_all add: demo_deps_def)

lemma demo_world_sel [simp]:
  "w_nodes (demo_world role) = [demo_gateway]" "w_services (demo_world role) = []"
  "w_requests (demo_world role) = [demo_join role]"
  by (simp_all add: demo_world_def)

lemma demo_requests: "reliable_table (mem_api jr_ID jr_ID id) (mem_tbl jr_ID) jr_ID id jr_ID"
  by (rule mem_reliable) simp

lemma demo_token_text [simp]:
  "FromBase64 (demo_json r) demo_token = Inr r" "ToBase64 (demo_json r) r' = Inr demo_token"
  by (simp_all add: FromBase64_def ToBase64_def demo_json_def demo_token_def del: b64_encode.simps)

lemma demo_join_sel [simp]:
  "jr_ID (demo_join role) = ''j''" "jr_Role (demo_join role) = role"
  "jr_DockerSubnet (demo_join role) = None"
  by (simp_all add: demo_join_def)

lemma demo_writable [simp]: "writable demo_config"
  by (simp add: writable_def demo_config_def map_write_def)

lemma demo_add:
  "AddClient (env_crypto (demo_env ''s'')) (env_rnd (demo_env ''s''))
      (env_now (demo_env ''s'')) (client_options (env_uuid (demo_env ''s''))) demo_bundle
    = Inr (demo_bundle\<lparr>gb_Clients := [''s'' \<mapsto> \<lparr>CertPEM = ''cert:s'', KeyPEM = ''key0''\<rparr>]\<rparr>)"
  by (simp add: demo_AddClient)

lemma demo_no_servers: "{n. n = demo_gateway \<and> node_Role n = NodeRoleServer} = {}"
  by auto

theorem join_server_succeeds_witness:
  "\<exists>w' n. handle_join_token (demo_deps False NodeRoleServer) demo_token (demo_world NodeRoleServer)
       = (w', Inr (JoinResponse n)) \<and> node_ID n = ''s'' \<and> w_restart_pending w'"
  using join_server_succeeds [of "demo_deps False NodeRoleServer" "mem_tbl node_ID" "mem_tbl svc_key"
      0 "mem_tbl jr_ID" id jr_ID "demo_world NodeRoleServer" demo_gateway "(''k'', ''k'')" demo_bundle
      "demo_bundle\<lparr>gb_Clients := [''s'' \<mapsto> \<lparr>CertPEM = ''cert:s'', KeyPEM = ''key0''\<rparr>]\<rparr>"
      demo_token "demo_join NodeRoleServer" "demo_join NodeRoleServer"]
    mem_node_db mem_service_db [of 0] demo_requests demo_add demo_keys [of "''s''"]
  by (simp add: mem_tbl_def demo_no_servers) blast

theorem failed_join_keeps_client_witness:
  "\<exists>w' n. handle_join_token (demo_deps False NodeRoleClient) demo_token (demo_world NodeRoleClient)
       = (w', Inr (BadRequest [])) \<and> mem_tbl node_ID (w_nodes w') ''s'' = Some n
     \<and> w_requests w' = [demo_join NodeRoleClient]"
proof -
  have "snd (RestartNetworkApps (demo_deps False NodeRoleClient) True False False f) \<noteq> Inr ()" for f
    by (simp add: RestartNetworkApps_def restart_app_def s_bind_def demo_deps_def)
  with failed_join_keeps_client [of "demo_deps False NodeRoleClient" "mem_tbl node_ID" "mem_tbl svc_key"
      0 "demo_world NodeRoleClient" demo_gateway "(''k'', ''k'')" demo_bundle
      "demo_bundle\<lparr>gb_Clients := [''s'' \<mapsto> \<lparr>CertPEM = ''cert:s'', KeyPEM = ''key0''\<rparr>]\<rparr>"
      demo_token "demo_join NodeRoleClient" "demo_join NodeRoleClient"]
    mem_node_db mem_service_db [of 0] demo_add demo_keys [of "''s''"]
  show ?thesis by (simp add: mem_tbl_def JoinRequestGet_def) blast
qed

lemma demo_run:
  "\<exists>w' n. handle_join_token (demo_deps False NodeRoleServer) demo_token (demo_world NodeRoleServer)
       = (w', Inr (JoinResponse n))"
  using join_server_run [of "demo_deps False NodeRoleServer" "mem_tbl node_ID" "mem_tbl svc_key"
      0 "mem_tbl jr_ID" id jr_ID "demo_world NodeRoleServer" demo_gateway "(''k'', ''k'')" demo_bundle
      "demo_bundle\<lparr>gb_Clients := [''s'' \<mapsto> \<lparr>CertPEM = ''cert:s'', KeyPEM = ''key0''\<rparr>]\<rparr>"
      demo_token "demo_join NodeRoleServer" "demo_join NodeRoleServer"]
    mem_node_db mem_service_db [of 0] demo_requests demo_add demo_keys [of "''s''"]
  by (simp add: mem_tbl_def demo_no_servers) blast

theorem join_token_single_use_witness:
  "\<exists>w' n. handle_join_token (demo_deps False NodeRoleServer) demo_token (demo_world NodeRoleServer)
       = (w', Inr (JoinResponse n))
     \<and> fst (handle_join_token (demo_deps True NodeRoleServer) demo_token w') = w'
     \<and> snd (handle_join_token (demo_deps True NodeRoleServer) demo_token w') \<noteq> Inr (JoinResponse n)"
proof -
  obtain w' n where run: "handle_join_token (demo_deps False NodeRoleServer) demo_token
      (demo_world NodeRoleServer) = (w', Inr (JoinResponse n))" using demo_run by blast
  have g: "gorm_table (c_requests (demo_deps False NodeRoleServer)) (mem_tbl jr_ID) jr_ID id"
    by (simp add: mem_gorm_table)
  from join_token_single_use [OF g run, of "demo_deps True NodeRoleServer"]
  have "fst (handle_join_token (demo_deps True NodeRoleServer) demo_token w') = w'
     \<and> snd (handle_join_token (demo_deps True NodeRoleServer) demo_token w') \<noteq> Inr (JoinResponse n)"
    by (simp add: fun_upd_def)
  with run show ?thesis by blast
qed

end
