(* ===== verification/ExecutorProps.thy ===== *)
theory ExecutorProps
  imports Executor JoinHandlerProps
begin

text \<open>
  What the executor does with a command on a machine of each role, and two commands of the
  gateway from the executor down to the tables and the files.
\<close>

section \<open>The gate\<close>

lemma find_group:
  assumes "role \<in> set (concat (map fst gs))"
  shows "\<exists>pre g post. gs = pre @ g # post \<and> role \<in> set (fst g)
     \<and> (\<forall>h \<in> set pre. role \<notin> set (fst h))
     \<and> List.find (\<lambda>g. role \<in> set (fst g)) gs = Some g"
  using assms
proof (induction gs)
  case Nil
  then show ?case by simp
next
  case (Cons a gs)
  show ?case
  proof (cases "role \<in> set (fst a)")
    case True
    then show ?thesis by (intro exI [of _ "[]"] exI [of _ a] exI [of _ gs]) simp
  next
    case False
    with Cons obtain pre g post where "gs = pre @ g # post" "role \<in> set (fst g)"
      "\<forall>h \<in> set pre. role \<notin> set (fst h)" "List.find (\<lambda>g. role \<in> set (fst g)) gs = Some g" by auto
    with False show ?thesis by (intro exI [of _ "a # pre"] exI [of _ g] exI [of _ post]) simp
  qed
qed

lemma isRoleAllowed_iff: "isRoleAllowed cur rs \<longleftrightarrow> role_to_execute cur \<in> set rs"
  by (simp add: isRoleAllowed_def role_to_execute_def split: option.split)

lemma execute_as_refused:
  "role_to_execute cur \<notin> set (concat (map fst gs)) \<Longrightarrow>
   execute_as gs cur w
     = (w\<lparr>w_err := w_err w @ role_error_text (role_to_execute cur) (concat (map fst gs))\<rparr>, Inr ())"
  by (simp add: execute_as_def Let_def isRoleAllowed_iff printRoleError_def eprint_def)

lemma execute_as_runs:
  assumes f: "List.find (\<lambda>g. role_to_execute cur \<in> set (fst g)) gs = Some g"
  shows "execute_as gs cur
    = attempt (snd g cur (map_option api_of cur)) (\<lambda>e. eprint (err_text e @ NL)) show_exec_response"
proof -
  have "role_to_execute cur \<in> set (concat (map fst gs))"
    using f by (auto simp: find_Some_iff intro: nth_mem)
  then show ?thesis by (simp add: execute_as_def Let_def isRoleAllowed_iff f)
qed

definition current_of :: "('n, 'v, 'j, 't, 'f, 'c, 'k) deps \<Rightarrow> ('n, 'v, 'j, 't, 'f) world \<Rightarrow> node option" where
  "current_of C w = (case GetCurrentNode (c_nodes C) (w_nodes w) of Inl e \<Rightarrow> None | Inr n \<Rightarrow> Some n)"

lemma executeCommand_as:
  assumes "\<And>e. GetCurrentNode (c_nodes C) (w_nodes w) = Inl e \<Longrightarrow> e = ErrRecordNotFound"
  shows "executeCommand C gs w = execute_as gs (current_of C w) w"
  using assms
  by (cases "GetCurrentNode (c_nodes C) (w_nodes w)")
    (auto simp: executeCommand_def attempt_def on_nodes_def s_read_def current_of_def is_panic_def)

text \<open>
  C6. A command on a machine whose role (empty for a machine without a current node) is in
  no group changes nothing and prints one message, with the roles allowed; otherwise the
  first group that holds the role runs, with the API of the machine's gateway. So the second
  message of the code, for an allowed role without a handler, is never printed.
\<close>

theorem executeCommand_gate:
  fixes C :: "('n, 'v, 'j, 't, 'f, 'c, 'k) deps" and w :: "('n, 'v, 'j, 't, 'f) world"
  assumes "\<And>e. GetCurrentNode (c_nodes C) (w_nodes w) = Inl e \<Longrightarrow> e = ErrRecordNotFound"
  shows "let role = role_to_execute (current_of C w); allowed = concat (map fst gs) in
     (if role \<notin> set allowed
      then executeCommand C gs w = (w\<lparr>w_err := w_err w @ role_error_text role allowed\<rparr>, Inr ())
      else \<exists>pre g post. gs = pre @ g # post \<and> role \<in> set (fst g)
        \<and> (\<forall>h \<in> set pre. role \<notin> set (fst h))
        \<and> executeCommand C gs w
          = attempt (snd g (current_of C w) (map_option api_of (current_of C w)))
              (\<lambda>e. eprint (err_text e @ NL)) show_exec_response w)"
proof -
  let ?cur = "current_of C w"
  have run: "executeCommand C gs w = execute_as gs ?cur w" using assms by (rule executeCommand_as)
  show ?thesis
  proof (cases "role_to_execute ?cur \<in> set (concat (map fst gs))")
    case False
    then show ?thesis unfolding Let_def run execute_as_refused [OF False] by simp
  next
    case True
    from find_group [OF this] obtain pre g post where g: "gs = pre @ g # post"
      "role_to_execute ?cur \<in> set (fst g)" "\<forall>h \<in> set pre. role_to_execute ?cur \<notin> set (fst h)"
      and f: "List.find (\<lambda>g. role_to_execute ?cur \<in> set (fst g)) gs = Some g" by blast
    have "executeCommand C gs w = attempt (snd g ?cur (map_option api_of ?cur))
        (\<lambda>e. eprint (err_text e @ NL)) show_exec_response w"
      unfolding run execute_as_runs [OF f] ..
    with g True show ?thesis unfolding Let_def
      by (simp only: not_True_eq_False if_False) blast
  qed
qed

text \<open>A server may not publish by its own command.\<close>

definition demo_server_world where
  "demo_server_world = (demo_world NodeRoleServer)\<lparr>w_nodes :=
     [demo_gateway\<lparr>node_Role := NodeRoleServer\<rparr>]\<rparr>"

theorem executeCommand_gate_witness:
  "ServicePublish (demo_deps True NodeRoleServer) None ''http'' ''h'' 80 ''http'' ''x.org'' 80 demo_server_world
   = (demo_server_world\<lparr>w_err := role_error_text NodeRoleServer [NodeRoleGateway, NodeRoleClient]\<rparr>, Inr ())"
proof -
  let ?C = "demo_deps True NodeRoleServer"
  have cur: "GetCurrentNode (c_nodes ?C) (w_nodes demo_server_world)
      = Inr (demo_gateway\<lparr>node_Role := NodeRoleServer\<rparr>)"
    by (simp add: GetCurrentNode_def demo_server_world_def demo_gateway_def new_gateway_def)
  show ?thesis
    using executeCommand_gate [of ?C demo_server_world "gateway_or_client
       (LocalServicePublish ?C None ''http'' ''h'' 80 ''http'' ''x.org'' 80)
       (\<lambda>api. api_ServicePublish ?C api ''http'' ''h'' 80 ''http'' ''x.org'' 80)"] cur
    by (simp add: Let_def ServicePublish_def gateway_or_client_def current_of_def role_to_execute_def)
      (simp add: demo_server_world_def demo_world_def)
qed

section \<open>Publishing, from the command to the files\<close>

lemma on_services_op:
  "m (w_services w) = (s, r) \<Longrightarrow> on_services m w = (w\<lparr>w_services := s\<rparr>, r)"
  by (simp add: on_services_def)

lemma on_machine_op:
  "m (w_machine w) = (s, r) \<Longrightarrow> on_machine m w = (w\<lparr>w_machine := s\<rparr>, r)"
  by (simp add: on_machine_def)

lemma execute_gateway:
  assumes "GetCurrentNode (c_nodes C) (w_nodes w) = Inr cur" and "node_Role cur = NodeRoleGateway"
    and "here w = (w', Inr ())"
  shows "executeCommand C (gateway_or_client here there) w = (w', Inr ())"
proof -
  have cur: "current_of C w = Some cur" using assms(1) by (simp add: current_of_def)
  have "executeCommand C (gateway_or_client here there) w
      = execute_as (gateway_or_client here there) (Some cur) w"
    using executeCommand_as [of C w] assms(1) cur by simp
  also have "\<dots> = (w', Inr ())"
    using assms(2,3) by (subst execute_as_runs [where g = "([NodeRoleGateway], run_local here)"])
      (simp_all add: gateway_or_client_def role_to_execute_def run_local_def attempt_def s_bind_def
        s_read_def show_exec_response_def finish_def)
  finally show ?thesis .
qed

definition publish_message :: "service \<Rightarrow> string" where
  "publish_message v = check_mark @ '' Service '' @ service_url (LocalProtocol v) (LocalHost v) (LocalPort v)
     @ '' is now published on'' @ NL @ NL @ TAB @ TAB
     @ service_url (PublicProtocol v) (PublicHost v) (PublicPort v) @ NL @ NL @ NL"

text \<open>Where all entries and texts exist and the reload of Caddy changes nothing else.\<close>

lemma apply_services_run:
  fixes w :: "('n, 'v, 'j, 't, string \<rightharpoonup> string) world"
  assumes "GetGatewayNode (c_nodes C) (w_nodes w) = Inr (Some gw)" and "node_Role gw = NodeRoleGateway"
    and "ServiceGetAll (c_services C) (w_services w) = Inr vs"
    and "write_file (c_config C) = map_write"
    and "GetFormattedCoreDNSConfig (c_config C) gw = Inr a"
    and "GetFormattedResolvConfig (c_config C) gw = Inr b"
    and "GetFormattedCaddyConfig (c_config C) gw vs = Inr c"
    and "\<And>cmd fs. c_shell C cmd fs = (fs, Inr ())"
  shows "apply_services C success w =
     (w\<lparr>w_machine := (w_machine w)(CoreDNSConfigPath (c_config C) \<mapsto> a,
        ResolvConfigPath (c_config C) \<mapsto> b,
        WireguardConfigPath (c_config C) \<mapsto> ToINI (node_WGConfig gw),
        CaddyConfigPath (c_config C) \<mapsto> c),
        w_out := w_out w @ success\<rparr>, Inr ())"
proof -
  have save: "SaveConfigs (c_config C) gw vs False fs
       = (fs(CoreDNSConfigPath (c_config C) \<mapsto> a, ResolvConfigPath (c_config C) \<mapsto> b,
             WireguardConfigPath (c_config C) \<mapsto> ToINI (node_WGConfig gw),
             CaddyConfigPath (c_config C) \<mapsto> c), Inr ())" for fs
    using assms(2,4-7)
    by (simp add: SaveConfigs_def s_bind_def save_config_ok GetFormattedWireguardConfig_def)
  have restart: "RestartNetworkApps C False False True fs = (fs, Inr ())" for fs
    using assms(8) by (simp add: RestartNetworkApps_def restart_app_def s_bind_def Let_def)
  show ?thesis
    by (simp add: apply_services_def attempt_def on_nodes_read on_services_read assms(1,3) deref_def
        on_machine_def save restart print_def)
qed

context service_db
begin

lemma row_key: "tbl s k = Some r \<Longrightarrow> svc_key r = k"
  by (rule tbl_pk)

end

lemma publish_saves:
  fixes C :: "('n, 'v, 'j, 't, 'f, 'c, 'k) deps"
  assumes "service_db (c_services C) stbl now"
  obtains s1 vs where "ServiceSave (c_services C) v s = (s1, Inr ())"
    and "stbl s1 = (stbl s)(svc_key v \<mapsto>
          (case stbl s (svc_key v) of None \<Rightarrow> stamp now v | Some old \<Rightarrow> v\<lparr>CreatedAt := CreatedAt old\<rparr>))"
    and "ServiceGetAll (c_services C) s1 = Inr vs" and "distinct vs" and "set vs = ran (stbl s1)"
proof -
  obtain s1 where "ServiceSave (c_services C) v s = (s1, Inr ())" and "stbl s1 = (stbl s)(svc_key v \<mapsto>
          (case stbl s (svc_key v) of None \<Rightarrow> stamp now v | Some old \<Rightarrow> v\<lparr>CreatedAt := CreatedAt old\<rparr>))"
    using service_db.ServiceSave_view [OF assms, of v s] by (metis prod.collapse)
  moreover obtain vs where "ServiceGetAll (c_services C) s1 = Inr vs" "distinct vs" "set vs = ran (stbl s1)"
    using service_db.ServiceGetAll_view [OF assms] by blast
  ultimately show thesis by (rule that)
qed

text \<open>On a gateway the command is the save and what follows it.\<close>

lemma publish_on_gateway:
  assumes "GetCurrentNode (c_nodes C) (w_nodes w) = Inr cur" and "node_Role cur = NodeRoleGateway"
    and "v = published_service from localProtocol localHost localPort publicProtocol publicHost publicPort"
    and "ServiceSave (c_services C) v (w_services w) = (s1, Inr ())"
    and "apply_services C (publish_message v) (w\<lparr>w_services := s1\<rparr>) = (w', Inr ())"
  shows "ServicePublish C from localProtocol localHost localPort publicProtocol publicHost publicPort w
      = (w', Inr ())"
proof -
  have message: "publish_message v = check_mark @ '' Service '' @ service_url localProtocol localHost localPort
      @ '' is now published on'' @ NL @ NL @ TAB @ TAB
      @ service_url publicProtocol publicHost publicPort @ NL @ NL @ NL"
    by (simp add: publish_message_def assms(3) published_service_def)
  have on: "on_services (ServiceSave (c_services C) v) w = (w\<lparr>w_services := s1\<rparr>, Inr ())"
    by (rule on_services_op) (rule assms(4))
  have "LocalServicePublish C from localProtocol localHost localPort publicProtocol publicHost publicPort w
      = (w', Inr ())"
    unfolding LocalServicePublish_def assms(3) [symmetric] message [symmetric]
    using assms(5) by (simp add: attempt_def on)
  then show ?thesis
    unfolding ServicePublish_def by (rule execute_gateway [OF assms(1,2)])
qed

lemma stamp_is_update: "\<exists>t. stamp now v = v\<lparr>CreatedAt := t\<rparr>"
  by (rule exI [of _ "if CreatedAt v = 0 then now else CreatedAt v"]) (simp add: stamp_def)

text \<open>
  C7. \<open>wireport service publish\<close> on a gateway that works: the service is stored under its
  public address (a publication from before keeps only its creation time), the message is
  printed, and the Caddy file holds one entry for each stored service and nothing else, so
  that the new publication and all old ones are served.
\<close>

theorem publish_takes_effect:
  fixes w :: "('n, 'v, 'j, 't, string \<rightharpoonup> string) world"
    and C :: "('n, 'v, 'j, 't, string \<rightharpoonup> string, 'c, 'k) deps"
  assumes "service_db (c_services C) stbl now"
    and "GetCurrentNode (c_nodes C) (w_nodes w) = Inr cur" and "node_Role cur = NodeRoleGateway"
    and "GetGatewayNode (c_nodes C) (w_nodes w) = Inr (Some gw)" and "node_Role gw = NodeRoleGateway"
    and "write_file (c_config C) = map_write"
    and "GetFormattedCoreDNSConfig (c_config C) gw = Inr a"
    and "GetFormattedResolvConfig (c_config C) gw = Inr b"
    and "\<And>u. u \<in> ran (stbl (w_services w)) \<or> (\<exists>t. u = v\<lparr>CreatedAt := t\<rparr>) \<Longrightarrow>
          AsCaddyConfigEntry u (node_GatewayPublicIP gw) = Inr (f u)"
    and "\<And>ctx. exec_template (c_config C) CaddyConfigTemplatePath ctx = Inr (render ctx)"
    and "\<And>cmd fs. c_shell C cmd fs = (fs, Inr ())"
    and "v = published_service from localProtocol localHost localPort publicProtocol publicHost publicPort"
  shows "\<exists>w' vs. ServicePublish C from localProtocol localHost localPort
         publicProtocol publicHost publicPort w = (w', Inr ())
     \<and> stbl (w_services w') = (stbl (w_services w))(svc_key v \<mapsto>
          (case stbl (w_services w) (svc_key v) of
             None \<Rightarrow> stamp now v | Some old \<Rightarrow> v\<lparr>CreatedAt := CreatedAt old\<rparr>))
     \<and> distinct vs \<and> set vs = ran (stbl (w_services w'))
     \<and> w_machine w' (CaddyConfigPath (c_config C)) = Some (render (CaddyContext gw
          (map f (filter is_layer4 vs)) (map f (filter (\<lambda>v. \<not> is_layer4 v) vs))))
     \<and> w_nodes w' = w_nodes w \<and> w_requests w' = w_requests w
     \<and> w_out w' = w_out w @ publish_message v \<and> w_err w' = w_err w"
proof -
  obtain s1 vs where s1: "ServiceSave (c_services C) v (w_services w) = (s1, Inr ())"
    and t1: "stbl s1 = (stbl (w_services w))(svc_key v \<mapsto>
          (case stbl (w_services w) (svc_key v) of
             None \<Rightarrow> stamp now v | Some old \<Rightarrow> v\<lparr>CreatedAt := CreatedAt old\<rparr>))"
    and vs: "ServiceGetAll (c_services C) s1 = Inr vs" "distinct vs" "set vs = ran (stbl s1)"
    using publish_saves [OF assms(1)] .
  define w1 where "w1 = w\<lparr>w_services := s1\<rparr>"
  have entry: "AsCaddyConfigEntry u (node_GatewayPublicIP gw) = Inr (f u)" if "u \<in> set vs" for u
  proof (rule assms(9))
    show "u \<in> ran (stbl (w_services w)) \<or> (\<exists>t. u = v\<lparr>CreatedAt := t\<rparr>)"
      using that stamp_is_update unfolding vs(3) t1 by (auto simp: ran_def split: if_splits option.splits)
  qed
  have caddy: "GetFormattedCaddyConfig (c_config C) gw vs = Inr (render (CaddyContext gw
          (map f (filter is_layer4 vs)) (map f (filter (\<lambda>v. \<not> is_layer4 v) vs))))"
  proof -
    have "caddy_entries (node_GatewayPublicIP gw) vs [] []
        = Inr ([] @ map f (filter is_layer4 vs), [] @ map f (filter (\<lambda>v. \<not> is_layer4 v) vs))"
      by (rule caddy_entries_ok) (rule entry)
    then show ?thesis by (simp add: GetFormattedCaddyConfig_def assms(5,10))
  qed
  have app: "apply_services C (publish_message v) w1 =
     (w1\<lparr>w_machine := (w_machine w1)(CoreDNSConfigPath (c_config C) \<mapsto> a,
        ResolvConfigPath (c_config C) \<mapsto> b,
        WireguardConfigPath (c_config C) \<mapsto> ToINI (node_WGConfig gw),
        CaddyConfigPath (c_config C) \<mapsto> render (CaddyContext gw
          (map f (filter is_layer4 vs)) (map f (filter (\<lambda>v. \<not> is_layer4 v) vs)))),
        w_out := w_out w1 @ publish_message v\<rparr>, Inr ())" (is "_ = (?w', _)")
    by (rule apply_services_run [OF _ assms(5) _ assms(6-8) caddy assms(11)])
      (simp_all add: w1_def assms(4) vs(1))
  from publish_on_gateway [OF assms(2,3,12) s1] app
  have "ServicePublish C from localProtocol localHost localPort
      publicProtocol publicHost publicPort w = (?w', Inr ())" by (simp add: w1_def)
  then show ?thesis
    by (intro exI [of _ ?w'] exI [of _ vs]) (simp add: w1_def t1 vs(2) vs(3) [unfolded t1])
qed

theorem publish_takes_effect_witness:
  "\<exists>w'. ServicePublish (demo_deps True NodeRoleServer) None ''http'' ''h'' 80 ''http'' ''x.org'' 80
       (demo_world NodeRoleServer) = (w', Inr ())
     \<and> mem_tbl svc_key (w_services w') (''http'', ''x.org'', 80) \<noteq> None
     \<and> w_machine w' ''/etc/caddy/Caddyfile'' = Some CaddyConfigTemplatePath"
proof -
  let ?C = "demo_deps True NodeRoleServer" and ?w = "demo_world NodeRoleServer"
  let ?v = "published_service None ''http'' ''h'' 80 ''http'' ''x.org'' 80"
  let ?f = "\<lambda>u. projr (AsCaddyConfigEntry u (node_GatewayPublicIP demo_gateway))"
  have cur: "GetCurrentNode (c_nodes ?C) (w_nodes ?w) = Inr demo_gateway"
    by (simp add: GetCurrentNode_def demo_gateway_def new_gateway_def)
  have gw: "GetGatewayNode (c_nodes ?C) (w_nodes ?w) = Inr (Some demo_gateway)"
    by (simp add: GetGatewayNode_def)
  have entry: "AsCaddyConfigEntry u (node_GatewayPublicIP demo_gateway) = Inr (?f u)"
    if "u \<in> ran (mem_tbl svc_key (w_services ?w)) \<or> (\<exists>t. u = ?v\<lparr>CreatedAt := t\<rparr>)" for u
    using that by (auto simp: mem_tbl_def ran_def published_service_def AsCaddyConfigEntry_def
        publicHostname_def Let_def)
  have shell: "c_shell ?C cmd fs = (fs, Inr ())" for cmd fs by (simp add: demo_deps_def)
  from publish_takes_effect [of ?C "mem_tbl svc_key" 0 ?w demo_gateway demo_gateway
      CoreDNSConfigTemplatePath ResolvConfigTemplatePath ?v ?f "\<lambda>_. CaddyConfigTemplatePath", OF _ cur _ gw _ _ _ _ entry _ shell refl]
  show ?thesis
    using mem_service_db [of 0]
    by (simp add: demo_config_def GetFormattedCoreDNSConfig_def GetFormattedResolvConfig_def svc_key_def
        published_service_def) (elim exE conjE, intro exI conjI, assumption, simp_all)
qed

section \<open>Room for a server\<close>

context node_db
begin

lemma docker_free_found:
  assumes "k \<in> {20..31}" and "\<not> subnet_used (ran (tbl s)) k"
  shows "\<exists>d. GetNextAssignableDockerSubnet T s = Inr d"
proof (cases "GetNextAssignableDockerSubnet T s")
  case (Inl e)
  have k: "dockerSubnetStart \<le> k" "k < Suc dockerSubnetEnd" "k < 256"
    using assms(1) by (simp_all add: dockerSubnetStart_def dockerSubnetEnd_def)
  note mk = mk_docker_subnet_eq [OF k(3)]
  from docker_scan [OF Inl, symmetric, unfolded docker_alloc.exhausted] k mk
  have "subnet_used (ran (tbl s)) k"
    using subnet_string [OF k(3) mk] unfolding subnet_used_def by fastforce
  with assms(2) show ?thesis by simp
qed simp

end

text \<open>
  C29. With one docker subnet more than there are open server requests, so that the allocator
  has a subnet for one more server, \<open>ServerNew\<close> refuses all the same: the count it uses includes the row of
  the gateway. Nothing is changed, whatever the flags and the subnet asked for.
\<close>

theorem server_new_refuses_last_subnet:
  fixes C :: "('n, 'v, 'j, 't, 'f, 'c, 'k) deps" and w :: "('n, 'v, 'j, 't, 'f) world"
  assumes "node_db (c_nodes C) tbl" and "reliable_table (c_requests C) rtbl jr_ID rhook ruq"
    and "g \<in> ran (tbl (w_nodes w))" and "node_Role g = NodeRoleGateway" and "node_DockerSubnet g = None"
    and "card {k \<in> {20..31}. \<not> subnet_used (ran (tbl (w_nodes w))) k}
       = Suc (card {r \<in> ran (rtbl (w_requests w)). jr_Role r = NodeRoleServer})"
  shows "(\<exists>t. LocalServerNew C forceServerCreation quiet dockerSubnet w
       = (w\<lparr>w_err := w_err w @ ''No Docker subnets available. '' @ t\<rparr>, Inr ()))
     \<and> (\<exists>d. GetNextAssignableDockerSubnet (c_nodes C) (w_nodes w) = Inr d)"
proof -
  have db: "reliable_table (c_nodes C) tbl node_ID BeforeCreate node_WGConfig"
    using assms(1) by (simp add: node_db_def)
  obtain ns where ns: "db_find (c_nodes C) (w_nodes w) docker_roles = Inr ns"
    using reliable_table.find_ok [OF db] by blast
  then obtain c a where ca: "TotalAndAvailableDockerSubnets (c_nodes C) (w_nodes w) = Inr (c, a)"
    by (simp add: TotalAndAvailableDockerSubnets_def)
  obtain p where p: "db_count (c_requests C) (w_requests w) (\<lambda>r. jr_Role r = NodeRoleServer) = Inr p"
    using reliable_table.count_ok [OF assms(2)] by blast
  have rt: "gorm_table (c_requests C) rtbl jr_ID rhook" using assms(2) by (simp add: reliable_table_def)
  have "p = card {r \<in> ran (rtbl (w_requests w)). jr_Role r = NodeRoleServer}"
    using gorm_table.count_rows [OF rt p] gorm_table.rows_ran [OF rt] by simp
  with node_db.docker_undercount [OF assms(1) ca assms(3) _ assms(5)] assms(4,6)
  have "a \<le> int p" by simp
  then have "\<exists>t. LocalServerNew C forceServerCreation quiet dockerSubnet w
       = (w\<lparr>w_err := w_err w @ ''No Docker subnets available. '' @ t\<rparr>, Inr ())"
    by (intro exI) (simp add: LocalServerNew_def attempt_def on_nodes_read ca s_bind_def
        on_requests_read CountServerJoinRequests_def p eprint_def)
  moreover have "{k \<in> {20..31}. \<not> subnet_used (ran (tbl (w_nodes w))) k} \<noteq> {}"
  proof
    assume "{k \<in> {20..31}. \<not> subnet_used (ran (tbl (w_nodes w))) k} = {}"
    from assms(6) [unfolded this] show False by (simp only: card.empty nat.distinct)
  qed
  ultimately show ?thesis using node_db.docker_free_found [OF assms(1)] by blast
qed

lemma visible_all_distinct: "distinct (map pk rs) \<Longrightarrow> visible pk rs = rs"
proof (induction rs)
  case (Cons r rs)
  then have "filter (\<lambda>x. pk x \<noteq> pk r) rs = rs" by (simp add: filter_id_conv) (metis image_eqI)
  with Cons show ?case by simp
qed simp

lemma mem_ran: "distinct (map pk rs) \<Longrightarrow> ran (mem_tbl pk rs) = set rs"
  using gorm_table.rows_ran [OF mem_gorm_table [of pk id pk], of rs "\<lambda>_. True"]
  by (simp add: visible_set [symmetric] visible_all_distinct)

text \<open>A gateway without servers and with eleven open requests.\<close>

definition open_request :: "nat \<Rightarrow> join_request" where
  "open_request n = (demo_join NodeRoleServer)\<lparr>jr_ID := replicate n (CHR ''x'')\<rparr>"

definition crowded_world where
  "crowded_world = (demo_world NodeRoleServer)\<lparr>w_requests := map open_request [1..<12]\<rparr>"

theorem server_new_refuses_last_subnet_witness:
  "\<exists>t. LocalServerNew (demo_deps True NodeRoleServer) False False [] crowded_world
     = (crowded_world\<lparr>w_err := ''No Docker subnets available. '' @ t\<rparr>, Inr ())"
proof -
  let ?R = "mem_tbl jr_ID (map open_request [1..<12])"
  have len: "length (jr_ID (open_request n)) = n" for n by (simp add: open_request_def)
  then have "inj open_request" by (intro injI) metis
  have "inj_on (\<lambda>n. jr_ID (open_request n)) A" for A by (rule inj_onI) (metis len)
  then have "distinct (map jr_ID (map open_request [1..<12]))"
    unfolding map_map o_def distinct_map by (simp del: upt_rec_numeral)
  then have r: "ran ?R = open_request ` set [1..<12]"
    by (subst mem_ran) (simp_all only: set_map)
  from \<open>inj open_request\<close> have "card (ran ?R) = card (set [1..<12])"
    unfolding r by (intro card_image) (erule inj_on_subset, simp)
  also have "\<dots> = 11" by (simp del: upt_rec_numeral)
  finally have n: "card (ran ?R) = 11" .
  have "{x \<in> open_request ` A. jr_Role x = NodeRoleServer} = open_request ` A" for A
    by (auto simp: open_request_def)
  then have c: "card {r \<in> ran ?R. jr_Role r = NodeRoleServer} = 11" using n unfolding r by (simp only:)
  have "\<not> subnet_used {demo_gateway} k" for k
    by (simp add: subnet_used_def uses_subnet_def demo_gateway_def new_gateway_def zero_node_def)
  then have "{k \<in> {20..31}. \<not> subnet_used {demo_gateway} k} = {20..31}" by blast
  then have "card {k \<in> {20..31}. \<not> subnet_used {demo_gateway} k} = 12"
    by (simp only: card_atLeastAtMost)
  moreover have "ran (mem_tbl node_ID [demo_gateway]) = {demo_gateway}" by (subst mem_ran) simp_all
  moreover have "node_DockerSubnet demo_gateway = None"
    by (simp add: demo_gateway_def new_gateway_def zero_node_def)
  ultimately have "\<exists>t. LocalServerNew (demo_deps True NodeRoleServer) False False [] crowded_world
     = (crowded_world\<lparr>w_err := w_err crowded_world @ ''No Docker subnets available. '' @ t\<rparr>, Inr ())"
    using mem_node_db demo_requests c
    by (intro server_new_refuses_last_subnet [where tbl = "mem_tbl node_ID"
          and rtbl = "mem_tbl jr_ID" and rhook = id and ruq = jr_ID and g = demo_gateway, THEN conjunct1])
      (simp_all add: crowded_world_def del: list.map upt_rec_numeral)
  then show ?thesis by (simp add: crowded_world_def demo_world_def)
qed

end
