(* ===== verification/RouterProps.thy ===== *)
theory RouterProps
  imports Router ExecutorProps
begin

text \<open>
  The control server as a whole: it always replies, a command given on a client is the
  command on the gateway, and which certificate comes with a request does not matter.
\<close>

section \<open>Every request is answered\<close>

text \<open>A result that is a panic or satisfies a predicate, but never an error value.\<close>

definition settles :: "('a \<Rightarrow> bool) \<Rightarrow> 's \<times> 'a result \<Rightarrow> bool" where
  "settles P r = (case snd r of Inl e \<Rightarrow> is_panic e | Inr x \<Rightarrow> P x)"

lemma settles_error [simp]: "settles P (s, Inl e) \<longleftrightarrow> is_panic e"
  by (simp add: settles_def)

lemma settles_value [simp]: "settles P (s, Inr x) \<longleftrightarrow> P x"
  by (simp add: settles_def)

lemma settles_attempt:
  assumes "\<And>e s. settles P (h e s)" and "\<And>x s. settles P (k x s)"
  shows "settles P (attempt m h k s)"
  using assms by (simp add: attempt_def split: prod.split sum.split)

lemma settles_read [simp]: "settles P (s_read f s) \<longleftrightarrow> (case f s of Inl e \<Rightarrow> is_panic e | Inr x \<Rightarrow> P x)"
  by (simp add: settles_def s_read_def)

lemma settles_deref: "(\<And>x s. settles P (k x s)) \<Longrightarrow> settles P (deref p k s)"
  by (cases p) (simp_all add: deref_def settles_def is_panic_def)

lemma settles_bind:
  "settles (\<lambda>_. True) (m s) \<Longrightarrow> (\<And>x s. settles P (k x s)) \<Longrightarrow> settles P (s_bind m k s)"
  by (cases "m s") (auto simp: s_bind_def settles_def [of "\<lambda>_. True"] split: sum.splits)

lemma settles_bad_request [simp]: "settles (\<lambda>_. True) (bad_request e s)"
  by (simp add: bad_request_def)

lemma settles_update_gateway:
  assumes "\<And>s. settles (\<lambda>_. True) (k s)"
  shows "settles (\<lambda>_. True) (update_gateway C i k s)"
  unfolding update_gateway_def
  by (intro settles_attempt settles_bad_request)
    (auto split: option.split intro!: settles_attempt settles_deref assms)

lemma settles_create_for_role:
  assumes "\<And>m s. settles (\<lambda>_. True) (k m s)"
  shows "settles (\<lambda>_. True) (create_for_role C c r k w)"
proof -
  have "settles (\<lambda>_. True) (s_bind ScheduleNetworkAppsRestart (\<lambda>_. k m) s)" for m s
    by (rule settles_bind) (simp_all add: ScheduleNetworkAppsRestart_def assms)
  with assms show ?thesis unfolding create_for_role_def ignoring_def
    by (simp split: if_split) (intro conjI impI settles_attempt settles_update_gateway; simp)
qed

lemma settles_join: "settles (\<lambda>_. True) (handle_join C decode tls mth body s)"
proof -
  have "settles (\<lambda>_. True) (handle_join_token C t w)" for t w
    unfolding handle_join_token_def check_token_def
    by (intro settles_attempt settles_bad_request)
      (simp split: if_split, intro impI settles_create_for_role settles_attempt, simp_all)
  then show ?thesis by (auto simp: handle_join_def intro!: settles_attempt)
qed


section \<open>A command given on a client\<close>

text \<open>The request of a command, sent and answered; the payload of the answer is not shown.\<close>

definition ask ::
  "('n, 'v, 'j, 't, 'f, 'c, 'k) deps \<Rightarrow> request \<Rightarrow> api_service \<Rightarrow>
   ('n, 'v, 'j, 't, 'f, exec_response) cmd" where
  "ask C q api = s_bind (makeSecureRequestWithResponse C api q) (\<lambda>r. s_read (\<lambda>_. Inr (exec_part r)))"

lemmas api_defs = api_ServerNew_def api_ServerRemove_def api_ClientNew_def api_ClientList_def
  api_NodeLabelAdd_def api_NodeLabelRemove_def api_ServicePublish_def api_ServiceUnpublish_def
  api_ServiceParamNew_def api_ServiceParamRemove_def api_ServiceParamList_def exec_method_def

lemma list_asks:
  "s_bind (api_ServerList C api) (\<lambda>(r, _). s_read (\<lambda>_. Inr r)) = ask C ServerListRequest api"
  "s_bind (api_ServiceList C api) (\<lambda>(r, _). s_read (\<lambda>_. Inr r)) = ask C ServiceListRequest api"
  by (rule ext, simp add: api_ServerList_def api_ServiceList_def ask_def s_bind_def s_read_def
      split: prod.split sum.split)+

text \<open>The commands a client may give; only a server removes itself, and nothing asks for the configuration.\<close>

fun for_clients :: "request \<Rightarrow> bool" where
  "for_clients (ServerRemoveRequest nodeID) = False"
| "for_clients NodeConfigRequest = False"
| "for_clients _ = True"

lemmas command_defs = ServerNew_def ServerList_def NodeLabelAdd_def NodeLabelRemove_def ClientNew_def
  ClientList_def ServicePublish_def ServiceUnpublish_def ServiceList_def ServiceParamNew_def
  ServiceParamRemove_def ServiceParamList_def gateway_or_client_def

lemma execute_client:
  assumes "GetCurrentNode (c_nodes C) (w_nodes w) = Inr n" and "node_Role n = NodeRoleClient"
    and "NodeRoleClient \<notin> set rs"
  shows "executeCommand C [(rs, here), ([NodeRoleClient], run_api there)] w
    = attempt (s_bind (there (api_of n)) (\<lambda>r. s_read (\<lambda>_. Inr (Some r))))
        (\<lambda>e. eprint (err_text e @ NL)) show_exec_response w"
proof -
  have "executeCommand C [(rs, here), ([NodeRoleClient], run_api there)] w
      = execute_as [(rs, here), ([NodeRoleClient], run_api there)] (Some n) w"
    using executeCommand_as [of C w] assms(1) by (simp add: current_of_def)
  also have "\<dots> = attempt (s_bind (there (api_of n)) (\<lambda>r. s_read (\<lambda>_. Inr (Some r))))
        (\<lambda>e. eprint (err_text e @ NL)) show_exec_response w"
    using assms(2,3) by (subst execute_as_runs [where g = "([NodeRoleClient], run_api there)"])
      (simp_all add: role_to_execute_def run_api_def)
  finally show ?thesis .
qed

lemma client_asks:
  assumes "GetCurrentNode (c_nodes C) (w_nodes w) = Inr n" and "node_Role n = NodeRoleClient"
    and "for_clients q"
  shows "command_of C from q w
    = attempt (s_bind (ask C q (api_of n)) (\<lambda>r. s_read (\<lambda>_. Inr (Some r))))
        (\<lambda>e. eprint (err_text e @ NL)) show_exec_response w"
  using assms(3)
  by (cases q) (simp_all add: command_defs execute_client [OF assms(1,2)] api_defs ask_def [symmetric] list_asks)

text \<open>What the gateway does with the request of a client whose certificate carries a name.\<close>

definition client_post :: "request \<Rightarrow> string \<Rightarrow> bytes \<Rightarrow> http_request" where
  "client_post q from body = \<lparr>hr_method = ''POST'', hr_path = endpoint q,
     hr_content_type = ''application/json'', hr_peers = Some [from], hr_body = body\<rparr>"

lemma endpoint_routed: "endpoint q \<noteq> ''/commands/join'' \<and> endpoint q \<in> set command_paths"
  by (cases q) (simp_all add: command_paths_def)

lemma serve_client_post:
  assumes "from \<noteq> []" and "get_request (c_codec G) (endpoint q) body = Inr q"
    and "command_of G from q (g\<lparr>w_out := [], w_err := []\<rparr>) = (g1, Inr ())"
    and "pack_response G (endpoint q) from (g1\<lparr>w_out := w_out g, w_err := w_err g\<rparr>) = (g2, Inr p)"
    and "put_response (c_codec G) (plain_response (w_out g1) (w_err g1) p) = Inr answer"
  shows "serve_http G decode encode (client_post q from body) g = (g2, Inr (ok_with answer))"
  using endpoint_routed [of q] assms
  by (simp add: serve_http_def client_post_def handleRequestWithBody_def attempt_def s_read_def
      request_source_def validateRequest_def buffered_def)

lemma ask_answered:
  assumes "put_request (c_codec C) q = Inr body" and "api_ClientCertBundle api = Some b"
    and "GetClientTLSConfig (env_crypto (c_env C)) b = Inr tls"
    and "c_new_request C (api_url api (endpoint q)) = Inr ()"
    and "c_post C tls (api_url api (endpoint q)) body (w_machine w) = (m, Inr (200, Inr answer))"
    and "answer \<noteq> []" and "get_response (c_codec C) (endpoint q) answer = Inr r"
  shows "ask C q api w = (w\<lparr>w_machine := m\<rparr>, Inr (exec_part r))"
  using assms
  by (simp add: ask_def makeSecureRequestWithResponse_def Let_def wrapping_def attempt_def s_read_def
      s_bind_def on_machine_def read_response_def)

text \<open>
  C5. A command on a client is the command on the gateway. If the client's request reaches the
  gateway under the name of its certificate, and the answer comes back, then the client prints
  what the command printed on the gateway, trimmed, the error text first if there is one; its
  tables do not change. The gateway is left as the command leaves it, and its own output is
  untouched. This holds for each of the twelve commands a client may give.
\<close>

theorem client_command_is_gateway_command:
  fixes C :: "('n, 'v, 'j, 't, 'f, 'c, 'k) deps" and w :: "('n, 'v, 'j, 't, 'f) world"
    and G :: "('gn, 'gv, 'gj, 'gt, 'gf, 'gc, 'gk) deps" and g :: "('gn, 'gv, 'gj, 'gt, 'gf) world"
  assumes "for_clients q" and "from \<noteq> []"
    and "GetCurrentNode (c_nodes C) (w_nodes w) = Inr n" and "node_Role n = NodeRoleClient"
    and "node_ClientCertBundle n = Some b" and "GetClientTLSConfig (env_crypto (c_env C)) b = Inr tls"
    and "put_request (c_codec C) q = Inr body" and "get_request (c_codec G) (endpoint q) body = Inr q"
    and "command_of G from q (g\<lparr>w_out := [], w_err := []\<rparr>) = (g1, Inr ())"
    and "pack_response G (endpoint q) from (g1\<lparr>w_out := w_out g, w_err := w_err g\<rparr>) = (g2, Inr p)"
    and "put_response (c_codec G) (plain_response (w_out g1) (w_err g1) p) = Inr answer"
    and "get_response (c_codec C) (endpoint q) answer = Inr (plain_response (w_out g1) (w_err g1) p)"
    and "answer \<noteq> []" and "c_new_request C (api_url (api_of n) (endpoint q)) = Inr ()"
    and "\<And>reply. snd (serve_http G decode encode (client_post q from body) g) = Inr reply \<Longrightarrow>
          c_post C tls (api_url (api_of n) (endpoint q)) body (w_machine w)
            = (m, Inr (hs_status reply, Inr (hs_body reply)))"
  shows "command_of C any q w
     = (w\<lparr>w_machine := m, w_out := w_out w @ trim_space (w_out g1) @ NL,
          w_err := w_err w @ (if trim_space (w_err g1) = [] then [] else trim_space (w_err g1) @ NL)\<rparr>,
        Inr ())
     \<and> fst (serve_http G decode encode (client_post q from body) g) = g2"
proof -
  have served: "serve_http G decode encode (client_post q from body) g = (g2, Inr (ok_with answer))"
    by (rule serve_client_post [OF assms(2,8-11)])
  have "ask C q (api_of n) w = (w\<lparr>w_machine := m\<rparr>, Inr (exec_part (plain_response (w_out g1) (w_err g1) p)))"
    using assms(15) [of "ok_with answer"] served assms(5,6,7,12-14)
    by (intro ask_answered [where b = b and tls = tls and body = body and answer = answer])
      (simp_all add: api_of_def ok_with_def)
  then show ?thesis
    using served by (simp add: client_asks [OF assms(3,4,1)] attempt_def s_bind_def s_read_def
        show_exec_response_def exec_part_def plain_response_def finish_def print_def eprint_def)
qed

subsection \<open>A client and a gateway\<close>

definition demo_q :: request where
  "demo_q = ServiceUnpublishRequest ''http'' ''x.org'' 80"

definition demo_answer :: string where
  "demo_answer = cross_mark @ '' Service '' @ service_url ''http'' ''x.org'' 80
     @ '' was not found or was already unpublished earliner'' @ NL"

definition link_codec :: codec where
  "link_codec = \<lparr>put_request = (\<lambda>_. Inr [1]), get_request = (\<lambda>_ _. Inr demo_q),
     put_response = (\<lambda>_. Inr [2]), get_response = (\<lambda>_ _. Inr (plain_response demo_answer [] NoPayload))\<rparr>"

definition link_deps where
  "link_deps = (demo_deps True NodeRoleServer)\<lparr>c_codec := link_codec,
     c_post := (\<lambda>_ _ _ f. (f, Inr (200, Inr [2])))\<rparr>"

definition demo_client_bundle :: client_bundle where
  "demo_client_bundle = \<lparr>cb_RootCA = \<lparr>CertPEM = ''ca'', KeyPEM = []\<rparr>,
     cb_Client = \<lparr>CertPEM = ''cert'', KeyPEM = ''key''\<rparr>, cb_Generated = 0\<rparr>"

definition demo_client :: node where
  "demo_client = demo_gateway\<lparr>node_Role := NodeRoleClient, node_ClientCertBundle := Some demo_client_bundle\<rparr>"

definition demo_client_world where
  "demo_client_world = (demo_world NodeRoleServer)\<lparr>w_nodes := [demo_client]\<rparr>"

lemma demo_command:
  "command_of link_deps from demo_q (demo_world NodeRoleServer)
     = ((demo_world NodeRoleServer)\<lparr>w_out := demo_answer\<rparr>, Inr ())"
proof -
  have "GetCurrentNode (c_nodes link_deps) (w_nodes (demo_world NodeRoleServer)) = Inr demo_gateway"
    by (simp add: link_deps_def GetCurrentNode_def demo_gateway_def new_gateway_def)
  then show ?thesis unfolding demo_q_def command_of.simps ServiceUnpublish_def
    by (rule execute_gateway)
      (simp_all add: LocalServiceUnpublish_def s_bind_def on_services_def op_bool_def ServiceDelete_def
        link_deps_def print_def demo_world_def demo_answer_def)
qed

theorem client_command_is_gateway_command_witness:
  "command_of link_deps [] demo_q demo_client_world
     = (demo_client_world\<lparr>w_out := trim_space demo_answer @ NL\<rparr>, Inr ())
   \<and> fst (serve_http link_deps Inr (\<lambda>n. Inr []) (client_post demo_q ''c'' [1]) (demo_world NodeRoleServer))
     = demo_world NodeRoleServer"
proof -
  let ?C = link_deps and ?g = "demo_world NodeRoleServer" and ?w = demo_client_world
  have cur: "GetCurrentNode (c_nodes ?C) (w_nodes ?w) = Inr demo_client"
    by (simp add: link_deps_def demo_client_world_def GetCurrentNode_def demo_client_def demo_gateway_def
        new_gateway_def)
  have run: "command_of ?C ''c'' demo_q (?g\<lparr>w_out := [], w_err := []\<rparr>) = (?g\<lparr>w_out := demo_answer\<rparr>, Inr ())"
    using demo_command [of "''c''"] by (simp add: demo_world_def)
  have served: "snd (serve_http ?C Inr (\<lambda>n. Inr []) (client_post demo_q ''c'' [1]) ?g) = Inr (ok_with [2])"
    by (subst serve_client_post [OF _ _ run])
      (simp_all add: link_deps_def link_codec_def pack_response_def demo_q_def s_read_def)
  have tls: "\<exists>t. GetClientTLSConfig (env_crypto (c_env ?C)) demo_client_bundle = Inr t"
    by (simp add: link_deps_def GetClientTLSConfig_def demo_client_bundle_def demo_env_def demo_crypto_def)
  then obtain t where t: "GetClientTLSConfig (env_crypto (c_env ?C)) demo_client_bundle = Inr t" by blast
  have new: "c_new_request ?C u = Inr ()" for u by (simp add: link_deps_def demo_deps_def)
  have "command_of ?C [] demo_q ?w
     = (?w\<lparr>w_machine := w_machine ?w, w_out := w_out ?w @ trim_space (w_out (?g\<lparr>w_out := demo_answer\<rparr>)) @ NL,
          w_err := w_err ?w @ (if trim_space (w_err (?g\<lparr>w_out := demo_answer\<rparr>)) = [] then []
            else trim_space (w_err (?g\<lparr>w_out := demo_answer\<rparr>)) @ NL)\<rparr>, Inr ())
     \<and> fst (serve_http ?C Inr (\<lambda>n. Inr []) (client_post demo_q ''c'' [1]) ?g) = ?g"
    by (rule client_command_is_gateway_command [OF _ _ cur _ _ t _ _ run _ _ _ _ new,
          where p = NoPayload and answer = "[2]" and body = "[1]"])
      (use served in \<open>simp_all add: link_deps_def link_codec_def demo_client_def pack_response_def s_read_def
        demo_world_def demo_q_def ok_with_def plain_response_def\<close>)
  moreover have "trim_space [] = []" by code_simp
  ultimately show ?thesis by (simp add: demo_world_def demo_client_world_def)
qed

section \<open>Which certificate is presented\<close>

text \<open>The requests whose effect does not mention the sender.\<close>

fun anonymous :: "request \<Rightarrow> bool" where
  "anonymous (ServerRemoveRequest nodeID) = False"
| "anonymous ServerListRequest = False"
| "anonymous ClientListRequest = False"
| "anonymous (ServicePublishRequest _ _ _ _ _ _) = False"
| "anonymous NodeConfigRequest = False"
| "anonymous _ = True"

text \<open>
  C16. The server does not look at who asks. A request to unpublish a service, to change its
  parameters, to add a server or to label a node is answered in the same way and has the
  same effect under any certificate with a name: that of a client, of a server that did not
  publish the service, or that of a join request that was used long ago, since removing a
  client from the bundle leaves the configuration of the server as it was.
\<close>

theorem certificate_name_is_no_authority:
  assumes "hr_path r = endpoint q" and "anonymous q"
    and "get_request (c_codec C) (hr_path r) (hr_body r) = Inr q"
    and "hr_peers r = Some (a # as)" and "a \<noteq> []" and "b \<noteq> []"
  shows "serve_http C decode encode (r\<lparr>hr_peers := Some (b # bs)\<rparr>) w = serve_http C decode encode r w
     \<and> GetServerTLSConfig K (RemoveClient b bundle) = GetServerTLSConfig K bundle"
proof -
  have c: "command_of C b q = command_of C a q" using assms(2) by (cases q) simp_all
  have p: "pack_response C (endpoint q) b = pack_response C (endpoint q) a"
    using assms(2) by (cases q) (simp_all add: pack_response_def)
  have "handleRequestWithBody C (r\<lparr>hr_peers := Some (b # bs)\<rparr>) (command_of C) (pack_response C (endpoint q)) w
      = handleRequestWithBody C r (command_of C) (pack_response C (endpoint q)) w"
    using assms(3-6)
    by (simp add: handleRequestWithBody_def attempt_def s_read_def request_source_def validateRequest_def c p)
  then show ?thesis using assms(1) endpoint_routed [of q]
    by (simp add: serve_http_def GetServerTLSConfig_def)
qed

theorem certificate_name_is_no_authority_witness:
  "serve_http link_deps Inr (\<lambda>n. Inr []) (client_post demo_q ''used-request'' [1]) (demo_world NodeRoleServer)
   = serve_http link_deps Inr (\<lambda>n. Inr []) (client_post demo_q ''client'' [1]) (demo_world NodeRoleServer)"
  using certificate_name_is_no_authority [of "client_post demo_q ''client'' [1]" demo_q link_deps "''client''" "[]"
      "''used-request''" Inr "\<lambda>n. Inr []" "[]" "demo_world NodeRoleServer", THEN conjunct1]
  by (simp add: client_post_def demo_q_def link_deps_def link_codec_def)

end
