(* ===== verification/CommandLine.thy ===== *)
theory CommandLine
  imports Executor
begin

text \<open>
  The command line, \<open>cmd/server/commands\<close>: parsing of the remote address, asking for the
  credentials, the checks the commands make before they call the command service, and the
  calls. Flags and positional arguments are arguments of the definitions; their parsing is
  \<open>spf13/cobra\<close>'s. \<open>cmd.Printf\<close> writes to the error output when no other output is set, as
  \<open>cmd.PrintErrf\<close> does.
\<close>

section \<open>The remote address\<close>

text \<open>\<open>strconv.ParseUint(s, 10, 32)\<close>: digits only, at most 32 bits.\<close>

definition parse_uint32 :: "string \<Rightarrow> nat option" where
  "parse_uint32 s =
     (if s = [] then None
      else (case digits_val 0 s of
              None \<Rightarrow> None
            | Some n \<Rightarrow> if n < 2 ^ 32 then Some n else None))"

definition ssh_port :: "string \<Rightarrow> 64 word result" where
  "ssh_port portText =
     (if portText = [] then Inr 22
      else (case parse_uint32 portText of
              None \<Rightarrow> Inl (ErrText (''invalid port number: '' @ portText))
            | Some n \<Rightarrow>
                if 65535 < n then Inl (ErrText ''port number must be between 0 and 65535'')
                else Inr (of_nat n)))"

definition ssh_user_host :: "string \<Rightarrow> (string \<times> string) result" where
  "ssh_user_host sshURL =
     (if CHR ''@'' \<notin> set sshURL
      then Inl (ErrText ''username is required in SSH URL format: username@hostname[:port]'')
      else
        (case split_char CHR ''@'' sshURL of
           [username, hostname] \<Rightarrow>
             if username = [] then Inl (ErrText ''username cannot be empty'')
             else if hostname = [] then Inl (ErrText ''hostname cannot be empty'')
             else Inr (username, hostname)
         | _ \<Rightarrow> Inl (ErrText (''invalid SSH URL format: '' @ sshURL))))"

definition parseSSHURL :: "string \<Rightarrow> (string \<times> string \<times> 64 word) result" where
  "parseSSHURL sshURL =
     rbind (if CHR '':'' \<in> set sshURL then
              (case split_char CHR '':'' sshURL of
                 [rest, portText] \<Rightarrow> rbind (ssh_port portText) (\<lambda>port. Inr (rest, port))
               | _ \<Rightarrow> Inl (ErrText (''invalid SSH URL format: '' @ sshURL)))
            else Inr (sshURL, 22)) (\<lambda>(rest, port).
     rbind (ssh_user_host rest) (\<lambda>(username, hostname). Inr (username, hostname, port)))"

section \<open>Credentials\<close>

text \<open>
  What is read from outside: a password without echo (\<open>term.ReadPassword\<close>), a word
  (\<open>fmt.Scanln\<close>), and the body of an HTTP request.
\<close>

record 'f console =
  con_password :: "('f, string) op"
  con_word :: "('f, string) op"
  con_http_get :: "string \<Rightarrow> ('f, string result) op"

definition readPasswordSecurely ::
  "'f console \<Rightarrow> string \<Rightarrow> bool \<Rightarrow> ('n, 'v, 'j, 't, 'f, string) cmd" where
  "readPasswordSecurely L prompt promptToErr =
     (let out = if promptToErr then eprint else print in
      s_bind (out prompt) (\<lambda>_. \<lambda>w.
      (case on_machine (con_password L) w of
         (w', r) \<Rightarrow> s_bind (out NL) (\<lambda>_. s_read (\<lambda>_. r)) w')))"

definition zero_credentials :: credentials where
  "zero_credentials = \<lparr>cr_Host = [], cr_Port = 0, cr_Username = [], cr_Password = [],
     cr_PrivateKeyPath = [], cr_PrivateKeyData = [], cr_Passphrase = []\<rparr>"

definition errWrongArgs :: string where
  "errWrongArgs =
     ''wrong arguments; use positional argument to specify the SSH credentials (username@hostname[:port])''"

definition lock_mark :: string where "lock_mark = [CHR 0xF0, CHR 0x9F, CHR 0x94, CHR 0x92]"

text \<open>\<open>err\<close> is wrapped by a message, as \<open>fmt.Errorf\<close> does with the text of two errors.\<close>

definition errorf :: "string \<Rightarrow> ('n, 'v, 'j, 't, 'f, 'a) cmd" where
  "errorf message = s_read (\<lambda>_. Inl (ErrText message))"

text \<open>Without an argument: the address of the gateway that is known here, and a user name.\<close>

definition bootstrapped_gateway ::
  "('n, 'v, 'j, 't, 'f, 'c, 'k) deps \<Rightarrow> 'f console \<Rightarrow> bool \<Rightarrow> ('n, 'v, 'j, 't, 'f, credentials) cmd" where
  "bootstrapped_gateway C L promptToErr =
     attempt (on_nodes (s_read (GetGatewayNode (c_nodes C))))
       (\<lambda>e. errorf (''failed to get gateway node from database: '' @ err_text e @ '': '' @ errWrongArgs))
       (\<lambda>gatewayNode.
     case gatewayNode of
       None \<Rightarrow> errorf (''no gateway node found in database: '' @ errWrongArgs)
     | Some gw \<Rightarrow>
         if node_GatewayPublicIP gw = []
         then errorf (''gateway node public IP is not set: '' @ errWrongArgs)
         else
           s_bind ((if promptToErr then eprint else print)
             (lens @ '' Using the bootstrapped gateway node: '' @ node_GatewayPublicIP gw @ NL
              @ person_mark @ '' Enter SSH username: '')) (\<lambda>_.
           attempt (on_machine (con_word L))
             (\<lambda>e. errorf (''failed to read SSH username: '' @ err_text e)) (\<lambda>username.
           if username = [] then errorf ''SSH username is required''
           else s_read (\<lambda>_. Inr (zero_credentials
                  \<lparr>cr_Host := node_GatewayPublicIP gw, cr_Port := 22, cr_Username := username\<rparr>)))))"

definition addressed ::
  "('n, 'v, 'j, 't, 'f, 'c, 'k) deps \<Rightarrow> 'f console \<Rightarrow> string list \<Rightarrow> bool \<Rightarrow> bool \<Rightarrow>
   ('n, 'v, 'j, 't, 'f, credentials) cmd" where
  "addressed C L args useGatewayNodeIfNoArgs promptToErr =
     (case args of
        arg # _ \<Rightarrow>
          (case parseSSHURL arg of
             Inl e \<Rightarrow> errorf (''failed to parse SSH URL '' @ apostrophe @ arg @ apostrophe @ '': '' @ err_text e)
           | Inr (username, hostname, port) \<Rightarrow> s_read (\<lambda>_. Inr (zero_credentials
               \<lparr>cr_Username := username, cr_Host := hostname, cr_Port := port\<rparr>)))
      | [] \<Rightarrow>
          if \<not> useGatewayNodeIfNoArgs then errorf errWrongArgs
          else bootstrapped_gateway C L promptToErr)"

text \<open>\<open>keyPath\<close> is the flag \<open>ssh-key-path\<close>; a passphrase that cannot be read is left empty.\<close>

definition authenticated ::
  "'f console \<Rightarrow> string \<Rightarrow> bool \<Rightarrow> bool \<Rightarrow> credentials \<Rightarrow> ('n, 'v, 'j, 't, 'f, credentials) cmd" where
  "authenticated L keyPath promptToErr sshKeyPassSkip creds =
     (if keyPath \<noteq> [] then
        (let creds = creds\<lparr>cr_PrivateKeyPath := keyPath\<rparr> in
         if sshKeyPassSkip then s_read (\<lambda>_. Inr creds)
         else attempt (readPasswordSecurely L
                  (lock_mark @ '' Enter SSH key passphrase (leave empty if none): '') promptToErr)
                (\<lambda>_. s_read (\<lambda>_. Inr creds))
                (\<lambda>passphrase. s_read (\<lambda>_. Inr (if passphrase \<noteq> []
                   then creds\<lparr>cr_Passphrase := passphrase\<rparr> else creds))))
      else
        attempt (readPasswordSecurely L (lock_mark @ '' Enter SSH password: '') promptToErr)
          (\<lambda>e. errorf (''failed to read password: '' @ err_text e))
          (\<lambda>password. s_read (\<lambda>_. Inr (creds\<lparr>cr_Password := password\<rparr>))))"

definition buildSSHCredentials ::
  "('n, 'v, 'j, 't, 'f, 'c, 'k) deps \<Rightarrow> 'f console \<Rightarrow> string list \<Rightarrow> string \<Rightarrow> bool \<Rightarrow> bool \<Rightarrow> bool \<Rightarrow>
   ('n, 'v, 'j, 't, 'f, credentials) cmd" where
  "buildSSHCredentials C L args keyPath useGatewayNodeIfNoArgs promptToErr sshKeyPassSkip =
     s_bind (addressed C L args useGatewayNodeIfNoArgs promptToErr) (\<lambda>creds.
     if cr_Host creds = []
     then errorf ''SSH host is required. Use positional argument (username@hostname[:port])''
     else if cr_Username creds = []
     then errorf ''SSH username is required. Use positional argument (username@hostname[:port])''
     else
       s_bind (authenticated L keyPath promptToErr sshKeyPassSkip creds) (\<lambda>creds.
       if cr_PrivateKeyPath creds = [] \<and> cr_Password creds = []
       then errorf ''SSH authentication is required. Use --ssh-key-path flag or provide password interactively''
       else s_read (\<lambda>_. Inr creds)))"

section \<open>The public address of a gateway\<close>

text \<open>The body of the answer is the address, whatever its status.\<close>

definition GetPublicIP :: "'f console \<Rightarrow> ('f, string) op" where
  "GetPublicIP L =
     attempt (con_http_get L ''https://ipinfo.io/ip'')
       (\<lambda>e. s_read (\<lambda>_. Inl (ErrText
          (''failed to get node public ip (required for gateway setup): '' @ err_text e)))) (\<lambda>body.
     s_read (\<lambda>_.
       (case body of
          Inl e \<Rightarrow> Inl (ErrText (''failed to read node public ip (required for gateway setup): '' @ err_text e))
        | Inr publicIP \<Rightarrow> Inr publicIP)))"

section \<open>Gateway commands\<close>

definition cli_error :: "go_error \<Rightarrow> ('n, 'v, 'j, 't, 'f, unit) cmd" where
  "cli_error e = eprint (cross_mark @ '' Error: '' @ err_text e @ NL)"

definition StartGatewayCmd where
  "StartGatewayCmd C L serve configureOnly =
     attempt (on_machine (GetPublicIP L)) (fail_with ''Error'') (\<lambda>gatewayPublicIP.
     GatewayStart C serve gatewayPublicIP configureOnly)"

definition StatusGatewayCmd where
  "StatusGatewayCmd C L S args keyPath sshKeyPassEmpty =
     attempt (buildSSHCredentials C L args keyPath True False sshKeyPassEmpty) cli_error
       (\<lambda>creds. GatewayStatus S creds)"

definition UpGatewayCmd where
  "UpGatewayCmd C L S args keyPath sshKeyPassEmpty img imageTag =
     attempt (buildSSHCredentials C L args keyPath True True sshKeyPassEmpty) cli_error
       (\<lambda>creds. GatewayUp C S creds img imageTag)"

text \<open>The confirmation both teardown commands ask for, unless forced.\<close>

definition red_mark :: string where "red_mark = [CHR 0xF0, CHR 0x9F, CHR 0x94, CHR 0xB4]"

definition confirmed ::
  "'f console \<Rightarrow> bool \<Rightarrow> string \<Rightarrow> ('n, 'v, 'j, 't, 'f, unit) cmd \<Rightarrow> ('n, 'v, 'j, 't, 'f, unit) cmd" where
  "confirmed L force what m =
     (if force then m
      else
        s_bind (eprint (red_mark @ '' WARNING: This command will destroy all wireport data and configuration on the ''
          @ what @ '' node.'' @ NL @ ''Are you sure you want to continue? (y/n): '')) (\<lambda>_.
        attempt (on_machine (con_word L)) cli_error (\<lambda>confirm.
        if confirm \<noteq> ''y'' then eprint (cross_mark @ '' Aborted'' @ NL) else m)))"

text \<open>Credentials only with an argument.\<close>

definition optional_credentials ::
  "string list \<Rightarrow> ('n, 'v, 'j, 't, 'f, credentials) cmd \<Rightarrow>
   (credentials option \<Rightarrow> ('n, 'v, 'j, 't, 'f, unit) cmd) \<Rightarrow> ('n, 'v, 'j, 't, 'f, unit) cmd" where
  "optional_credentials args build m =
     (if args \<noteq> [] then attempt build cli_error (\<lambda>creds. m (Some creds)) else m None)"

definition DownGatewayCmd where
  "DownGatewayCmd C L S force args keyPath sshKeyPassEmpty =
     confirmed L force ''gateway''
       (optional_credentials args (buildSSHCredentials C L args keyPath True False sshKeyPassEmpty)
         (GatewayDown C S))"

definition UpgradeGatewayCmd where
  "UpgradeGatewayCmd C L S args keyPath sshKeyPassEmpty img imageTag =
     attempt (buildSSHCredentials C L args keyPath True False sshKeyPassEmpty) cli_error
       (\<lambda>creds. GatewayUpgrade C S creds img imageTag)"

section \<open>Server commands\<close>

definition NewServerCmd where
  "NewServerCmd C force quiet dockerSubnet = ServerNew C force quiet dockerSubnet"

definition StartServerCmd where
  "StartServerCmd C attempts rounds calls = ServerStart C attempts rounds calls"

definition ListServerCmd where
  "ListServerCmd C = ServerList C None"

definition StatusServerCmd where
  "StatusServerCmd C L S args keyPath sshKeyPassEmpty =
     attempt (buildSSHCredentials C L args keyPath False False sshKeyPassEmpty) cli_error
       (\<lambda>creds. ServerStatus S creds)"

definition UpServerCmd where
  "UpServerCmd C L S polls args keyPath sshKeyPassEmpty img imageTag dockerSubnet =
     attempt (buildSSHCredentials C L args keyPath False False sshKeyPassEmpty) cli_error (\<lambda>creds.
     case (if dockerSubnet \<noteq> [] then rbind (ParseIPNetMarshable dockerSubnet True) (\<lambda>_. Inr ())
           else Inr ()) of
       Inl e \<Rightarrow> eprint (cross_mark @ '' Failed to parse Docker subnet: '' @ err_text e @ NL)
     | Inr _ \<Rightarrow> ServerUp C S polls creds img imageTag dockerSubnet)"

definition DownServerCmd where
  "DownServerCmd C L S force args keyPath sshKeyPassEmpty =
     confirmed L force ''server''
       (optional_credentials args (buildSSHCredentials C L args keyPath False False sshKeyPassEmpty)
         (ServerDown C S))"

definition UpgradeServerCmd where
  "UpgradeServerCmd C L S args keyPath sshKeyPassEmpty img imageTag =
     attempt (buildSSHCredentials C L args keyPath False False sshKeyPassEmpty) cli_error
       (\<lambda>creds. ServerUpgrade C S creds img imageTag)"

definition validateNodeIPAndLabel :: "string \<Rightarrow> string \<Rightarrow> unit result" where
  "validateNodeIPAndLabel nodeIP label =
     (if trim_space nodeIP = [] \<or> trim_space label = []
      then Inl (ErrText ''node IP and label must be non-empty'') else Inr ())"

definition ServerLabelAddCmd where
  "ServerLabelAddCmd C nodeIP label =
     attempt (s_read (\<lambda>_. validateNodeIPAndLabel nodeIP label)) cli_error
       (\<lambda>_. NodeLabelAdd C nodeIP label)"

definition ServerLabelRemoveCmd where
  "ServerLabelRemoveCmd C nodeIP label =
     attempt (s_read (\<lambda>_. validateNodeIPAndLabel nodeIP label)) cli_error
       (\<lambda>_. NodeLabelRemove C nodeIP label)"

section \<open>Clients and joining\<close>

definition NewClientCmd where
  "NewClientCmd C joinRequest quiet wait = ClientNew C joinRequest quiet wait"

definition ListClientCmd where
  "ListClientCmd C = ClientList C None"

definition JoinCmd where
  "JoinCmd C postponed args =
     (case args of
        [joinToken] \<Rightarrow>
          if joinToken = [] then eprint (''Provide a join token'' @ NL)
          else if postponed then
            attempt (on_tokens (JoinTokenCreate (c_tokens C) (env_now (c_env C)) joinToken))
              (fail_with ''Failed to create join token'')
              (\<lambda>_. eprint (''Join token has been saved and will be applied on the next server start'' @ NL))
          else JoinCommand C joinToken
      | _ \<Rightarrow> eprint (''Provide a join token'' @ NL))"

section \<open>Service commands\<close>

text \<open>The two checks of a publication that only the command line makes.\<close>

definition publish_refused :: "string \<Rightarrow> string \<Rightarrow> 16 word \<Rightarrow> string option" where
  "publish_refused localProtocol publicProtocol publicPort =
     (if publicPort = ControlServerPort
      then Some (cross_mark @ '' Error: port '' @ port_str ControlServerPort
        @ '' is reserved for wireport control plane and cannot be used for publishing services'' @ NL)
      else if (localProtocol = ''tcp'' \<and> publicProtocol \<noteq> ''tcp'')
            \<or> (localProtocol = ''udp'' \<and> publicProtocol \<noteq> ''udp'')
      then Some (cross_mark @ '' Error: local protocol and public protocol must be the same for layer 4 services (tcp -> tcp or udp -> udp)'' @ NL)
      else None)"

definition address_error :: "string \<Rightarrow> go_error \<Rightarrow> ('n, 'v, 'j, 't, 'f, unit) cmd" where
  "address_error what e =
     eprint (cross_mark @ '' Error: '' @ what @ '' address parsing failed: '' @ err_text e @ NL)"

definition PublishServiceCmd ::
  "('n, 'v, 'j, 't, 'f, 'c, 'k) deps \<Rightarrow> string \<Rightarrow> string \<Rightarrow> ('n, 'v, 'j, 't, 'f, unit) cmd" where
  "PublishServiceCmd C local public =
     attempt (s_read (\<lambda>_. ParseAddress C local)) (address_error ''local'')
       (\<lambda>(localProtocol, localHost, localPort).
     attempt (s_read (\<lambda>_. ParseAddress C public)) (address_error ''public'')
       (\<lambda>(publicProtocol, publicHost, publicPort).
     case publish_refused localProtocol publicProtocol publicPort of
       Some message \<Rightarrow> eprint message
     | None \<Rightarrow>
         attempt (on_nodes (s_read (GetCurrentNode (c_nodes C))))
           (\<lambda>e. eprint (cross_mark @ '' Error: failed to get current node: '' @ err_text e @ NL))
           (\<lambda>currentNode.
         ServicePublish C (Some (node_ID currentNode)) localProtocol localHost localPort
           publicProtocol publicHost publicPort)))"

text \<open>The commands that take the public address of a service.\<close>

definition with_public ::
  "('n, 'v, 'j, 't, 'f, 'c, 'k) deps \<Rightarrow> string \<Rightarrow> (go_error \<Rightarrow> ('n, 'v, 'j, 't, 'f, unit) cmd) \<Rightarrow>
   (string \<Rightarrow> string \<Rightarrow> 16 word \<Rightarrow> ('n, 'v, 'j, 't, 'f, unit) cmd) \<Rightarrow> ('n, 'v, 'j, 't, 'f, unit) cmd" where
  "with_public C public failed m =
     attempt (s_read (\<lambda>_. ParseAddress C public)) failed (\<lambda>(protocol, host, port). m protocol host port)"

definition UnpublishServiceCmd where
  "UnpublishServiceCmd C public = with_public C public (address_error ''public'') (ServiceUnpublish C)"

definition ListServiceCmd where
  "ListServiceCmd C = ServiceList C"

definition NewParamsServiceCmd where
  "NewParamsServiceCmd C public paramValue =
     with_public C public (address_error ''public'') (\<lambda>protocol host port.
       ServiceParamNew C protocol host port PublicServiceParamTypeCaddyFreeText paramValue)"

definition RemoveParamsServiceCmd where
  "RemoveParamsServiceCmd C public paramValue =
     with_public C public (fail_with ''Error parsing public address'') (\<lambda>protocol host port.
       ServiceParamRemove C protocol host port PublicServiceParamTypeCaddyFreeText paramValue)"

definition ListParamsServiceCmd where
  "ListParamsServiceCmd C public = with_public C public (address_error ''public'') (ServiceParamList C)"

end
