(* ===== verification/ReconcileProps.thy ===== *)
theory ReconcileProps
  imports ExecutorProps
begin

text \<open>
  What the rounds of a server do to the gateway's services in the long run. A round asks for
  all services, withdraws and publishes; here its effect on the gateway's table is computed
  from the same two lists (\<open>services_to_unpublish\<close>, \<open>services_to_publish\<close>) and the operations
  of the repository which the two handlers of the gateway call.
\<close>

section \<open>A round, seen from the table\<close>

definition delete_all :: "('s, service) table_api \<Rightarrow> service list \<Rightarrow> 's \<Rightarrow> 's" where
  "delete_all T vs s = foldl (\<lambda>s v. fst (ServiceDelete T (svc_key v) s)) s vs"

definition save_all :: "('s, service) table_api \<Rightarrow> service list \<Rightarrow> 's \<Rightarrow> 's" where
  "save_all T vs s = foldl (\<lambda>s v. fst (ServiceSave T v s)) s vs"

definition label_round ::
  "('n, 'v, 'j, 't, 'f, 'c, 'k) deps \<Rightarrow> string \<Rightarrow> label_map \<Rightarrow> 'v \<Rightarrow> 'v" where
  "label_round C nodeID m s =
     (case ServiceGetAll (c_services C) s of
        Inl e \<Rightarrow> s
      | Inr vs \<Rightarrow> save_all (c_services C) (services_to_publish C nodeID m vs)
                   (delete_all (c_services C) (services_to_unpublish nodeID m vs) s))"

definition published_here :: "string \<Rightarrow> service \<Rightarrow> bool" where
  "published_here nodeID v \<longleftrightarrow> PublishedByNodeID v = Some nodeID"

lemma filter_here: "filterServicesPublishedByNode vs nodeID = filter (published_here nodeID) vs"
  by (simp add: filterServicesPublishedByNode_def published_here_def [abs_def])

lemma to_unpublish_set:
  "set (services_to_unpublish nodeID m vs) = {v \<in> set vs. published_here nodeID v \<and> missing_labels m v}"
  by (auto simp: services_to_unpublish_def filter_here)

section \<open>Candidates\<close>

text \<open>What the labels of a container declare, whatever is published.\<close>

definition declares ::
  "('n, 'v, 'j, 't, 'f, 'c, 'k) deps \<Rightarrow> string \<Rightarrow> string \<times> (string \<rightharpoonup> string) \<Rightarrow> service \<Rightarrow> bool" where
  "declares C nodeID ctr v \<longleftrightarrow> candidate_of C nodeID [] ctr = Candidate v"

lemma candidate_service_Some: "candidate_service c = Some v \<longleftrightarrow> c = Candidate v"
  by (cases c) simp_all

lemma candidate_iff:
  "candidate_of C nodeID here ctr = Candidate v
     \<longleftrightarrow> declares C nodeID ctr v \<and> (\<forall>u \<in> set here. LocalHost u \<noteq> fst ctr)"
  by (auto simp: declares_def candidate_of_def Let_def)

lemma set_map_filter_Some: "x \<in> set (List.map_filter f xs) \<longleftrightarrow> (\<exists>y \<in> set xs. f y = Some x)"
  by (induction xs) (auto simp: map_filter_simps split: option.splits)

lemma to_publish_set:
  "v \<in> set (services_to_publish C nodeID m vs)
     \<longleftrightarrow> (\<exists>ctr \<in> set m. declares C nodeID ctr v
            \<and> (\<forall>u \<in> set vs. published_here nodeID u \<longrightarrow> LocalHost u \<noteq> fst ctr))"
  by (auto simp: services_to_publish_def set_map_filter_Some candidate_service_Some candidate_iff filter_here)

lemma declares_fields:
  assumes "declares C nodeID ctr v"
  shows "LocalHost v = fst ctr" and "published_here nodeID v" and "Params v = []" and "CreatedAt v = 0"
    and "label_text (snd ctr) wireportServiceLocalLabel \<noteq> []"
    and "label_text (snd ctr) wireportServicePublicLabel \<noteq> []"
  using assms
  by (auto simp: declares_def candidate_of_def Let_def published_here_def
      split: if_splits sum.splits)

lemma declares_labelled:
  assumes "declares C nodeID ctr v" and "ctr \<in> set m" and "distinct (map fst m)"
    and "LocalHost u = fst ctr"
  shows "\<not> missing_labels m u"
proof -
  have "map_of m (fst ctr) = Some (snd ctr)" using assms(2,3) by (simp add: map_of_eq_Some_iff)
  with declares_fields(5,6) [OF assms(1)] assms(4) show ?thesis by (simp add: missing_labels_def)
qed

section \<open>The table after a round\<close>

text \<open>What \<open>ServiceSave\<close> stores over a row or over none.\<close>

definition saved :: "int \<Rightarrow> service \<Rightarrow> service option \<Rightarrow> service" where
  "saved now v old = (case old of None \<Rightarrow> stamp now v | Some e \<Rightarrow> v\<lparr>CreatedAt := CreatedAt e\<rparr>)"

context service_db
begin

lemma delete_all_view:
  "tbl (delete_all T vs s) k = (if k \<in> svc_key ` set vs then None else tbl s k)"
  by (induction vs arbitrary: s) (auto simp: delete_all_def ServiceDelete_view)

lemma save_all_other: "k \<notin> svc_key ` set vs \<Longrightarrow> tbl (save_all T vs s) k = tbl s k"
  by (induction vs arbitrary: s) (auto simp: save_all_def ServiceSave_view)

lemma save_all_view:
  "distinct (map svc_key vs) \<Longrightarrow> v \<in> set vs \<Longrightarrow> tbl (save_all T vs s) (svc_key v) = Some (saved now v (tbl s (svc_key v)))"
proof (induction vs arbitrary: s)
  case Nil
  then show ?case by simp
next
  case (Cons a vs)
  have step: "save_all T (a # vs) s = save_all T vs (fst (ServiceSave T a s))" by (simp add: save_all_def)
  show ?case
  proof (cases "v = a")
    case True
    with Cons.prems have "svc_key a \<notin> svc_key ` set vs" by auto
    then show ?thesis unfolding step True by (simp add: save_all_other ServiceSave_view saved_def)
  next
    case False
    with Cons.prems have v: "v \<in> set vs" by simp
    then have "svc_key v \<in> svc_key ` set vs" by (rule imageI)
    with Cons.prems(1) have "svc_key v \<noteq> svc_key a" by auto
    with Cons v show ?thesis unfolding step by (simp add: ServiceSave_view)
  qed
qed

end

lemma distinct_map_filter:
  assumes "distinct xs"
    and "\<And>x y a b. x \<in> set xs \<Longrightarrow> y \<in> set xs \<Longrightarrow> f x = Some a \<Longrightarrow> f y = Some b \<Longrightarrow> g a = g b \<Longrightarrow> x = y"
  shows "distinct (map g (List.map_filter f xs))"
  using assms
proof (induction xs)
  case Nil
  then show ?case by (simp add: map_filter_simps)
next
  case (Cons x xs)
  have ih: "distinct (map g (List.map_filter f xs))"
    by (rule Cons.IH) (use Cons.prems in auto)
  show ?case
  proof (cases "f x")
    case None
    with ih show ?thesis by (simp add: map_filter_simps)
  next
    case (Some a)
    have "g a \<noteq> g b" if b: "b \<in> set (List.map_filter f xs)" for b
    proof
      assume "g a = g b"
      from b obtain y where "y \<in> set xs" "f y = Some b" by (auto simp: set_map_filter_Some)
      with Cons.prems(2) [of x y a b] Some \<open>g a = g b\<close> have "x = y" by simp
      with Cons.prems(1) \<open>y \<in> set xs\<close> show False by simp
    qed
    with ih Some show ?thesis by (auto simp: map_filter_simps)
  qed
qed

text \<open>No two containers declare one public address.\<close>

definition addresses_distinct ::
  "('n, 'v, 'j, 't, 'f, 'c, 'k) deps \<Rightarrow> string \<Rightarrow> label_map \<Rightarrow> bool" where
  "addresses_distinct C nodeID m \<longleftrightarrow>
     (\<forall>x \<in> set m. \<forall>y \<in> set m. \<forall>a b. declares C nodeID x a \<and> declares C nodeID y b \<and> svc_key a = svc_key b
        \<longrightarrow> x = y)"

lemma addresses_distinctD:
  "addresses_distinct C nodeID m \<Longrightarrow> x \<in> set m \<Longrightarrow> y \<in> set m \<Longrightarrow> declares C nodeID x a \<Longrightarrow>
   declares C nodeID y b \<Longrightarrow> svc_key a = svc_key b \<Longrightarrow> x = y"
  by (simp add: addresses_distinct_def) blast

text \<open>A service of this node whose container still has both labels is the one they declare.\<close>

definition labels_current ::
  "('n, 'v, 'j, 't, 'f, 'c, 'k) deps \<Rightarrow> string \<Rightarrow> label_map \<Rightarrow> service set \<Rightarrow> bool" where
  "labels_current C nodeID m rows \<longleftrightarrow>
     (\<forall>u \<in> rows. \<forall>ls. published_here nodeID u \<and> map_of m (LocalHost u) = Some ls
        \<and> label_text ls wireportServiceLocalLabel \<noteq> [] \<and> label_text ls wireportServicePublicLabel \<noteq> []
        \<longrightarrow> (\<exists>ctr \<in> set m. \<exists>d. fst ctr = LocalHost u \<and> declares C nodeID ctr d \<and> svc_key d = svc_key u))"

lemma labels_currentD:
  "labels_current C nodeID m rows \<Longrightarrow> u \<in> rows \<Longrightarrow> published_here nodeID u \<Longrightarrow> \<not> missing_labels m u \<Longrightarrow>
   \<exists>ctr \<in> set m. \<exists>d. fst ctr = LocalHost u \<and> declares C nodeID ctr d \<and> svc_key d = svc_key u"
  by (auto simp: labels_current_def missing_labels_def split: option.splits)

lemma to_publish_distinct:
  assumes "distinct (map fst m)" and "addresses_distinct C nodeID m"
  shows "distinct (map svc_key (services_to_publish C nodeID m vs))"
  unfolding services_to_publish_def
proof (rule distinct_map_filter)
  show "distinct m" using assms(1) by (simp add: distinct_map)
next
  fix x y a b
  assume "x \<in> set m" "y \<in> set m" "svc_key a = svc_key b"
    and "candidate_service (candidate_of C nodeID (filterServicesPublishedByNode vs nodeID) x) = Some a"
    and "candidate_service (candidate_of C nodeID (filterServicesPublishedByNode vs nodeID) y) = Some b"
  with assms(2) show "x = y"
    by (simp add: candidate_service_Some candidate_iff addresses_distinct_def) blast
qed

lemma saved_fields [simp]:
  "svc_key (saved now v old) = svc_key v" "LocalHost (saved now v old) = LocalHost v"
  "published_here i (saved now v old) = published_here i v"
  by (simp_all add: saved_def published_here_def stamp_def svc_key_def split: option.split)

lemma missing_labels_saved [simp]: "missing_labels m (saved now v old) = missing_labels m v"
  by (simp add: missing_labels_def)

context service_db
begin

text \<open>The rows after a round: what was published, and the rows of before that were not withdrawn.\<close>

lemma round_view:
  assumes "T = c_services C" and "ServiceGetAll T s = Inr vs" and "distinct (map fst m)"
    and "addresses_distinct C nodeID m"
  shows "v \<in> set (services_to_publish C nodeID m vs) \<Longrightarrow>
       \<exists>old. tbl (label_round C nodeID m s) (svc_key v) = Some (saved now v old)"
    and "k \<notin> svc_key ` set (services_to_publish C nodeID m vs) \<Longrightarrow>
       tbl (label_round C nodeID m s) k
         = (if k \<in> svc_key ` set (services_to_unpublish nodeID m vs) then None else tbl s k)"
proof -
  have r: "label_round C nodeID m s = save_all T (services_to_publish C nodeID m vs)
             (delete_all T (services_to_unpublish nodeID m vs) s)"
    using assms(1,2) by (simp add: label_round_def)
  show "v \<in> set (services_to_publish C nodeID m vs) \<Longrightarrow>
       \<exists>old. tbl (label_round C nodeID m s) (svc_key v) = Some (saved now v old)"
    unfolding r using save_all_view [OF to_publish_distinct [OF assms(3,4)]] by blast
  show "k \<notin> svc_key ` set (services_to_publish C nodeID m vs) \<Longrightarrow>
       tbl (label_round C nodeID m s) k
         = (if k \<in> svc_key ` set (services_to_unpublish nodeID m vs) then None else tbl s k)"
    unfolding r by (simp add: save_all_other delete_all_view)
qed

lemma round_row:
  assumes "T = c_services C" and "ServiceGetAll T s = Inr vs" and "distinct (map fst m)"
    and "addresses_distinct C nodeID m" and "u \<in> ran (tbl (label_round C nodeID m s))"
  obtains v old where "v \<in> set (services_to_publish C nodeID m vs)" and "u = saved now v old"
  | "u \<in> ran (tbl s)" and "u \<notin> set (services_to_unpublish nodeID m vs)"
proof -
  from assms(5) obtain k where k: "tbl (label_round C nodeID m s) k = Some u" by (auto simp: ran_def)
  show thesis
  proof (cases "k \<in> svc_key ` set (services_to_publish C nodeID m vs)")
    case True
    then obtain v where "v \<in> set (services_to_publish C nodeID m vs)" "k = svc_key v" by blast
    moreover from this round_view(1) [OF assms(1-4)] obtain old
      where "tbl (label_round C nodeID m s) (svc_key v) = Some (saved now v old)" by blast
    ultimately have "v \<in> set (services_to_publish C nodeID m vs)" "u = saved now v old"
      using k by simp_all
    then show thesis by (rule that(1))
  next
    case False
    from round_view(2) [OF assms(1-4) False] k
    have old: "tbl s k = Some u" and "k \<notin> svc_key ` set (services_to_unpublish nodeID m vs)"
      by (auto split: if_splits)
    with tbl_pk [OF old] have "u \<notin> set (services_to_unpublish nodeID m vs)" by blast
    with old that(2) show thesis by (blast intro: ranI)
  qed
qed

lemma same_container:
  "distinct (map fst m) \<Longrightarrow> x \<in> set m \<Longrightarrow> y \<in> set m \<Longrightarrow> fst x = fst y \<Longrightarrow> x = y"
  by (metis eq_key_imp_eq_value prod.collapse)

lemma own_rows_declared:
  assumes "T = c_services C" and "ServiceGetAll T s = Inr vs" and "distinct (map fst m)"
    and "addresses_distinct C nodeID m" and "labels_current C nodeID m (ran (tbl s))"
    and "u \<in> ran (tbl (label_round C nodeID m s))" and "published_here nodeID u"
  shows "\<exists>ctr \<in> set m. \<exists>d. fst ctr = LocalHost u \<and> declares C nodeID ctr d \<and> svc_key d = svc_key u"
  using assms(1-4,6)
proof (rule round_row)
  fix v old
  assume "v \<in> set (services_to_publish C nodeID m vs)" and u: "u = saved now v old"
  then obtain ctr where "ctr \<in> set m" "declares C nodeID ctr v" by (auto simp: to_publish_set)
  with declares_fields(1) [OF this(2)] u show ?thesis by (intro bexI [of _ ctr] exI [of _ v]) simp_all
next
  assume u: "u \<in> ran (tbl s)" and n: "u \<notin> set (services_to_unpublish nodeID m vs)"
  from ServiceGetAll_view [of s] assms(2) u have "u \<in> set vs" by simp
  with n assms(7) have "\<not> missing_labels m u" by (simp add: to_unpublish_set)
  from labels_currentD [OF assms(5) u assms(7) this] show ?thesis .
qed

lemma published_after_round:
  assumes "T = c_services C" and "ServiceGetAll T s = Inr vs" and "distinct (map fst m)"
    and "addresses_distinct C nodeID m" and "ctr \<in> set m" and "declares C nodeID ctr v"
    and own: "\<And>u. u \<in> ran (tbl s) \<Longrightarrow> published_here nodeID u \<Longrightarrow> LocalHost u = fst ctr \<Longrightarrow>
      svc_key u = svc_key v"
  shows "\<exists>u. tbl (label_round C nodeID m s) (svc_key v) = Some u \<and> published_here nodeID u
     \<and> LocalHost u = fst ctr"
proof (cases "\<exists>u \<in> set vs. published_here nodeID u \<and> LocalHost u = fst ctr")
  case False
  with assms(5,6) have "v \<in> set (services_to_publish C nodeID m vs)" by (auto simp: to_publish_set)
  from round_view(1) [OF assms(1-4) this] declares_fields(1,2) [OF assms(6)] show ?thesis by auto
next
  case True
  then obtain u where u: "u \<in> set vs" "published_here nodeID u" "LocalHost u = fst ctr" by blast
  from ServiceGetAll_view [of s] assms(2) u(1) have ran: "u \<in> ran (tbl s)" by simp
  then have row: "tbl s (svc_key u) = Some u" using rows_ran [of s "\<lambda>_. True"] by auto
  have there: "\<not> missing_labels m u" by (rule declares_labelled [OF assms(6,5,3) u(3)])
  from own [OF ran u(2,3)] have key: "svc_key u = svc_key v" .
  have "svc_key u \<notin> svc_key ` set (services_to_publish C nodeID m vs)"
  proof
    assume "svc_key u \<in> svc_key ` set (services_to_publish C nodeID m vs)"
    then obtain x w where x: "x \<in> set m" "declares C nodeID x w" "svc_key w = svc_key u"
      "\<forall>u \<in> set vs. published_here nodeID u \<longrightarrow> LocalHost u \<noteq> fst x"
      by (auto simp: to_publish_set)
    have "svc_key w = svc_key v" using x(3) key by simp
    then have "x = ctr" by (rule addresses_distinctD [OF assms(4) x(1) assms(5) x(2) assms(6)])
    with x(4) u show False by blast
  qed
  moreover have "svc_key u \<notin> svc_key ` set (services_to_unpublish nodeID m vs)"
  proof
    assume "svc_key u \<in> svc_key ` set (services_to_unpublish nodeID m vs)"
    then obtain x where x: "x \<in> set vs" "missing_labels m x" "svc_key x = svc_key u"
      by (auto simp: to_unpublish_set)
    from ServiceGetAll_view [of s] assms(2) x(1) have "x \<in> ran (tbl s)" by simp
    then have "tbl s (svc_key x) = Some x" using rows_ran [of s "\<lambda>_. True"] by auto
    with row have "x = u" unfolding x(3) by simp
    with x(2) there show False by blast
  qed
  ultimately have "tbl (label_round C nodeID m s) (svc_key v) = Some u"
    using round_view(2) [OF assms(1-4)] row key by simp
  with u show ?thesis by blast
qed

lemma declared_published:
  assumes "T = c_services C" and "ServiceGetAll T s = Inr vs" and "distinct (map fst m)"
    and "addresses_distinct C nodeID m" and "labels_current C nodeID m (ran (tbl s))"
    and "ctr \<in> set m" and "declares C nodeID ctr v"
  shows "\<exists>u. tbl (label_round C nodeID m s) (svc_key v) = Some u \<and> published_here nodeID u
     \<and> LocalHost u = fst ctr"
proof (rule published_after_round [OF assms(1-4,6,7)])
  fix u assume u: "u \<in> ran (tbl s)" "published_here nodeID u" "LocalHost u = fst ctr"
  have "\<not> missing_labels m u" by (rule declares_labelled [OF assms(7,6,3) u(3)])
  from labels_currentD [OF assms(5) u(1,2) this] obtain c d where "c \<in> set m"
    "fst c = LocalHost u" "declares C nodeID c d" "svc_key d = svc_key u" by blast
  with same_container [OF assms(3) assms(6), of c] u(3) assms(7) show "svc_key u = svc_key v"
    by (simp add: declares_def)
qed

lemma round_settles:
  assumes T: "T = c_services C" and names: "distinct (map fst m)" and dist: "addresses_distinct C nodeID m"
    and cur: "labels_current C nodeID m (ran (tbl s))"
  shows "label_round C nodeID m (label_round C nodeID m s) = label_round C nodeID m s"
proof -
  let ?s = "label_round C nodeID m s"
  obtain vs where vs: "ServiceGetAll T s = Inr vs" using ServiceGetAll_view by blast
  obtain vs' where vs': "ServiceGetAll T ?s = Inr vs'" and set: "set vs' = ran (tbl ?s)"
    using ServiceGetAll_view by blast
  have "services_to_unpublish nodeID m vs' = []"
  proof -
    have "\<not> missing_labels m u" if "u \<in> set vs'" "published_here nodeID u" for u
    proof -
      from own_rows_declared [OF T vs names dist cur] that set obtain ctr d
        where "ctr \<in> set m" "fst ctr = LocalHost u" "declares C nodeID ctr d" by blast
      then show ?thesis using declares_labelled [OF _ _ names, of C nodeID ctr d u] by simp
    qed
    then show ?thesis by (simp flip: set_empty add: to_unpublish_set)
  qed
  moreover have "services_to_publish C nodeID m vs' = []"
  proof -
    have False if "ctr \<in> set m" "declares C nodeID ctr v"
      "\<forall>u \<in> set vs'. published_here nodeID u \<longrightarrow> LocalHost u \<noteq> fst ctr" for ctr v
      using declared_published [OF T vs names dist cur that(1,2)] that(3) set by (auto intro: ranI)
    then have "v \<notin> set (services_to_publish C nodeID m vs')" for v unfolding to_publish_set by blast
    then show ?thesis by (metis list.set_intros(1) neq_Nil_conv)
  qed
  ultimately show ?thesis
    using vs' T by (subst (1) label_round_def) (simp add: save_all_def delete_all_def)
qed

text \<open>A container whose service is published under another address than its label declares.\<close>

lemma round_keeps_stale:
  assumes T: "T = c_services C" and names: "distinct (map fst m)" and dist: "addresses_distinct C nodeID m"
    and u: "tbl s (svc_key u) = Some u" "published_here nodeID u"
    and ctr: "ctr \<in> set m" "fst ctr = LocalHost u" "declares C nodeID ctr v"
    and other: "\<forall>c \<in> set m. \<forall>d. declares C nodeID c d \<longrightarrow> svc_key d \<noteq> svc_key u"
  shows "tbl (label_round C nodeID m s) (svc_key u) = Some u
     \<and> tbl (label_round C nodeID m s) (svc_key v) \<in> {None, tbl s (svc_key v)}"
proof -
  obtain vs where vs: "ServiceGetAll T s = Inr vs" using ServiceGetAll_view by blast
  with ServiceGetAll_view [of s] have set: "set vs = ran (tbl s)" by simp
  with u have "u \<in> set vs" by (auto intro: ranI)
  have "svc_key d \<noteq> svc_key u \<and> svc_key d \<noteq> svc_key v"
    if "d \<in> set (services_to_publish C nodeID m vs)" for d
  proof -
    from that obtain c where c: "c \<in> set m" "declares C nodeID c d"
      "\<forall>w \<in> set vs. published_here nodeID w \<longrightarrow> LocalHost w \<noteq> fst c" by (auto simp: to_publish_set)
    with u(2) \<open>u \<in> set vs\<close> ctr(2) have "c \<noteq> ctr" by force
    with addresses_distinctD [OF dist c(1) ctr(1) c(2) ctr(3)] other c show ?thesis by blast
  qed
  then have pub: "svc_key u \<notin> svc_key ` set (services_to_publish C nodeID m vs)"
    "svc_key v \<notin> svc_key ` set (services_to_publish C nodeID m vs)" by (metis imageE)+
  have "svc_key u \<notin> svc_key ` set (services_to_unpublish nodeID m vs)"
  proof
    assume "svc_key u \<in> svc_key ` set (services_to_unpublish nodeID m vs)"
    then obtain x where x: "x \<in> set vs" "missing_labels m x" "svc_key x = svc_key u"
      by (auto simp: to_unpublish_set)
    then obtain k where "tbl s k = Some x" using set by (auto simp: ran_def)
    with tbl_pk [OF this] x(3) u(1) have "x = u" by simp
    with x(2) declares_labelled [OF ctr(3,1) names ctr(2) [symmetric]] show False by simp
  qed
  with round_view(2) [OF T vs names dist pub(1)] round_view(2) [OF T vs names dist pub(2)] u(1)
  show ?thesis by simp
qed

lemma rounds_keep_stale:
  assumes "T = c_services C" and "distinct (map fst m)" and "addresses_distinct C nodeID m"
    and "tbl s (svc_key u) = Some u" and "published_here nodeID u"
    and "ctr \<in> set m" and "fst ctr = LocalHost u" and "declares C nodeID ctr v"
    and "\<forall>c \<in> set m. \<forall>d. declares C nodeID c d \<longrightarrow> svc_key d \<noteq> svc_key u"
  shows "tbl ((label_round C nodeID m ^^ n) s) (svc_key u) = Some u
     \<and> tbl ((label_round C nodeID m ^^ n) s) (svc_key v) \<in> {None, tbl s (svc_key v)}"
proof (induction n)
  case 0
  with assms(4) show ?case by simp
next
  case (Suc n)
  from round_keeps_stale [OF assms(1-3) conjunct1 [OF Suc.IH] assms(5-9)] Suc.IH
  show ?case by auto
qed

end


section \<open>One address, declared twice\<close>

lemma only_own_published:
  assumes "v \<in> set (services_to_publish C nodeID m vs)"
  shows "published_here nodeID v"
  using assms declares_fields(2) by (auto simp: to_publish_set)

text \<open>The services a node has published for a container are under the address it declares.\<close>

definition own_address :: "string \<Rightarrow> string \<Rightarrow> service_key \<Rightarrow> service set \<Rightarrow> bool" where
  "own_address nodeID host k rows \<longleftrightarrow>
     (\<forall>u \<in> rows. published_here nodeID u \<and> LocalHost u = host \<longrightarrow> svc_key u = k)"

context service_db
begin

lemma own_address_other:
  assumes "T = c_services C" and "distinct (map fst m)" and "addresses_distinct C j m" and "i \<noteq> j"
    and "own_address i host k (ran (tbl s))"
  shows "own_address i host k (ran (tbl (label_round C j m s)))"
  unfolding own_address_def
proof (intro ballI impI)
  obtain vs where vs: "ServiceGetAll T s = Inr vs" using ServiceGetAll_view by blast
  fix w assume w: "w \<in> ran (tbl (label_round C j m s))" "published_here i w \<and> LocalHost w = host"
  from assms(1) vs assms(2,3) w(1) show "svc_key w = k"
  proof (cases rule: round_row)
    case (1 v old)
    with w(2) have "published_here i v" by simp
    with only_own_published [OF 1(1)] assms(4) show ?thesis by (simp add: published_here_def)
  next
    case 2
    with assms(5) w(2) show ?thesis by (simp add: own_address_def)
  qed
qed

lemma own_address_self:
  assumes "T = c_services C" and "distinct (map fst m)" and "addresses_distinct C i m"
    and "x \<in> set m" and "declares C i x a" and "own_address i (fst x) (svc_key a) (ran (tbl s))"
  shows "own_address i (fst x) (svc_key a) (ran (tbl (label_round C i m s)))"
  unfolding own_address_def
proof (intro ballI impI)
  obtain vs where vs: "ServiceGetAll T s = Inr vs" using ServiceGetAll_view by blast
  fix w assume w: "w \<in> ran (tbl (label_round C i m s))" "published_here i w \<and> LocalHost w = fst x"
  from assms(1) vs assms(2,3) w(1) show "svc_key w = svc_key a"
  proof (cases rule: round_row)
    case (1 v old)
    then obtain y where y: "y \<in> set m" "declares C i y v" by (auto simp: to_publish_set)
    with declares_fields(1) [OF y(2)] w(2) 1(2) have "y = x"
      using same_container [OF assms(2) y(1) assms(4)] by simp
    with y(2) assms(5) have "v = a" by (simp add: declares_def)
    with 1(2) show ?thesis by simp
  next
    case 2
    with assms(6) w(2) show ?thesis by (simp add: own_address_def)
  qed
qed

lemma taken_after_round:
  assumes "T = c_services C" and "distinct (map fst m)" and "addresses_distinct C i m"
    and "x \<in> set m" and "declares C i x a" and "own_address i (fst x) (svc_key a) (ran (tbl s))"
  shows "\<exists>u. tbl (label_round C i m s) (svc_key a) = Some u \<and> published_here i u"
proof -
  obtain vs where vs: "ServiceGetAll T s = Inr vs" using ServiceGetAll_view by blast
  have "svc_key u = svc_key a"
    if "u \<in> ran (tbl s)" "published_here i u" "LocalHost u = fst x" for u
    using assms(6) that by (simp add: own_address_def)
  from published_after_round [OF assms(1) vs assms(2-5) this] show ?thesis by blast
qed

end

text \<open>
  C17. Two servers whose containers declare the same public address take it from each other
  for ever, although each is to manage its own services only: however many rounds both have
  made, the next round of the one takes the address, and the round of the other after it takes
  it back.
\<close>

theorem shared_address_flaps:
  fixes C :: "('n, 'v, 'j, 't, 'f, 'c, 'k) deps"
  assumes "service_db (c_services C) stbl now" and "i \<noteq> j"
    and "distinct (map fst m)" and "addresses_distinct C i m" and "x \<in> set m" and "declares C i x a"
    and "distinct (map fst m')" and "addresses_distinct C j m'" and "y \<in> set m'" and "declares C j y b"
    and "svc_key a = svc_key b"
    and "own_address i (fst x) (svc_key a) (ran (stbl s))"
    and "own_address j (fst y) (svc_key b) (ran (stbl s))"
    and "t = ((\<lambda>s. label_round C j m' (label_round C i m s)) ^^ n) s"
  shows "(\<exists>u. stbl (label_round C i m t) (svc_key a) = Some u \<and> published_here i u)
     \<and> (\<exists>u. stbl (label_round C j m' (label_round C i m t)) (svc_key a) = Some u \<and> published_here j u)"
proof -
  note self = service_db.own_address_self [OF assms(1) refl]
    and other = service_db.own_address_other [OF assms(1) refl]
    and taken = service_db.taken_after_round [OF assms(1) refl]
  have t: "own_address i (fst x) (svc_key a) (ran (stbl t))
      \<and> own_address j (fst y) (svc_key b) (ran (stbl t))"
    unfolding assms(14)
  proof (induction n)
    case 0
    with assms(12,13) show ?case by simp
  next
    case (Suc n)
    then show ?case
      using other [OF assms(7,8,2) self [OF assms(3-6)]]
        self [OF assms(7-10) other [OF assms(3,4) assms(2) [symmetric]]] by simp
  qed
  have "own_address j (fst y) (svc_key b) (ran (stbl (label_round C i m t)))"
    using t by (intro other [OF assms(3,4) assms(2) [symmetric]]) simp
  with taken [OF assms(7-10)] taken [OF assms(3-6)] t assms(11) show ?thesis by simp
qed

section \<open>A label that changes\<close>

text \<open>
  C23. A changed label is not followed: while the service of a container is published under an
  address that its labels no longer declare, and no other container of the server declares
  that address, the service stays published there through any number of rounds, and the
  address now declared is never published.
\<close>

theorem changed_label_is_ignored:
  fixes C :: "('n, 'v, 'j, 't, 'f, 'c, 'k) deps"
  assumes "service_db (c_services C) stbl now" and "distinct (map fst m)"
    and "addresses_distinct C nodeID m"
    and "stbl s (svc_key u) = Some u" and "published_here nodeID u"
    and "ctr \<in> set m" and "fst ctr = LocalHost u" and "declares C nodeID ctr v"
    and "\<forall>c \<in> set m. \<forall>d. declares C nodeID c d \<longrightarrow> svc_key d \<noteq> svc_key u"
  shows "stbl ((label_round C nodeID m ^^ n) s) (svc_key u) = Some u
     \<and> stbl ((label_round C nodeID m ^^ n) s) (svc_key v) \<in> {None, stbl s (svc_key v)}"
  using service_db.rounds_keep_stale [OF assms(1) refl assms(2-9)] .

section \<open>A container with two labels\<close>

definition label_deps where
  "label_deps = (demo_deps True NodeRoleServer)\<lparr>c_parse_url :=
     (\<lambda>t. if t = ''http://a'' then Inr (''http'', ''a'', []) else Inr (''http'', ''x.org'', []))\<rparr>"

definition demo_labels :: label_map where
  "demo_labels = [(''a'', [wireportServiceLocalLabel \<mapsto> ''http://a'',
     wireportServicePublicLabel \<mapsto> ''http://x.org''])]"

definition demo_declared :: "string \<Rightarrow> service" where
  "demo_declared nodeID = published_service (Some nodeID) ''http'' ''a'' 80 ''http'' ''x.org'' 80"

lemma label_deps_sel [simp]: "c_services label_deps = mem_services 0"
  by (simp add: label_deps_def)

lemma demo_addresses:
  "ParseAddress label_deps ''http://a'' = Inr (''http'', ''a'', 80)"
  "ParseAddress label_deps ''http://x.org'' = Inr (''http'', ''x.org'', 80)"
proof -
  have t: "trim_space ''http://a'' = ''http://a''" "trim_space ''http://x.org'' = ''http://x.org''"
    "to_lower ''http'' = ''http''" "atoi ''80'' = Some 80" by code_simp+
  show "ParseAddress label_deps ''http://a'' = Inr (''http'', ''a'', 80)"
    "ParseAddress label_deps ''http://x.org'' = Inr (''http'', ''x.org'', 80)"
    by (simp_all add: ParseAddress_def t label_deps_def)
qed

lemma demo_declares: "ctr \<in> set demo_labels \<Longrightarrow> declares label_deps nodeID ctr v \<longleftrightarrow> v = demo_declared nodeID"
  by (auto simp: declares_def candidate_of_def demo_labels_def label_text_def demo_addresses
      wireportServiceLocalLabel_def wireportServicePublicLabel_def demo_declared_def published_service_def)

lemma no_rows [simp]: "ran (mem_tbl pk []) = {}"
  by (simp add: mem_tbl_def ran_def)

lemma demo_labels_distinct [simp]:
  "distinct (map fst demo_labels)" "addresses_distinct label_deps nodeID demo_labels"
  by (auto simp: addresses_distinct_def demo_labels_def)


theorem shared_address_flaps_witness:
  "\<exists>u. mem_tbl svc_key (label_round label_deps ''j'' demo_labels (label_round label_deps ''i'' demo_labels []))
     (svc_key (demo_declared ''i'')) = Some u \<and> published_here ''j'' u"
proof -
  have x: "hd demo_labels \<in> set demo_labels" by (simp add: demo_labels_def)
  have k: "svc_key (demo_declared ''i'') = svc_key (demo_declared ''j'')"
    by (simp add: demo_declared_def published_service_def svc_key_def)
  have o: "own_address i h k (ran (mem_tbl svc_key ([] :: service list)))" for i h k
    by (simp add: own_address_def)
  show ?thesis
    using shared_address_flaps [where C = label_deps and stbl = "mem_tbl svc_key" and now = 0
        and i = "''i''" and j = "''j''" and s = "[]" and n = 0 and t = "[]", OF _ _ _ _ x _ _ _ x _ k o o]
      mem_service_db [of 0] demo_declares [OF x]
    by simp
qed

theorem changed_label_is_ignored_witness:
  "\<forall>n. mem_tbl svc_key ((label_round label_deps ''n'' demo_labels ^^ n)
          [published_service (Some ''n'') ''http'' ''a'' 80 ''http'' ''old.org'' 80]) (''http'', ''old.org'', 80)
       = Some (published_service (Some ''n'') ''http'' ''a'' 80 ''http'' ''old.org'' 80)
     \<and> mem_tbl svc_key ((label_round label_deps ''n'' demo_labels ^^ n)
          [published_service (Some ''n'') ''http'' ''a'' 80 ''http'' ''old.org'' 80]) (''http'', ''x.org'', 80)
       = None"
proof
  fix n
  let ?u = "published_service (Some ''n'') ''http'' ''a'' 80 ''http'' ''old.org'' 80"
  have x: "hd demo_labels \<in> set demo_labels" "fst (hd demo_labels) = LocalHost ?u"
    by (simp_all add: demo_labels_def published_service_def)
  have k: "svc_key ?u = (''http'', ''old.org'', 80)" "published_here ''n'' ?u"
    "svc_key (demo_declared ''n'') = (''http'', ''x.org'', 80)"
    by (simp_all add: demo_declared_def published_service_def svc_key_def published_here_def)
  then have t: "mem_tbl svc_key [?u] (svc_key ?u) = Some ?u"
    "mem_tbl svc_key [?u] (svc_key (demo_declared ''n'')) = None" by (simp_all add: mem_tbl_def)
  have other: "\<forall>c \<in> set demo_labels. \<forall>d. declares label_deps ''n'' c d \<longrightarrow> svc_key d \<noteq> svc_key ?u"
    using demo_declares [where nodeID = "''n''"] k by simp
  show "mem_tbl svc_key ((label_round label_deps ''n'' demo_labels ^^ n) [?u]) (''http'', ''old.org'', 80)
       = Some ?u
     \<and> mem_tbl svc_key ((label_round label_deps ''n'' demo_labels ^^ n) [?u]) (''http'', ''x.org'', 80) = None"
    using changed_label_is_ignored [where C = label_deps and stbl = "mem_tbl svc_key" and now = 0
        and v = "demo_declared ''n''", OF _ _ _ t(1) k(2) x(1,2) _ other, of n]
      mem_service_db [of 0] demo_declares [OF x(1)] t(2) k by simp
qed

end
