(* ===== verification/CommandLineProps.thy ===== *)
theory CommandLineProps
  imports CommandLine ReconcileProps
begin

text \<open>
  What is proved of the command line: exactly which remote addresses it takes, and what its
  checks of a publication leave open.
\<close>

section \<open>Remote addresses\<close>

lemma split_char_parts: "p \<in> set (split_char c s) \<Longrightarrow> c \<notin> set p"
  by (induction s arbitrary: p) (auto split: list.splits if_splits)

lemma split_char_two: "split_char c s = [a, b] \<longleftrightarrow> s = a @ c # b \<and> c \<notin> set a \<and> c \<notin> set b"
proof
  assume s: "split_char c s = [a, b]"
  then have "join_str [c] [a, b] = s" by (metis join_split_char)
  moreover have "a \<in> set (split_char c s)" "b \<in> set (split_char c s)" by (simp_all add: s)
  ultimately show "s = a @ c # b \<and> c \<notin> set a \<and> c \<notin> set b" by (auto dest: split_char_parts)
next
  assume "s = a @ c # b \<and> c \<notin> set a \<and> c \<notin> set b"
  then show "split_char c s = [a, b]" by (simp add: split_char_append split_char_no_sep)
qed

lemma two_parts_iff:
  "(case xs of [a, b] \<Rightarrow> f a b | _ \<Rightarrow> Inl e) = Inr r \<longleftrightarrow> (\<exists>a b. xs = [a, b] \<and> f a b = Inr r)"
  by (auto split: list.splits)

lemma ssh_user_host_iff:
  "ssh_user_host s = Inr (u, h) \<longleftrightarrow>
     s = u @ CHR ''@'' # h \<and> u \<noteq> [] \<and> h \<noteq> [] \<and> CHR ''@'' \<notin> set u \<and> CHR ''@'' \<notin> set h"
  unfolding ssh_user_host_def
  by (auto simp: two_parts_iff split_char_two split: if_splits)

lemma ssh_port_iff:
  "ssh_port t = Inr p \<longleftrightarrow>
     (if t = [] then p = 22 else \<exists>n. digits_val 0 t = Some n \<and> n \<le> 65535 \<and> p = of_nat n)"
  by (auto simp: ssh_port_def parse_uint32_def split: option.splits if_splits)

text \<open>
  C40. The remote addresses the command line takes: a user and a host, both not empty and
  without the characters \<open>:\<close> and \<open>@\<close>, with an optional port, which is 22 when it is left out or
  empty and otherwise a decimal number of at most 65535 without a sign. So no IPv6 address can
  be given, and port 0 is taken.
\<close>

theorem parseSSHURL_exact:
  "parseSSHURL s = Inr (u, h, p) \<longleftrightarrow>
     u \<noteq> [] \<and> h \<noteq> [] \<and> {CHR '':'', CHR ''@''} \<inter> (set u \<union> set h) = {}
     \<and> (s = u @ ''@'' @ h \<and> p = 22
        \<or> s = u @ ''@'' @ h @ '':'' \<and> p = 22
        \<or> (\<exists>t n. s = u @ ''@'' @ h @ '':'' @ t \<and> t \<noteq> [] \<and> digits_val 0 t = Some n \<and> n \<le> 65535
             \<and> p = of_nat n))"
  (is "?parse \<longleftrightarrow> ?form")
proof
  assume ?parse
  show ?form
  proof (cases "CHR '':'' \<in> set s")
    case True
    with \<open>?parse\<close> obtain r t q where "split_char CHR '':'' s = [r, t]" "ssh_port t = Inr q"
      "ssh_user_host r = Inr (u, h)" "q = p"
      by (auto simp: parseSSHURL_def rbind_Inr_iff two_parts_iff)
    then show ?thesis
      by (auto simp: split_char_two ssh_user_host_iff ssh_port_iff split: if_splits)
  next
    case False
    with \<open>?parse\<close> have "ssh_user_host s = Inr (u, h)" "p = 22"
      by (auto simp: parseSSHURL_def rbind_Inr_iff)
    with False show ?thesis by (auto simp: ssh_user_host_iff)
  qed
next
  assume form: ?form
  have digits: "CHR '':'' \<notin> set t" if "digits_val a t = Some n" for a t n
    using that by (induction t arbitrary: a) (auto simp: is_digit_def split: if_splits)
  from form have uh: "ssh_user_host (u @ ''@'' @ h) = Inr (u, h)" by (simp add: ssh_user_host_iff)
  from form consider "s = u @ ''@'' @ h" "p = 22"
    | t where "s = (u @ ''@'' @ h) @ CHR '':'' # t" "CHR '':'' \<notin> set t" "ssh_port t = Inr p"
    using digits by (fastforce simp: ssh_port_iff)
  then show ?parse
  proof cases
    case 1
    with form uh show ?thesis by (simp add: parseSSHURL_def)
  next
    case 2
    with form have "split_char CHR '':'' s = [u @ ''@'' @ h, t]" by (subst split_char_two) auto
    with 2 uh show ?thesis by (simp add: parseSSHURL_def)
  qed
qed

section \<open>The reserved port\<close>

text \<open>
  C24. The port of the control server is reserved on the command line only: for the addresses of
  a container's two labels with that public port, \<open>wireport service publish\<close> changes nothing
  but its error output, while the server loop takes the same pair for a service to publish.
\<close>

theorem label_bypasses_reserved_port:
  fixes C :: "('n, 'v, 'j, 't, 'f, 'c, 'k) deps"
  assumes "(name, labels) \<in> set m"
    and "labels wireportServiceLocalLabel = Some localText" and "localText \<noteq> []"
    and "labels wireportServicePublicLabel = Some publicText" and "publicText \<noteq> []"
    and "ParseAddress C localText = Inr (lp, name, lport)"
    and "ParseAddress C publicText = Inr (pp, ph, ControlServerPort)"
    and "\<forall>u \<in> set vs. published_here nodeID u \<longrightarrow> LocalHost u \<noteq> name"
  shows "(\<exists>message. PublishServiceCmd C localText publicText w = (w\<lparr>w_err := w_err w @ message\<rparr>, Inr ()))
     \<and> published_service (Some nodeID) lp name lport pp ph ControlServerPort
         \<in> set (services_to_publish C nodeID m vs)"
proof
  show "\<exists>message. PublishServiceCmd C localText publicText w = (w\<lparr>w_err := w_err w @ message\<rparr>, Inr ())"
    using assms(6,7)
    by (simp add: PublishServiceCmd_def attempt_def s_read_def publish_refused_def eprint_def)
      (rule exI, rule refl)
  have "declares C nodeID (name, labels) (published_service (Some nodeID) lp name lport pp ph ControlServerPort)"
    using assms(2-7) by (simp add: declares_def candidate_of_def label_text_def published_service_def Let_def)
  with assms(1,8) show "published_service (Some nodeID) lp name lport pp ph ControlServerPort
         \<in> set (services_to_publish C nodeID m vs)"
    unfolding to_publish_set by fastforce
qed

definition port_deps where
  "port_deps = (demo_deps True NodeRoleServer)\<lparr>c_parse_url :=
     (\<lambda>t. if t = ''http://a'' then Inr (''http'', ''a'', [])
          else if t = ''tcp://x:4060'' then Inr (''tcp'', ''x'', ''4060'')
          else Inr (''https'', ''203.0.113.9'', []))\<rparr>"

lemma port_addresses:
  "ParseAddress port_deps ''http://a'' = Inr (''http'', ''a'', 80)"
  "ParseAddress port_deps ''tcp://x:4060'' = Inr (''tcp'', ''x'', 4060)"
  "ParseAddress port_deps ''https://203.0.113.9'' = Inr (''https'', ''203.0.113.9'', 443)"
proof -
  have t: "trim_space ''http://a'' = ''http://a''" "trim_space ''tcp://x:4060'' = ''tcp://x:4060''"
    "trim_space ''https://203.0.113.9'' = ''https://203.0.113.9''"
    "to_lower ''http'' = ''http''" "to_lower ''tcp'' = ''tcp''" "to_lower ''https'' = ''https''"
    "atoi ''80'' = Some 80" "atoi ''4060'' = Some 4060" "atoi ''443'' = Some 443" by code_simp+
  show "ParseAddress port_deps ''http://a'' = Inr (''http'', ''a'', 80)"
    "ParseAddress port_deps ''tcp://x:4060'' = Inr (''tcp'', ''x'', 4060)"
    "ParseAddress port_deps ''https://203.0.113.9'' = Inr (''https'', ''203.0.113.9'', 443)"
    by (simp_all add: ParseAddress_def t port_deps_def)
qed

theorem label_bypasses_reserved_port_witness:
  "published_service (Some ''n'') ''http'' ''a'' 80 ''tcp'' ''x'' 4060
     \<in> set (services_to_publish port_deps ''n'' [(''a'', [wireportServiceLocalLabel \<mapsto> ''http://a'',
         wireportServicePublicLabel \<mapsto> ''tcp://x:4060''])] [])"
  using label_bypasses_reserved_port [where C = port_deps and nodeID = "''n''" and vs = "[]"
      and w = "demo_world NodeRoleServer", OF _ _ _ _ _ port_addresses(1), of _ "[(''a'',
        [wireportServiceLocalLabel \<mapsto> ''http://a'', wireportServicePublicLabel \<mapsto> ''tcp://x:4060''])]"
        "''tcp://x:4060''" "''tcp''" "''x''"] port_addresses(2)
  by (simp add: ControlServerPort_def wireportServiceLocalLabel_def wireportServicePublicLabel_def)

section \<open>A publication that is never served\<close>

lemma https_on_ip: "PublicProtocol u = ''https'' \<Longrightarrow> ParseIP (PublicHost u) \<noteq> [] \<Longrightarrow>
   \<exists>e. AsCaddyConfigEntry u g = Inl e"
proof -
  have "ParseIP ''0.0.0.0'' \<noteq> []" by code_simp
  then show "PublicProtocol u = ''https'' \<Longrightarrow> ParseIP (PublicHost u) \<noteq> [] \<Longrightarrow>
      \<exists>e. AsCaddyConfigEntry u g = Inl e"
    by (simp add: AsCaddyConfigEntry_def publicHostname_def caddy_host_def Let_def)
qed

text \<open>What follows the save of a service, when one of the stored services has no entry.\<close>

lemma apply_services_frozen:
  fixes w :: "('n, 'v, 'j, 't, string \<rightharpoonup> string) world"
  assumes "GetGatewayNode (c_nodes C) (w_nodes w) = Inr (Some gw)" and "node_Role gw = NodeRoleGateway"
    and "ServiceGetAll (c_services C) (w_services w) = Inr vs"
    and "write_file (c_config C) = map_write" and "distinct_paths (c_config C)"
    and "GetFormattedCoreDNSConfig (c_config C) gw = Inr a"
    and "GetFormattedResolvConfig (c_config C) gw = Inr b"
    and "u \<in> set vs" and "AsCaddyConfigEntry u (node_GatewayPublicIP gw) = Inl e"
    and "\<And>cmd fs. c_shell C cmd fs = (fs, Inr ())"
  shows "\<exists>f. apply_services C success w = (w\<lparr>w_machine := f, w_out := w_out w @ success\<rparr>, Inr ())
     \<and> f (CaddyConfigPath (c_config C)) = w_machine w (CaddyConfigPath (c_config C))"
proof -
  obtain f where save: "SaveConfigs (c_config C) gw vs False (w_machine w) = (f, Inr ())"
    "f (CaddyConfigPath (c_config C)) = w_machine w (CaddyConfigPath (c_config C))"
    using frozen_caddy [OF assms(2,4-9), of "w_machine w"] by (metis prod.collapse)
  have restart: "RestartNetworkApps C False False True fs = (fs, Inr ())" for fs
    using assms(10) by (simp add: RestartNetworkApps_def restart_app_def s_bind_def Let_def)
  show ?thesis
    using save by (intro exI [of _ f])
      (simp add: apply_services_def attempt_def on_nodes_read on_services_read assms(1,3) deref_def
        on_machine_def restart print_def)
qed

text \<open>
  C15. A publication under HTTPS on an IP address is accepted and never served, and neither is
  any later one: when \<open>wireport service publish\<close> on a gateway is given such an address, or one
  is stored already under another key, the service is stored, the message of success is
  printed and no error, but the Caddy file stays as it was.
\<close>

theorem publish_command_without_effect:
  fixes w :: "('n, 'v, 'j, 't, string \<rightharpoonup> string) world"
    and C :: "('n, 'v, 'j, 't, string \<rightharpoonup> string, 'c, 'k) deps"
  assumes "service_db (c_services C) stbl now"
    and "GetCurrentNode (c_nodes C) (w_nodes w) = Inr cur" and "node_Role cur = NodeRoleGateway"
    and "GetGatewayNode (c_nodes C) (w_nodes w) = Inr (Some gw)" and "node_Role gw = NodeRoleGateway"
    and "write_file (c_config C) = map_write" and "distinct_paths (c_config C)"
    and "GetFormattedCoreDNSConfig (c_config C) gw = Inr a"
    and "GetFormattedResolvConfig (c_config C) gw = Inr b"
    and "\<And>cmd fs. c_shell C cmd fs = (fs, Inr ())"
    and "ParseAddress C local = Inr (lp, lh, lport)" and "ParseAddress C public = Inr (pp, ph, pport)"
    and "publish_refused lp pp pport = None"
    and "(pp = ''https'' \<and> ParseIP ph \<noteq> [])
      \<or> (\<exists>u \<in> ran (stbl (w_services w)). svc_key u \<noteq> (pp, ph, pport)
           \<and> PublicProtocol u = ''https'' \<and> ParseIP (PublicHost u) \<noteq> [])"
    and "v = published_service (Some (node_ID cur)) lp lh lport pp ph pport"
  shows "\<exists>w'. PublishServiceCmd C local public w = (w', Inr ())
     \<and> stbl (w_services w') (svc_key v) \<noteq> None
     \<and> w_out w' = w_out w @ publish_message v \<and> w_err w' = w_err w
     \<and> w_machine w' (CaddyConfigPath (c_config C)) = w_machine w (CaddyConfigPath (c_config C))"
proof -
  obtain s1 vs where s1: "ServiceSave (c_services C) v (w_services w) = (s1, Inr ())"
    and t1: "stbl s1 = (stbl (w_services w))(svc_key v \<mapsto>
          (case stbl (w_services w) (svc_key v) of
             None \<Rightarrow> stamp now v | Some old \<Rightarrow> v\<lparr>CreatedAt := CreatedAt old\<rparr>))"
    and vs: "ServiceGetAll (c_services C) s1 = Inr vs" "set vs = ran (stbl s1)"
    using publish_saves [OF assms(1)] by metis
  have key: "svc_key v = (pp, ph, pport)" by (simp add: assms(15) published_service_def svc_key_def)
  obtain u where u: "u \<in> set vs" "PublicProtocol u = ''https''" "ParseIP (PublicHost u) \<noteq> []"
  proof (cases "pp = ''https'' \<and> ParseIP ph \<noteq> []")
    case True
    obtain x where x: "stbl s1 (svc_key v) = Some x" by (simp add: t1)
    with service_db.row_key [OF assms(1)] have "svc_key x = svc_key v" by blast
    with True key have "PublicProtocol x = ''https''" "ParseIP (PublicHost x) \<noteq> []"
      by (auto simp: svc_key_def)
    with x show thesis by (intro that [of x]) (auto simp: vs(2) intro: ranI)
  next
    case False
    with assms(14) obtain x k where x: "stbl (w_services w) k = Some x" "svc_key x \<noteq> (pp, ph, pport)"
      "PublicProtocol x = ''https''" "ParseIP (PublicHost x) \<noteq> []" by (auto simp: ran_def)
    with service_db.row_key [OF assms(1) x(1)] key have "stbl s1 k = Some x" by (auto simp: t1)
    with x show thesis by (intro that [of x]) (auto simp: vs(2) intro: ranI)
  qed
  from https_on_ip [OF u(2,3)] obtain e where e: "AsCaddyConfigEntry u (node_GatewayPublicIP gw) = Inl e" by blast
  define w1 where "w1 = w\<lparr>w_services := s1\<rparr>"
  obtain f where app: "apply_services C (publish_message v) w1
        = (w1\<lparr>w_machine := f, w_out := w_out w1 @ publish_message v\<rparr>, Inr ())"
    and f: "f (CaddyConfigPath (c_config C)) = w_machine w (CaddyConfigPath (c_config C))"
    using apply_services_frozen [OF _ assms(5) _ assms(6-9) u(1) e assms(10), of w1 "publish_message v"]
      assms(4) vs(1) by (auto simp: w1_def)
  from publish_on_gateway [OF assms(2,3,15) s1 app [unfolded w1_def]]
  have "PublishServiceCmd C local public w = (w1\<lparr>w_machine := f, w_out := w_out w1 @ publish_message v\<rparr>, Inr ())"
    using assms(2,11-13) by (simp add: PublishServiceCmd_def attempt_def s_read_def on_nodes_def w1_def)
  then show ?thesis using f by (simp add: w1_def t1)
qed

theorem publish_command_without_effect_witness:
  "\<exists>w'. PublishServiceCmd port_deps ''http://a'' ''https://203.0.113.9'' (demo_world NodeRoleServer) = (w', Inr ())
     \<and> mem_tbl svc_key (w_services w') (''https'', ''203.0.113.9'', 443) \<noteq> None
     \<and> w_err w' = [] \<and> w_machine w' ''/etc/caddy/Caddyfile'' = None"
proof -
  let ?C = port_deps and ?w = "demo_world NodeRoleServer"
  have deps: "c_services ?C = mem_services 0" "c_nodes ?C = mem_nodes" "c_config ?C = demo_config"
    by (simp_all add: port_deps_def)
  have shell: "c_shell ?C cmd fs = (fs, Inr ())" for cmd fs by (simp add: port_deps_def demo_deps_def)
  have cur: "GetCurrentNode (c_nodes ?C) (w_nodes ?w) = Inr demo_gateway"
    by (simp add: deps GetCurrentNode_def demo_gateway_def new_gateway_def)
  have gw: "GetGatewayNode (c_nodes ?C) (w_nodes ?w) = Inr (Some demo_gateway)"
    by (simp add: deps GetGatewayNode_def)
  have free: "publish_refused ''http'' ''https'' 443 = None"
    by (simp add: publish_refused_def ControlServerPort_def)
  have ip: "ParseIP ''203.0.113.9'' \<noteq> []" by code_simp
  have files: "CaddyConfigPath demo_config = ''/etc/caddy/Caddyfile''" "w_machine ?w = Map.empty" "w_err ?w = []"
    by (simp_all add: demo_config_def demo_world_def)
  show ?thesis
    using publish_command_without_effect [where C = ?C and stbl = "mem_tbl svc_key" and now = 0 and w = ?w
        and a = CoreDNSConfigTemplatePath and b = ResolvConfigTemplatePath,
        OF _ cur _ gw _ _ _ _ _ shell port_addresses(1,3) free disjI1 refl] mem_service_db [of 0] ip
    by (simp add: deps files demo_config_def [THEN arg_cong, of distinct_paths] distinct_paths_def
        GetFormattedCoreDNSConfig_def GetFormattedResolvConfig_def svc_key_def published_service_def)
      (simp add: demo_config_def, blast)
qed

end
