(* ===== verification/StartProps.thy ===== *)
theory StartProps
  imports CommandLineProps
begin

text \<open>
  A server that starts from a stored join token: which token counts, and what one that was
  never checked does.
\<close>

section \<open>The table of the tokens\<close>

locale token_db = reliable_table T tbl tok_Token id tok_Token
  for T :: "('s, join_token) table_api" and tbl :: "'s \<Rightarrow> string \<rightharpoonup> join_token"
begin

lemma created_token:
  assumes "tbl s token = None"
  shows "\<exists>s'. JoinTokenCreate T now token s = (s', Inr \<lparr>tok_Token = token, tok_CreatedAt = now\<rparr>)
     \<and> tbl s' = (tbl s)(token \<mapsto> \<lparr>tok_Token = token, tok_CreatedAt = now\<rparr>)"
proof -
  let ?t = "\<lparr>tok_Token = token, tok_CreatedAt = now\<rparr>"
  have "\<exists>s'. db_create T s ?t = Inr s'"
    by (rule create_ok) (use assms tbl_pk in \<open>auto simp: id_def\<close>)
  then obtain s' where s': "db_create T s ?t = Inr s'" by blast
  with create_row [OF s'] show ?thesis by (simp add: JoinTokenCreate_def s_write_def Let_def)
qed

text \<open>The token that is newer than every other one.\<close>

lemma newest_token_is_last:
  assumes "tbl s (tok_Token t) = Some t"
    and "\<And>k u. tbl s k = Some u \<Longrightarrow> u \<noteq> t \<Longrightarrow> tok_CreatedAt u < tok_CreatedAt t"
  shows "JoinTokenGetLast T s = Inr t"
proof -
  obtain ts where ts: "db_find T s (\<lambda>_. True) = Inr ts" using find_ok by blast
  have t: "t \<in> set ts" using find_setD [OF ts] assms(1) by simp
  then obtain u where u: "latest ts = Some u" using latest_None by (cases "latest ts") auto
  from latest_max [OF u] t have "u \<in> set ts" "tok_CreatedAt t \<le> tok_CreatedAt u" by auto
  with find_setD [OF ts] assms(2) have "u = t" by fastforce
  with ts u show ?thesis by (simp add: JoinTokenGetLast_def)
qed

lemma created_token_is_last:
  assumes "tbl s token = None" and "\<And>k u. tbl s k = Some u \<Longrightarrow> tok_CreatedAt u < now"
  shows "\<exists>s'. JoinTokenCreate T now token s = (s', Inr \<lparr>tok_Token = token, tok_CreatedAt = now\<rparr>)
     \<and> JoinTokenGetLast T s' = Inr \<lparr>tok_Token = token, tok_CreatedAt = now\<rparr>"
proof -
  obtain s' where s': "JoinTokenCreate T now token s = (s', Inr \<lparr>tok_Token = token, tok_CreatedAt = now\<rparr>)"
    "tbl s' = (tbl s)(token \<mapsto> \<lparr>tok_Token = token, tok_CreatedAt = now\<rparr>)"
    using created_token [OF assms(1)] by blast
  have "JoinTokenGetLast T s' = Inr \<lparr>tok_Token = token, tok_CreatedAt = now\<rparr>"
    by (rule newest_token_is_last) (use s'(2) assms(2) in \<open>auto split: if_splits\<close>)
  with s'(1) show ?thesis by blast
qed

end

interpretation mem_tokens: token_db "mem_api tok_Token tok_Token id" "mem_tbl tok_Token"
  by (intro token_db.intro mem_reliable) simp

section \<open>A token without a certificate\<close>

definition attempt_text :: string where
  "attempt_text = ''Attempting to join wireport network using a stored join token'' @ NL"

lemma bad_token_panics:
  assumes "GetCurrentNode (c_nodes C) (w_nodes w) = Inl ErrRecordNotFound"
    and "JoinTokenGetLast (c_tokens C) (w_tokens w) = Inr t"
    and "FromBase64 (c_json C) (tok_Token t) = Inr r"
    and "GetClientTLSConfig (env_crypto (c_env C)) (jr_ClientCertBundle r) = Inl e"
  shows "ServerStart C (Suc attempts) rounds (Suc calls) w
     = (w\<lparr>w_out := w_out w @ attempt_text\<rparr>, Inl (ProcessExit (err_text e)))"
proof -
  have l: "LocalJoin C (tok_Token t) v = (v, Inl (ProcessExit (err_text e)))" for v
    using assms(3,4) by (simp add: LocalJoin_def NewAPIService_def attempt_def s_read_def s_bind_def Let_def)
  have j: "join_as_server C (Suc attempts) again w
      = (w\<lparr>w_out := w_out w @ attempt_text\<rparr>, Inl (ProcessExit (err_text e)))" for again
    using assms(2) l
    by (simp add: join_as_server_def s_bind_def print_def wrapping_def attempt_def on_tokens_def s_read_def
        attempt_text_def)
  show ?thesis
    using assms(1) j
    by (simp add: executeCommand_def attempt_def on_nodes_def s_read_def execute_as_def role_to_execute_def
        isRoleAllowed_def run_local_def s_bind_def is_panic_def Let_def)
qed

text \<open>
  C18. A join token is stored without a look at it, and one that was made without a usable
  client certificate then stops the server for good: \<open>wireport join --postponed\<close> accepts the
  token and reports that it will be applied, but every start of the server, the first and all
  that follow it, panics on it before anything changes, even where a good token is stored too.
\<close>

theorem postponed_token_crash_loop:
  assumes "token_db (c_tokens C) tbl"
    and "GetCurrentNode (c_nodes C) (w_nodes w) = Inl ErrRecordNotFound"
    and "joinToken \<noteq> []" and "tbl (w_tokens w) joinToken = None"
    and "\<And>k u. tbl (w_tokens w) k = Some u \<Longrightarrow> tok_CreatedAt u < env_now (c_env C)"
    and "FromBase64 (c_json C) joinToken = Inr r"
    and "GetClientTLSConfig (env_crypto (c_env C)) (jr_ClientCertBundle r) = Inl e"
  shows "\<exists>s'. JoinCmd C True [joinToken] w
       = (w\<lparr>w_tokens := s', w_err := w_err w
            @ ''Join token has been saved and will be applied on the next server start'' @ NL\<rparr>, Inr ())
     \<and> (\<forall>v attempts rounds calls. w_nodes v = w_nodes w \<and> w_tokens v = s' \<longrightarrow>
          ServerStart C (Suc attempts) rounds (Suc calls) v
            = (v\<lparr>w_out := w_out v @ attempt_text\<rparr>, Inl (ProcessExit (err_text e))))"
proof -
  let ?t = "\<lparr>tok_Token = joinToken, tok_CreatedAt = env_now (c_env C)\<rparr>"
  have "\<exists>s'. JoinTokenCreate (c_tokens C) (env_now (c_env C)) joinToken (w_tokens w) = (s', Inr ?t)
      \<and> JoinTokenGetLast (c_tokens C) s' = Inr ?t"
    by (rule token_db.created_token_is_last [OF assms(1,4)]) (rule assms(5))
  then obtain s' where s': "JoinTokenCreate (c_tokens C) (env_now (c_env C)) joinToken (w_tokens w) = (s', Inr ?t)"
    and last: "JoinTokenGetLast (c_tokens C) s' = Inr ?t" by blast
  have "JoinCmd C True [joinToken] w
      = (w\<lparr>w_tokens := s', w_err := w_err w
           @ ''Join token has been saved and will be applied on the next server start'' @ NL\<rparr>, Inr ())"
    using assms(3) s' by (simp add: JoinCmd_def attempt_def on_tokens_def eprint_def)
  moreover have "ServerStart C (Suc attempts) rounds (Suc calls) v
      = (v\<lparr>w_out := w_out v @ attempt_text\<rparr>, Inl (ProcessExit (err_text e)))"
    if "w_nodes v = w_nodes w" "w_tokens v = s'" for v attempts rounds calls
    by (rule bad_token_panics [where t = ?t, OF _ _ _ assms(7)]) (use that assms(2,6) last in simp_all)
  ultimately show ?thesis by blast
qed

definition bare_join :: join_request where
  "bare_join = (demo_join NodeRoleServer)\<lparr>jr_ClientCertBundle :=
     \<lparr>cb_RootCA = \<lparr>CertPEM = [], KeyPEM = []\<rparr>, cb_Client = \<lparr>CertPEM = [], KeyPEM = []\<rparr>, cb_Generated = 0\<rparr>\<rparr>"

definition bare_deps where
  "bare_deps = (demo_deps True NodeRoleServer)\<lparr>c_json := demo_json bare_join\<rparr>"

definition fresh_server where
  "fresh_server = (demo_world NodeRoleServer)\<lparr>w_nodes := []\<rparr>"

theorem postponed_token_crash_loop_witness:
  "\<exists>v. JoinCmd bare_deps True [demo_token] fresh_server = (v, Inr ())
     \<and> snd (ServerStart bare_deps 5 1 1 v)
       = Inl (ProcessExit ''client key, cert or root CA cert is empty'')
     \<and> snd (ServerStart bare_deps 5 1 1 (fst (ServerStart bare_deps 5 1 1 v)))
       = Inl (ProcessExit ''client key, cert or root CA cert is empty'')"
proof -
  let ?e = "''client key, cert or root CA cert is empty''"
  have "demo_token \<noteq> []" by (simp add: demo_token_def)
  moreover have "GetCurrentNode (c_nodes bare_deps) (w_nodes fresh_server) = Inl ErrRecordNotFound"
    by (simp add: bare_deps_def fresh_server_def GetCurrentNode_def mem_api_def)
  moreover have "token_db (c_tokens bare_deps) (mem_tbl tok_Token)"
    using mem_tokens.token_db_axioms by (simp add: bare_deps_def demo_deps_def)
  ultimately obtain s' where s': "JoinCmd bare_deps True [demo_token] fresh_server
       = (fresh_server\<lparr>w_tokens := s', w_err := w_err fresh_server
            @ ''Join token has been saved and will be applied on the next server start'' @ NL\<rparr>, Inr ())"
    and loop: "\<And>v attempts rounds calls. w_nodes v = w_nodes fresh_server \<and> w_tokens v = s' \<Longrightarrow>
          ServerStart bare_deps (Suc attempts) rounds (Suc calls) v
            = (v\<lparr>w_out := w_out v @ attempt_text\<rparr>, Inl (ProcessExit ?e))"
    using postponed_token_crash_loop [of bare_deps "mem_tbl tok_Token" fresh_server demo_token bare_join "ErrText ?e"]
    by (auto simp: bare_deps_def fresh_server_def mem_tbl_def demo_world_def bare_join_def GetClientTLSConfig_def)
  from loop [of _ 4 1 0] s' show ?thesis by (simp add: numeral_eq_Suc)
qed

end
