(* ===== verification/RemoteProps.thy ===== *)
theory RemoteProps
  imports ExecutorProps
begin

text \<open>
  What is proved of the commands over SSH: the wait for a server ends, and what the
  bootstrapping of a gateway tells its user.
\<close>

section \<open>The wait for a server to join\<close>

text \<open>The clock does not go back while a command runs, and a sleep takes at least its time.\<close>

definition clock_runs :: "'f ssh_env \<Rightarrow> bool" where
  "clock_runs S \<longleftrightarrow>
     (\<forall>c command f. sh_now S f \<le> sh_now S (fst (sh_run S c command f)))
     \<and> (\<forall>d f. sh_now S f + d \<le> sh_now S (sh_sleep S d f))"

lemma or_fail_fst [simp]: "fst (or_fail message m f) = fst (m f)"
  by (simp add: or_fail_def split: prod.split sum.split)

lemma exits_ok_clock:
  assumes "clock_runs S"
  shows "sh_now S f \<le> sh_now S (fst (exits_ok S s command f))"
proof -
  have "sh_now S f \<le> sh_now S (fst (run_command S s command f))"
    using assms
    by (auto simp: run_command_def clock_runs_def s_bind_def s_read_def or_fail_def
        split: option.split prod.split sum.split dest: spec [where x = command])
      (metis fst_conv)+
  then show ?thesis
    by (auto simp: exits_ok_def s_bind_def s_read_def split: prod.split sum.split)
qed

lemma poll_joined_ends:
  assumes "clock_runs S" and "deadline - sh_now S f \<le> int n * pollInterval"
  shows "\<exists>f' r. poll_joined S s command deadline (Suc n) f = (f', r) \<and> r \<noteq> Inr None
     \<and> (r = Inr (Some False) \<longrightarrow> deadline \<le> sh_now S f')"
  using assms(2)
proof (induction n arbitrary: f)
  case 0
  then show ?case by simp
next
  case (Suc n)
  obtain f1 r where e: "exits_ok S s command f = (f1, r)" by fastforce
  show ?case
  proof (cases "sh_now S f < deadline \<and> r = Inr False")
    case True
    from exits_ok_clock [OF assms(1), of f s command] e have "sh_now S f \<le> sh_now S f1" by simp
    moreover have "sh_now S f1 + pollInterval \<le> sh_now S (sh_sleep S pollInterval f1)"
      using assms(1) by (simp add: clock_runs_def)
    ultimately have "deadline - sh_now S (sh_sleep S pollInterval f1) \<le> int n * pollInterval"
      using Suc.prems by (simp add: algebra_simps)
    from Suc.IH [OF this] True e show ?thesis by (subst poll_joined.simps) (simp add: s_bind_def)
  next
    case False
    then show ?thesis using e
      by (cases r) (auto simp: poll_joined.simps(2) [of _ _ _ _ "Suc n"] s_bind_def s_read_def
          simp del: poll_joined.simps)
  qed
qed

text \<open>
  C14. The wait for a server is bounded: with a clock that does not go back, the loop of up to
  three minutes is left within 37 rounds, and it says that the server has not joined only
  when the three minutes are over.
\<close>

theorem wait_for_server_ends:
  assumes "clock_runs S" and "37 \<le> polls"
  shows "\<exists>f' r. WaitForWireportServerJoined S K s joinTimeout polls f = (f', r) \<and> r \<noteq> Inr None
     \<and> (r = Inr (Some False) \<longrightarrow> sh_now S f + joinTimeout \<le> sh_now S f')"
proof -
  obtain n where n: "polls = Suc n" and "36 \<le> n" using assms(2) by (cases polls) auto
  then have "sh_now S f + joinTimeout - sh_now S f \<le> int n * pollInterval"
    by (simp add: joinTimeout_def pollInterval_def)
  from poll_joined_ends [OF assms(1) this] show ?thesis
    unfolding WaitForWireportServerJoined_def n .
qed

text \<open>A server that never joins, on a machine that is nothing but its clock.\<close>

definition clock_ssh :: "int ssh_env" where
  "clock_ssh =
     \<lparr>sh_read_file = (\<lambda>p f. Inr []), sh_parse_key = (\<lambda>k p. Inr ()), sh_dial = (\<lambda>a f. (f, Inr ())),
      sh_handshake = (\<lambda>c f. (f, Inr ())), sh_session = (\<lambda>c f. (f, Inr ())),
      sh_run = (\<lambda>c command f. (f + 1, Inr ([], [], RunExit 1 (ErrText ''exit status 1'')))),
      sh_close = (\<lambda>c f. f), sh_read_template = (\<lambda>p. Inr p), sh_render = (\<lambda>t args. Inr t),
      sh_now = (\<lambda>f. f), sh_sleep = (\<lambda>d f. f + d)\<rparr>"

theorem wait_for_server_ends_witness:
  "\<forall>K s. \<exists>f' r. WaitForWireportServerJoined clock_ssh K s joinTimeout 37 5 = (f', r) \<and> r \<noteq> Inr None
     \<and> (r = Inr (Some False) \<longrightarrow> sh_now clock_ssh 5 + joinTimeout \<le> sh_now clock_ssh f')"
proof (intro allI)
  fix K s
  have "clock_runs clock_ssh" by (simp add: clock_runs_def clock_ssh_def)
  from wait_for_server_ends [OF this, of 37]
  show "\<exists>f' r. WaitForWireportServerJoined clock_ssh K s joinTimeout 37 5 = (f', r) \<and> r \<noteq> Inr None
     \<and> (r = Inr (Some False) \<longrightarrow> sh_now clock_ssh 5 + joinTimeout \<le> sh_now clock_ssh f')"
    by simp
qed

section \<open>What a bootstrapping says\<close>

lemma attempt_runs: "m w = (w', Inr x) \<Longrightarrow> attempt m h k w = k x w'"
  by (simp add: attempt_def)

lemma bind_runs: "m w = (w', Inr x) \<Longrightarrow> s_bind m k w = k x w'"
  by (simp add: s_bind_def)

lemma machine_runs: "m (w_machine w) = (f, r) \<Longrightarrow> on_machine m w = (w\<lparr>w_machine := f\<rparr>, r)"
  by (simp add: on_machine_def)

definition bootstrapped_text :: string where
  "bootstrapped_text = sparkles @ '' Gateway Bootstrapping completed successfully!'' @ NL"

text \<open>The connection is made, no gateway runs there, and both scripts succeed.\<close>

definition gateway_installs ::
  "'f ssh_env \<Rightarrow> credentials \<Rightarrow> string \<Rightarrow> string \<Rightarrow> 'f \<Rightarrow> ssh_service \<Rightarrow> string \<Rightarrow> 'f \<Rightarrow> bool" where
  "gateway_installs S creds img imageTag f0 s token f \<longleftrightarrow>
     (\<exists>f1 f2 f3 f4 out. Connect S creds NewService f0 = (f1, Inr s)
        \<and> IsWireportGatewayContainerRunning S s f1 = (f2, Inr False)
        \<and> IsWireportGatewayContainerRunning S s f2 = (f3, Inr False)
        \<and> run_script S s ''scripts/up/gateway.hbs'' (gateway_args (img @ '':'' @ imageTag))
            ''failed to install wireport'' f3 = (f4, Inr out)
        \<and> createClientJoinToken S s f4 = (f, Inr token))"

text \<open>Everything up to the token, with the text written so far left open.\<close>

lemma gateway_up_installed:
  assumes "gateway_installs S creds img imageTag (w_machine w) s token f"
    and "IsWireportGatewayContainerRunning S s f = (f', Inr running)"
  shows "\<exists>e. LocalGatewayUp C S creds img imageTag w
     = deferring_close S s (s_bind (apply_client_token C (Some token)) (\<lambda>_. eprint bootstrapped_text))
         (w\<lparr>w_machine := f', w_err := e\<rparr>)"
proof -
  obtain f1 f2 f3 f4 out where run:
    "Connect S creds NewService (w_machine w) = (f1, Inr s)"
    "IsWireportGatewayContainerRunning S s f1 = (f2, Inr False)"
    "IsWireportGatewayContainerRunning S s f2 = (f3, Inr False)"
    "run_script S s ''scripts/up/gateway.hbs'' (gateway_args (img @ '':'' @ imageTag))
       ''failed to install wireport'' f3 = (f4, Inr out)"
    "createClientJoinToken S s f4 = (f, Inr token)"
    using assms(1) by (auto simp: gateway_installs_def)
  note steps = LocalGatewayUp_def heading_def eprint_def [abs_def] connected_def attempt_def s_bind_def
    on_machine_def deferring_close_def status_bad_def status_ok_def InstallWireportGateway_def
    s_read_def verified_report_def bootstrapped_text_def
  show ?thesis
  proof (cases running)
    case True
    with run assms(2) show ?thesis by (simp add: steps) (rule exI, rule refl)
  next
    case False
    with run assms(2) show ?thesis by (simp add: steps) (rule exI, rule refl)
  qed
qed

text \<open>
  C25. \<open>wireport gateway up\<close> on a host where the installation scripts run: with a client token
  of fewer than 20 bytes it panics, and otherwise it ends by telling that the bootstrapping
  completed successfully, whatever the verification of the container and the join have
  found; only the join touches the tables.
\<close>

theorem gateway_up_claims_success:
  assumes "gateway_installs S creds img imageTag (w_machine w) s token f"
    and "IsWireportGatewayContainerRunning S s f = (f', Inr running)"
  shows "if length token < 20
     then snd (LocalGatewayUp C S creds img imageTag w) = Inl IndexOutOfRange
     else \<exists>e. \<forall>v joined. LocalJoin C token (w\<lparr>w_machine := f', w_err := e\<rparr>) = (v, Inr joined) \<longrightarrow>
       (\<exists>w' before. LocalGatewayUp C S creds img imageTag w = (w', Inr ())
          \<and> w_err w' = before @ bootstrapped_text \<and> w_nodes w' = w_nodes v)"
proof -
  obtain e where up: "LocalGatewayUp C S creds img imageTag w
     = deferring_close S s (s_bind (apply_client_token C (Some token)) (\<lambda>_. eprint bootstrapped_text))
         (w\<lparr>w_machine := f', w_err := e\<rparr>)"
    using gateway_up_installed [OF assms] by blast
  show ?thesis
  proof (cases "length token < 20")
    case True
    then show ?thesis
      by (simp add: up deferring_close_def apply_client_token_def s_bind_def s_read_def split: prod.split)
  next
    case False
    define e' where "e' = e @ ''   '' @ key_mark @ '' Applying Client Join Token: '' @ take 20 token @ ''...'' @ NL"
    have "\<exists>w' before. LocalGatewayUp C S creds img imageTag w = (w', Inr ())
          \<and> w_err w' = before @ bootstrapped_text \<and> w_nodes w' = w_nodes v"
      if "LocalJoin C token (w\<lparr>w_machine := f', w_err := e'\<rparr>) = (v, Inr joined)" for v joined
      using that False
      by (simp add: up deferring_close_def apply_client_token_def s_bind_def eprint_def e'_def)
    with False show ?thesis by (simp only: if_False) blast
  qed
qed

text \<open>A host where every command succeeds and only the token script writes something.\<close>

definition demo_ssh :: "string \<Rightarrow> (string \<rightharpoonup> string) ssh_env" where
  "demo_ssh token =
     \<lparr>sh_read_file = (\<lambda>p f. Inr []), sh_parse_key = (\<lambda>k p. Inr ()), sh_dial = (\<lambda>a f. (f, Inr ())),
      sh_handshake = (\<lambda>c f. (f, Inr ())), sh_session = (\<lambda>c f. (f, Inr ())),
      sh_run = (\<lambda>c command f.
        (f, Inr (if command = ''scripts/new/client.hbs'' then token else [], [], RunOk))),
      sh_close = (\<lambda>c f. f), sh_read_template = (\<lambda>p. Inr p), sh_render = (\<lambda>t args. Inr t),
      sh_now = (\<lambda>f. 0), sh_sleep = (\<lambda>d f. f)\<rparr>"

definition demo_credentials :: credentials where
  "demo_credentials = \<lparr>cr_Host = ''h'', cr_Port = 22, cr_Username = ''u'', cr_Password = ''p'',
     cr_PrivateKeyPath = [], cr_PrivateKeyData = [], cr_Passphrase = []\<rparr>"

lemma demo_ssh_command:
  assumes "svc_client s \<noteq> None"
  shows "run_command (demo_ssh token) s command f
     = (f, Inr \<lparr>res_Stdout = if command = ''scripts/new/client.hbs'' then trim_space token else [],
                res_Stderr = [], res_ExitCode = 0, res_Error = None\<rparr>)"
  using assms
  by (auto simp: run_command_def or_fail_def s_bind_def s_read_def demo_ssh_def trim_space_def)

lemma demo_connect:
  obtains s where "\<And>f. Connect (demo_ssh token) demo_credentials NewService f = (f, Inr s)"
    and "svc_client s \<noteq> None"
  by (rule that [of "NewService\<lparr>svc_client := Some \<lparr>cl_Address = JoinHostPort ''h'' (itoa 22), cl_User = ''u'',
        cl_Auth = [PasswordAuth ''p'']\<rparr>, svc_creds := Some demo_credentials\<rparr>"])
    (simp_all add: Connect_def demo_ssh_def demo_credentials_def auth_methods_def s_bind_def s_read_def
      or_fail_def closing_on_error_def connection_test_def run_failure_def Let_def)

lemma demo_not_running:
  assumes "svc_client s \<noteq> None"
  shows "IsWireportGatewayContainerRunning (demo_ssh token) s f = (f, Inr False)"
  using demo_ssh_command [OF assms, of token]
  by (simp add: IsWireportGatewayContainerRunning_def container_running_def IsDockerInstalled_def
      IsDockerAccessible_def exits_ok_def s_bind_def s_read_def container_running_command_def trim_space_def)

lemma demo_installs:
  assumes "trim_space token = token"
  obtains s where "gateway_installs (demo_ssh token) demo_credentials img imageTag f s token f"
    and "svc_client s \<noteq> None"
proof -
  obtain s where s: "\<And>f. Connect (demo_ssh token) demo_credentials NewService f = (f, Inr s)"
    "svc_client s \<noteq> None" using demo_connect by blast
  have "run_script (demo_ssh token) s path args failed f
     = (f, Inr (if path = ''scripts/new/client.hbs'' then token else []))" for path args failed f
    using demo_ssh_command [OF s(2), of token] assms
    by (simp add: run_script_def s_bind_def s_read_def demo_ssh_def)
  then have "gateway_installs (demo_ssh token) demo_credentials img imageTag f s token f"
    using s(1) demo_not_running [OF s(2), of token] assms
    by (simp add: gateway_installs_def createClientJoinToken_def s_bind_def s_read_def)
  with s(2) that show thesis by blast
qed

definition bangs :: string where "bangs = replicate 24 (CHR 0x21)"

definition demo_up where
  "demo_up token = LocalGatewayUp (demo_deps True NodeRoleServer) (demo_ssh token) demo_credentials
     ''img'' ''tag'' (demo_world NodeRoleServer)"

text \<open>
  A token that is no join request: the join fails, no container runs, and the command tells
  of its success; and an empty token.
\<close>

theorem gateway_up_claims_success_witness:
  "(\<exists>w' before. demo_up bangs = (w', Inr ()) \<and> w_err w' = before @ bootstrapped_text
      \<and> w_nodes w' = [demo_gateway])
    \<and> snd (demo_up []) = Inl IndexOutOfRange"
proof
  have "b64_decode bangs = Inl (ErrText ''illegal base64 data'')"
    by (simp add: bangs_def b64_decode_def numeral_eq_Suc b64_val_def)
  then have "FromBase64 (demo_json (demo_join NodeRoleServer)) bangs = Inl (ErrText ''illegal base64 data'')"
    by (simp add: FromBase64_def)
  then have join: "\<exists>e. LocalJoin (demo_deps True NodeRoleServer) bangs w = (w\<lparr>w_err := e\<rparr>, Inr False)" for w
    by (simp add: LocalJoin_def attempt_def s_read_def is_panic_def join_fails_with_def join_fails_def
        s_bind_def eprint_def) (rule exI, rule refl)
  have "bangs \<noteq> []" "hd bangs = CHR 0x21" "last bangs = CHR 0x21" "length bangs = 24"
    by (simp_all add: bangs_def)
  moreover have "solid (CHR 0x21)" by (simp add: solid_def)
  ultimately obtain s where s: "gateway_installs (demo_ssh bangs) demo_credentials ''img'' ''tag''
      (w_machine (demo_world NodeRoleServer)) s bangs (w_machine (demo_world NodeRoleServer))"
    "svc_client s \<noteq> None"
    using demo_installs trim_space_solid by metis
  from gateway_up_claims_success [OF s(1) demo_not_running [OF s(2)],
      where C = "demo_deps True NodeRoleServer"] join
  show "\<exists>w' before. demo_up bangs = (w', Inr ()) \<and> w_err w' = before @ bootstrapped_text
      \<and> w_nodes w' = [demo_gateway]"
    by (simp add: \<open>length bangs = 24\<close> demo_up_def) fastforce
next
  obtain s where s: "gateway_installs (demo_ssh []) demo_credentials ''img'' ''tag''
      (w_machine (demo_world NodeRoleServer)) s [] (w_machine (demo_world NodeRoleServer))"
    "svc_client s \<noteq> None"
  proof (rule demo_installs)
    show "trim_space [] = []" by (simp add: trim_space_def)
  qed
  from gateway_up_claims_success [OF s(1) demo_not_running [OF s(2)],
      where C = "demo_deps True NodeRoleServer"]
  show "snd (demo_up []) = Inl IndexOutOfRange" by (simp add: demo_up_def)
qed

end
