(* ===== verification/Scheduler.thy ===== *)
theory Scheduler
  imports Prelude
begin

text \<open>
  The delayed restart of the network applications, \<open>ScheduleNetworkAppsRestart\<close> of
  \<open>internal/networkapps/service.go\<close>: a worker started by the first call, a channel of one
  place, and a flag under a mutex. The calls of the handlers and the steps of the worker
  interleave freely; the delay is the time the worker spends in \<open>Sleeping\<close>.
\<close>

section \<open>The machine\<close>

text \<open>Delay in seconds, and which applications: WireGuard, CoreDNS, Caddy.\<close>

type_synonym restart_args = "int \<times> bool \<times> bool \<times> bool"

text \<open>
  \<open>Taken\<close>: a message has been received and the flag not yet looked at.
\<close>

datatype worker_pc = Waiting | Taken | Sleeping | Restarted

text \<open>
  \<open>sch_worker\<close> holds the arguments the closure of the worker has captured (\<open>None\<close> before the
  first call), \<open>sch_pending\<close> the place of the channel, \<open>sch_flag\<close> is \<open>isNetworkAppsRestarting\<close>,
  \<open>sch_runs\<close> the restarts so far; \<open>sch_unserved\<close> is a ghost: whether a call came after the
  worker last left \<open>Waiting\<close>.
\<close>

record scheduler =
  sch_worker :: "restart_args option"
  sch_pending :: bool
  sch_flag :: bool
  sch_pc :: worker_pc
  sch_runs :: "restart_args list"
  sch_unserved :: bool

definition sch_init :: scheduler where
  "sch_init = \<lparr>sch_worker = None, sch_pending = False, sch_flag = False, sch_pc = Waiting,
     sch_runs = [], sch_unserved = False\<rparr>"

text \<open>The call: \<open>sync.Once\<close>, then a send that does not block.\<close>

definition sch_call :: "restart_args \<Rightarrow> scheduler \<Rightarrow> scheduler" where
  "sch_call args s = s\<lparr>sch_worker := (case sch_worker s of None \<Rightarrow> Some args | Some a \<Rightarrow> Some a),
     sch_pending := True, sch_unserved := True\<rparr>"

datatype sch_event = Call restart_args | Receive | Skip | Begin | Restart | Finish

inductive sch_step :: "scheduler \<Rightarrow> sch_event \<Rightarrow> scheduler \<Rightarrow> bool" where
  call: "sch_step s (Call args) (sch_call args s)"
| receive: "sch_worker s \<noteq> None \<Longrightarrow> sch_pc s = Waiting \<Longrightarrow> sch_pending s \<Longrightarrow>
     sch_step s Receive (s\<lparr>sch_pending := False, sch_pc := Taken, sch_unserved := False\<rparr>)"
| skip: "sch_pc s = Taken \<Longrightarrow> sch_flag s \<Longrightarrow> sch_step s Skip (s\<lparr>sch_pc := Waiting\<rparr>)"
| go_sleep: "sch_pc s = Taken \<Longrightarrow> \<not> sch_flag s \<Longrightarrow>
     sch_step s Begin (s\<lparr>sch_flag := True, sch_pc := Sleeping\<rparr>)"
| restart: "sch_pc s = Sleeping \<Longrightarrow> sch_worker s = Some args \<Longrightarrow>
     sch_step s Restart (s\<lparr>sch_pc := Restarted, sch_runs := sch_runs s @ [args]\<rparr>)"
| clear: "sch_pc s = Restarted \<Longrightarrow>
     sch_step s Finish (s\<lparr>sch_flag := False, sch_pc := Waiting\<rparr>)"

inductive_cases sch_stepE: "sch_step s e t"
inductive_simps sch_step_iff:
  "sch_step s (Call args) t" "sch_step s Receive t" "sch_step s Skip t"
  "sch_step s Begin t" "sch_step s Restart t" "sch_step s Finish t"

code_pred (modes: i \<Rightarrow> i \<Rightarrow> o \<Rightarrow> bool) sch_step .

inductive sch_reach :: "scheduler \<Rightarrow> sch_event list \<Rightarrow> bool" where
  start: "sch_reach sch_init []"
| step: "sch_reach s es \<Longrightarrow> sch_step s e t \<Longrightarrow> sch_reach t (es @ [e])"

section \<open>Invariants\<close>

definition sch_inv :: "scheduler \<Rightarrow> bool" where
  "sch_inv s \<longleftrightarrow>
     (sch_unserved s = sch_pending s)
     \<and> (sch_flag s \<longleftrightarrow> sch_pc s = Sleeping \<or> sch_pc s = Restarted)
     \<and> (sch_worker s = None \<longrightarrow> \<not> sch_pending s \<and> sch_pc s = Waiting \<and> sch_runs s = [])
     \<and> (\<forall>args. sch_worker s = Some args \<longrightarrow> set (sch_runs s) \<subseteq> {args})"

lemma sch_inv_init: "sch_inv sch_init"
  by (simp add: sch_inv_def sch_init_def)

lemma sch_inv_step: "sch_step s e t \<Longrightarrow> sch_inv s \<Longrightarrow> sch_inv t"
  by (erule sch_stepE) (auto simp: sch_inv_def sch_call_def split: option.splits)

lemma sch_reach_inv: "sch_reach s es \<Longrightarrow> sch_inv s"
  by (induction rule: sch_reach.induct) (auto intro: sch_inv_init sch_inv_step)

text \<open>The arguments of the first call of a run.\<close>

fun first_call :: "sch_event list \<Rightarrow> restart_args option" where
  "first_call [] = None"
| "first_call (Call args # es) = Some args"
| "first_call (e # es) = first_call es"

lemma first_call_append:
  "first_call (es @ es') = (case first_call es of None \<Rightarrow> first_call es' | Some a \<Rightarrow> Some a)"
  by (induction es rule: first_call.induct) simp_all

lemma sch_reach_first: "sch_reach s es \<Longrightarrow> sch_worker s = first_call es"
proof (induction rule: sch_reach.induct)
  case start
  show ?case by (simp add: sch_init_def)
next
  case (step s es e t)
  from step.hyps(2) step.IH show ?case
    by (cases rule: sch_step.cases) (auto simp: sch_call_def first_call_append split: option.split)
qed

text \<open>From a state where a call waits, the worker reaches its next restart by itself.\<close>

definition worker_path :: "scheduler \<Rightarrow> scheduler \<Rightarrow> bool" where
  "worker_path = (\<lambda>s t. \<exists>e. (\<forall>args. e \<noteq> Call args) \<and> sch_step s e t)\<^sup>*\<^sup>*"

lemma worker_step: "sch_step s e t \<Longrightarrow> (\<And>args. e \<noteq> Call args) \<Longrightarrow> worker_path t u \<Longrightarrow> worker_path s u"
  unfolding worker_path_def by (rule converse_rtranclp_into_rtranclp) blast

lemma worker_refl: "worker_path s s"
  by (simp add: worker_path_def)

text \<open>Back to \<open>Waiting\<close>, whatever the worker was doing; what is pending stays pending.\<close>

lemma worker_returns:
  assumes "sch_inv s" and "sch_worker s = Some args"
  shows "\<exists>t. worker_path s t \<and> sch_pc t = Waiting \<and> sch_flag t = False \<and> sch_worker t = Some args
     \<and> sch_pending t = sch_pending s \<and> sch_unserved t = sch_unserved s
     \<and> (\<exists>more. sch_runs t = sch_runs s @ more)"
proof -
  have restarted: "\<exists>t. worker_path s t \<and> sch_pc t = Waiting \<and> sch_flag t = False \<and> sch_worker t = Some args
     \<and> sch_pending t = sch_pending s \<and> sch_unserved t = sch_unserved s \<and> sch_runs t = sch_runs s"
    if "sch_pc s = Restarted" "sch_worker s = Some args" for s
    using that
    by (intro exI [of _ "s\<lparr>sch_flag := False, sch_pc := Waiting\<rparr>"] conjI)
      (auto intro: worker_step [OF sch_step.clear] worker_refl)
  have sleeping: "\<exists>t. worker_path s t \<and> sch_pc t = Waiting \<and> sch_flag t = False \<and> sch_worker t = Some args
     \<and> sch_pending t = sch_pending s \<and> sch_unserved t = sch_unserved s \<and> sch_runs t = sch_runs s @ [args]"
    if "sch_pc s = Sleeping" "sch_worker s = Some args" for s
    using restarted [of "s\<lparr>sch_pc := Restarted, sch_runs := sch_runs s @ [args]\<rparr>"] that
    by (auto intro: worker_step [OF sch_step.restart])
  show ?thesis
  proof (cases "sch_pc s")
    case Waiting
    with assms show ?thesis by (intro exI [of _ s]) (auto simp: sch_inv_def worker_refl)
  next
    case Taken
    with assms have "\<not> sch_flag s" by (simp add: sch_inv_def)
    with sleeping [of "s\<lparr>sch_flag := True, sch_pc := Sleeping\<rparr>"] Taken assms(2) show ?thesis
      by (auto intro: worker_step [OF sch_step.go_sleep])
  next
    case Sleeping
    with sleeping assms(2) show ?thesis by blast
  next
    case Restarted
    with restarted assms(2) show ?thesis by (metis append_Nil2)
  qed
qed

text \<open>
  C10. No call of the scheduler is lost, however calls and worker interleave: in a reachable
  state a call that came after the worker last took a message is pending, the flag that would
  make the worker drop a message is never set when it takes one, and the worker can always go
  on, by its own steps, to one more restart. But every restart uses the arguments of the very
  first call: those of later calls are dropped.
\<close>

theorem scheduler_serves_calls:
  assumes "sch_reach s es"
  shows "(sch_unserved s \<longleftrightarrow> sch_pending s)
     \<and> \<not> sch_step s Skip t
     \<and> (\<forall>args \<in> set (sch_runs s). first_call es = Some args)
     \<and> (sch_pending s \<longrightarrow> (\<exists>u more args. worker_path s u \<and> \<not> sch_pending u
          \<and> sch_runs u = sch_runs s @ more @ [args]))"
proof -
  note inv = sch_reach_inv [OF assms] and first = sch_reach_first [OF assms]
  have "\<exists>u more args. worker_path s u \<and> \<not> sch_pending u \<and> sch_runs u = sch_runs s @ more @ [args]"
    if p: "sch_pending s"
  proof -
    from inv p obtain args where a: "sch_worker s = Some args" by (auto simp: sch_inv_def)
    from worker_returns [OF inv a] obtain t more where t: "worker_path s t" "sch_pc t = Waiting"
      "sch_flag t = False" "sch_worker t = Some args" "sch_pending t"
      "sch_runs t = sch_runs s @ more" using p by auto
    let ?u1 = "t\<lparr>sch_pending := False, sch_pc := Taken, sch_unserved := False\<rparr>"
    let ?u2 = "?u1\<lparr>sch_flag := True, sch_pc := Sleeping\<rparr>"
    let ?u3 = "?u2\<lparr>sch_pc := Restarted, sch_runs := sch_runs ?u2 @ [args]\<rparr>"
    have "worker_path t ?u3"
      by (rule worker_step [OF sch_step.receive], simp_all add: t,
          rule worker_step [OF sch_step.go_sleep], simp_all add: t,
          rule worker_step [OF sch_step.restart, where args1 = args], simp_all add: t worker_refl)
    with t(1) have "worker_path s ?u3" unfolding worker_path_def by (rule rtranclp_trans)
    moreover have "\<not> sch_pending ?u3 \<and> sch_runs ?u3 = sch_runs s @ more @ [args]" by (simp add: t)
    ultimately show ?thesis by blast
  qed
  moreover have "\<not> sch_step s Skip t" using inv by (auto simp: sch_step_iff sch_inv_def)
  moreover have "\<forall>args \<in> set (sch_runs s). first_call es = Some args"
    using inv first by (cases "sch_worker s") (auto simp: sch_inv_def)
  ultimately show ?thesis using inv by (auto simp: sch_inv_def)
qed

text \<open>Two calls with different arguments; the second finds the worker asleep.\<close>

theorem scheduler_serves_calls_witness:
  "\<exists>s. sch_reach s [Call (10, False, True, True), Receive, Begin, Call (5, True, False, False), Restart, Finish]
     \<and> sch_runs s = [(10, False, True, True)] \<and> sch_pending s
     \<and> (\<exists>u more args. worker_path s u \<and> sch_runs u = (10, False, True, True) # more @ [args])"
proof -
  let ?a = "(10, False, True, True) :: restart_args" and ?b = "(5, True, False, False) :: restart_args"
  define st where "st p f pc runs u = \<lparr>sch_worker = Some ?a, sch_pending = p, sch_flag = f, sch_pc = pc,
     sch_runs = runs, sch_unserved = u\<rparr>" for p f pc runs u
  let ?s = "st True False Waiting [?a] True"
  have 1: "sch_reach (st True False Waiting [] True) [Call ?a]"
    using sch_reach.step [OF sch_reach.start sch_step.call [of _ ?a]]
    by (simp add: st_def sch_call_def sch_init_def)
  have 2: "sch_reach (st False False Taken [] False) [Call ?a, Receive]"
    using sch_reach.step [OF 1, of Receive "st False False Taken [] False"] by (simp add: st_def sch_step_iff ex_bool_eq)
  have 3: "sch_reach (st False True Sleeping [] False) [Call ?a, Receive, Begin]"
    using sch_reach.step [OF 2, of Begin "st False True Sleeping [] False"] by (simp add: st_def sch_step_iff ex_bool_eq)
  have 4: "sch_reach (st True True Sleeping [] True) [Call ?a, Receive, Begin, Call ?b]"
    using sch_reach.step [OF 3, of "Call ?b" "st True True Sleeping [] True"]
    by (simp add: st_def sch_step_iff sch_call_def)
  have 5: "sch_reach (st True True Restarted [?a] True) [Call ?a, Receive, Begin, Call ?b, Restart]"
    using sch_reach.step [OF 4, of Restart "st True True Restarted [?a] True"] by (simp add: st_def sch_step_iff ex_bool_eq)
  have r: "sch_reach ?s [Call ?a, Receive, Begin, Call ?b, Restart, Finish]"
    using sch_reach.step [OF 5, of Finish ?s] by (simp add: st_def sch_step_iff ex_bool_eq)
  from scheduler_serves_calls [OF r, of ?s] have "\<exists>u more args. worker_path ?s u \<and> sch_runs u = ?a # more @ [args]"
    by (auto simp: st_def)
  moreover have "sch_runs ?s = [?a]" "sch_pending ?s" by (simp_all add: st_def)
  ultimately show ?thesis using r by blast
qed

end
