(* ===== verification/AesProps.thy ===== *)
theory AesProps
  imports AesCbc
begin

text \<open>
  The encryption of a message and the whole encrypted exchange are inverted by the other
  side; and what the padding check accepts.
\<close>

lemma aes_rt:
  assumes "block_pair (aes_enc C key) (aes_dec C key)" and "length key \<in> {16, 24, 32}"
    and "length iv = BlockSize"
  shows "\<exists>c. EncryptAES C (Inr iv) plain key = Inr c \<and> DecryptAES C c key = Inr plain
     \<and> length c = BlockSize + length (pad plain BlockSize)"
proof -
  let ?p = "pad plain BlockSize"
  have m: "length ?p mod BlockSize = 0" using pad_length(1) [of BlockSize plain] by simp
  have k: "NewCipher key = Inr ()" using assms(2) by (simp add: NewCipher_def)
  define e where "e = cbc_encrypt (aes_enc C key) iv ?p"
  have l: "length e = length ?p"
    unfolding e_def by (rule cbc_encrypt_length [OF assms(1,3) m])
  have "cbc_decrypt (aes_dec C key) iv e = ?p"
    unfolding e_def by (rule cbc_decrypt_encrypt [OF assms(1,3) m])
  then have "DecryptAES C (iv @ e) key = Inr plain"
    using assms(3) l m unpad_pad [of BlockSize plain] by (simp add: DecryptAES_def k Let_def)
  moreover have "EncryptAES C (Inr iv) plain key = Inr (iv @ e)"
    by (simp add: EncryptAES_def k e_def)
  ultimately show ?thesis using assms(3) l by simp
qed

text \<open>
  C38. Decrypting what \<open>EncryptAES\<close> returns under the same key gives the plain text back, for
  every text, every key of a legal size and every initial vector of one block; the
  message is the vector and the text padded to the next whole block.
\<close>

theorem aes_roundtrip:
  assumes "block_pair (aes_enc C key) (aes_dec C key)" and "length key \<in> {16, 24, 32}"
    and "length iv = BlockSize"
  shows "\<exists>c. EncryptAES C (Inr iv) plain key = Inr c \<and> DecryptAES C c key = Inr plain
     \<and> length c = BlockSize + length (pad plain BlockSize)"
  using aes_rt [OF assms] .

definition xor_cipher :: cipher where
  "xor_cipher = \<lparr>aes_enc = (\<lambda>k b. map (\<lambda>x. xor x 90) b), aes_dec = (\<lambda>k b. map (\<lambda>x. xor x 90) b)\<rparr>"

lemma xor_cipher_pair [simp]: "block_pair (aes_enc xor_cipher k) (aes_dec xor_cipher k)"
  by (simp add: block_pair_def xor_cipher_def xor.assoc comp_def)

theorem aes_roundtrip_witness:
  "\<exists>c. EncryptAES xor_cipher (Inr (replicate 16 1)) [104, 105] (replicate 32 7) = Inr c
     \<and> DecryptAES xor_cipher c (replicate 32 7) = Inr [104, 105]
     \<and> length c = BlockSize + length (pad [104, 105] BlockSize)"
  by (rule aes_roundtrip) simp_all

text \<open>
  The padding check only reads the last byte: whatever the other padding bytes are, and
  also when the claimed padding is longer than a block, the text in front is accepted.
\<close>

theorem unpad_accepts_any_tail:
  assumes "0 < n" and "n < 256" and "length ys = n - 1"
  shows "unpad (xs @ ys @ [of_nat n]) = Inr xs"
  using unpad_tail [OF assms] .

theorem unpad_accepts_any_tail_witness:
  "unpad ([1, 2] @ replicate 29 0xAB @ [of_nat 30]) = Inr [1, 2]"
  by (rule unpad_accepts_any_tail) simp_all

section \<open>The encrypted exchange\<close>

definition json_roundtrip :: "'p json \<Rightarrow> bool" where
  "json_roundtrip J \<longleftrightarrow> (\<forall>x. \<exists>b. marshal J x = Inr b \<and> unmarshal J b = Inr x)"

text \<open>The other end: decrypt the request, run \<open>h\<close>, encrypt the response.\<close>

definition serve ::
  "cipher \<Rightarrow> bytes result \<Rightarrow> 'q json \<Rightarrow> 'r json \<Rightarrow> encrypted_dto json \<Rightarrow> string \<Rightarrow> ('q \<Rightarrow> 'r) \<Rightarrow>
   bytes \<Rightarrow> bytes result result" where
  "serve C iv JQ JR JM key64 h body =
     Inr (rbind (unmarshal JM body) (\<lambda>m.
          rbind (DecryptRequest C JQ m key64) (\<lambda>q.
          rbind (EncryptResponse C iv JR (h q) (SyncID m) key64) (\<lambda>r. marshal JM r))))"

text \<open>
  C11. The client of an encrypted exchange gets exactly the answer the server computed from
  the request it was given: both directions round-trip through JSON, CBC and base64.
\<close>

theorem encrypted_exchange:
  assumes "block_pair (aes_enc C key) (aes_dec C key)" and "length key \<in> {16, 24, 32}"
    and "length iv = BlockSize" and "length iv' = BlockSize"
    and "json_roundtrip JQ" and "json_roundtrip JR" and "json_roundtrip JM"
  shows "EncryptedAPIRequest C (Inr iv) JQ JR JM
       (serve C (Inr iv') JQ JR JM (b64_encode key) h) q syncID (b64_encode key) = Inr (h q)"
proof -
  obtain jq where jq: "marshal JQ q = Inr jq" "unmarshal JQ jq = Inr q"
    using assms(5) by (auto simp: json_roundtrip_def)
  obtain jr where jr: "marshal JR (h q) = Inr jr" "unmarshal JR jr = Inr (h q)"
    using assms(6) by (auto simp: json_roundtrip_def)
  obtain c where c: "EncryptAES C (Inr iv) jq key = Inr c" "DecryptAES C c key = Inr jq"
    using aes_rt [OF assms(1-3), of jq] by blast
  obtain d where d: "EncryptAES C (Inr iv') jr key = Inr d" "DecryptAES C d key = Inr jr"
    using aes_rt [OF assms(1,2,4), of jr] by blast
  obtain m where m: "marshal JM \<lparr>SyncID = syncID, Payload = b64_encode c\<rparr> = Inr m"
    "unmarshal JM m = Inr \<lparr>SyncID = syncID, Payload = b64_encode c\<rparr>"
    using assms(7) unfolding json_roundtrip_def by blast
  obtain n where n: "marshal JM \<lparr>SyncID = syncID, Payload = b64_encode d\<rparr> = Inr n"
    "unmarshal JM n = Inr \<lparr>SyncID = syncID, Payload = b64_encode d\<rparr>"
    using assms(7) unfolding json_roundtrip_def by blast
  show ?thesis
    by (simp add: EncryptedAPIRequest_def serve_def DecryptRequest_def EncryptResponse_def
        jq jr c d m n)
qed

definition bytes_json :: "bytes json" where
  "bytes_json = \<lparr>marshal = Inr, unmarshal = Inr\<rparr>"

text \<open>A concrete encoding of the messages: two texts, each byte of the first marked.\<close>

fun unmark :: "bytes \<Rightarrow> bytes \<times> bytes" where
  "unmark (m # x # r) = (if m = 1 then (x # fst (unmark r), snd (unmark r)) else ([], m # x # r))"
| "unmark r = ([], r)"

definition char_byte :: "char \<Rightarrow> 8 word" where "char_byte c = of_nat (of_char c)"
definition byte_char :: "8 word \<Rightarrow> char" where "byte_char b = char_of (unat b)"

lemma byte_char_byte [simp]: "byte_char (char_byte c) = c"
proof -
  have "(of_char c :: nat) < 256" by (metis char_of_mod_256 mod_less_divisor of_char_of zero_less_numeral char_of_char)
  then show ?thesis by (simp add: byte_char_def char_byte_def unat_of_nat)
qed

definition dto_json :: "encrypted_dto json" where
  "dto_json = \<lparr>marshal = (\<lambda>m. Inr (concat (map (\<lambda>c. [1, char_byte c]) (SyncID m))
       @ 0 # map char_byte (Payload m))),
     unmarshal = (\<lambda>b. Inr \<lparr>SyncID = map byte_char (fst (unmark b)),
       Payload = map byte_char (tl (snd (unmark b)))\<rparr>)\<rparr>"

lemma unmark_mark: "unmark (concat (map (\<lambda>x. [1, x]) xs) @ 0 # ys) = (xs, 0 # ys)"
  by (induction xs) (cases ys; simp)+

lemma json_witnesses [simp]: "json_roundtrip bytes_json" "json_roundtrip dto_json"
proof -
  show "json_roundtrip bytes_json" by (simp add: json_roundtrip_def bytes_json_def)
  have "unmark (concat (map (\<lambda>c. [1, char_byte c]) s) @ 0 # map char_byte p)
      = (map char_byte s, 0 # map char_byte p)" for s p :: string
    using unmark_mark [of "map char_byte s" "map char_byte p"] by (simp add: comp_def)
  then show "json_roundtrip dto_json"
    by (auto simp: json_roundtrip_def dto_json_def comp_def)
qed

theorem encrypted_exchange_witness:
  "EncryptedAPIRequest xor_cipher (Inr (replicate 16 1)) bytes_json bytes_json dto_json
     (serve xor_cipher (Inr (replicate 16 2)) bytes_json bytes_json dto_json
        (b64_encode (replicate 32 7)) rev) [1, 2, 3] ''s'' (b64_encode (replicate 32 7))
   = Inr (rev [1, 2, 3])"
  by (rule encrypted_exchange) simp_all

end
