(* ===== verification/JoinProps.thy ===== *)
theory JoinProps
  imports JoinApi
begin

text \<open>
  Properties of the join client: what the retry loop does on every sequence of outcomes,
  its delays, the classification of errors, and the round trip of a join request.
\<close>

section \<open>The loop\<close>

text \<open>The world before the \<open>i\<close>-th POST, and what that POST yields.\<close>

definition world_at :: "('w \<Rightarrow> 'w \<times> outcome) \<Rightarrow> nat \<Rightarrow> 'w \<Rightarrow> 'w" where
  "world_at post i w = ((\<lambda>w. fst (post w)) ^^ i) w"

definition outcome_at :: "('w \<Rightarrow> 'w \<times> outcome) \<Rightarrow> nat \<Rightarrow> 'w \<Rightarrow> outcome" where
  "outcome_at post i w = snd (post (world_at post i w))"

lemma world_at_simps [simp]:
  "world_at post 0 w = w" "world_at post (Suc i) w = world_at post i (fst (post w))"
  by (simp_all add: world_at_def funpow_Suc_right del: funpow.simps)

lemma outcome_at_simps [simp]:
  "outcome_at post 0 w = snd (post w)"
  "outcome_at post (Suc i) w = outcome_at post i (fst (post w))"
  by (simp_all add: outcome_at_def)

definition loop_spec ::
  "('w \<Rightarrow> 'w \<times> outcome) \<Rightarrow> (string \<Rightarrow> 'r result) \<Rightarrow> nat \<Rightarrow> 'w \<Rightarrow> 'w \<times> duration list \<times> (net_error + 'r) \<Rightarrow> bool"
  where
  "loop_spec post unm attempt w res =
     (case res of (w', ds, r) \<Rightarrow>
       attempt + length ds \<le> maxRetries \<and>
       w' = world_at post (Suc (length ds)) w \<and>
       (\<forall>i < length ds. ds ! i = calculateBackoffDelay (attempt + i) baseDelay maxDelay
          \<and> (\<exists>e. judge unm (outcome_at post i w) = Retry e)) \<and>
       (case r of
          Inr x \<Rightarrow> judge unm (outcome_at post (length ds) w) = Done x
        | Inl e \<Rightarrow> judge unm (outcome_at post (length ds) w) = GiveUp e
            \<or> (judge unm (outcome_at post (length ds) w) = Retry e \<and> attempt + length ds = maxRetries)))"

lemma join_loop_spec:
  assumes "attempt \<le> maxRetries"
  shows "loop_spec post unm attempt w (join_loop post unm attempt lastErr w)"
  using assms
proof (induction post unm attempt lastErr w rule: join_loop.induct)
  case (1 post unm attempt lastErr w)
  obtain w' out where pw: "post w = (w', out)" by (cases "post w")
  show ?case
  proof (cases "judge unm out")
    case (Done r)
    with 1(2) pw show ?thesis by (simp add: join_loop.simps loop_spec_def)
  next
    case (GiveUp e)
    with 1(2) pw show ?thesis by (simp add: join_loop.simps loop_spec_def)
  next
    case (Retry e)
    show ?thesis
    proof (cases "attempt = maxRetries")
      case True
      with Retry pw show ?thesis by (simp add: join_loop.simps loop_spec_def)
    next
      case False
      with 1(2) have le: "Suc attempt \<le> maxRetries" by simp
      obtain w'' ds r where j: "join_loop post unm (Suc attempt) e w' = (w'', ds, r)"
        by (cases "join_loop post unm (Suc attempt) e w'")
      have "\<not> maxRetries < attempt" using 1(2) by simp
      from 1(1) [OF this pw [symmetric] Retry False le] j
      have ih: "loop_spec post unm (Suc attempt) w' (w'', ds, r)" by simp
      have eq: "join_loop post unm attempt lastErr w
          = (w'', calculateBackoffDelay attempt baseDelay maxDelay # ds, r)"
        using 1(2) False Retry pw j by (simp add: join_loop.simps [of post unm attempt])
      have all: "\<forall>i < length (d # ds). (d # ds) ! i = f (attempt + i) \<and> P i"
        if "d = f attempt" "P 0" "\<forall>i < length ds. ds ! i = f (Suc attempt + i) \<and> P (Suc i)"
        for d :: duration and f P
        using that by (auto simp: nth_Cons split: nat.split)
      show ?thesis
        unfolding eq loop_spec_def prod.case
      proof (intro conjI)
        show "attempt + length (calculateBackoffDelay attempt baseDelay maxDelay # ds) \<le> maxRetries"
          using ih by (simp add: loop_spec_def)
        show "w'' = world_at post (Suc (length (calculateBackoffDelay attempt baseDelay maxDelay # ds))) w"
          using ih pw by (simp add: loop_spec_def)
        show "\<forall>i<length (calculateBackoffDelay attempt baseDelay maxDelay # ds).
           (calculateBackoffDelay attempt baseDelay maxDelay # ds) ! i
             = calculateBackoffDelay (attempt + i) baseDelay maxDelay
           \<and> (\<exists>e. judge unm (outcome_at post i w) = Retry e)"
          by (rule all) (use ih pw Retry in \<open>simp_all add: loop_spec_def\<close>)
        show "case r of
          Inr x \<Rightarrow> judge unm (outcome_at post (length (calculateBackoffDelay attempt baseDelay maxDelay # ds)) w) = Done x
        | Inl e \<Rightarrow> judge unm (outcome_at post (length (calculateBackoffDelay attempt baseDelay maxDelay # ds)) w) = GiveUp e
            \<or> (judge unm (outcome_at post (length (calculateBackoffDelay attempt baseDelay maxDelay # ds)) w) = Retry e
               \<and> attempt + length (calculateBackoffDelay attempt baseDelay maxDelay # ds) = maxRetries)"
          using ih pw by (cases r) (simp_all add: loop_spec_def)
      qed
    qed
  qed
qed

lemma backoff_seconds:
  "sint (calculateBackoffDelay 1 baseDelay maxDelay) = 1000000000"
  "sint (calculateBackoffDelay 2 baseDelay maxDelay) = 2000000000"
  "sint (calculateBackoffDelay 3 baseDelay maxDelay) = 4000000000"
  "sint (calculateBackoffDelay 4 baseDelay maxDelay) = 8000000000"
  by code_simp+

text \<open>
  C13. The retry loop makes between one and five requests. All but the last had a retryable
  outcome and were followed by the delay of their attempt; the last one decides: its
  response is the result, or its error is, because it is final or the fifth.
\<close>

theorem Join_loop_runs:
  "\<exists>w' ds r. join_loop post unm 1 e0 w = (w', ds, r) \<and> length ds \<le> 4
     \<and> w' = world_at post (Suc (length ds)) w
     \<and> map sint ds = take (length ds) [1000000000, 2000000000, 4000000000, 8000000000]
     \<and> (\<forall>i \<in> {..<length ds}. \<exists>e. judge unm (outcome_at post i w) = Retry e)
     \<and> (case r of
          Inr x \<Rightarrow> judge unm (outcome_at post (length ds) w) = Done x
        | Inl e \<Rightarrow> judge unm (outcome_at post (length ds) w) = GiveUp e
            \<or> (judge unm (outcome_at post (length ds) w) = Retry e \<and> length ds = 4))"
proof -
  obtain w' ds r where j: "join_loop post unm 1 e0 w = (w', ds, r)"
    by (cases "join_loop post unm 1 e0 w")
  have s: "loop_spec post unm 1 w (w', ds, r)"
    using join_loop_spec [of 1 post unm w e0] j by (simp add: maxRetries_def)
  then have l: "length ds \<le> 4" by (simp add: loop_spec_def maxRetries_def)
  have d: "ds ! i = calculateBackoffDelay (Suc i) baseDelay maxDelay" if "i < length ds" for i
    using s that by (simp add: loop_spec_def)
  have "map sint ds = take (length ds) [1000000000, 2000000000, 4000000000, 8000000000]"
  proof (rule nth_equalityI)
    show "length (map sint ds) = length (take (length ds) [1000000000, 2000000000, 4000000000, 8000000000 :: int])"
      using l by simp
    fix i assume "i < length (map sint ds)"
    then have i: "i < length ds" by simp
    with l have "i = 0 \<or> i = 1 \<or> i = 2 \<or> i = 3" by linarith
    then show "map sint ds ! i = take (length ds) [1000000000, 2000000000, 4000000000, 8000000000] ! i"
      using d [OF i] i backoff_seconds by (auto simp: numeral_eq_Suc)
  qed
  with j s l show ?thesis
    by (intro exI [of _ w'] exI [of _ ds] exI [of _ r]) (auto simp: loop_spec_def maxRetries_def split: sum.splits)
qed

definition refused :: net_error where
  "refused = \<lparr>ne_text = ''connect: connection refused'', ne_chain =
     [\<lparr>link_errno = None, link_timeout = Some False, link_dns = False, link_op = True\<rparr>,
      \<lparr>link_errno = Some ECONNREFUSED, link_timeout = Some False, link_dns = False, link_op = False\<rparr>]\<rparr>"

text \<open>A gateway that refuses twice and then answers.\<close>

definition third_time :: "nat \<Rightarrow> nat \<times> outcome" where
  "third_time n = (Suc n, if n < 2 then SendFailed refused else Answer 200 ''ok'')"

theorem Join_loop_runs_witness:
  "join_loop third_time Inr 1 (plain_error []) 0 = (3, [1000000000, 2000000000], Inr ''ok'')"
proof -
  have r: "isRetryableError refused" by (simp add: isRetryableError_def refused_def)
  obtain w' ds r where j: "join_loop third_time Inr 1 (plain_error []) 0 = (w', ds, r)"
    and d: "map sint ds = take (length ds) [1000000000, 2000000000, 4000000000, 8000000000]"
    using Join_loop_runs [of third_time Inr "plain_error []" 0] by blast
  have "join_loop third_time Inr 1 (plain_error []) 0 =
      (3, [calculateBackoffDelay 1 baseDelay maxDelay, calculateBackoffDelay 2 baseDelay maxDelay], Inr ''ok'')"
    by (simp add: join_loop.simps third_time_def judge_def r maxRetries_def numeral_eq_Suc)
  with j have ds: "w' = 3" "r = Inr ''ok''"
    "ds = [calculateBackoffDelay 1 baseDelay maxDelay, calculateBackoffDelay 2 baseDelay maxDelay]"
    by simp_all
  moreover have "calculateBackoffDelay 1 baseDelay maxDelay = 1000000000"
    and "calculateBackoffDelay 2 baseDelay maxDelay = 2000000000" by code_simp+
  ultimately have "ds = [1000000000, 2000000000]" by simp
  with j ds show ?thesis by simp
qed

section \<open>Delays and error texts\<close>


text \<open>
  An error that is not retryable ends the join after one request, but the message still
  says that five attempts were made.
\<close>

theorem message_claims_five_attempts:
  assumes "snd (post w) = SendFailed err" and "\<not> isRetryableError err"
  shows "\<exists>e. Join post unm t0 t1 w = (fst (post w), Inl e) \<and> ne_text e =
     ''failed to join after 5 attempts, first attempt at '' @ t0 @ '', now '' @ t1
      @ '', last error: failed to send request: '' @ ne_text err"
proof -
  have "itoa maxRetries = ''5''" by code_simp
  with assms show ?thesis
    by (cases "post w") (simp add: Join_def join_loop.simps judge_def maxRetries_def wrap_error_def)
qed

definition bad_certificate :: net_error where
  "bad_certificate = \<lparr>ne_text = ''x509: certificate signed by unknown authority'', ne_chain =
     [\<lparr>link_errno = None, link_timeout = Some False, link_dns = False, link_op = False\<rparr>]\<rparr>"

theorem message_claims_five_attempts_witness:
  "\<exists>e. Join (\<lambda>n. (Suc n, SendFailed bad_certificate)) (Inr :: string \<Rightarrow> string result) ''t'' ''u'' (0 :: nat)
   = (1, Inl e) \<and> ne_text e = ''failed to join after 5 attempts, first attempt at t, now u''
      @ '', last error: failed to send request: x509: certificate signed by unknown authority''"
  using message_claims_five_attempts [of "\<lambda>n. (Suc n, SendFailed bad_certificate)" 0 bad_certificate
      "Inr :: string \<Rightarrow> string result" "''t''" "''u''"]
  by (simp add: isRetryableError_def bad_certificate_def)

lemma first_errno_dropWhile:
  "first_errno chain = None \<Longrightarrow> first_errno (dropWhile P chain) = None"
  by (induction chain) (auto split: option.splits)

text \<open>
  The search of \<open>isSyscallErr\<close> below a \<open>net.OpError\<close> never finds anything: the function
  is the test of the first errno of the chain.
\<close>

theorem isSyscallErr_first_errno:
  "isSyscallErr chain codes = (\<exists>e \<in> set codes. first_errno chain = Some e)"
proof (induction chain codes rule: isSyscallErr.induct)
  case (1 chain codes)
  show ?case
  proof (cases "first_errno chain")
    case (Some e)
    then show ?thesis by (simp add: isSyscallErr.simps [of chain])
  next
    case None
    show ?thesis
    proof (cases "dropWhile (\<lambda>l. \<not> link_op l) chain")
      case Nil
      show ?thesis by (subst isSyscallErr.simps) (simp only: None Nil option.case list.case, simp)
    next
      case (Cons l below)
      with first_errno_dropWhile [OF None, of "\<lambda>l. \<not> link_op l"]
      have "first_errno below = None" by (simp split: option.splits)
      have "isSyscallErr chain codes = isSyscallErr below codes"
        by (subst isSyscallErr.simps) (simp only: None Cons option.case list.case)
      with 1 [OF None Cons] \<open>first_errno below = None\<close> None show ?thesis by simp
    qed
  qed
qed

section \<open>Join requests\<close>

text \<open>
  The token of a join request decodes to the same request, whenever the JSON encoding of
  the request does; two requests have the same token only if they have the same encoding.
\<close>

theorem join_token_roundtrip:
  assumes "marshal J c = Inr b" and "unmarshal J b = Inr c"
  shows "\<exists>t. ToBase64 J c = Inr t \<and> FromBase64 J t = Inr c
     \<and> (\<forall>c'. ToBase64 J c' = Inr t \<longrightarrow> marshal J c' = Inr b)"
  using assms by (auto simp: ToBase64_def FromBase64_def result_simps)

definition demo_request :: join_request where
  "demo_request = \<lparr>jr_ID = ''j1'', jr_EncryptionKeyBase64 = [], jr_ClientCertBundle =
     \<lparr>cb_RootCA = \<lparr>CertPEM = [], KeyPEM = []\<rparr>, cb_Client = \<lparr>CertPEM = [], KeyPEM = []\<rparr>, cb_Generated = 0\<rparr>,
     jr_DockerSubnet = None, jr_GatewayHost = ''h'', jr_GatewayPort = 4060, jr_Role = NodeRoleServer,
     jr_CreatedAt = 0\<rparr>"

theorem join_token_roundtrip_witness:
  "\<exists>t. ToBase64 \<lparr>marshal = (\<lambda>_. Inr [1, 2]), unmarshal = (\<lambda>_. Inr demo_request)\<rparr> demo_request = Inr t
     \<and> FromBase64 \<lparr>marshal = (\<lambda>_. Inr [1, 2]), unmarshal = (\<lambda>_. Inr demo_request)\<rparr> t = Inr demo_request"
  using join_token_roundtrip [of "\<lparr>marshal = (\<lambda>_. Inr [1, 2]), unmarshal = (\<lambda>_. Inr demo_request)\<rparr>"
      demo_request "[1, 2]"] by auto

end
