(* ===== verification/Templates.thy ===== *)
theory Templates
  imports Configs
begin

text \<open>
  The templates of the configuration files, \<open>internal/templates/configs\<close>, and the helpers
  \<open>internal/nodes/types/node.go\<close> registers for them. The engine
  (\<open>github.com/aymerick/raymond\<close>, Handlebars) is not part of the program; what is used of it
  is its documentation: \<open>{{e}}\<close> writes the value of \<open>e\<close> with the characters special to HTML
  replaced, \<open>#each\<close> repeats its body, \<open>#equal\<close> writes its body when two texts are equal, and a
  block tag alone on its line leaves no line behind. \<open>entity\<close> is what a character is written
  as.
\<close>

section \<open>Helpers\<close>

text \<open>
  \<open>strings.Split\<close> for a separator that is not empty: \<open>skip\<close> counts the rest of a separator
  that was found. For the empty separator it is one text per character, here per byte, which
  is the same on ASCII.
\<close>

fun split_sep :: "string \<Rightarrow> nat \<Rightarrow> string \<Rightarrow> string \<Rightarrow> string list" where
  "split_sep sep skip word [] = [rev word]"
| "split_sep sep (Suc k) word (c # cs) = split_sep sep k word cs"
| "split_sep sep 0 word (c # cs) =
     (if take (length sep) (c # cs) = sep then rev word # split_sep sep (length sep - 1) [] cs
      else split_sep sep 0 (c # word) cs)"

definition helper_split :: "string \<Rightarrow> string \<Rightarrow> string list" where
  "helper_split input separator =
     (if separator = [] then map (\<lambda>c. [c]) input else split_sep separator 0 [] input)"

definition helper_ipsToStrings :: "ipnet list \<Rightarrow> bool \<Rightarrow> string list" where
  "helper_ipsToStrings ipnets includeMask = MapIPNetMarshablesToStrings ipnets includeMask"

definition helper_ipsToDNS :: "ipnet list \<Rightarrow> string \<Rightarrow> string \<Rightarrow> string" where
  "helper_ipsToDNS ipnets ignoreIps separator =
     (let stringifiedIps = MapIPNetMarshablesToStrings ipnets False;
          ignoredIps = helper_split ignoreIps separator
      in join_str '' '' (filter (\<lambda>i. i \<notin> set ignoredIps) stringifiedIps))"

definition helper_ipToString :: "ipnet \<Rightarrow> string" where
  "helper_ipToString n = IPToString (net_ip n)"

text \<open>Counting from one; a smaller \<open>n\<close> indexes before the first part and panics.\<close>

definition helper_splitAndTakeN :: "string \<Rightarrow> string \<Rightarrow> int \<Rightarrow> string result" where
  "helper_splitAndTakeN input separator n =
     (let parts = helper_split input separator
      in if int (length parts) < n then Inr input
         else if n < 1 then Inl IndexOutOfRange
         else Inr (parts ! nat (n - 1)))"

definition helper_replace :: "string \<Rightarrow> string \<Rightarrow> string \<Rightarrow> string" where
  "helper_replace input oldVal newVal =
     (if oldVal = [] then newVal @ concat (map (\<lambda>c. c # newVal) input)
      else join_str newVal (helper_split input oldVal))"

section \<open>The texts\<close>

definition escaped :: "(char \<Rightarrow> string) \<Rightarrow> string \<Rightarrow> string" where
  "escaped entity t = concat (map entity t)"

definition each_this :: "(char \<Rightarrow> string) \<Rightarrow> nat \<Rightarrow> string list \<Rightarrow> string" where
  "each_this entity indent entries = concat (map (\<lambda>e. spaces indent @ escaped entity e @ NL) entries)"

definition caddyfile :: "(char \<Rightarrow> string) \<Rightarrow> string list \<Rightarrow> string list \<Rightarrow> string" where
  "caddyfile entity layer4 layer7 =
     ''# layer 4'' @ NL @ NL @ ''{'' @ NL @ spaces 4 @ ''layer4 {'' @ NL
     @ spaces 8 @ ''# more: https://github.com/mholt/caddy-l4'' @ NL
     @ each_this entity 12 layer4
     @ spaces 4 @ ''}'' @ NL @ ''}'' @ NL @ NL @ ''# layer 7'' @ NL
     @ each_this entity 4 layer7"

definition fanout_line :: "(char \<Rightarrow> string) \<Rightarrow> ipnet list \<Rightarrow> string" where
  "fanout_line entity dns =
     spaces 4 @ ''fanout . '' @ escaped entity (helper_ipsToDNS dns ''127.0.0.11'' '','')
     @ '' 8.8.8.8 1.1.1.1 {'' @ NL"

definition corefile :: "(char \<Rightarrow> string) \<Rightarrow> node \<Rightarrow> string" where
  "corefile entity n =
     ''. {'' @ NL @ spaces 4 @ ''loop'' @ NL @ spaces 4 @ NL
     @ (if node_Role n = NodeRoleGateway
        then fanout_line entity (if_DNS (wg_Interface (node_WGConfig n)))
          @ spaces 8 @ ''policy sequential'' @ NL @ spaces 8 @ ''timeout 1s'' @ NL
          @ spaces 8 @ ''attempt-count 1'' @ NL @ spaces 8 @ ''network udp'' @ NL
          @ spaces 4 @ ''}'' @ NL
        else [])
     @ NL
     @ (if node_Role n = NodeRoleServer then spaces 4 @ ''forward . 127.0.0.11'' @ NL else [])
     @ NL
     @ spaces 4 @ ''cache {'' @ NL @ spaces 8 @ ''success 4096 20'' @ NL
     @ spaces 8 @ ''denial  1024 5'' @ NL @ spaces 8 @ ''prefetch 512'' @ NL
     @ spaces 4 @ ''}'' @ NL @ NL @ spaces 4 @ ''log'' @ NL @ ''}'' @ NL"

definition resolv_conf :: string where
  "resolv_conf = ''nameserver 127.0.0.1'' @ NL"

text \<open>The three templates, each with the context the code gives it.\<close>

definition embedded_templates :: "(char \<Rightarrow> string) \<Rightarrow> string \<Rightarrow> template_ctx \<Rightarrow> string result" where
  "embedded_templates entity path ctx =
     (if path = ResolvConfigTemplatePath then Inr resolv_conf
      else case ctx of
        NodeContext n \<Rightarrow>
          if path = CoreDNSConfigTemplatePath then Inr (corefile entity n)
          else Inl (ErrText ''not used'')
      | CaddyContext n layer4 layer7 \<Rightarrow>
          if path = CaddyConfigTemplatePath then Inr (caddyfile entity layer4 layer7)
          else Inl (ErrText ''not used''))"

section \<open>The engine\<close>

definition html_special :: "char set" where
  "html_special = {CHR ''&'', CHR ''<'', CHR ''>'', CHR 0x22, CHR 0x27}"

text \<open>
  A special character is written without any of the four that delimit in HTML, all others
  as they are.
\<close>

locale template_engine =
  fixes K :: "'f config_env" and entity :: "char \<Rightarrow> string"
  assumes plain: "c \<notin> html_special \<Longrightarrow> entity c = [c]"
    and special: "c \<in> html_special \<Longrightarrow> set (entity c) \<inter> (html_special - {CHR ''&''}) = {}"
    and caddy: "exec_template K CaddyConfigTemplatePath (CaddyContext n l4 l7) = Inr (caddyfile entity l4 l7)"
    and coredns: "exec_template K CoreDNSConfigTemplatePath (NodeContext n) = Inr (corefile entity n)"
    and resolv: "exec_template K ResolvConfigTemplatePath (NodeContext n) = Inr resolv_conf"
begin

lemma escaped_plain: "set t \<inter> html_special = {} \<Longrightarrow> escaped entity t = t"
  by (induction t) (auto simp: escaped_def plain)

lemma entity_delimiters: "set (entity c) \<inter> (html_special - {CHR ''&''}) = {}"
  using special [of c] plain [of c] by (cases "c \<in> html_special") auto

lemma escaped_delimiters: "set (escaped entity t) \<inter> (html_special - {CHR ''&''}) = {}"
  using entity_delimiters by (auto simp: escaped_def)

lemma each_delimiters: "set (each_this entity k es) \<inter> (html_special - {CHR ''&''}) = {}"
proof -
  have "set (spaces k @ escaped entity e @ NL) \<inter> (html_special - {CHR ''&''}) = {}" for e
    using escaped_delimiters [of e] by (auto simp: spaces_def html_special_def)
  then show ?thesis by (auto simp: each_this_def)
qed

lemma caddyfile_delimiters: "set (caddyfile entity l4 l7) \<inter> (html_special - {CHR ''&''}) = {}"
  using each_delimiters [of 12 l4] each_delimiters [of 4 l7]
  by (auto simp: caddyfile_def spaces_def html_special_def)

end

definition html_entity :: "char \<Rightarrow> string" where
  "html_entity c =
     (if c = CHR ''&'' then ''&amp;'' else if c = CHR ''<'' then ''&lt;''
      else if c = CHR ''>'' then ''&gt;'' else if c = CHR 0x22 then ''&quot;''
      else if c = CHR 0x27 then ''&apos;'' else [c])"

interpretation html: template_engine "K\<lparr>exec_template := embedded_templates html_entity\<rparr>" html_entity
  for K :: "'f config_env"
  by unfold_locales
    (auto simp: html_entity_def html_special_def embedded_templates_def ResolvConfigTemplatePath_def
      CaddyConfigTemplatePath_def CoreDNSConfigTemplatePath_def)

end
