(* ===== verification/TemplateProps.thy ===== *)
theory TemplateProps
  imports Templates ConfigProps NodesOps "HOL-Library.Sublist"
begin

text \<open>
  What reaches the two configuration files that are made from templates: the Caddyfile of the
  gateway, in which the texts of the entries are escaped for HTML, and its Corefile, which
  forwards to the servers of the network.
\<close>

section \<open>The parameters of a service in its entry\<close>

lemma sublist_left: "sublist xs ys \<Longrightarrow> sublist xs (zs @ ys)"
  by (simp add: sublist_append)

lemma sublist_right: "sublist xs ys \<Longrightarrow> sublist xs (ys @ zs)"
  by (simp add: sublist_append)

lemma sublist_here: "sublist xs (as @ xs @ bs)"
  by (auto simp: sublist_def)

lemma sublist_join: "x \<in> set xs \<Longrightarrow> sublist x (join_str sep xs)"
proof (induction sep xs rule: join_str.induct)
  case (3 sep y z zs)
  then show ?case by (cases "x = y") (simp_all add: sublist_left sublist_right)
qed simp_all

lemma sublist_deeper: "sublist xs ys \<Longrightarrow> sublist xs (y # ys)"
  by (simp add: sublist_Cons_right)

lemma block_has_param:
  assumes "p \<in> set ps"
  shows "sublist (ParamValue p) (formatBlockParams ps k l)"
    and "formatBlockParams ps k l \<noteq> []" and "last (formatBlockParams ps k l) = CHR ''}''"
proof -
  have "sublist (spaces k @ ParamValue p) (join_str NL (map (\<lambda>p. spaces k @ ParamValue p) ps))"
    using assms by (intro sublist_join) simp
  then obtain a b where "join_str NL (map (\<lambda>p. spaces k @ ParamValue p) ps) = a @ (spaces k @ ParamValue p) @ b"
    by (auto simp: sublist_def)
  with assms have "formatBlockParams ps k l = (''{'' @ NL @ a @ spaces k) @ ParamValue p @ (b @ NL @ spaces l @ ''}'')"
    by (auto simp: formatBlockParams_def)
  then show "sublist (ParamValue p) (formatBlockParams ps k l)" by (metis sublist_here)
qed (use assms in \<open>auto simp: formatBlockParams_def\<close>)

text \<open>A text that starts with a letter and ends with the closing brace survives the trimming.\<close>

lemma trimmed_param:
  assumes "p \<in> set ps" and "front \<noteq> []" and "solid (hd front)"
  shows "sublist (ParamValue p) (a @ trim_space (front @ formatBlockParams ps k l) @ b)"
proof -
  have "trim_space (front @ formatBlockParams ps k l) = front @ formatBlockParams ps k l"
    by (rule trim_space_solid) (use assms block_has_param [OF assms(1)] in \<open>auto simp: solid_def\<close>)
  then show ?thesis using block_has_param(1) [OF assms(1)] by (simp add: sublist_left sublist_right)
qed

lemma entry_shapes:
  assumes "AsCaddyConfigEntry v g = Inr e"
  shows "PublicProtocol v \<in> {''http'', ''https''} \<Longrightarrow> \<exists>h. e =
     (NL @ h @ '' {'' @ NL @ spaces 4)
     @ trim_space ((''reverse_proxy '' @ LocalProtocol v @ ''://'' @ caddy_host g (LocalHost v) @ '':''
         @ port_str (LocalPort v) @ '' '') @ formatBlockParams (Params v) 8 4) @ (NL @ ''}'' @ NL)"
    and "PublicProtocol v \<in> {''tcp'', ''udp''} \<Longrightarrow> e =
     (NL @ spaces 8 @ PublicProtocol v @ ''/0.0.0.0:'' @ port_str (PublicPort v) @ '' {'' @ NL
       @ spaces 12 @ ''route {'' @ NL @ spaces 16 @ ''proxy {'' @ NL @ spaces 20)
     @ trim_space ((''upstream '' @ LocalProtocol v @ ''/'' @ caddy_host g (LocalHost v) @ '':''
         @ port_str (LocalPort v) @ '' '') @ formatBlockParams (Params v) 16 12)
     @ (NL @ spaces 16 @ ''}'' @ NL @ spaces 12 @ ''}'' @ NL @ spaces 8 @ ''}'' @ NL)"
  using assms by (auto simp: AsCaddyConfigEntry_def Let_def result_simps trim_right_set_def split: if_splits)

lemma entry_has_param:
  assumes "AsCaddyConfigEntry v g = Inr e" and "p \<in> set (Params v)"
    and "PublicProtocol v \<in> {''http'', ''https'', ''tcp'', ''udp''}"
  shows "sublist (ParamValue p) e"
proof (cases "PublicProtocol v \<in> {''http'', ''https''}")
  case True
  from entry_shapes(1) [OF assms(1) this] obtain h where e: "e =
     (NL @ h @ '' {'' @ NL @ spaces 4)
     @ trim_space ((''reverse_proxy '' @ LocalProtocol v @ ''://'' @ caddy_host g (LocalHost v) @ '':''
         @ port_str (LocalPort v) @ '' '') @ formatBlockParams (Params v) 8 4) @ (NL @ ''}'' @ NL)"
    by blast
  show ?thesis unfolding e by (rule trimmed_param [OF assms(2)]) (simp_all add: solid_def)
next
  case False
  with assms(3) have "PublicProtocol v \<in> {''tcp'', ''udp''}" by auto
  note e = entry_shapes(2) [OF assms(1) this]
  show ?thesis unfolding e by (rule trimmed_param [OF assms(2)]) (simp_all add: solid_def)
qed

section \<open>The Caddyfile\<close>

context template_engine
begin

lemma each_has_plain:
  assumes "e \<in> set es" and "set e \<inter> html_special = {}"
  shows "sublist e (each_this entity k es)"
proof -
  obtain xs ys where es: "es = xs @ e # ys" using assms(1) by (meson split_list)
  show ?thesis
    unfolding each_this_def es using escaped_plain [OF assms(2)]
    by (simp add: sublist_left sublist_right)
qed

lemma caddyfile_has_plain:
  assumes "e \<in> set (l4 @ l7)" and "set e \<inter> html_special = {}"
  shows "sublist e (caddyfile entity l4 l7)"
proof -
  have "caddyfile entity l4 l7 =
      (''# layer 4'' @ NL @ NL @ ''{'' @ NL @ spaces 4 @ ''layer4 {'' @ NL
       @ spaces 8 @ ''# more: https://github.com/mholt/caddy-l4'' @ NL)
      @ each_this entity 12 l4
      @ (spaces 4 @ ''}'' @ NL @ ''}'' @ NL @ NL @ ''# layer 7'' @ NL) @ each_this entity 4 l7"
    by (simp add: caddyfile_def)
  moreover have "sublist e (a @ each_this entity 12 l4 @ b @ each_this entity 4 l7)" for a b
    using assms each_has_plain [of e l4 12] each_has_plain [of e l7 4]
    by (auto simp: sublist_left sublist_right)
  ultimately show ?thesis by (simp only:)
qed

lemma caddyfile_lacks_quoted:
  assumes "set x \<inter> (html_special - {CHR ''&''}) \<noteq> {}"
  shows "\<not> sublist x (caddyfile entity l4 l7)"
proof
  assume "sublist x (caddyfile entity l4 l7)"
  then have "set x \<subseteq> set (caddyfile entity l4 l7)" by (rule set_mono_sublist)
  with assms caddyfile_delimiters [of l4 l7] show False by blast
qed

end

text \<open>
  C19. The Caddyfile of a gateway is HTML. Each service has its entry, and every parameter of a
  service is in the service's entry as the user gave it. An entry without characters special
  to HTML is in the file as it is, but the file has no quotation mark, apostrophe, \<open><\<close> or
  \<open>>\<close> at all: a parameter with one of these, such as a header value in quotation marks, never
  reaches Caddy as it was given.
\<close>

theorem caddyfile_is_escaped:
  assumes "template_engine K entity" and "node_Role n = NodeRoleGateway"
    and "GetFormattedCaddyConfig K n vs = Inr text" and "v \<in> set vs"
    and "PublicProtocol v \<in> {''http'', ''https'', ''tcp'', ''udp''}"
  shows "\<exists>e. AsCaddyConfigEntry v (node_GatewayPublicIP n) = Inr e
     \<and> (\<forall>p \<in> set (Params v). sublist (ParamValue p) e)
     \<and> (set e \<inter> html_special = {} \<longrightarrow> sublist e text)
     \<and> (\<forall>p \<in> set (Params v). set (ParamValue p) \<inter> (html_special - {CHR ''&''}) \<noteq> {}
          \<longrightarrow> \<not> sublist (ParamValue p) text)"
proof -
  from caddy_config_made [OF assms(2)] assms(3)
  obtain f where f: "\<And>v. v \<in> set vs \<Longrightarrow> AsCaddyConfigEntry v (node_GatewayPublicIP n) = Inr (f v)"
    and "exec_template K CaddyConfigTemplatePath
      (CaddyContext n (map f (filter is_layer4 vs)) (map f (filter (\<lambda>v. \<not> is_layer4 v) vs))) = Inr text" by blast
  then have t: "text = caddyfile entity (map f (filter is_layer4 vs)) (map f (filter (\<lambda>v. \<not> is_layer4 v) vs))"
    using template_engine.caddy [OF assms(1)] by simp
  have "f v \<in> set (map f (filter is_layer4 vs) @ map f (filter (\<lambda>v. \<not> is_layer4 v) vs))"
    using assms(4) by auto
  then have "set (f v) \<inter> html_special = {} \<longrightarrow> sublist (f v) text"
    unfolding t by (intro impI) (rule template_engine.caddyfile_has_plain [OF assms(1)])
  moreover have "\<forall>p \<in> set (Params v). sublist (ParamValue p) (f v)"
    by (intro ballI) (rule entry_has_param [OF f [OF assms(4)] _ assms(5)])
  moreover have "\<forall>p \<in> set (Params v). set (ParamValue p) \<inter> (html_special - {CHR ''&''}) \<noteq> {}
      \<longrightarrow> \<not> sublist (ParamValue p) text"
    unfolding t by (intro ballI impI) (rule template_engine.caddyfile_lacks_quoted [OF assms(1)])
  ultimately show ?thesis using f [OF assms(4)] by simp
qed

definition quoted_service :: service where
  "quoted_service = demo_service\<lparr>PublicProtocol := ''tcp'',
     Params := [\<lparr>ParamType = PublicServiceParamTypeCaddyFreeText,
       ParamValue = [CHR 0x22] @ ''two words'' @ [CHR 0x22]\<rparr>]\<rparr>"

theorem caddyfile_is_escaped_witness:
  "\<exists>t e. GetFormattedCaddyConfig (demo_config\<lparr>exec_template := embedded_templates html_entity\<rparr>)
       gateway_node [quoted_service] = Inr t
     \<and> AsCaddyConfigEntry quoted_service (node_GatewayPublicIP gateway_node) = Inr e
     \<and> sublist ([CHR 0x22] @ ''two words'' @ [CHR 0x22]) e
     \<and> \<not> sublist ([CHR 0x22] @ ''two words'' @ [CHR 0x22]) t"
proof -
  let ?K = "demo_config\<lparr>exec_template := embedded_templates html_entity\<rparr>"
  have gw: "node_Role gateway_node = NodeRoleGateway" by (simp add: gateway_node_def)
  have p: "PublicProtocol quoted_service = ''tcp''" "Params quoted_service
      = [\<lparr>ParamType = PublicServiceParamTypeCaddyFreeText, ParamValue = [CHR 0x22] @ ''two words'' @ [CHR 0x22]\<rparr>]"
    by (simp_all add: quoted_service_def)
  obtain e where e: "AsCaddyConfigEntry quoted_service (node_GatewayPublicIP gateway_node) = Inr e"
    by (simp add: quoted_service_def demo_service_def AsCaddyConfigEntry_def Let_def)
  then obtain t where t: "GetFormattedCaddyConfig ?K gateway_node [quoted_service] = Inr t"
    using gw p by (simp add: GetFormattedCaddyConfig_def is_layer4_def embedded_templates_def
        CaddyConfigTemplatePath_def ResolvConfigTemplatePath_def)
  show ?thesis
    using caddyfile_is_escaped [OF html.template_engine_axioms gw t, of quoted_service] e t p
    by (auto simp: html_special_def)
qed

section \<open>The Corefile\<close>

lemma docker_dns_text: "dotted 127 0 0 11 = ''127.0.0.11''"
  by code_simp

lemma ignored_dns: "helper_split ''127.0.0.11'' '','' = [''127.0.0.11'']"
  by code_simp

text \<open>The resolver of Docker is left out, all other addresses are kept in their order.\<close>

lemma helper_ipsToDNS_words:
  "helper_ipsToDNS dns ''127.0.0.11'' '',''
   = join_str '' '' (filter (\<lambda>t. t \<noteq> ''127.0.0.11'') (map (\<lambda>d. IPToString (net_ip d)) dns))"
  by (simp add: helper_ipsToDNS_def ignored_dns MapIPNetMarshablesToStrings_def Let_def)

lemma digit_not_special: "is_digit c \<Longrightarrow> c \<notin> html_special"
  by (auto simp: html_special_def is_digit_def)

lemma dotted_plain: "set (dotted a b c d) \<inter> html_special = {}"
proof -
  have "c \<notin> html_special" if "c \<in> set (itoa n)" for c n
    using that not_digit_notin_itoa digit_not_special by blast
  then show ?thesis by (auto simp: dotted_def html_special_def)
qed

lemma join_plain: "(\<And>x. x \<in> set xs \<Longrightarrow> set x \<inter> S = {}) \<Longrightarrow> set sep \<inter> S = {} \<Longrightarrow> set (join_str sep xs) \<inter> S = {}"
  by (induction sep xs rule: join_str.induct) auto

lemma node_addr_range:
  assumes "net_ok N" and "n \<in> N"
  shows "set (node_addr n) \<inter> html_special = {}" and "node_addr n \<noteq> ''127.0.0.11''"
proof -
  from assms obtain k where "node_addr n = dotted 10 0 0 k"
    by (auto simp: net_ok_def node_ok_def node_addr_def in_wg_range_def)
  then show "set (node_addr n) \<inter> html_special = {}" "node_addr n \<noteq> ''127.0.0.11''"
    unfolding docker_dns_text [symmetric] using dotted_plain by simp_all
qed

lemma covered_servers:
  assumes "covered N M"
  shows "node_addr ` {n \<in> N. node_Role n = NodeRoleServer} \<subseteq> node_addr ` {n \<in> M. node_Role n = NodeRoleServer}"
proof (rule image_subsetI)
  fix n assume n: "n \<in> {n \<in> N. node_Role n = NodeRoleServer}"
  then obtain m where m: "m \<in> M" "core n = core m" using assms by (auto simp: covered_def)
  from core_eqD [OF m(2)] m(1) n
  show "node_addr n \<in> node_addr ` {n \<in> M. node_Role n = NodeRoleServer}" by (intro image_eqI [of _ _ m]) simp_all
qed

lemma fanout_in_corefile:
  assumes "node_Role n = NodeRoleGateway"
    and "escaped entity (helper_ipsToDNS (if_DNS (wg_Interface (node_WGConfig n))) ''127.0.0.11'' '','') = w"
  shows "sublist (''fanout . '' @ w @ '' 8.8.8.8 1.1.1.1 {'' @ NL) (corefile entity n)"
proof -
  have "\<exists>a b. corefile entity n = a @ (''fanout . '' @ w @ '' 8.8.8.8 1.1.1.1 {'' @ NL) @ b"
    by (rule exI [of _ "''. {'' @ NL @ spaces 4 @ ''loop'' @ NL @ spaces 4 @ NL @ spaces 4"])
       (simp add: corefile_def fanout_line_def assms)
  then show ?thesis by (simp add: sublist_def)
qed

text \<open>
  C20. After the refresh of a well-formed network with a gateway, the gateway's Corefile
  forwards first to the addresses of the servers of the network, to all of them and to nothing
  else, and then to the two public resolvers; Docker's own resolver, which the stored
  configuration has as well, is left out.
\<close>

theorem corefile_follows_network:
  assumes "template_engine K entity" and "node_db T tbl" and "net_ok (ran (tbl s))"
    and "gw \<in> ran (tbl s)" and "node_Role gw = NodeRoleGateway" and "node_ID gw \<noteq> []"
  shows "\<exists>s' gw' addrs text. updateNodes T s = (s', Inr ()) \<and> gw' \<in> ran (tbl s') \<and> node_ID gw' = node_ID gw
     \<and> set addrs = node_addr ` {n \<in> ran (tbl s). node_Role n = NodeRoleServer}
     \<and> GetFormattedCoreDNSConfig K gw' = Inr text
     \<and> sublist (''fanout . '' @ join_str '' '' addrs @ '' 8.8.8.8 1.1.1.1 {'' @ NL) text"
proof -
  obtain s' gw' ip port where s': "updateNodes T s = (s', Inr ())" and gw': "gw' \<in> ran (tbl s')" "node_ID gw' = node_ID gw"
    and star: "star gw' ip port (ran (tbl s'))"
    and cov: "covered (ran (tbl s)) (ran (tbl s'))" "covered (ran (tbl s')) (ran (tbl s))"
    using node_db.update_nodes_star [OF assms(2-6)] by blast
  have ok: "net_ok (ran (tbl s'))" by (rule net_ok_covered [OF assms(3) cov(2)])
  define dns where "dns = if_DNS (wg_Interface (node_WGConfig gw'))"
  define addrs where "addrs = filter (\<lambda>t. t \<noteq> ''127.0.0.11'') (map (\<lambda>d. IPToString (net_ip d)) dns)"
  let ?servers = "{n \<in> ran (tbl s'). node_Role n = NodeRoleServer}"
  have "set dns = insert (single docker_dns) ((\<lambda>n. single (node_ip n)) ` ?servers)"
    using star by (simp add: star_def dns_def)
  then have "set addrs = node_addr ` ?servers"
    using node_addr_range(2) [OF ok]
    by (auto simp: addrs_def docker_dns_def docker_dns_text node_addr_def image_image)
  moreover have "node_addr ` ?servers = node_addr ` {n \<in> ran (tbl s). node_Role n = NodeRoleServer}"
    using covered_servers [OF cov(1)] covered_servers [OF cov(2)] by (rule subset_antisym [rotated])
  moreover have esc: "escaped entity (join_str '' '' addrs) = join_str '' '' addrs"
  proof (rule template_engine.escaped_plain [OF assms(1)], rule join_plain)
    fix x assume "x \<in> set addrs"
    with calculation(1) show "set x \<inter> html_special = {}" using node_addr_range(1) [OF ok] by auto
  qed (simp add: html_special_def)
  moreover have role: "node_Role gw' = NodeRoleGateway"
  proof -
    obtain m where m: "m \<in> ran (tbl s')" "core gw = core m" using cov(1) assms(4) by (auto simp: covered_def)
    with gw' have "m = gw'" using core_eqD(1) [OF m(2)] by (simp add: node_db.rows_iff [OF assms(2)])
    with core_eqD(2) [OF m(2)] assms(5) show ?thesis by simp
  qed
  moreover have "GetFormattedCoreDNSConfig K gw' = Inr (corefile entity gw')"
    using role template_engine.coredns [OF assms(1)] by (simp add: GetFormattedCoreDNSConfig_def)
  moreover have "sublist (''fanout . '' @ join_str '' '' addrs @ '' 8.8.8.8 1.1.1.1 {'' @ NL) (corefile entity gw')"
    using esc by (intro fanout_in_corefile [OF role]) (simp add: helper_ipsToDNS_words addrs_def dns_def)
  ultimately show ?thesis using s' gw'
    by (intro exI [of _ s'] exI [of _ gw'] exI [of _ addrs] exI [of _ "corefile entity gw'"]) (simp only: simp_thms)
qed

theorem corefile_follows_network_witness:
  "\<exists>s' gw' text. updateNodes mem_nodes [star_gateway, star_server] = (s', Inr ()) \<and> node_ID gw' = ''gw''
     \<and> GetFormattedCoreDNSConfig (demo_config\<lparr>exec_template := embedded_templates html_entity\<rparr>) gw' = Inr text"
  using corefile_follows_network [OF html.template_engine_axioms mem_node_db, of "[star_gateway, star_server]" star_gateway demo_config]
  by auto

end
