(* ===== verification/JsonText.thy ===== *)
theory JsonText
  imports GoText
begin

text \<open>
  \<open>json.Valid\<close> of Go's standard library: the scanner of \<open>encoding/json\<close>, a machine that reads
  one byte after the other, with a stack of the objects and arrays that are open.
\<close>

section \<open>The machine\<close>

text \<open>
  What the scanner expects next. \<open>InEscape n\<close> has read \<open>n\<close> of the four hexadecimal digits of an
  escape, \<open>InWord cs\<close> still needs the rest \<open>cs\<close> of one of the words \<open>true\<close>, \<open>false\<close> and \<open>null\<close>.
\<close>

datatype json_step =
    BeginValue | BeginValueOrEmpty | BeginStringOrEmpty | BeginString | EndValue | EndTop
  | InString | InStringEsc | InEscape nat | InNeg | InInt | InZero | InDot | InFraction
  | InE | InESign | InExponent | InWord string

datatype json_open = ObjectKey | ObjectValue | ArrayValue

type_synonym json_scanner = "json_step \<times> json_open list"

definition maxNestingDepth :: nat where "maxNestingDepth = 10000"

definition json_space :: "char \<Rightarrow> bool" where
  "json_space c \<longleftrightarrow> c = CHR '' '' \<or> c = CHR 0x09 \<or> c = CHR 0x0D \<or> c = CHR 0x0A"

definition is_hex :: "char \<Rightarrow> bool" where
  "is_hex c \<longleftrightarrow> is_digit c \<or> c \<in> set ''abcdefABCDEF''"

definition push_open :: "json_open \<Rightarrow> json_step \<Rightarrow> json_open list \<Rightarrow> json_scanner option" where
  "push_open p next stack =
     (if length stack < maxNestingDepth then Some (next, p # stack) else None)"

definition pop_open :: "json_open list \<Rightarrow> json_scanner option" where
  "pop_open stack = Some (if tl stack = [] then EndTop else EndValue, tl stack)"

text \<open>A value has just ended, or ends with the byte \<open>c\<close>.\<close>

definition end_value :: "char \<Rightarrow> json_open list \<Rightarrow> json_scanner option" where
  "end_value c stack =
     (case stack of
        [] \<Rightarrow> if json_space c then Some (EndTop, []) else None
      | p # ps \<Rightarrow>
          if json_space c then Some (EndValue, stack)
          else
            (case p of
               ObjectKey \<Rightarrow> if c = CHR '':'' then Some (BeginValue, ObjectValue # ps) else None
             | ObjectValue \<Rightarrow>
                 if c = CHR '','' then Some (BeginString, ObjectKey # ps)
                 else if c = CHR ''}'' then pop_open stack else None
             | ArrayValue \<Rightarrow>
                 if c = CHR '','' then Some (BeginValue, stack)
                 else if c = CHR '']'' then pop_open stack else None))"

definition begin_value :: "char \<Rightarrow> json_open list \<Rightarrow> json_scanner option" where
  "begin_value c stack =
     (if json_space c then Some (BeginValue, stack)
      else if c = CHR ''{'' then push_open ObjectKey BeginStringOrEmpty stack
      else if c = CHR ''['' then push_open ArrayValue BeginValueOrEmpty stack
      else if c = CHR 0x22 then Some (InString, stack)
      else if c = CHR ''-'' then Some (InNeg, stack)
      else if c = CHR ''0'' then Some (InZero, stack)
      else if c = CHR ''t'' then Some (InWord ''rue'', stack)
      else if c = CHR ''f'' then Some (InWord ''alse'', stack)
      else if c = CHR ''n'' then Some (InWord ''ull'', stack)
      else if is_digit c then Some (InInt, stack)
      else None)"

definition in_zero :: "char \<Rightarrow> json_open list \<Rightarrow> json_scanner option" where
  "in_zero c stack =
     (if c = CHR ''.'' then Some (InDot, stack)
      else if c = CHR ''e'' \<or> c = CHR ''E'' then Some (InE, stack)
      else end_value c stack)"

definition in_e_sign :: "char \<Rightarrow> json_open list \<Rightarrow> json_scanner option" where
  "in_e_sign c stack = (if is_digit c then Some (InExponent, stack) else None)"

fun json_next :: "char \<Rightarrow> json_scanner \<Rightarrow> json_scanner option" where
  "json_next c (BeginValue, st) = begin_value c st"
| "json_next c (BeginValueOrEmpty, st) =
     (if json_space c then Some (BeginValueOrEmpty, st)
      else if c = CHR '']'' then end_value c st else begin_value c st)"
| "json_next c (BeginStringOrEmpty, st) =
     (if json_space c then Some (BeginStringOrEmpty, st)
      else if c = CHR ''}'' then end_value c (ObjectValue # tl st)
      else if c = CHR 0x22 then Some (InString, st) else None)"
| "json_next c (BeginString, st) =
     (if json_space c then Some (BeginString, st)
      else if c = CHR 0x22 then Some (InString, st) else None)"
| "json_next c (EndValue, st) = end_value c st"
| "json_next c (EndTop, st) = (if json_space c then Some (EndTop, st) else None)"
| "json_next c (InString, st) =
     (if c = CHR 0x22 then Some (EndValue, st)
      else if c = CHR 0x5C then Some (InStringEsc, st)
      else if (of_char c :: nat) < 32 then None else Some (InString, st))"
| "json_next c (InStringEsc, st) =
     (if c \<in> set ''bfnrt/'' \<or> c = CHR 0x5C \<or> c = CHR 0x22 then Some (InString, st)
      else if c = CHR ''u'' then Some (InEscape 0, st) else None)"
| "json_next c (InEscape n, st) =
     (if is_hex c then Some (if n < 3 then InEscape (Suc n) else InString, st) else None)"
| "json_next c (InNeg, st) =
     (if c = CHR ''0'' then Some (InZero, st) else if is_digit c then Some (InInt, st) else None)"
| "json_next c (InInt, st) = (if is_digit c then Some (InInt, st) else in_zero c st)"
| "json_next c (InZero, st) = in_zero c st"
| "json_next c (InDot, st) = (if is_digit c then Some (InFraction, st) else None)"
| "json_next c (InFraction, st) =
     (if is_digit c then Some (InFraction, st)
      else if c = CHR ''e'' \<or> c = CHR ''E'' then Some (InE, st) else end_value c st)"
| "json_next c (InE, st) =
     (if c = CHR ''+'' \<or> c = CHR ''-'' then Some (InESign, st) else in_e_sign c st)"
| "json_next c (InESign, st) = in_e_sign c st"
| "json_next c (InExponent, st) = (if is_digit c then Some (InExponent, st) else end_value c st)"
| "json_next c (InWord cs, st) =
     (case cs of
        [] \<Rightarrow> None
      | x # xs \<Rightarrow> if c = x then Some (if xs = [] then EndValue else InWord xs, st) else None)"

fun json_run :: "string \<Rightarrow> json_scanner \<Rightarrow> json_scanner option" where
  "json_run [] s = Some s"
| "json_run (c # cs) s = (case json_next c s of None \<Rightarrow> None | Some s' \<Rightarrow> json_run cs s')"

text \<open>At the end of the text a space is read, which ends a number.\<close>

definition json_eof :: "json_scanner \<Rightarrow> bool" where
  "json_eof s =
     (fst s = EndTop \<or> (case json_next (CHR '' '') s of None \<Rightarrow> False | Some s' \<Rightarrow> fst s' = EndTop))"

definition json_valid :: "string \<Rightarrow> bool" where
  "json_valid text = (case json_run text (BeginValue, []) of None \<Rightarrow> False | Some s \<Rightarrow> json_eof s)"

end
