(* ===== verification/Configuration.thy ===== *)
theory Configuration
  imports Ssh
begin

text \<open>
  The configuration of the program, \<open>cmd/server/config/config.go\<close>: environment variables with
  defaults, and the path of the database, which depends on the profile. The environment
  (\<open>os.Getenv\<close>, empty for a variable that is not set) and the home directory
  (\<open>os.UserHomeDir\<close>) are arguments; loading the file \<open>.env\<close> happens before, and warnings are
  left out.
\<close>

section \<open>Paths\<close>

text \<open>\<open>filepath.Clean\<close>, \<open>filepath.Dir\<close> and \<open>filepath.Join\<close> on Unix.\<close>

fun clean_parts :: "bool \<Rightarrow> string list \<Rightarrow> string list \<Rightarrow> string list" where
  "clean_parts rooted acc [] = rev acc"
| "clean_parts rooted acc (p # ps) =
     (if p = [] \<or> p = ''.'' then clean_parts rooted acc ps
      else if p = ''..'' then
        (if acc \<noteq> [] \<and> hd acc \<noteq> ''..'' then clean_parts rooted (tl acc) ps
         else if rooted then clean_parts rooted acc ps
         else clean_parts rooted (p # acc) ps)
      else clean_parts rooted (p # acc) ps)"

definition path_clean :: "string \<Rightarrow> string" where
  "path_clean path =
     (let rooted = (path \<noteq> [] \<and> hd path = CHR ''/'');
          out = (if rooted then ''/'' else []) @ join_str ''/'' (clean_parts rooted [] (split_char CHR ''/'' path))
      in if out = [] then ''.'' else out)"

definition path_dir :: "string \<Rightarrow> string" where
  "path_dir path = path_clean (rev (dropWhile (\<lambda>c. c \<noteq> CHR ''/'') (rev path)))"

definition path_join :: "string list \<Rightarrow> string" where
  "path_join elems =
     (case dropWhile (\<lambda>e. e = []) elems of
        [] \<Rightarrow> []
      | es \<Rightarrow> path_clean (join_str ''/'' es))"

section \<open>Environment\<close>

definition GetEnv :: "(string \<Rightarrow> string) \<Rightarrow> string \<Rightarrow> string \<Rightarrow> string" where
  "GetEnv getenv key defaultValue = (if getenv key = [] then defaultValue else getenv key)"

definition getHomeDir :: "string result \<Rightarrow> string" where
  "getHomeDir home = (case home of Inl e \<Rightarrow> [] | Inr d \<Rightarrow> d)"

definition getDefaultDatabasePath :: "string result \<Rightarrow> string \<Rightarrow> string \<Rightarrow> string" where
  "getDefaultDatabasePath home fallback profile =
     (if getHomeDir home = [] then fallback
      else path_join [getHomeDir home, ''.wireport'', profile, ''wireport.db''])"

definition WireportProfile :: "(string \<Rightarrow> string) \<Rightarrow> string" where
  "WireportProfile getenv = GetEnv getenv ''WIREPORT_PROFILE'' ''default''"

definition DatabasePath :: "(string \<Rightarrow> string) \<Rightarrow> string result \<Rightarrow> string" where
  "DatabasePath getenv home =
     GetEnv getenv ''DATABASE_PATH''
       (getDefaultDatabasePath home ''/app/wireport/wireport.db'' (WireportProfile getenv))"

section \<open>The configuration\<close>

record configuration =
  cfg_ControlServerPort :: "16 word"
  cfg_DatabasePath :: string
  cfg_WGPublicPort :: "16 word"
  cfg_WireportProfile :: string
  cfg_WireguardConfigPath :: string
  cfg_ResolvConfigPath :: string
  cfg_CaddyConfigPath :: string
  cfg_CoreDNSConfigPath :: string
  cfg_ResolvConfigTemplatePath :: string
  cfg_CaddyConfigTemplatePath :: string
  cfg_CoreDNSConfigTemplatePath :: string
  cfg_UpGatewayScriptTemplatePath :: string
  cfg_UpServerScriptTemplatePath :: string
  cfg_DownServerScriptTemplatePath :: string
  cfg_DownGatewayScriptTemplatePath :: string
  cfg_UpgradeGatewayScriptTemplatePath :: string
  cfg_UpgradeServerScriptTemplatePath :: string
  cfg_NewClientScriptTemplatePath :: string
  cfg_PublishDockerSocketScriptTemplatePath :: string
  cfg_UnpublishDockerSocketScriptTemplatePath :: string
  cfg_RunitServiceDir :: string
  cfg_RunitServiceDisabledDir :: string
  cfg_DockerSocketServiceName :: string
  cfg_DockerSocketTCPPort :: string
  cfg_DockerSocketUnixPath :: string
  cfg_DockerNetworkName :: string
  cfg_DockerNetworkDriver :: string
  cfg_WireguardRestartCommand :: string
  cfg_CaddyRestartCommand :: string
  cfg_CoreDNSRestartCommand :: string
  cfg_ServerJoinVerificationCommandFmt :: string
  cfg_DocumentationURL :: string
  cfg_WireportGatewayContainerName :: string
  cfg_WireportGatewayContainerImage :: string
  cfg_WireportServerContainerName :: string
  cfg_WireportServerContainerImage :: string
  cfg_CertExpiry :: int

definition Config :: "(string \<Rightarrow> string) \<Rightarrow> string result \<Rightarrow> configuration" where
  "Config getenv home =
     \<lparr>cfg_ControlServerPort = ControlServerPort,
      cfg_DatabasePath = DatabasePath getenv home,
      cfg_WGPublicPort = WGPublicPort,
      cfg_WireportProfile = WireportProfile getenv,
      cfg_WireguardConfigPath = GetEnv getenv ''WIREGUARD_CONFIG_PATH'' ''/etc/wireguard/wg0.conf'',
      cfg_ResolvConfigPath = GetEnv getenv ''RESOLV_CONFIG_PATH'' ''/etc/resolv.conf'',
      cfg_CaddyConfigPath = GetEnv getenv ''CADDY_CONFIG_PATH'' ''/etc/caddy/Caddyfile'',
      cfg_CoreDNSConfigPath = GetEnv getenv ''COREDNS_CONFIG_PATH'' ''/etc/coredns/Corefile'',
      cfg_ResolvConfigTemplatePath = ''configs/resolv/resolv.hbs'',
      cfg_CaddyConfigTemplatePath = ''configs/caddy/caddyfile.hbs'',
      cfg_CoreDNSConfigTemplatePath = ''configs/coredns/corefile.hbs'',
      cfg_UpGatewayScriptTemplatePath = ''scripts/up/gateway.hbs'',
      cfg_UpServerScriptTemplatePath = ''scripts/up/server.hbs'',
      cfg_DownServerScriptTemplatePath = ''scripts/down/server.hbs'',
      cfg_DownGatewayScriptTemplatePath = ''scripts/down/gateway.hbs'',
      cfg_UpgradeGatewayScriptTemplatePath = ''scripts/upgrade/gateway.hbs'',
      cfg_UpgradeServerScriptTemplatePath = ''scripts/upgrade/server.hbs'',
      cfg_NewClientScriptTemplatePath = ''scripts/new/client.hbs'',
      cfg_PublishDockerSocketScriptTemplatePath = ''scripts/publish/docker-socket.hbs'',
      cfg_UnpublishDockerSocketScriptTemplatePath = ''scripts/unpublish/docker-socket.hbs'',
      cfg_RunitServiceDir = ''/etc/service'',
      cfg_RunitServiceDisabledDir = ''/etc/service-disabled'',
      cfg_DockerSocketServiceName = ''socat-docker-socket'',
      cfg_DockerSocketTCPPort = ''2375'',
      cfg_DockerSocketUnixPath = ''/var/run/docker.sock'',
      cfg_DockerNetworkName = DockerNetworkName,
      cfg_DockerNetworkDriver = DockerNetworkDriver,
      cfg_WireguardRestartCommand = WireguardRestartCommand,
      cfg_CaddyRestartCommand = ''/usr/bin/caddy reload --config %s --adapter caddyfile'',
      cfg_CoreDNSRestartCommand = CoreDNSRestartCommand,
      cfg_ServerJoinVerificationCommandFmt =
        ''docker exec %s sh -c '' @ apostrophe @ ''test -f %s && test -f %s'' @ apostrophe,
      cfg_DocumentationURL =
        GetEnv getenv ''WIREPORT_DOCUMENTATION_URL'' ''https://github.com/MultionLabs/wireport'',
      cfg_WireportGatewayContainerName = WireportGatewayContainerName,
      cfg_WireportGatewayContainerImage = WireportGatewayContainerImage,
      cfg_WireportServerContainerName = WireportServerContainerName,
      cfg_WireportServerContainerImage = WireportServerContainerImage,
      cfg_CertExpiry = CertExpiry\<rparr>"

text \<open>\<open>fmt.Sprintf\<close> with \<open>%s\<close> only, with which the commands are made from these texts.\<close>

fun fill_in :: "string \<Rightarrow> string list \<Rightarrow> string" where
  "fill_in [] args = []"
| "fill_in [c] args = [c]"
| "fill_in (c # d # cs) args =
     (if c = CHR ''%'' \<and> d = CHR ''s'' \<and> args \<noteq> [] then hd args @ fill_in cs (tl args)
      else c # fill_in (d # cs) args)"

lemma command_formats:
  "CaddyRestartCommand path = fill_in (cfg_CaddyRestartCommand (Config getenv home)) [path]"
  "join_check_command K = fill_in (cfg_ServerJoinVerificationCommandFmt (Config getenv home))
     [WireportServerContainerName, WireguardConfigPath K, CoreDNSConfigPath K]"
  by (simp_all add: CaddyRestartCommand_def join_check_command_def Config_def apostrophe_def)

end
