(* ===== verification/Database.thy ===== *)
theory Database
  imports JsonText Configuration "HOL-Library.AList"
begin

text \<open>
  Opening and closing the database, \<open>internal/database/service.go\<close>, with the repair of the
  stored labels, and the program's \<open>main\<close>. The record \<open>raw_db\<close> holds the calls on the raw
  database: making a directory (\<open>os.MkdirAll\<close>), the address with one more parameter
  (\<open>net/url\<close>), opening, migrating, reading the two columns \<open>id\<close> and \<open>labels\<close> of the nodes,
  writing the labels of one, reaching the connections of a database that was opened or of a nil
  one (\<open>db.DB()\<close>), and closing them.
\<close>

section \<open>The raw database\<close>

type_synonym label_row = "string \<times> string option"

record 's raw_db =
  raw_mkdir :: "string \<Rightarrow> ('s, unit) op"
  raw_url :: "string \<Rightarrow> string \<Rightarrow> string \<Rightarrow> string result"
  raw_open :: "string \<Rightarrow> ('s, unit) op"
  raw_migrate :: "('s, unit) op"
  raw_scan :: "'s \<Rightarrow> label_row list result"
  raw_update :: "string \<Rightarrow> string \<Rightarrow> ('s, unit) op"
  raw_pool :: "bool \<Rightarrow> ('s, unit) op"
  raw_close :: "('s, unit) op"

text \<open>A path that is no URL is taken as it is.\<close>

definition sqliteDSNImmediate :: "'s raw_db \<Rightarrow> string \<Rightarrow> string" where
  "sqliteDSNImmediate D path =
     (case raw_url D path ''_txlock'' ''immediate'' of Inl e \<Rightarrow> path | Inr u \<Rightarrow> u)"

section \<open>Repairing the labels\<close>

definition needs_update :: "string option \<Rightarrow> bool" where
  "needs_update labels =
     (case labels of
        None \<Rightarrow> True
      | Some text \<Rightarrow> (let raw = trim_space text in raw = [] \<or> \<not> json_valid raw))"

text \<open>\<open>json.Marshal\<close> of an empty list of strings.\<close>

definition no_labels :: string where "no_labels = ''[]''"

fun repair_rows :: "'s raw_db \<Rightarrow> label_row list \<Rightarrow> ('s, unit) op" where
  "repair_rows D [] = finish"
| "repair_rows D ((i, labels) # rows) =
     (if \<not> needs_update labels then repair_rows D rows
      else s_bind (raw_update D i no_labels) (\<lambda>_. repair_rows D rows))"

definition ensureNodeLabelsAreValidJSON :: "'s raw_db \<Rightarrow> ('s, unit) op" where
  "ensureNodeLabelsAreValidJSON D = s_bind (s_read (raw_scan D)) (repair_rows D)"

section \<open>Opening and closing\<close>

definition InitDB :: "'s raw_db \<Rightarrow> string \<Rightarrow> ('s, unit) op" where
  "InitDB D databasePath =
     s_bind (raw_mkdir D (path_dir databasePath)) (\<lambda>_.
     s_bind (raw_open D (sqliteDSNImmediate D databasePath)) (\<lambda>_.
     s_bind (raw_migrate D) (\<lambda>_.
     ensureNodeLabelsAreValidJSON D)))"

definition CloseDB :: "'s raw_db \<Rightarrow> bool \<Rightarrow> ('s, unit) op" where
  "CloseDB D isOpen = s_bind (raw_pool D isOpen) (\<lambda>_. raw_close D)"

section \<open>The program\<close>

text \<open>
  \<open>execute\<close> is the command given (\<open>rootCmd.Execute\<close>), an operation on the database; the state
  is the database and what has been printed to the error output. The close is deferred by the
  last statement of the function, so it follows all the others, and a panic of the command,
  which comes before that statement, leaves the database open.
\<close>

definition on_db :: "('s, 'a) op \<Rightarrow> ('s \<times> string, 'a) op" where
  "on_db m = (\<lambda>(s, out). case m s of (s', r) \<Rightarrow> ((s', out), r))"

definition complain :: "string \<Rightarrow> ('s \<times> string, unit) op" where
  "complain message = (\<lambda>(s, out). ((s, out @ message), Inr ()))"

definition main_close :: "'s raw_db \<Rightarrow> bool \<Rightarrow> ('s \<times> string, unit) op" where
  "main_close D isOpen =
     attempt (on_db (CloseDB D isOpen))
       (\<lambda>e. complain (''Failed to close database: '' @ err_text e @ NL)) (\<lambda>_. finish)"

definition main_program :: "'s raw_db \<Rightarrow> string \<Rightarrow> ('s, unit) op \<Rightarrow> ('s \<times> string, unit) op" where
  "main_program D databasePath execute =
     (\<lambda>(s, out).
       case InitDB D databasePath s of
         (s', Inl e) \<Rightarrow>
           s_bind (complain (''Failed to initialize database at '' @ databasePath @ '': '' @ err_text e @ NL))
             (\<lambda>_. main_close D False) (s', out)
       | (s', Inr _) \<Rightarrow>
           s_bind (attempt (on_db execute) (\<lambda>e. complain (err_text e @ NL)) (\<lambda>_. finish))
             (\<lambda>_. main_close D True) (s', out))"

section \<open>What a good database promises\<close>

text \<open>
  \<open>lab s\<close> is what is stored: the rows by their id. Reading gives them all, and writing the
  labels of a row replaces them and nothing else.
\<close>

locale label_store =
  fixes D :: "'s raw_db" and lab :: "'s \<Rightarrow> string \<rightharpoonup> string option"
  assumes scan: "\<exists>rows. raw_scan D s = Inr rows \<and> distinct (map fst rows) \<and> map_of rows = lab s"
    and update: "lab s i = Some old \<Longrightarrow>
      \<exists>s'. raw_update D i text s = (s', Inr ()) \<and> lab s' = (lab s)(i \<mapsto> Some text)"
begin

abbreviation repaired :: "string option \<Rightarrow> string option" where
  "repaired labels \<equiv> (if needs_update labels then Some no_labels else labels)"

lemma repair_rows_effect:
  assumes "distinct (map fst rows)" and "\<And>i l. (i, l) \<in> set rows \<Longrightarrow> lab s i = Some l"
  shows "\<exists>s'. repair_rows D rows s = (s', Inr ())
     \<and> (\<forall>i. lab s' i = (case map_of rows i of None \<Rightarrow> lab s i | Some l \<Rightarrow> Some (repaired l)))"
  using assms
proof (induction rows arbitrary: s)
  case Nil
  then show ?case by (simp add: finish_def)
next
  case (Cons row rows)
  obtain i l where row: "row = (i, l)" by fastforce
  have i: "lab s i = Some l" using Cons.prems(2) row by simp
  have fresh: "map_of rows i = None" using Cons.prems(1) row by (auto simp: map_of_eq_None_iff)
  show ?case
  proof (cases "needs_update l")
    case False
    have "\<exists>s'. repair_rows D rows s = (s', Inr ())
        \<and> (\<forall>i. lab s' i = (case map_of rows i of None \<Rightarrow> lab s i | Some l \<Rightarrow> Some (repaired l)))"
      using Cons.prems by (intro Cons.IH) auto
    with False row i fresh show ?thesis by auto
  next
    case True
    obtain s1 where s1: "raw_update D i no_labels s = (s1, Inr ())" "lab s1 = (lab s)(i \<mapsto> Some no_labels)"
      using update [OF i] by blast
    have "\<exists>s'. repair_rows D rows s1 = (s', Inr ())
        \<and> (\<forall>j. lab s' j = (case map_of rows j of None \<Rightarrow> lab s1 j | Some l \<Rightarrow> Some (repaired l)))"
    proof (rule Cons.IH)
      show "distinct (map fst rows)" using Cons.prems(1) by simp
      fix j l'
      assume j: "(j, l') \<in> set rows"
      then have "j \<noteq> i" using Cons.prems(1) row by (auto intro: rev_image_eqI)
      with j show "lab s1 j = Some l'" using Cons.prems(2) s1(2) by simp
    qed
    then obtain s' where s': "repair_rows D rows s1 = (s', Inr ())"
      "\<And>j. lab s' j = (case map_of rows j of None \<Rightarrow> lab s1 j | Some l \<Rightarrow> Some (repaired l))" by blast
    have "lab s' j = (case map_of (row # rows) j of None \<Rightarrow> lab s j | Some l \<Rightarrow> Some (repaired l))" for j
      using True row fresh s1(2) s'(2) by (cases "j = i") (simp_all split: option.split)
    with True row s1(1) s'(1) show ?thesis by (intro exI [of _ s']) (simp add: s_bind_def)
  qed
qed

lemma repair_effect:
  "\<exists>s'. ensureNodeLabelsAreValidJSON D s = (s', Inr ())
     \<and> (\<forall>i. lab s' i = map_option repaired (lab s i))"
proof -
  obtain rows where rows: "raw_scan D s = Inr rows" "distinct (map fst rows)" "map_of rows = lab s"
    using scan by blast
  have "\<exists>s'. repair_rows D rows s = (s', Inr ())
     \<and> (\<forall>i. lab s' i = (case map_of rows i of None \<Rightarrow> lab s i | Some l \<Rightarrow> Some (repaired l)))"
    using rows(2,3) by (intro repair_rows_effect) (metis map_of_is_SomeI)+
  then obtain s' where s': "repair_rows D rows s = (s', Inr ())"
    "\<And>i. lab s' i = (case map_of rows i of None \<Rightarrow> lab s i | Some l \<Rightarrow> Some (repaired l))" by blast
  have "lab s' i = map_option repaired (lab s i)" for i
    using s'(2) [of i] rows(3) by (cases "lab s i") simp_all
  with rows(1) s'(1) show ?thesis
    by (intro exI [of _ s']) (simp add: ensureNodeLabelsAreValidJSON_def s_bind_def s_read_def)
qed

end

lemma no_labels_valid [simp]: "\<not> needs_update (Some no_labels)"
  by (simp add: needs_update_def no_labels_def) code_simp

lemma repaired_valid: "\<not> needs_update l \<Longrightarrow> \<exists>t. l = Some t \<and> json_valid (trim_space t)"
  by (auto simp: needs_update_def Let_def split: option.splits)

section \<open>A database in memory\<close>

definition mem_raw :: "label_row list raw_db" where
  "mem_raw =
     \<lparr>raw_mkdir = (\<lambda>p s. (s, Inr ())), raw_url = (\<lambda>p k v. Inr (p @ ''?'' @ k @ ''='' @ v)),
      raw_open = (\<lambda>a s. (s, Inr ())), raw_migrate = (\<lambda>s. (s, Inr ())),
      raw_scan = (\<lambda>s. Inr (AList.clearjunk s)),
      raw_update = (\<lambda>i text s. (AList.update i (Some text) s, Inr ())),
      raw_pool = (\<lambda>isOpen s. (s, if isOpen then Inr () else Inl NilDereference)),
      raw_close = (\<lambda>s. (s, Inr ()))\<rparr>"

interpretation mem_labels: label_store mem_raw map_of
  by unfold_locales (auto simp: mem_raw_def update_conv' map_of_clearjunk)

section \<open>Properties\<close>

text \<open>
  C21. When opening succeeds up to the migration, \<open>InitDB\<close> succeeds, and afterwards every stored
  label text is valid JSON: a text that was valid is kept, whatever its shape, every other one
  is the empty list, no row comes or goes, and opening once more changes nothing.
\<close>

theorem InitDB_repairs_labels:
  assumes "label_store D lab"
    and "raw_mkdir D (path_dir path) s0 = (s1, Inr ())"
    and "raw_open D (sqliteDSNImmediate D path) s1 = (s2, Inr ())"
    and "raw_migrate D s2 = (s, Inr ())"
  shows "\<exists>s'. InitDB D path s0 = (s', Inr ()) \<and> dom (lab s') = dom (lab s)
     \<and> (\<forall>i l. lab s' i = Some l \<longrightarrow> (\<exists>t. l = Some t \<and> json_valid (trim_space t)))
     \<and> (\<forall>i t. lab s i = Some (Some t) \<and> trim_space t \<noteq> [] \<and> json_valid (trim_space t)
          \<longrightarrow> lab s' i = Some (Some t))
     \<and> (\<forall>i l. lab s i = Some l \<and> lab s' i \<noteq> Some l \<longrightarrow> lab s' i = Some (Some ''[]''))
     \<and> (\<exists>s''. ensureNodeLabelsAreValidJSON D s' = (s'', Inr ()) \<and> lab s'' = lab s')"
proof -
  obtain s' where s': "ensureNodeLabelsAreValidJSON D s = (s', Inr ())"
    "\<And>i. lab s' i = map_option (\<lambda>l. if needs_update l then Some no_labels else l) (lab s i)"
    using label_store.repair_effect [OF assms(1)] by metis
  obtain s'' where s'': "ensureNodeLabelsAreValidJSON D s' = (s'', Inr ())"
    "\<And>i. lab s'' i = map_option (\<lambda>l. if needs_update l then Some no_labels else l) (lab s' i)"
    using label_store.repair_effect [OF assms(1)] by metis
  have good: "\<not> needs_update l" if "lab s' i = Some l" for i l
    using that s'(2) [of i] by (cases "lab s i") (auto split: if_splits)
  have keeps: "lab s' i = Some l" if "lab s i = Some l" "\<not> needs_update l" for i l
    using that s'(2) [of i] by simp
  have "lab s'' i = lab s' i" for i
    using s''(2) [of i] good [of i] by (cases "lab s' i") simp_all
  moreover have "InitDB D path s0 = (s', Inr ())"
    using assms(2-4) s'(1) by (simp add: InitDB_def s_bind_def)
  moreover have "dom (lab s') = dom (lab s)" by (simp add: s'(2) dom_def)
  moreover have "\<not> needs_update (Some t)" if "trim_space t \<noteq> []" "json_valid (trim_space t)" for t
    using that by (simp add: needs_update_def)
  moreover have "lab s' i = Some (Some ''[]'')" if "lab s i = Some l" "lab s' i \<noteq> Some l" for i l
    using that keeps [OF that(1)] s'(2) [of i] by (simp add: no_labels_def split: if_splits)
  ultimately show ?thesis using s''(1) repaired_valid good keeps by blast
qed

theorem InitDB_repairs_labels_witness:
  "\<exists>s'. InitDB mem_raw ''/w/d.db'' [(''a'', None), (''b'', Some ''x''), (''c'', Some ''[1]'')] = (s', Inr ())
     \<and> map_of s' ''a'' = Some (Some ''[]'') \<and> map_of s' ''b'' = Some (Some ''[]'')
     \<and> map_of s' ''c'' = Some (Some ''[1]'')"
proof -
  let ?s = "[(''a'', None), (''b'', Some ''x''), (''c'', Some ''[1]'')]"
  have v: "\<not> json_valid (trim_space ''x'')" "trim_space ''[1]'' \<noteq> []" "json_valid (trim_space ''[1]'')"
    by code_simp+
  obtain s' where s': "InitDB mem_raw ''/w/d.db'' ?s = (s', Inr ())" "dom (map_of s') = dom (map_of ?s)"
    "\<forall>i l. map_of s' i = Some l \<longrightarrow> (\<exists>t. l = Some t \<and> json_valid (trim_space t))"
    "\<forall>i t. map_of ?s i = Some (Some t) \<and> trim_space t \<noteq> [] \<and> json_valid (trim_space t)
       \<longrightarrow> map_of s' i = Some (Some t)"
    "\<forall>i l. map_of ?s i = Some l \<and> map_of s' i \<noteq> Some l \<longrightarrow> map_of s' i = Some (Some ''[]'')"
    using InitDB_repairs_labels [OF mem_labels.label_store_axioms, of "''/w/d.db''" ?s ?s ?s ?s]
    by (auto simp: mem_raw_def)
  have "map_of s' ''a'' = Some (Some ''[]'')"
    using s'(3) s'(5) [rule_format, of "''a''" None] by auto
  moreover have "map_of s' ''b'' = Some (Some ''[]'')"
    using s'(3) s'(5) [rule_format, of "''b''" "Some ''x''"] v(1) by auto
  moreover have "map_of s' ''c'' = Some (Some ''[1]'')"
    using s'(4) [rule_format, of "''c''" "''[1]''"] v(2,3) by simp
  ultimately show ?thesis using s'(1) by blast
qed

text \<open>
  C22. Without a database the program crashes: when \<open>InitDB\<close> fails no command is run, the
  message is printed, and then the deferred close reaches for the connections of a nil database,
  a nil dereference (\<open>gorm\<close> reads a field of it).
\<close>

theorem main_crashes_without_database:
  assumes "InitDB D path s = (s', Inl e)" and "raw_pool D False s' = (s', Inl NilDereference)"
  shows "main_program D path execute (s, out)
     = ((s', out @ ''Failed to initialize database at '' @ path @ '': '' @ err_text e @ NL), Inl NilDereference)"
  using assms
  by (simp add: main_program_def complain_def main_close_def CloseDB_def attempt_def on_db_def
      s_bind_def is_panic_def)

theorem main_crashes_without_database_witness:
  "snd (main_program (mem_raw\<lparr>raw_mkdir := \<lambda>p s. (s, Inl (ErrText ''read-only''))\<rparr>) ''/w/d.db''
     (\<lambda>s. (s, Inr ())) ([], [])) = Inl NilDereference"
proof -
  let ?D = "mem_raw\<lparr>raw_mkdir := \<lambda>p s. (s, Inl (ErrText ''read-only''))\<rparr>"
  have "InitDB ?D ''/w/d.db'' [] = ([], Inl (ErrText ''read-only''))"
    by (simp add: InitDB_def s_bind_def)
  moreover have "raw_pool ?D False [] = ([], Inl NilDereference)" by (simp add: mem_raw_def)
  ultimately show ?thesis
    using main_crashes_without_database [of ?D "''/w/d.db''" "[]" "[]" "ErrText ''read-only''" "\<lambda>s. (s, Inr ())" "[]"]
    by simp
qed

end
