(* ===== verification/Terminal.thy ===== *)
theory Terminal
  imports GoText
begin

text \<open>
  Running a command of the operating system (\<open>internal/terminal/service.go\<close>) and the texts of
  the log (\<open>internal/logger/logger.go\<close>). The process itself is the parameter \<open>run\<close>: from the
  program, its arguments and the directory, if one is set, to what it wrote to its two
  outputs and the error of running it. The log's destination is text without time stamps.
\<close>

section \<open>Commands\<close>

record command =
  cmd_Command :: string
  cmd_Args :: "string list"
  cmd_Dir :: string

definition NewCommand :: "string \<Rightarrow> string list \<Rightarrow> command" where
  "NewCommand program args = \<lparr>cmd_Command = program, cmd_Args = args, cmd_Dir = []\<rparr>"

definition Execute ::
  "(string \<Rightarrow> string list \<Rightarrow> string option \<Rightarrow> string \<times> string \<times> go_error option) \<Rightarrow>
   command \<Rightarrow> string result" where
  "Execute run c =
     (case run (cmd_Command c) (cmd_Args c) (if cmd_Dir c = [] then None else Some (cmd_Dir c)) of
        (stdout, stderr, Some e) \<Rightarrow>
          Inl (ErrText (''command failed: '' @ err_text e @ NL @ ''Stderr: '' @ stderr))
      | (stdout, stderr, None) \<Rightarrow> Inr (trim_space stdout))"

section \<open>The log\<close>

datatype LogLevel = DEBUG | INFO | WARN | ERROR | FATAL

definition levelStr :: "LogLevel \<Rightarrow> string" where
  "levelStr level =
     (case level of DEBUG \<Rightarrow> ''DEBUG'' | INFO \<Rightarrow> ''INFO'' | WARN \<Rightarrow> ''WARN''
      | ERROR \<Rightarrow> ''ERROR'' | FATAL \<Rightarrow> ''FATAL'')"

text \<open>\<open>msg\<close> is the message with its arguments filled in (\<open>fmt.Sprintf\<close>).\<close>

definition formatMessage :: "LogLevel \<Rightarrow> string \<Rightarrow> string" where
  "formatMessage level msg = ''['' @ levelStr level @ ''] [WIREPORT] '' @ msg"

definition log_println :: "string \<Rightarrow> (string, unit) op" where
  "log_println line out = (out @ line @ (if line \<noteq> [] \<and> last line = CHR 0x0A then [] else NL), Inr ())"

definition Debug :: "string \<Rightarrow> (string, unit) op" where
  "Debug msg = log_println (formatMessage DEBUG msg @ NL)"
definition Info :: "string \<Rightarrow> (string, unit) op" where
  "Info msg = log_println (formatMessage INFO msg @ NL)"
definition Warn :: "string \<Rightarrow> (string, unit) op" where
  "Warn msg = log_println (formatMessage WARN msg @ NL)"
definition Error :: "string \<Rightarrow> (string, unit) op" where
  "Error msg = log_println (formatMessage ERROR msg @ NL)"

definition Printf :: "string \<Rightarrow> (string, unit) op" where
  "Printf msg = log_println msg"
definition Println :: "string \<Rightarrow> (string, unit) op" where
  "Println msg = log_println (msg @ NL)"

text \<open>\<open>Fatal\<close> writes its message and ends the process.\<close>

definition Fatal :: "string \<Rightarrow> (string, unit) op" where
  "Fatal msg = s_bind (log_println (formatMessage FATAL msg))
     (\<lambda>_. s_read (\<lambda>_. Inl (ProcessExit (formatMessage FATAL msg))))"

text \<open>The level of a line can be read off it, whatever the message.\<close>

lemma formatMessage_inject:
  "formatMessage l m = formatMessage l' m' \<longleftrightarrow> l = l' \<and> m = m'"
  by (cases l; cases l') (auto simp: formatMessage_def levelStr_def)

end
