(* ===== verification/Spec2Isabelle.thy ===== *)
theory Spec2Isabelle
  imports RouterProps StartProps RemoteProps Scheduler AesProps JoinProps TemplateProps Database Terminal
begin

text \<open>
  A verification library for wireport (Go, all paths below are under \<open>src/app/\<close>).

  THE PROGRAM. wireport publishes services of private machines through a gateway. One binary
  plays three roles. The GATEWAY keeps the database (nodes, services, join requests), runs
  WireGuard, Caddy and CoreDNS from files it writes, and serves the control API over mutual
  TLS. A SERVER runs containers, asks the gateway for its configuration and labels every 30
  seconds and publishes what the labels of its containers declare. A CLIENT gives commands to
  the gateway. A machine becomes a node by JOINING: a token made by the gateway, sent back
  encrypted, is answered with a row of the node table. Machines are installed over SSH.

  THE MODEL. Go values become HOL values: structures are records, pointers options, errors the
  datatype \<open>go_error\<close> (panics and the end of the process are errors that no handler catches,
  \<open>is_panic\<close>), \<open>uint16\<close> and \<open>uint64\<close> words, \<open>[]byte\<close> a list of 8-bit words, a Go string a
  \<open>string\<close> of its bytes. Code with state is an operation \<open>('s, 'a) op\<close>, from the state to the
  state after and a result; \<open>x, err := m; if err != nil\<close> is \<open>attempt\<close> (World) or \<open>s_bind\<close>
  (Prelude). Commands work on the record \<open>world\<close>: the four tables, the machine (files,
  containers, what it can reach), the two output texts and the pending restart. Messages are
  modelled to the byte; log lines are left out.

  What is not in the source tree is a parameter: the database is the record \<open>table_api\<close> of
  gorm's calls (Store), the rest the records \<open>deps\<close> (World), \<open>crypto\<close> (Certs), \<open>config_env\<close>
  (Configs), \<open>docker\<close> (DockerUtils), \<open>ssh_env\<close> (Ssh), \<open>console\<close> (CommandLine) and \<open>raw_db\<close> (Database). What the
  proofs need of the database is the locale \<open>reliable_table\<close>, extended by \<open>node_db\<close> and
  \<open>service_db\<close>; all of them are interpreted on the in-memory tables \<open>mem_api\<close>, on which the
  witnesses compute. The template engine (\<open>raymond\<close>) is the locale \<open>template_engine\<close>, with the
  escaping and the repetition its documentation describes.

  THE THEORIES, in the order of their imports.
  \<^item> Prelude, GoText: errors, operations, rule collections; \<open>strings\<close>, \<open>strconv\<close>, \<open>fmt\<close>.
  \<^item> NetAddr, AddrTypes: \<open>net.IP\<close> and networks; \<open>internal/nodes/types/ipnetmarshable.go\<close>,
    \<open>udpaddrmashable.go\<close>.
  \<^item> Certs: bundles of certificates, \<open>internal/encryption/mtls/service.go\<close>.
  \<^item> NodeTypes, Configs: \<open>internal/nodes/types\<close>, the record of a node, the WireGuard text, and
    the four files a node writes. Templates: \<open>internal/templates/configs\<close>, the texts of two of
    them, and the template helpers of \<open>internal/nodes/types/node.go\<close>.
  \<^item> Store, NodesRepo, NodesWrite: the table interface and \<open>internal/nodes/repository.go\<close>;
    addresses are allocated by \<open>scan\<close>, of which the locale \<open>allocator\<close> states the contract.
  \<^item> Services: \<open>internal/publicservices\<close>. Base64, AesCbc: \<open>encoding/base64\<close> and
    \<open>internal/encryption/aes\<close>. JoinRequests: \<open>internal/joinrequests/types\<close> and the
    repositories of requests and tokens. JoinApi: \<open>internal/joinrequests/api.go\<close> and
    \<open>join_error.go\<close>, the client of a join, its retry loop and its error texts.
  \<^item> Api, ApiClient: the messages of \<open>internal/commands/types\<close> and
    \<open>internal/commands/api_commands_service.go\<close>.
  \<^item> DockerUtils, World: \<open>internal/dockerutils\<close>, \<open>internal/networkapps\<close> and the state of the
    command layer.
  \<^item> LocalService, LocalNodes, LocalJoin, ServerLoop: \<open>internal/commands/local_*.go\<close>, the
    commands as they run on the machine itself.
  \<^item> Ssh, RemoteGateway, RemoteServer: \<open>internal/ssh/service.go\<close> and the commands that work on
    another machine over it.
  \<^item> Executor: \<open>internal/commands/service.go\<close>, every command with the roles that may give it.
  \<^item> JoinHandler, Router: \<open>internal/commands/routes.go\<close>, the control server.
  \<^item> CommandLine: \<open>cmd/server/commands\<close>, the checks and prompts before a command.
  \<^item> Configuration, JsonText, Database: \<open>cmd/server/config/config.go\<close>; which texts are valid
    JSON (\<open>encoding/json\<close>, a scanner over the bytes); opening the database with the repair of
    stored labels (\<open>internal/database/service.go\<close>) and \<open>cmd/server/main.go\<close> around a command.
  \<^item> Terminal: \<open>internal/terminal/service.go\<close> and the lines of \<open>internal/logger/logger.go\<close>.
  \<^item> Scheduler: the goroutine of \<open>internal/networkapps/service.go\<close> that restarts the network
    applications, as a step relation over all interleavings with its callers.

  WHAT IS PROVED.
  \<^item> NodesInvariant, NodesStar, NodesProps, NodesOps: every reachable node table is a
    well-formed network (\<open>net_ok\<close>), \<open>updateNodes\<close> refines the abstract star of WireGuard
    peers (\<open>star\<close>), the allocators give the least free address and subnet; labels, deletion,
    and the updates two join handlers lose.
  \<^item> ServiceProps, ConfigProps: the service repository refines a map, which services have a
    Caddy entry, and what \<open>SaveConfigs\<close> writes.
  \<^item> JoinHandlerProps, JoinProps, AesProps: a join creates the row and uses its token up, also
    when it fails; the retry loop; the encrypted exchange is the identity for the two ends.
  \<^item> ExecutorProps, RouterProps: the gate of roles; publishing from the command to the files;
    every request is answered; a command given on a client is the command on the gateway.
  \<^item> ReconcileProps: the rounds of a server converge, do not when two servers declare one
    address, and do not follow a label that changes.
  \<^item> CommandLineProps, RemoteProps: the remote addresses taken, what the checks of a
    publication leave open, the bounded wait for a server, what a bootstrapping reports.
  \<^item> TemplateProps: the entries of the Caddyfile are escaped for HTML, and the Corefile of the
    gateway names exactly the servers of a refreshed network.
  \<^item> StartProps, Database: a postponed token without a certificate stops a server for good;
    opening the database repairs the labels, and what \<open>main\<close> does without one.

  BOUNDS. \<open>join_loop\<close>, \<open>update_loop\<close> and all recursions on data terminate outright. Loops that
  need not end are observed for a number of rounds given as an argument: \<open>join_until\<close>
  (attempts), \<open>server_rounds\<close> (rounds), \<open>ServerStart\<close> (nested calls), each of which stands
  for the run up to then; so a statement about them holds for every number. \<open>poll_joined\<close> has
  such a bound too, and \<open>wait_for_server_ends\<close> shows that 37 rounds suffice. \<open>ClientNew\<close> waits
  ten times and a join is tried five times, as in the code.

  NOT MODELLED. The schema and the migration of the database (gorm's, a parameter), the log
  lines of the handlers, the declarations of flags and help texts, \<open>register.go\<close> and
  \<open>internal/routes\<close> (construction of the parts, without a decision), the file \<open>.env\<close>, the time
  limits of the HTTP client of a join, and time except where a loop depends on it. The record
  \<open>configuration\<close> is what the constants of the other theories and the paths of \<open>config_env\<close>
  stand for. The script templates are data; their rendering is a parameter. Handlers of the
  control server are modelled one at a time, as operations on the world;
  \<open>join_handlers_lose_update\<close> and Scheduler are where interleavings are written out.
\<close>

end
